(* ===== verification/Py_Prelude.thy ===== *)
theory Py_Prelude
  imports Main "HOL-Library.AList"
begin

text \<open>
  What every component shares: Python's exceptions as values, the sequencing of fallible steps, and
  Python's insertion-ordered dictionaries as association lists. The dictionary operations are the
  provider of the locale \<open>py_dict\<close>, whose laws are what the components rely on.
\<close>

section \<open>Exceptions as values\<close>

datatype py_error =
    ValueError string
  | KeyError string
  | IndexError
  | TypeError
  | GenericException string
  | NoSectionError string
  | DuplicateSectionError string
  | DuplicateOptionError string string
  | MissingSectionHeaderError string
  | InterpolationSyntaxError
  | InterpolationMissingOptionError string
  | InterpolationDepthError
  | AttributeError
  | StructError
  | RecursionError
  | ZeroDivisionError
  | IOError string
  | SystemExit string

type_synonym 'a res = "py_error + 'a"

named_theorems res_simps "evaluation of sequenced fallible steps"

definition rbind :: "'a res \<Rightarrow> ('a \<Rightarrow> 'b res) \<Rightarrow> 'b res" where
  "rbind m f = (case m of Inl e \<Rightarrow> Inl e | Inr x \<Rightarrow> f x)"

definition is_ok :: "'a res \<Rightarrow> bool" where
  "is_ok m = (case m of Inl e \<Rightarrow> False | Inr x \<Rightarrow> True)"

definition rmap :: "('a \<Rightarrow> 'b) \<Rightarrow> 'a res \<Rightarrow> 'b res" where
  "rmap f m = rbind m (\<lambda>x. Inr (f x))"

lemma rbind_Inl [simp, res_simps]: "rbind (Inl e) f = Inl e"
  by (simp add: rbind_def)

lemma rbind_Inr [simp, res_simps]: "rbind (Inr x) f = f x"
  by (simp add: rbind_def)

lemma rmap_simps [simp, res_simps]:
  "rmap f (Inl e) = Inl e"
  "rmap f (Inr x) = Inr (f x)"
  by (simp_all add: rmap_def)

lemma is_ok_simps [simp, res_simps]:
  "is_ok (Inr x)"
  "\<not> is_ok (Inl e)"
  by (simp_all add: is_ok_def)

lemma is_ok_iff: "is_ok m \<longleftrightarrow> (\<exists>x. m = Inr x)"
  by (cases m) simp_all

lemma rbind_eq_Inr_iff: "rbind m f = Inr y \<longleftrightarrow> (\<exists>x. m = Inr x \<and> f x = Inr y)"
  by (cases m) simp_all

lemma rbind_eq_Inl_iff: "rbind m f = Inl e \<longleftrightarrow> m = Inl e \<or> (\<exists>x. m = Inr x \<and> f x = Inl e)"
  by (cases m) simp_all

lemma rmap_eq_Inr_iff: "rmap f m = Inr y \<longleftrightarrow> (\<exists>x. m = Inr x \<and> y = f x)"
  by (cases m) auto

lemma rbind_assoc: "rbind (rbind m f) g = rbind m (\<lambda>x. rbind (f x) g)"
  by (cases m) simp_all

text \<open>A \<open>for\<close> loop whose body updates a state and may raise: the first exception stops it.\<close>

fun rfold :: "('s \<Rightarrow> 'a \<Rightarrow> 's res) \<Rightarrow> 's \<Rightarrow> 'a list \<Rightarrow> 's res" where
  "rfold f s [] = Inr s"
| "rfold f s (x # xs) = rbind (f s x) (\<lambda>s'. rfold f s' xs)"

text \<open>A list comprehension whose element expression may raise.\<close>

fun rmapM :: "('a \<Rightarrow> 'b res) \<Rightarrow> 'a list \<Rightarrow> 'b list res" where
  "rmapM f [] = Inr []"
| "rmapM f (x # xs) = rbind (f x) (\<lambda>y. rmap ((#) y) (rmapM f xs))"

lemma rfold_append: "rfold f s (xs @ ys) = rbind (rfold f s xs) (\<lambda>s'. rfold f s' ys)"
  by (induction xs arbitrary: s) (simp_all add: rbind_assoc)

lemma rfold_invariant:
  assumes "rfold f s xs = Inr t"
    and "P s"
    and "\<And>s x s'. x \<in> set xs \<Longrightarrow> P s \<Longrightarrow> f s x = Inr s' \<Longrightarrow> P s'"
  shows "P t"
  using assms by (induction xs arbitrary: s) (auto simp: rbind_eq_Inr_iff)

lemma rfold_pure:
  assumes "\<And>s x. x \<in> set xs \<Longrightarrow> f s x = Inr (g s x)"
  shows "rfold f s xs = Inr (foldl g s xs)"
  using assms by (induction xs arbitrary: s) simp_all

lemma rfold_cong:
  assumes "\<And>s x. x \<in> set xs \<Longrightarrow> f s x = g s x"
  shows "rfold f s xs = rfold g s xs"
  using assms
proof (induction xs arbitrary: s)
  case Nil
  then show ?case by simp
next
  case (Cons x xs)
  then have "f s x = g s x" and "\<And>s'. rfold f s' xs = rfold g s' xs" by simp_all
  then show ?case by (cases "g s x") simp_all
qed

lemma rmapM_eq_Inr_iff:
  "rmapM f xs = Inr ys \<longleftrightarrow> list_all2 (\<lambda>x y. f x = Inr y) xs ys"
  by (induction xs arbitrary: ys)
     (auto simp: rbind_eq_Inr_iff rmap_eq_Inr_iff list_all2_Cons1)

lemma rmapM_pure:
  assumes "\<And>x. x \<in> set xs \<Longrightarrow> f x = Inr (g x)"
  shows "rmapM f xs = Inr (map g xs)"
  using assms by (induction xs) simp_all

lemma rmapM_length: "rmapM f xs = Inr ys \<Longrightarrow> length ys = length xs"
  by (auto simp: rmapM_eq_Inr_iff dest: list_all2_lengthD)

section \<open>Insertion-ordered dictionaries\<close>

text \<open>
  A Python dictionary is the list of its entries in iteration order. Storing under a key that is
  there keeps the entry's position, storing under a new key appends, as \<open>OrderedDict\<close> and the
  dictionaries of Python 3.7 and later do.
\<close>

type_synonym ('k, 'v) dict = "('k \<times> 'v) list"

definition dict_get :: "('k, 'v) dict \<Rightarrow> 'k \<Rightarrow> 'v option" where
  "dict_get d k = map_of d k"

definition dict_set :: "('k, 'v) dict \<Rightarrow> 'k \<Rightarrow> 'v \<Rightarrow> ('k, 'v) dict" where
  "dict_set d k v = AList.update k v d"

definition dict_del :: "('k, 'v) dict \<Rightarrow> 'k \<Rightarrow> ('k, 'v) dict" where
  "dict_del d k = AList.delete k d"

definition dict_keys :: "('k, 'v) dict \<Rightarrow> 'k list" where
  "dict_keys d = map fst d"

definition dict_has :: "('k, 'v) dict \<Rightarrow> 'k \<Rightarrow> bool" where
  "dict_has d k = (k \<in> set (dict_keys d))"

definition dict_ok :: "('k, 'v) dict \<Rightarrow> bool" where
  "dict_ok d = distinct (dict_keys d)"

text \<open>\<open>d.update(e)\<close>: every entry of \<open>e\<close>, in order.\<close>

definition dict_update :: "('k, 'v) dict \<Rightarrow> ('k \<times> 'v) list \<Rightarrow> ('k, 'v) dict" where
  "dict_update d e = foldl (\<lambda>d' (k, v). dict_set d' k v) d e"

subsection \<open>The dictionary interface\<close>

text \<open>
  What a client of a dictionary may rely on, whatever its representation: lookups after a store or
  a deletion, and the iteration order of the keys. The lemmas of the locale are about the loops the
  components run over dictionaries: storing a list of entries, deleting a list of keys.
\<close>

locale py_dict =
  fixes get :: "'d \<Rightarrow> 'k \<Rightarrow> 'v option"
    and put :: "'d \<Rightarrow> 'k \<Rightarrow> 'v \<Rightarrow> 'd"
    and del :: "'d \<Rightarrow> 'k \<Rightarrow> 'd"
    and keys :: "'d \<Rightarrow> 'k list"
    and ok :: "'d \<Rightarrow> bool"
  assumes get_put: "get (put d k v) k' = (if k' = k then Some v else get d k')"
    and get_del: "get (del d k) k' = (if k' = k then None else get d k')"
    and keys_put: "keys (put d k v) = (if k \<in> set (keys d) then keys d else keys d @ [k])"
    and keys_del: "keys (del d k) = filter (\<lambda>k'. k' \<noteq> k) (keys d)"
    and keys_iff: "k \<in> set (keys d) \<longleftrightarrow> get d k \<noteq> None"
    and ok_iff: "ok d \<longleftrightarrow> distinct (keys d)"
begin

lemma ok_put: "ok d \<Longrightarrow> ok (put d k v)"
  by (simp add: ok_iff keys_put)

lemma ok_del: "ok d \<Longrightarrow> ok (del d k)"
  by (simp add: ok_iff keys_del)

lemma ok_put_all: "ok d \<Longrightarrow> ok (foldl (\<lambda>d' (k, v). put d' k v) d kvs)"
  by (induction kvs arbitrary: d) (auto simp: ok_put)

lemma get_put_all:
  "get (foldl (\<lambda>d' (k, v). put d' k v) d kvs) k =
     (case map_of (rev kvs) k of None \<Rightarrow> get d k | Some v \<Rightarrow> Some v)"
  by (induction kvs arbitrary: d) (auto simp: get_put map_add_def split: option.splits)

lemma keys_put_all_set:
  "set (keys (foldl (\<lambda>d' (k, v). put d' k v) d kvs)) = set (keys d) \<union> fst ` set kvs"
  by (induction kvs arbitrary: d) (auto simp: keys_put split: if_splits)

lemma keys_put_all_fresh:
  "distinct (map fst kvs) \<Longrightarrow> set (keys d) \<inter> fst ` set kvs = {} \<Longrightarrow>
     keys (foldl (\<lambda>d' (k, v). put d' k v) d kvs) = keys d @ map fst kvs"
proof (induction kvs arbitrary: d)
  case Nil
  then show ?case by simp
next
  case (Cons kv kvs)
  obtain k v where [simp]: "kv = (k, v)" by force
  from Cons.prems have "keys (put d k v) = keys d @ [k]" by (simp add: keys_put)
  with Cons.prems Cons.IH [of "put d k v"] show ?case by auto
qed

lemma keys_put_all_old:
  "fst ` set kvs \<subseteq> set (keys d) \<Longrightarrow>
     keys (foldl (\<lambda>d' (k, v). put d' k v) d kvs) = keys d"
  by (induction kvs arbitrary: d) (auto simp: keys_put)

lemma get_del_all: "get (foldl del d ks) k = (if k \<in> set ks then None else get d k)"
  by (induction ks arbitrary: d) (auto simp: get_del)

lemma keys_del_all: "keys (foldl del d ks) = filter (\<lambda>k. k \<notin> set ks) (keys d)"
  by (induction ks arbitrary: d) (auto simp: keys_del intro: filter_cong)

end

interpretation pd: py_dict dict_get dict_set dict_del dict_keys dict_ok
proof unfold_locales
  fix d :: "('a, 'b) dict" and k k' :: 'a and v :: 'b
  show "dict_get (dict_set d k v) k' = (if k' = k then Some v else dict_get d k')"
    by (simp add: dict_get_def dict_set_def update_conv')
  show "dict_get (dict_del d k) k' = (if k' = k then None else dict_get d k')"
    by (simp add: dict_get_def dict_del_def delete_conv')
  show "dict_keys (dict_set d k v) =
      (if k \<in> set (dict_keys d) then dict_keys d else dict_keys d @ [k])"
    by (simp add: dict_keys_def dict_set_def update_keys)
  show "dict_keys (dict_del d k) = filter (\<lambda>k'. k' \<noteq> k) (dict_keys d)"
    by (induction d) (auto simp: dict_keys_def dict_del_def)
  show "k \<in> set (dict_keys d) \<longleftrightarrow> dict_get d k \<noteq> None"
    by (simp add: dict_keys_def dict_get_def map_of_eq_None_iff)
  show "dict_ok d \<longleftrightarrow> distinct (dict_keys d)"
    by (simp add: dict_ok_def)
qed

lemmas dict_simps [simp] = pd.get_put pd.get_del pd.keys_put pd.keys_del
lemmas dict_intros [intro] = pd.ok_put pd.ok_del

lemma dict_has_get: "dict_has d k \<longleftrightarrow> dict_get d k \<noteq> None"
  by (simp add: dict_has_def pd.keys_iff)

lemma dict_empty [simp]:
  "dict_get [] k = None" "dict_keys [] = []" "dict_ok []" "\<not> dict_has [] k"
  by (simp_all add: dict_get_def dict_keys_def dict_ok_def dict_has_def)

lemma dict_get_Cons [simp]: "dict_get ((k, v) # d) k' = (if k' = k then Some v else dict_get d k')"
  by (simp add: dict_get_def)

lemma dict_keys_Cons [simp]: "dict_keys (kv # d) = fst kv # dict_keys d"
  by (simp add: dict_keys_def)

lemma dict_keys_append [simp]: "dict_keys (d @ e) = dict_keys d @ dict_keys e"
  by (simp add: dict_keys_def)

lemma dict_set_Nil [simp]: "dict_set [] k v = [(k, v)]"
  by (simp add: dict_set_def)

lemma dict_set_Cons [simp]:
  "dict_set ((k', v') # d) k v = (if k' = k then (k, v) # d else (k', v') # dict_set d k v)"
  by (simp add: dict_set_def)

lemma dict_del_Nil [simp]: "dict_del [] k = []"
  by (simp add: dict_del_def)

lemma dict_del_Cons [simp]:
  "dict_del ((k', v') # d) k = (if k' = k then dict_del d k else (k', v') # dict_del d k)"
  by (simp add: dict_del_def)

lemma dict_set_fresh: "k \<notin> set (dict_keys d) \<Longrightarrow> dict_set d k v = d @ [(k, v)]"
  by (induction d) auto

lemma dict_set_same: "dict_get d k = Some v \<Longrightarrow> dict_set d k v = d"
  by (induction d) (auto split: if_splits)

lemma dict_get_Some_in: "dict_get d k = Some v \<Longrightarrow> (k, v) \<in> set d"
  by (simp add: dict_get_def map_of_SomeD)

lemma dict_get_in: "dict_ok d \<Longrightarrow> (k, v) \<in> set d \<Longrightarrow> dict_get d k = Some v"
  by (simp add: dict_get_def dict_ok_def dict_keys_def)

lemma dict_set_entries: "set (dict_set d k v) \<subseteq> insert (k, v) (set d)"
  by (induction d) (auto split: if_splits)

lemma dict_del_entries: "set (dict_del d k) = {e \<in> set d. fst e \<noteq> k}"
  by (auto simp: dict_del_def AList.delete_eq)

lemma dict_update_fresh: "dict_ok es \<Longrightarrow> dict_update [] es = es"
proof -
  have "dict_ok (d @ es) \<Longrightarrow> dict_update d es = d @ es" for d :: "('a, 'b) dict"
  proof (induction es arbitrary: d)
    case Nil
    then show ?case by (simp add: dict_update_def)
  next
    case (Cons e es)
    obtain k v where e: "e = (k, v)" by force
    from Cons.prems have "dict_set d k v = d @ [(k, v)]"
      by (intro dict_set_fresh) (auto simp: dict_ok_def e)
    with Cons.IH [of "d @ [(k, v)]"] Cons.prems show ?case by (simp add: dict_update_def e)
  qed
  from this [of "[]"] show "dict_ok es \<Longrightarrow> dict_update [] es = es" by simp
qed

end
