(* ===== verification/Ini_Config.thy ===== *)
theory Ini_Config
  imports Py_Strings
begin

text \<open>
  The in-memory \<open>configparser.ConfigParser(allow_no_value=True, delimiters=('\t', ' '))\<close> the
  inventory builder keeps its groups in: sections of options, option names folded to lower case, a
  \<open>DEFAULT\<close> section that shows through in every other, values checked for interpolation syntax
  when stored and expanded when listed. An option without a value is \<open>None\<close>, which is not the
  empty string. The locale \<open>group_store\<close> is the interface the role operations rely on.
\<close>

type_synonym options = "(string, string option) dict"

record config =
  defaults :: options
  sections :: "(string, options) dict"

definition new_config :: config where
  "new_config = \<lparr>defaults = [], sections = []\<rparr>"

definition default_section :: string where
  "default_section = ''DEFAULT''"

definition optionxform :: "string \<Rightarrow> string" where
  "optionxform s = str_lower s"

definition cfg_sections :: "config \<Rightarrow> string list" where
  "cfg_sections c = dict_keys (sections c)"

definition add_section :: "config \<Rightarrow> string \<Rightarrow> config res" where
  "add_section c g =
     (if g = default_section then Inl (ValueError ''Invalid section name'')
      else if dict_has (sections c) g then Inl (DuplicateSectionError g)
      else Inr (c\<lparr>sections := dict_set (sections c) g []\<rparr>))"

section \<open>Interpolation\<close>

text \<open>
  The rest of a reference \<open>%(name)s\<close> after its percent sign: the name (one character at least, no
  closing bracket) and what follows.
\<close>

definition key_ref :: "string \<Rightarrow> (string \<times> string) option" where
  "key_ref s =
     (case s of
        CHR ''('' # t \<Rightarrow>
          (let k = takeWhile (\<lambda>c. c \<noteq> CHR '')'') t
           in case dropWhile (\<lambda>c. c \<noteq> CHR '')'') t of
                CHR '')'' # CHR ''s'' # u \<Rightarrow> if k = [] then None else Some (k, u)
              | _ \<Rightarrow> None)
      | _ \<Rightarrow> None)"

lemma key_ref_length: "key_ref s = Some (k, u) \<Longrightarrow> length u < length s"
proof -
  assume a: "key_ref s = Some (k, u)"
  then obtain t where s: "s = CHR ''('' # t"
    and d: "dropWhile (\<lambda>c. c \<noteq> CHR '')'') t = CHR '')'' # CHR ''s'' # u"
    by (auto simp: key_ref_def Let_def split: list.splits char.splits bool.splits if_splits)
  have "length (dropWhile (\<lambda>c. c \<noteq> CHR '')'') t) \<le> length t" by (rule length_dropWhile_le)
  with s d show ?thesis by simp
qed

fun drop_escapes :: "string \<Rightarrow> string" where
  "drop_escapes [] = []"
| "drop_escapes [c] = [c]"
| "drop_escapes (c # d # s) =
     (if c = CHR ''%'' \<and> d = CHR ''%'' then drop_escapes s else c # drop_escapes (d # s))"

function drop_refs :: "string \<Rightarrow> string" where
  "drop_refs [] = []"
| "drop_refs (c # s) =
     (if c = CHR ''%''
      then (case key_ref s of Some (k, u) \<Rightarrow> drop_refs u | None \<Rightarrow> c # drop_refs s)
      else c # drop_refs s)"
  by pat_completeness auto
termination
  by (relation "measure length") (auto dest: key_ref_length)

text \<open>\<open>BasicInterpolation.before_set\<close>.\<close>

definition before_set :: "string \<Rightarrow> string res" where
  "before_set v =
     (if CHR ''%'' \<in> set (drop_refs (drop_escapes v))
      then Inl (ValueError ''invalid interpolation syntax'') else Inr v)"

text \<open>
  \<open>BasicInterpolation._interpolate_some\<close>: \<open>m\<close> is the section with its defaults, \<open>depth\<close> counts
  nested references from 1, and 10 is \<open>MAX_INTERPOLATION_DEPTH\<close>.
\<close>

function interpolate :: "options \<Rightarrow> nat \<Rightarrow> string \<Rightarrow> string res" where
  "interpolate m depth s =
     (if depth > 10 then Inl InterpolationDepthError
      else case s of
        [] \<Rightarrow> Inr []
      | c # t \<Rightarrow>
          if c \<noteq> CHR ''%'' then rmap ((#) c) (interpolate m depth t)
          else (case t of
              [] \<Rightarrow> Inl InterpolationSyntaxError
            | d # u \<Rightarrow>
                if d = CHR ''%'' then rmap ((#) (CHR ''%'')) (interpolate m depth u)
                else (case key_ref t of
                    None \<Rightarrow> Inl InterpolationSyntaxError
                  | Some (k, w) \<Rightarrow>
                      (case dict_get m (optionxform k) of
                         None \<Rightarrow> Inl (InterpolationMissingOptionError (optionxform k))
                       | Some None \<Rightarrow> Inl TypeError
                       | Some (Some v) \<Rightarrow>
                           rbind (if CHR ''%'' \<in> set v then interpolate m (Suc depth) v else Inr v)
                             (\<lambda>a. rmap ((@) a) (interpolate m depth w))))))"
  by pat_completeness auto
termination
  by (relation "measures [\<lambda>(m, depth, s). 11 - depth, \<lambda>(m, depth, s). length s]")
     (auto dest: key_ref_length)

declare interpolate.simps [simp del]

definition before_get :: "options \<Rightarrow> string option \<Rightarrow> string res" where
  "before_get m v = (case v of None \<Rightarrow> Inr [] | Some s \<Rightarrow> interpolate m 1 s)"

section \<open>Options\<close>

text \<open>The dictionary a section name denotes; the empty name denotes the defaults.\<close>

definition cfg_view :: "config \<Rightarrow> string \<Rightarrow> options option" where
  "cfg_view c g =
     (if g = [] \<or> g = default_section then Some (defaults c) else dict_get (sections c) g)"

text \<open>A section name of its own: neither empty nor that of the defaults.\<close>

definition proper :: "string \<Rightarrow> bool" where
  "proper g = (g \<noteq> [] \<and> g \<noteq> default_section)"

definition cfg_upd :: "config \<Rightarrow> string \<Rightarrow> options \<Rightarrow> config" where
  "cfg_upd c g d =
     (if g = [] \<or> g = default_section then c\<lparr>defaults := d\<rparr>
      else c\<lparr>sections := dict_set (sections c) g d\<rparr>)"

definition check_value :: "string option \<Rightarrow> string option res" where
  "check_value v =
     (case v of None \<Rightarrow> Inr None
      | Some s \<Rightarrow> if s = [] then Inr (Some s) else rmap Some (before_set s))"

definition cfg_set :: "config \<Rightarrow> string \<Rightarrow> string \<Rightarrow> string option \<Rightarrow> config res" where
  "cfg_set c g opt v =
     rbind (check_value v) (\<lambda>w.
       case cfg_view c g of
         None \<Rightarrow> Inl (NoSectionError g)
       | Some d \<Rightarrow> Inr (cfg_upd c g (dict_set d (optionxform opt) w)))"

definition remove_option :: "config \<Rightarrow> string \<Rightarrow> string \<Rightarrow> config res" where
  "remove_option c g opt =
     (case cfg_view c g of
        None \<Rightarrow> Inl (NoSectionError g)
      | Some d \<Rightarrow>
          Inr (if dict_has d (optionxform opt) then cfg_upd c g (dict_del d (optionxform opt)) else c))"

definition has_option :: "config \<Rightarrow> string \<Rightarrow> string \<Rightarrow> bool" where
  "has_option c g opt =
     (if g = [] \<or> g = default_section then dict_has (defaults c) (optionxform opt)
      else case dict_get (sections c) g of
             None \<Rightarrow> False
           | Some d \<Rightarrow> dict_has d (optionxform opt) \<or> dict_has (defaults c) (optionxform opt))"

text \<open>\<open>items(section)\<close>: the defaults first, then the section's own options, all expanded.\<close>

definition cfg_items :: "config \<Rightarrow> string \<Rightarrow> (string \<times> string) list res" where
  "cfg_items c g =
     (case dict_get (sections c) g of
        None \<Rightarrow>
          if g = default_section
          then rmapM (\<lambda>(k, v). rmap (Pair k) (before_get (defaults c) v)) (defaults c)
          else Inl (NoSectionError g)
      | Some os \<Rightarrow>
          (let d = dict_update (defaults c) os
           in rmapM (\<lambda>(k, v). rmap (Pair k) (before_get d v)) d))"

text \<open>\<open>len(config[section])\<close>.\<close>

definition section_len :: "config \<Rightarrow> string \<Rightarrow> nat res" where
  "section_len c g =
     (if g = default_section then Inr (length (defaults c))
      else case dict_get (sections c) g of
             None \<Rightarrow> Inl (KeyError g)
           | Some os \<Rightarrow> Inr (length (dict_update os (defaults c))))"

section \<open>Plain values\<close>

text \<open>A value without a percent sign is stored and listed as it is.\<close>

lemma drop_escapes_plain: "CHR ''%'' \<notin> set s \<Longrightarrow> drop_escapes s = s"
  by (induction s rule: drop_escapes.induct) auto

lemma drop_refs_plain: "CHR ''%'' \<notin> set s \<Longrightarrow> drop_refs s = s"
  by (induction s) auto

lemma before_set_plain: "CHR ''%'' \<notin> set s \<Longrightarrow> before_set s = Inr s"
  by (simp add: before_set_def drop_escapes_plain drop_refs_plain)

lemma interpolate_plain: "depth \<le> 10 \<Longrightarrow> CHR ''%'' \<notin> set s \<Longrightarrow> interpolate m depth s = Inr s"
proof (induction s)
  case Nil
  then show ?case by (subst interpolate.simps) simp
next
  case (Cons c s)
  then show ?case by (subst interpolate.simps) auto
qed

definition plain :: "string option \<Rightarrow> bool" where
  "plain v = (case v of None \<Rightarrow> True | Some s \<Rightarrow> CHR ''%'' \<notin> set s)"

definition value_str :: "string option \<Rightarrow> string" where
  "value_str v = (case v of None \<Rightarrow> [] | Some s \<Rightarrow> s)"

lemma before_get_plain: "plain v \<Longrightarrow> before_get m v = Inr (value_str v)"
  by (cases v) (simp_all add: before_get_def plain_def value_str_def interpolate_plain)

lemma check_value_plain: "plain v \<Longrightarrow> check_value v = Inr v"
  by (cases v) (simp_all add: check_value_def plain_def before_set_plain)

lemma check_value_Inr: "check_value v = Inr w \<Longrightarrow> w = v"
  by (cases v) (auto simp: check_value_def rmap_eq_Inr_iff before_set_def split: if_splits)

definition plain_options :: "options \<Rightarrow> bool" where
  "plain_options d = (\<forall>(k, v) \<in> set d. plain v)"

lemma items_plain:
  "plain_options d \<Longrightarrow>
     rmapM (\<lambda>(k, v). rmap (Pair k) (before_get m v)) d = Inr (map (\<lambda>(k, v). (k, value_str v)) d)"
  by (rule rmapM_pure) (auto simp: plain_options_def before_get_plain)

section \<open>Views and updates\<close>

lemma cfg_view_upd: "cfg_view (cfg_upd c g d) g' =
    (if g' = g \<or> ((g = [] \<or> g = default_section) \<and> (g' = [] \<or> g' = default_section))
     then Some d else cfg_view c g')"
  by (auto simp: cfg_view_def cfg_upd_def)

lemma cfg_view_section: "g \<noteq> [] \<Longrightarrow> g \<noteq> default_section \<Longrightarrow> cfg_view c g = dict_get (sections c) g"
  by (simp add: cfg_view_def)

lemma cfg_upd_same: "cfg_view c g = Some d \<Longrightarrow> cfg_upd c g d = c"
  by (auto simp: cfg_view_def cfg_upd_def dict_set_same)

lemma cfg_upd_upd: "cfg_upd (cfg_upd c g d) g d' = cfg_upd c g d'"
proof -
  have "dict_set (dict_set s g d) g d' = dict_set s g d'" for s :: "(string, options) dict"
    by (induction s) auto
  then show ?thesis by (simp add: cfg_upd_def)
qed

lemma cfg_set_eq:
  "cfg_set c g opt v =
     (case check_value v of
        Inl e \<Rightarrow> Inl e
      | Inr w \<Rightarrow> (case cfg_view c g of
           None \<Rightarrow> Inl (NoSectionError g)
         | Some d \<Rightarrow> Inr (cfg_upd c g (dict_set d (optionxform opt) w))))"
  by (cases "check_value v") (simp_all add: cfg_set_def)

subsection \<open>The interface of a group store\<close>

text \<open>
  What the role operations rely on: a store of named groups of entries with a normal form for
  entry names, where storing needs the group to exist and the value to be acceptable. Its
  lemmas describe the loop every role operation is: one value stored under each of a list of names.
\<close>

locale group_store =
  fixes view :: "'c \<Rightarrow> 'g \<Rightarrow> ('h, 'v) dict option"
    and upd :: "'c \<Rightarrow> 'g \<Rightarrow> ('h, 'v) dict \<Rightarrow> 'c"
    and put :: "'c \<Rightarrow> 'g \<Rightarrow> 'h \<Rightarrow> 'v \<Rightarrow> 'c res"
    and norm :: "'h \<Rightarrow> 'h"
    and okv :: "'v \<Rightarrow> bool"
  assumes put_ok: "okv v \<Longrightarrow> view c g = Some d \<Longrightarrow> put c g h v = Inr (upd c g (dict_set d (norm h) v))"
    and put_Inr: "put c g h v = Inr c' \<Longrightarrow>
          okv v \<and> (\<exists>d. view c g = Some d \<and> c' = upd c g (dict_set d (norm h) v))"
    and view_upd: "view c g = Some d' \<Longrightarrow> view (upd c g d) g = Some d"
    and upd_upd: "upd (upd c g d) g d' = upd c g d'"
    and upd_view: "view c g = Some d \<Longrightarrow> upd c g d = c"
begin

lemma put_all:
  "\<forall>(h, v) \<in> set hs. okv v \<Longrightarrow> view c g = Some d \<Longrightarrow>
     rfold (\<lambda>c (h, v). put c g h v) c hs =
       Inr (upd c g (foldl (\<lambda>d (h, v). dict_set d (norm h) v) d hs))"
proof (induction hs arbitrary: c d)
  case Nil
  then show ?case by (simp add: upd_view)
next
  case (Cons x hs)
  obtain h v where x: "x = (h, v)" by force
  let ?d = "dict_set d (norm h) v"
  have "put c g h v = Inr (upd c g ?d)" using Cons.prems x by (auto intro: put_ok)
  moreover have "view (upd c g ?d) g = Some ?d" using Cons.prems by (auto intro: view_upd)
  ultimately show ?case using Cons x by (simp add: upd_upd)
qed

lemma put_all_Inr:
  "rfold (\<lambda>c (h, v). put c g h v) c hs = Inr c' \<Longrightarrow> hs \<noteq> [] \<Longrightarrow>
     \<exists>d. view c g = Some d \<and>
         c' = upd c g (foldl (\<lambda>d (h, v). dict_set d (norm h) v) d hs)"
proof -
  assume r: "rfold (\<lambda>c (h, v). put c g h v) c hs = Inr c'" and ne: "hs \<noteq> []"
  have "\<forall>(h, v) \<in> set hs. okv v"
    using r by (induction hs arbitrary: c) (auto simp: rbind_eq_Inr_iff dest: put_Inr)
  moreover from r ne obtain d where "view c g = Some d"
    by (cases hs) (auto simp: rbind_eq_Inr_iff dest: put_Inr)
  ultimately show ?thesis using r by (auto simp: put_all)
qed

text \<open>The names of the group after storing one value under each name of a list.\<close>

lemma put_names_keys:
  "set (dict_keys (foldl (\<lambda>d (h, v). dict_set d (norm h) v) d hs)) =
     set (dict_keys d) \<union> (norm \<circ> fst) ` set hs"
  by (induction hs arbitrary: d) (auto split: if_splits)

lemma put_names_get:
  "dict_get (foldl (\<lambda>d (h, v). dict_set d (norm h) v) d hs) k =
     (case map_of (rev (map (\<lambda>(h, v). (norm h, v)) hs)) k of
        None \<Rightarrow> dict_get d k | Some v \<Rightarrow> Some v)"
  by (induction hs arbitrary: d) (auto simp: map_add_def split: option.splits)

lemma put_names_ok:
  "dict_ok d \<Longrightarrow> dict_ok (foldl (\<lambda>d (h, v). dict_set d (norm h) v) d hs)"
  by (induction hs arbitrary: d) (auto intro: pd.ok_put)

lemma put_names_known:
  "\<forall>(h, v) \<in> set hs. dict_get d (norm h) = Some v \<Longrightarrow>
     foldl (\<lambda>d (h, v). dict_set d (norm h) v) d hs = d"
  by (induction hs arbitrary: d) (auto simp: dict_set_same)

lemma put_names_fresh:
  "distinct (map (norm \<circ> fst) hs) \<Longrightarrow> set (dict_keys d) \<inter> (norm \<circ> fst) ` set hs = {} \<Longrightarrow>
     foldl (\<lambda>d (h, v). dict_set d (norm h) v) d hs = d @ map (\<lambda>(h, v). (norm h, v)) hs"
proof (induction hs arbitrary: d)
  case Nil
  then show ?case by simp
next
  case (Cons x hs)
  obtain h v where x: "x = (h, v)" by force
  with Cons.prems have "dict_set d (norm h) v = d @ [(norm h, v)]"
    by (intro dict_set_fresh) auto
  with Cons x show ?case by auto
qed

end

definition storable :: "string option \<Rightarrow> bool" where
  "storable v = is_ok (check_value v)"

lemma check_value_storable: "check_value v = Inr w \<longleftrightarrow> storable v \<and> w = v"
proof
  assume "check_value v = Inr w"
  then show "storable v \<and> w = v" by (auto simp: storable_def dest: check_value_Inr)
next
  assume "storable v \<and> w = v"
  then obtain u where "check_value v = Inr u" "w = v" by (auto simp: storable_def is_ok_iff)
  then show "check_value v = Inr w" by (auto dest: check_value_Inr)
qed

lemma storable_plain: "plain v \<Longrightarrow> storable v"
  by (simp add: storable_def check_value_plain)

interpretation gs: group_store cfg_view cfg_upd cfg_set optionxform storable
proof unfold_locales
  fix v c g d h
  assume "storable v" and "cfg_view c g = Some d"
  then have "check_value v = Inr v" by (simp add: check_value_storable)
  then show "cfg_set c g h v = Inr (cfg_upd c g (dict_set d (optionxform h) v))"
    using \<open>cfg_view c g = Some d\<close> by (simp add: cfg_set_def)
next
  fix c g h v c'
  assume "cfg_set c g h v = Inr c'"
  then show "storable v \<and>
      (\<exists>d. cfg_view c g = Some d \<and> c' = cfg_upd c g (dict_set d (optionxform h) v))"
    by (auto simp: cfg_set_def rbind_eq_Inr_iff check_value_storable split: option.splits)
qed (simp_all add: cfg_view_upd cfg_upd_upd cfg_upd_same)

end
