(* ===== verification/Inventory_Hosts.thy ===== *)
theory Inventory_Hosts
  imports Ini_Config
begin

text \<open>
  The host table of \<open>contrib/inventory_builder/inventory.py\<close>: settings from the environment, host
  ids and addresses read out of names and option strings, and \<open>build_hostnames\<close>, which turns the
  \<open>all\<close> group and the command line into the new host table. Debug prints are left out: they write
  to the terminal only.
\<close>

section \<open>Constants and settings\<close>

definition ROLES :: "string list" where
  "ROLES = [''all'', ''kube-master'', ''kube-node'', ''etcd'', ''k8s-cluster:children'',
            ''calico-rr'', ''vault'']"

definition PROTECTED_NAMES :: "string list" where
  "PROTECTED_NAMES = ROLES"

definition AVAILABLE_COMMANDS :: "string list" where
  "AVAILABLE_COMMANDS = [''help'', ''print_cfg'', ''print_ips'', ''load'']"

definition boolean_states :: "(string, bool) dict" where
  "boolean_states =
     [(''1'', True), (''yes'', True), (''true'', True), (''on'', True),
      (''0'', False), (''no'', False), (''false'', False), (''off'', False)]"

type_synonym environ = "string \<rightharpoonup> string"

definition env_get :: "environ \<Rightarrow> string \<Rightarrow> string \<Rightarrow> string" where
  "env_get env name dflt = (case env name of None \<Rightarrow> dflt | Some v \<Rightarrow> v)"

definition get_var_as_bool :: "environ \<Rightarrow> string \<Rightarrow> bool \<Rightarrow> bool" where
  "get_var_as_bool env name dflt =
     (case dict_get boolean_states (str_lower (env_get env name [])) of
        None \<Rightarrow> dflt | Some b \<Rightarrow> b)"

record settings =
  config_path :: string
  scale_threshold :: int
  massive_scale_threshold :: int
  debug_on :: bool
  host_prefix :: string

text \<open>\<open>int(os.environ.get(name, n))\<close>.\<close>

definition env_int :: "environ \<Rightarrow> string \<Rightarrow> int \<Rightarrow> int res" where
  "env_int env name dflt = (case env name of None \<Rightarrow> Inr dflt | Some v \<Rightarrow> py_int v)"

definition module_settings :: "environ \<Rightarrow> settings res" where
  "module_settings env =
     rbind (env_int env ''SCALE_THRESHOLD'' 50) (\<lambda>scale.
     rbind (env_int env ''SCALE_THRESHOLD'' 200) (\<lambda>massive.
       Inr \<lparr>config_path = env_get env ''CONFIG_FILE'' ''./inventory/sample/hosts.ini'',
            scale_threshold = scale,
            massive_scale_threshold = massive,
            debug_on = get_var_as_bool env ''DEBUG'' True,
            host_prefix = env_get env ''HOST_PREFIX'' ''node''\<rparr>))"

section \<open>Addresses and ids\<close>

fun ip_from_opts :: "string list \<Rightarrow> string res" where
  "ip_from_opts [] = Inl (ValueError ''IP parameter not found in options'')"
| "ip_from_opts (opt # opts) =
     (if CHR ''='' \<notin> set opt then ip_from_opts opts
      else (case split_on (CHR ''='') opt of
              [k, v] \<Rightarrow> if k = ''ip'' then Inr v else ip_from_opts opts
            | _ \<Rightarrow> Inl (ValueError ''too many values to unpack (expected 2)'')))"

definition get_ip_from_opts :: "string \<Rightarrow> string res" where
  "get_ip_from_opts optstring = ip_from_opts (split_on (CHR '' '') optstring)"

text \<open>
  The match of the regular expression \<open>\d+$\<close>: the digits before the end of the string, or before
  the newline that ends it.
\<close>

definition trailing_digits :: "string \<Rightarrow> string" where
  "trailing_digits s =
     (let t = (if s \<noteq> [] \<and> last s = CHR 0x0A then butlast s else s)
      in rev (takeWhile is_digit (rev t)))"

definition get_host_id :: "string \<Rightarrow> nat res" where
  "get_host_id host =
     (let short_hostname = hd (split_on (CHR ''.'') host);
          ds = trailing_digits short_hostname
      in if ds = [] then Inl (ValueError ''Host name must end in an integer'')
         else Inr (digits_val ds))"

section \<open>The host table\<close>

type_synonym hosts = "(string, string) dict"

definition exists_hostname :: "hosts \<Rightarrow> string \<Rightarrow> bool" where
  "exists_hostname existing_hosts hostname = dict_has existing_hosts hostname"

fun exists_ip :: "hosts \<Rightarrow> string \<Rightarrow> bool res" where
  "exists_ip [] ip = Inr False"
| "exists_ip ((h, host_opts) # existing_hosts) ip =
     rbind (get_ip_from_opts host_opts) (\<lambda>a.
       if ip = a then Inr True else exists_ip existing_hosts ip)"

fun find_host_by_ip :: "hosts \<Rightarrow> string \<Rightarrow> string res" where
  "find_host_by_ip [] ip = Inl (ValueError (''Unable to find host by IP: '' @ ip))"
| "find_host_by_ip ((hostname, host_opts) # hosts) ip =
     rbind (get_ip_from_opts host_opts) (\<lambda>a.
       if ip = a then Inr hostname else find_host_by_ip hosts ip)"

text \<open>The loop stops at the first match and deletes that entry.\<close>

definition delete_host_by_ip :: "hosts \<Rightarrow> string \<Rightarrow> hosts res" where
  "delete_host_by_ip existing_hosts ip =
     rmap (dict_del existing_hosts) (find_host_by_ip existing_hosts ip)"

text \<open>The first loop of \<open>build_hostnames\<close>: the entries of \<open>all\<close> and the highest id among them.\<close>

definition scan_host :: "hosts \<times> nat \<Rightarrow> string \<times> string \<Rightarrow> (hosts \<times> nat) res" where
  "scan_host st entry =
     (case st of (existing_hosts, highest_host_id) \<Rightarrow>
      case entry of (host, opts) \<Rightarrow>
        rbind (get_host_id host) (\<lambda>host_id.
          Inr (dict_set existing_hosts host opts,
               if host_id > highest_host_id then host_id else highest_host_id)))"

definition existing_hosts :: "config \<Rightarrow> (hosts \<times> nat) res" where
  "existing_hosts c =
     (case cfg_items c ''all'' of
        Inl (NoSectionError g) \<Rightarrow> Inr ([], 0)
      | Inl e \<Rightarrow> Inl e
      | Inr entries \<Rightarrow> rfold scan_host ([], 0) entries)"

text \<open>The format string \<open>ansible_host={0} ip={1}\<close> with the address for both.\<close>

definition host_opts_of :: "string \<Rightarrow> string" where
  "host_opts_of host = ''ansible_host='' @ host @ '' ip='' @ host"

text \<open>The body of the second loop: one command-line word against the table and the next free id.\<close>

definition change_host :: "string \<Rightarrow> hosts \<times> nat \<Rightarrow> string \<Rightarrow> (hosts \<times> nat) res" where
  "change_host HOST_PREFIX st host =
     (case st of (all_hosts, next_host_id) \<Rightarrow>
      case host of
        [] \<Rightarrow> Inl IndexError
      | c # realhost \<Rightarrow>
          if c = CHR ''-'' then
            (if exists_hostname all_hosts realhost
             then Inr (dict_del all_hosts realhost, next_host_id)
             else rbind (exists_ip all_hosts realhost) (\<lambda>found.
               if found
               then rmap (\<lambda>hs. (hs, next_host_id)) (delete_host_by_ip all_hosts realhost)
               else Inr (all_hosts, next_host_id)))
          else if is_digit c then
            (if exists_hostname all_hosts host then Inr (all_hosts, next_host_id)
             else rbind (exists_ip all_hosts host) (\<lambda>found.
               if found then Inr (all_hosts, next_host_id)
               else Inr (dict_set all_hosts (HOST_PREFIX @ nat_str next_host_id) (host_opts_of host),
                         next_host_id + 1)))
          else if is_alpha c then
            Inl (GenericException ''Adding hosts by hostname is not supported.'')
          else Inr (all_hosts, next_host_id))"

definition build_hostnames :: "settings \<Rightarrow> config \<Rightarrow> string list \<Rightarrow> hosts res" where
  "build_hostnames cfg c changed_hosts =
     rbind (existing_hosts c) (\<lambda>(existing, highest_host_id).
       rmap fst (rfold (change_host (host_prefix cfg)) (existing, highest_host_id + 1) changed_hosts))"

section \<open>Reading addresses and ids back\<close>

text \<open>An address that survives the option string: no separator of the string in it.\<close>

definition address_ok :: "string \<Rightarrow> bool" where
  "address_ok a = (CHR '' '' \<notin> set a \<and> CHR ''='' \<notin> set a)"

lemma split_on_key_value:
  "address_ok v \<Longrightarrow> CHR ''='' \<notin> set k \<Longrightarrow> split_on (CHR ''='') (k @ CHR ''='' # v) = [k, v]"
  by (simp add: split_on_sep split_on_no_sep address_ok_def)

lemma get_ip_host_opts_of:
  assumes "address_ok a"
  shows "get_ip_from_opts (host_opts_of a) = Inr a"
proof -
  let ?h = "''ansible_host'' @ CHR ''='' # a" and ?i = "''ip'' @ CHR ''='' # a"
  have "host_opts_of a = ?h @ CHR '' '' # ?i" by (simp add: host_opts_of_def)
  moreover have "CHR '' '' \<notin> set ?h" "CHR '' '' \<notin> set ?i"
    using assms by (simp_all add: address_ok_def)
  ultimately have "split_on (CHR '' '') (host_opts_of a) = [?h, ?i]"
    by (metis split_on_sep split_on_no_sep)
  moreover have "split_on (CHR ''='') ?h = [''ansible_host'', a]"
    using assms by (intro split_on_key_value) simp_all
  moreover have "split_on (CHR ''='') ?i = [''ip'', a]"
    using assms by (intro split_on_key_value) simp_all
  ultimately show ?thesis by (simp add: get_ip_from_opts_def)
qed

lemma trailing_digits_append_digits:
  assumes "ds \<noteq> []" "\<forall>c \<in> set ds. is_digit c"
  shows "\<exists>es. trailing_digits (p @ ds) = es @ ds"
proof -
  from assms have "last (p @ ds) \<noteq> CHR 0x0A" by (metis is_digit_not(7) last_appendR last_in_set)
  then have "trailing_digits (p @ ds) = rev (takeWhile is_digit (rev ds @ rev p))"
    by (simp add: trailing_digits_def Let_def)
  moreover have "takeWhile is_digit (rev ds @ rev p) = rev ds @ takeWhile is_digit (rev p)"
    using assms by (intro takeWhile_append2) auto
  ultimately show ?thesis by simp
qed

lemma hd_split_on_no_sep: "c \<notin> set s \<Longrightarrow> hd (split_on c s) = s"
  by (simp add: split_on_no_sep)

text \<open>The id read from a generated name is at least the number it was generated with.\<close>

lemma get_host_id_generated:
  assumes "CHR ''.'' \<notin> set p"
  shows "\<exists>i \<ge> n. get_host_id (p @ nat_str n) = Inr i"
proof -
  obtain es where es: "trailing_digits (p @ nat_str n) = es @ nat_str n"
    using trailing_digits_append_digits nat_str_digits nat_str_not_Nil by metis
  have "CHR ''.'' \<notin> set (nat_str n)" using nat_str_digits is_digit_not(1) by metis
  with assms have "hd (split_on (CHR ''.'') (p @ nat_str n)) = p @ nat_str n"
    by (simp add: hd_split_on_no_sep)
  with es show ?thesis by (simp add: get_host_id_def Let_def digits_val_append)
qed

section \<open>The scan of the existing hosts\<close>

lemma scan_host_eq:
  "scan_host (hs, hi) (h, os) =
     rbind (get_host_id h) (\<lambda>i. Inr (dict_set hs h os, if i > hi then i else hi))"
  by (simp add: scan_host_def)

lemma scan_hosts:
  "rfold scan_host (hs, hi) es = Inr (hs', hi') \<Longrightarrow>
     hs' = dict_update hs es \<and> hi \<le> hi' \<and> (\<forall>(h, os) \<in> set es. \<exists>i \<le> hi'. get_host_id h = Inr i)"
proof (induction es arbitrary: hs hi)
  case Nil
  then show ?case by (simp add: dict_update_def)
next
  case (Cons e es)
  obtain h os where e: "e = (h, os)" by force
  from Cons.prems e obtain i where i: "get_host_id h = Inr i"
    and r: "rfold scan_host (dict_set hs h os, if i > hi then i else hi) es = Inr (hs', hi')"
    by (auto simp: scan_host_eq rbind_eq_Inr_iff)
  from Cons.IH [OF r] e i show ?case by (auto simp: dict_update_def split: if_splits)
qed

lemma scan_hosts_ok:
  "\<forall>(h, os) \<in> set es. is_ok (get_host_id h) \<Longrightarrow> is_ok (rfold scan_host (hs, hi) es)"
  by (induction es arbitrary: hs hi) (auto simp: scan_host_def is_ok_iff)

text \<open>A name is free when no generated name from the next id on is in the table.\<close>

definition fresh_from :: "string \<Rightarrow> hosts \<Rightarrow> nat \<Rightarrow> bool" where
  "fresh_from p hs n = (\<forall>k \<ge> n. p @ nat_str k \<notin> set (dict_keys hs))"

lemma fresh_from_ids:
  assumes "CHR ''.'' \<notin> set p"
    and "\<forall>h \<in> set (dict_keys hs). \<exists>i \<le> hi. get_host_id h = Inr i"
  shows "fresh_from p hs (hi + 1)"
  unfolding fresh_from_def
proof (intro allI impI notI)
  fix k
  assume "hi + 1 \<le> k" and "p @ nat_str k \<in> set (dict_keys hs)"
  moreover obtain i where "i \<ge> k" "get_host_id (p @ nat_str k) = Inr i"
    using get_host_id_generated [OF assms(1), of k] by auto
  ultimately show False using assms(2) by fastforce
qed

end
