(* ===== verification/Inventory_Table.thy ===== *)
theory Inventory_Table
  imports Inventory_Hosts
begin

text \<open>
  What \<open>build_hostnames\<close> promises: an abstract host table, which is a list of names and addresses, the
  effect of a command-line word on it, and the refinement of that specification by the code. The
  table's invariant is that names are distinct, every host has an address, and addresses are distinct.
\<close>

section \<open>The abstract table\<close>

type_synonym table = "(string \<times> string) list"

definition ip_of :: "string \<Rightarrow> string" where
  "ip_of os = (case get_ip_from_opts os of Inl e \<Rightarrow> [] | Inr a \<Rightarrow> a)"

definition table_abs :: "hosts \<Rightarrow> table" where
  "table_abs hs = map (\<lambda>(h, os). (h, ip_of os)) hs"

definition has_ips :: "hosts \<Rightarrow> bool" where
  "has_ips hs = (\<forall>(h, os) \<in> set hs. is_ok (get_ip_from_opts os))"

definition table_ok :: "hosts \<Rightarrow> bool" where
  "table_ok hs = (dict_ok hs \<and> has_ips hs \<and> distinct (map snd (table_abs hs)))"

definition spec_delete :: "table \<Rightarrow> string \<Rightarrow> table" where
  "spec_delete t x =
     (if x \<in> fst ` set t then filter (\<lambda>e. fst e \<noteq> x) t else filter (\<lambda>e. snd e \<noteq> x) t)"

definition spec_word :: "string \<Rightarrow> table \<times> nat \<Rightarrow> string \<Rightarrow> table \<times> nat" where
  "spec_word p st w =
     (case st of (t, n) \<Rightarrow>
        if hd w = CHR ''-'' then (spec_delete t (tl w), n)
        else if w \<in> fst ` set t \<or> w \<in> snd ` set t then (t, n)
        else (t @ [(p @ nat_str n, w)], n + 1))"

text \<open>A word of the command line that names an address to add or a host or address to delete.\<close>

definition word_ok :: "string \<Rightarrow> bool" where
  "word_ok w = (w \<noteq> [] \<and> (hd w = CHR ''-'' \<or> is_digit (hd w) \<and> address_ok w))"

section \<open>Lookups by address\<close>

lemma get_ip_ip_of: "is_ok (get_ip_from_opts os) \<Longrightarrow> get_ip_from_opts os = Inr (ip_of os)"
  by (auto simp: ip_of_def is_ok_iff)

lemma has_ips_simps [simp]:
  "has_ips []"
  "has_ips ((h, os) # hs) \<longleftrightarrow> is_ok (get_ip_from_opts os) \<and> has_ips hs"
  "has_ips (hs @ hs') \<longleftrightarrow> has_ips hs \<and> has_ips hs'"
  by (auto simp: has_ips_def)

lemma table_abs_simps [simp]:
  "table_abs [] = []"
  "table_abs ((h, os) # hs) = (h, ip_of os) # table_abs hs"
  "table_abs (hs @ hs') = table_abs hs @ table_abs hs'"
  by (simp_all add: table_abs_def)

lemma table_abs_names: "map fst (table_abs hs) = dict_keys hs"
  by (induction hs) auto

lemma fst_set_table_abs: "fst ` set (table_abs hs) = set (dict_keys hs)"
  by (simp flip: table_abs_names)

lemma exists_ip_abs: "has_ips hs \<Longrightarrow> exists_ip hs a = Inr (a \<in> snd ` set (table_abs hs))"
  by (induction hs a rule: exists_ip.induct) (auto simp: get_ip_ip_of)

lemma find_host_by_ip_get:
  "find_host_by_ip hs a = Inr h \<Longrightarrow> \<exists>os. (h, os) \<in> set hs \<and> get_ip_from_opts os = Inr a"
  by (induction hs a rule: find_host_by_ip.induct) (auto simp: rbind_eq_Inr_iff split: if_splits)

lemma find_host_by_ip_found:
  "has_ips hs \<Longrightarrow> a \<in> snd ` set (table_abs hs) \<Longrightarrow>
     \<exists>h. find_host_by_ip hs a = Inr h \<and> (h, a) \<in> set (table_abs hs)"
  by (induction hs a rule: find_host_by_ip.induct) (auto simp: get_ip_ip_of)

lemma dict_del_filter: "dict_del d k = filter (\<lambda>e. fst e \<noteq> k) d"
  by (induction d) auto

lemma table_abs_del: "table_abs (dict_del hs h) = filter (\<lambda>e. fst e \<noteq> h) (table_abs hs)"
  by (induction hs) auto

lemma has_ips_del: "has_ips hs \<Longrightarrow> has_ips (dict_del hs h)"
  by (auto simp: has_ips_def dict_del_entries)

lemma distinct_map_filter: "distinct (map f xs) \<Longrightarrow> distinct (map f (filter P xs))"
  by (induction xs) auto

lemma table_ok_del: "table_ok hs \<Longrightarrow> table_ok (dict_del hs h)"
  by (auto simp: table_ok_def table_abs_del has_ips_del intro: pd.ok_del distinct_map_filter)

lemma filter_unique_fst_snd:
  assumes "distinct (map fst t)" "distinct (map snd t)" "(h, a) \<in> set t"
  shows "filter (\<lambda>e. fst e \<noteq> h) t = filter (\<lambda>e. snd e \<noteq> a) t"
proof (rule filter_cong)
  show "t = t" ..
  fix e
  assume e: "e \<in> set t"
  have "fst e = h \<longleftrightarrow> e = (h, a)"
    using assms(1,3) e by (metis distinct_map inj_onD fst_conv)
  moreover have "snd e = a \<longleftrightarrow> e = (h, a)"
    using assms(2,3) e by (metis distinct_map inj_onD snd_conv)
  ultimately show "(fst e \<noteq> h) = (snd e \<noteq> a)" by simp
qed

section \<open>One word\<close>

lemma change_host_eq:
  "change_host p (hs, n) (c # w) =
     (if c = CHR ''-'' then
        (if dict_has hs w then Inr (dict_del hs w, n)
         else rbind (exists_ip hs w) (\<lambda>found.
           if found then rmap (\<lambda>hs. (hs, n)) (delete_host_by_ip hs w) else Inr (hs, n)))
      else if is_digit c then
        (if dict_has hs (c # w) then Inr (hs, n)
         else rbind (exists_ip hs (c # w)) (\<lambda>found.
           if found then Inr (hs, n)
           else Inr (dict_set hs (p @ nat_str n) (host_opts_of (c # w)), n + 1)))
      else if is_alpha c then Inl (GenericException ''Adding hosts by hostname is not supported.'')
      else Inr (hs, n))"
  by (simp add: change_host_def exists_hostname_def)

lemma dict_has_abs: "dict_has hs h \<longleftrightarrow> h \<in> fst ` set (table_abs hs)"
  by (simp add: dict_has_def fst_set_table_abs)

lemma fresh_from_del: "fresh_from p hs n \<Longrightarrow> fresh_from p (dict_del hs h) n"
  by (simp add: fresh_from_def)

lemma fresh_from_set: "fresh_from p hs n \<Longrightarrow> fresh_from p (dict_set hs (p @ nat_str n) os) (n + 1)"
  by (simp add: fresh_from_def)

definition refines :: "string \<Rightarrow> hosts \<times> nat \<Rightarrow> table \<times> nat \<Rightarrow> bool" where
  "refines p st sp =
     (table_ok (fst st) \<and> fresh_from p (fst st) (snd st) \<and> sp = (table_abs (fst st), snd st))"

lemma change_host_delete:
  assumes ok: "table_ok hs" and fr: "fresh_from p hs n"
  shows "\<exists>st'. change_host p (hs, n) (CHR ''-'' # w) = Inr st' \<and>
           refines p st' (spec_delete (table_abs hs) w, n)"
proof (cases "dict_has hs w")
  case True
  then have "change_host p (hs, n) (CHR ''-'' # w) = Inr (dict_del hs w, n)"
    by (simp add: change_host_eq)
  with True show ?thesis
    by (auto simp: refines_def table_ok_del ok fr fresh_from_del spec_delete_def table_abs_del dict_has_abs)
next
  case nohost: False
  have ips: "has_ips hs" using ok by (simp add: table_ok_def)
  show ?thesis
  proof (cases "w \<in> snd ` set (table_abs hs)")
    case True
    obtain h where h: "find_host_by_ip hs w = Inr h" "(h, w) \<in> set (table_abs hs)"
      using find_host_by_ip_found [OF ips True] by blast
    have "distinct (map fst (table_abs hs))" "distinct (map snd (table_abs hs))"
      using ok by (simp_all add: table_ok_def table_abs_names dict_ok_def)
    with h have "table_abs (dict_del hs h) = spec_delete (table_abs hs) w"
      using nohost filter_unique_fst_snd
      by (fastforce simp: table_abs_del spec_delete_def dict_has_abs)
    with h True nohost show ?thesis
      by (auto simp: change_host_eq exists_ip_abs ips delete_host_by_ip_def refines_def
          table_ok_del ok fr fresh_from_del)
  next
    case False
    then have "filter (\<lambda>e. snd e \<noteq> w) (table_abs hs) = table_abs hs"
      by (auto intro: filter_True)
    with False nohost show ?thesis
      by (auto simp: change_host_eq exists_ip_abs ips refines_def ok fr spec_delete_def dict_has_abs)
  qed
qed

lemma table_ok_add:
  assumes "table_ok hs" "h \<notin> set (dict_keys hs)" "a \<notin> snd ` set (table_abs hs)" "address_ok a"
  shows "table_ok (hs @ [(h, host_opts_of a)]) \<and> ip_of (host_opts_of a) = a"
  using assms by (auto simp: table_ok_def dict_ok_def get_ip_host_opts_of ip_of_def)

lemma change_host_add:
  assumes ok: "table_ok hs" and fr: "fresh_from p hs n"
    and w: "is_digit c" "address_ok (c # w)" "c # w = v"
  shows "\<exists>st'. change_host p (hs, n) v = Inr st' \<and> refines p st' (spec_word p (table_abs hs, n) v)"
proof (cases "v \<in> fst ` set (table_abs hs) \<or> v \<in> snd ` set (table_abs hs)")
  case True
  have c: "c \<noteq> CHR ''-''" using w by auto
  have "dict_has hs v \<or> v \<in> snd ` set (table_abs hs)" using True by (simp add: dict_has_abs)
  then have "change_host p (hs, n) v = Inr (hs, n)"
    using ok w(1) c unfolding w(3) [symmetric]
    by (cases "dict_has hs (c # w)") (simp_all add: change_host_eq exists_ip_abs table_ok_def)
  moreover have "spec_word p (table_abs hs, n) v = (table_abs hs, n)"
    using True c by (simp add: spec_word_def w(3) [symmetric])
  ultimately show ?thesis using ok fr by (simp add: refines_def)
next
  case False
  let ?h = "p @ nat_str n"
  have h: "?h \<notin> set (dict_keys hs)" using fr by (simp add: fresh_from_def)
  have c: "c \<noteq> CHR ''-''" using w by auto
  have nf: "\<not> dict_has hs v" "v \<notin> snd ` set (table_abs hs)"
    using False by (simp_all add: dict_has_abs)
  have "change_host p (hs, n) v = Inr (dict_set hs ?h (host_opts_of v), n + 1)"
    using nf ok w(1) c unfolding w(3) [symmetric]
    by (simp add: change_host_eq exists_ip_abs table_ok_def)
  moreover have "dict_set hs ?h (host_opts_of v) = hs @ [(?h, host_opts_of v)]"
    using h by (rule dict_set_fresh)
  moreover have "table_ok (hs @ [(?h, host_opts_of v)]) \<and> ip_of (host_opts_of v) = v"
    using ok h False w by (intro table_ok_add) auto
  moreover have "spec_word p (table_abs hs, n) v = (table_abs hs @ [(?h, v)], n + 1)"
    using False c by (simp add: spec_word_def w(3) [symmetric])
  ultimately show ?thesis
    using fresh_from_set [OF fr, of "host_opts_of v"] by (simp add: refines_def)
qed

lemma change_host_refines:
  assumes "refines p st sp" "word_ok w"
  shows "\<exists>st'. change_host p st w = Inr st' \<and> refines p st' (spec_word p sp w)"
proof -
  obtain hs n where st: "st = (hs, n)" by force
  obtain c v where w: "w = c # v" using assms(2) by (cases w) (auto simp: word_ok_def)
  have hs: "table_ok hs" "fresh_from p hs n" "sp = (table_abs hs, n)"
    using assms(1) by (simp_all add: refines_def st)
  show ?thesis
  proof (cases "c = CHR ''-''")
    case True
    with change_host_delete [OF hs(1,2), of v] show ?thesis
      by (simp add: st w hs(3) spec_word_def)
  next
    case False
    with assms(2) w have "is_digit c" "address_ok (c # v)" by (simp_all add: word_ok_def)
    with change_host_add [OF hs(1,2) this w [symmetric]] show ?thesis by (simp add: st hs(3))
  qed
qed

lemma change_hosts_refine:
  "refines p st sp \<Longrightarrow> \<forall>w \<in> set ws. word_ok w \<Longrightarrow>
     \<exists>st'. rfold (change_host p) st ws = Inr st' \<and> refines p st' (foldl (spec_word p) sp ws)"
proof (induction ws arbitrary: st sp)
  case Nil
  then show ?case by simp
next
  case (Cons w ws)
  then obtain st' where "change_host p st w = Inr st'" "refines p st' (spec_word p sp w)"
    using change_host_refines by (metis list.set_intros(1))
  with Cons show ?case by simp
qed

section \<open>The whole command line\<close>

lemma existing_hosts_ids:
  assumes "existing_hosts c = Inr (hs, hi)"
  shows "\<forall>h \<in> set (dict_keys hs). \<exists>i \<le> hi. get_host_id h = Inr i"
proof (cases "cfg_items c ''all''")
  case (Inl e)
  with assms show ?thesis by (auto simp: existing_hosts_def split: py_error.splits)
next
  case (Inr es)
  with assms have "rfold scan_host ([], 0) es = Inr (hs, hi)" by (simp add: existing_hosts_def)
  from scan_hosts [OF this] have "hs = dict_update [] es"
    and ids: "\<forall>(h, os) \<in> set es. \<exists>i \<le> hi. get_host_id h = Inr i" by simp_all
  then have "set (dict_keys hs) = fst ` set es"
    by (simp add: dict_update_def pd.keys_put_all_set)
  with ids show ?thesis by force
qed

lemma existing_hosts_fresh:
  "existing_hosts c = Inr (hs, hi) \<Longrightarrow> CHR ''.'' \<notin> set p \<Longrightarrow> fresh_from p hs (hi + 1)"
  by (intro fresh_from_ids existing_hosts_ids)

lemma build_hostnames_eq:
  "existing_hosts c = Inr (hs, hi) \<Longrightarrow>
     build_hostnames cfg c ws =
       rmap fst (rfold (change_host (host_prefix cfg)) (hs, hi + 1) ws)"
  by (simp add: build_hostnames_def)

lemma build_hostnames_refines_words:
  assumes "existing_hosts c = Inr (hs0, hi)" "table_ok hs0"
    and "CHR ''.'' \<notin> set (host_prefix cfg)" "\<forall>w \<in> set ws. word_ok w"
  shows "\<exists>hs. build_hostnames cfg c ws = Inr hs \<and> table_ok hs \<and>
           table_abs hs = fst (foldl (spec_word (host_prefix cfg)) (table_abs hs0, hi + 1) ws)"
proof -
  have "refines (host_prefix cfg) (hs0, hi + 1) (table_abs hs0, hi + 1)"
    using assms(2) existing_hosts_fresh [OF assms(1,3)] by (simp add: refines_def)
  from change_hosts_refine [OF this assms(4)] show ?thesis
    using assms(1) by (auto simp: build_hostnames_eq refines_def)
qed

text \<open>C1: The host table after a command line of addresses and deletions is the one the
  specification gives: every address that is new is appended under the next free generated name,
  every address or name that is known changes nothing, a deleted name or address is gone. No word
  of that shape raises, and names and addresses stay distinct.\<close>

theorem build_hostnames_refines:
  assumes "existing_hosts c = Inr (hs0, hi)" "table_ok hs0"
    and "CHR ''.'' \<notin> set (host_prefix cfg)" "\<forall>w \<in> set ws. word_ok w"
  shows "\<exists>hs. build_hostnames cfg c ws = Inr hs \<and> table_ok hs \<and>
           table_abs hs = fst (foldl (spec_word (host_prefix cfg)) (table_abs hs0, hi + 1) ws)"
  using assms by (rule build_hostnames_refines_words)

text \<open>The configuration and the settings the witnesses run on.\<close>

definition demo_settings :: settings where
  "demo_settings = \<lparr>config_path = ''hosts.ini'', scale_threshold = 50,
     massive_scale_threshold = 200, debug_on = False, host_prefix = ''node''\<rparr>"

definition demo_config :: config where
  "demo_config = \<lparr>defaults = [],
     sections = [(''all'', [(''node1'', Some (host_opts_of ''10.0.0.1'')),
                            (''node2'', Some (host_opts_of ''10.0.0.2''))])]\<rparr>"

definition demo_hosts :: hosts where
  "demo_hosts = [(''node1'', host_opts_of ''10.0.0.1''), (''node2'', host_opts_of ''10.0.0.2'')]"

lemma demo_existing: "existing_hosts demo_config = Inr (demo_hosts, 2)"
  by code_simp

lemma demo_table: "table_ok demo_hosts"
  by code_simp

lemma demo_prefix [simp]: "host_prefix demo_settings = ''node''"
  by (simp add: demo_settings_def)

theorem build_hostnames_refines_witness:
  "\<exists>hs. build_hostnames demo_settings demo_config [''-10.0.0.1'', ''10.0.0.9'', ''10.0.0.2''] = Inr hs \<and>
     table_ok hs \<and> table_abs hs = [(''node2'', ''10.0.0.2''), (''node3'', ''10.0.0.9'')]"
proof -
  let ?ws = "[''-10.0.0.1'', ''10.0.0.9'', ''10.0.0.2'']"
  have w: "\<forall>w \<in> set ?ws. word_ok w" by code_simp
  have p: "CHR ''.'' \<notin> set (host_prefix demo_settings)" by simp
  have "fst (foldl (spec_word ''node'') (table_abs demo_hosts, 2 + 1) ?ws) =
      [(''node2'', ''10.0.0.2''), (''node3'', ''10.0.0.9'')]" by code_simp
  with build_hostnames_refines [OF demo_existing demo_table p w] show ?thesis by simp
qed

lemma build_hostnames_same:
  assumes "existing_hosts c = Inr (hs0, hi)" "has_ips hs0"
    and "\<forall>w \<in> set ws. w \<noteq> [] \<and> is_digit (hd w) \<and>
           (w \<in> set (dict_keys hs0) \<or> w \<in> snd ` set (table_abs hs0))"
  shows "build_hostnames cfg c ws = Inr hs0"
proof -
  have step: "change_host p (hs0, n) w = Inr (hs0, n)" if "w \<in> set ws" for p n w
  proof -
    from assms(3) that have "w \<noteq> []" "is_digit (hd w)"
      and known: "dict_has hs0 w \<or> w \<in> snd ` set (table_abs hs0)"
      by (simp_all add: dict_has_def)
    then obtain d v where w: "w = d # v" "is_digit d" by (cases w) simp_all
    from w have "d \<noteq> CHR ''-''" by auto
    with w known assms(2) show ?thesis
      by (cases "dict_has hs0 w") (simp_all add: change_host_eq exists_ip_abs)
  qed
  then have "rfold (change_host p) (hs0, n) ws = Inr (hs0, n)" for p n
    by (induction ws) auto
  with assms(1) show ?thesis by (simp add: build_hostnames_eq)
qed

text \<open>Known addresses and known names on the command line change nothing: the host table is the
  one read from the \<open>all\<close> group, entries, options and order.\<close>

lemma build_hostnames_known:
  assumes "existing_hosts c = Inr (hs0, hi)" "has_ips hs0"
    and "\<forall>w \<in> set ws. w \<noteq> [] \<and> is_digit (hd w) \<and>
           (w \<in> set (dict_keys hs0) \<or> w \<in> snd ` set (table_abs hs0))"
  shows "build_hostnames cfg c ws = Inr hs0"
  using assms by (rule build_hostnames_same)

definition named_for_deletion :: "string \<Rightarrow> string \<Rightarrow> string list \<Rightarrow> bool" where
  "named_for_deletion h os ws =
     (CHR ''-'' # h \<in> set ws \<or> (\<exists>w \<in> set ws. w \<noteq> [] \<and> hd w = CHR ''-'' \<and> get_ip_from_opts os = Inr (tl w)))"

definition keeps :: "string \<Rightarrow> string \<Rightarrow> string \<Rightarrow> hosts \<times> nat \<Rightarrow> bool" where
  "keeps p h os st =
     (dict_ok (fst st) \<and> dict_get (fst st) h = Some os \<and> fresh_from p (fst st) (snd st))"

lemma change_host_keeps:
  assumes k: "keeps p h os (hs, n)" and s: "change_host p (hs, n) w = Inr (hs', n')"
    and nd: "\<not> named_for_deletion h os [w]"
  shows "keeps p h os (hs', n')"
proof -
  obtain c v where w: "w = c # v" using s by (cases w) (auto simp: change_host_def)
  have h: "dict_ok hs" "dict_get hs h = Some os" "fresh_from p hs n" using k by (simp_all add: keeps_def)
  have del: "keeps p h os (dict_del hs x, n)" if "x \<noteq> h" for x
    using that h by (auto simp: keeps_def fresh_from_del)
  show ?thesis
  proof (cases "c = CHR ''-''")
    case True
    then have v: "v \<noteq> h" "get_ip_from_opts os \<noteq> Inr v"
      using nd by (auto simp: named_for_deletion_def w)
    consider "hs' = dict_del hs v" "n' = n" | "hs' = hs" "n' = n"
      | x where "find_host_by_ip hs v = Inr x" "hs' = dict_del hs x" "n' = n"
      using s True by (auto simp: w change_host_eq rbind_eq_Inr_iff rmap_eq_Inr_iff
          delete_host_by_ip_def split: if_splits)
    then show ?thesis
    proof cases
      case 1
      then show ?thesis using del v by simp
    next
      case 2
      then show ?thesis using k by simp
    next
      case (3 x)
      then obtain os' where "(x, os') \<in> set hs" "get_ip_from_opts os' = Inr v"
        using find_host_by_ip_get by blast
      with v h have "x \<noteq> h" using dict_get_in by fastforce
      with 3 del show ?thesis by simp
    qed
  next
    case False
    have ne: "h \<noteq> p @ nat_str n" using h by (auto simp: fresh_from_def pd.keys_iff)
    from False s have "(hs', n') = (hs, n) \<or>
        (hs', n') = (dict_set hs (p @ nat_str n) (host_opts_of w), n + 1)"
      by (auto simp: w change_host_eq rbind_eq_Inr_iff split: if_splits)
    then show ?thesis using k h ne fresh_from_set [OF h(3)] by (auto simp: keeps_def)
  qed
qed

text \<open>No command line loses a host by accident: a host of the \<open>all\<close> group that is named for
  deletion neither by name nor by address is in the new table with its options unchanged; a
  generated name never overwrites it.\<close>

lemma build_hostnames_keeps:
  assumes "existing_hosts c = Inr (hs0, hi)" "dict_ok hs0" "dict_get hs0 h = Some os"
    and "CHR ''.'' \<notin> set (host_prefix cfg)" "\<not> named_for_deletion h os ws"
    and "build_hostnames cfg c ws = Inr hs"
  shows "dict_get hs h = Some os"
proof -
  let ?p = "host_prefix cfg"
  obtain n where r: "rfold (change_host ?p) (hs0, hi + 1) ws = Inr (hs, n)"
    using assms(1,6) by (auto simp: build_hostnames_eq rmap_eq_Inr_iff)
  have "keeps ?p h os (hs, n)"
  proof (rule rfold_invariant [OF r])
    show "keeps ?p h os (hs0, hi + 1)"
      using assms(2,3) existing_hosts_fresh [OF assms(1,4)] by (simp add: keeps_def)
    fix st w st'
    assume w: "w \<in> set ws" "keeps ?p h os st" "change_host ?p st w = Inr st'"
    then have "\<not> named_for_deletion h os [w]" using assms(5) by (auto simp: named_for_deletion_def)
    with w show "keeps ?p h os st'"
      using change_host_keeps by (metis prod.collapse)
  qed
  then show ?thesis by (simp add: keeps_def)
qed

end
