(* ===== verification/Inventory_Groups.thy ===== *)
theory Inventory_Groups
  imports Inventory_Table
begin

text \<open>
  The group operations of \<open>contrib/inventory_builder/inventory.py\<close>: the groups the program needs, the
  purge of hosts that are gone, and the assignment of hosts to the master, node, etcd, vault and
  route-reflector groups. Each is a loop of stores into the configuration, so their effect comes from
  the interpretation \<open>gs\<close> of the locale \<open>group_store\<close>.
\<close>

section \<open>The operations\<close>

definition ensure_required_groups :: "config \<Rightarrow> string list \<Rightarrow> config res" where
  "ensure_required_groups c groups =
     rfold (\<lambda>c grp. case add_section c grp of
              Inl (DuplicateSectionError g) \<Rightarrow> Inr c
            | r \<Rightarrow> r) c groups"

definition purge_invalid_hosts :: "config \<Rightarrow> string list \<Rightarrow> string list \<Rightarrow> config res" where
  "purge_invalid_hosts c hostnames protected_names =
     rfold (\<lambda>c role.
       rbind (cfg_items c role) (\<lambda>items.
         rfold (\<lambda>c (host, _).
           if host \<notin> set hostnames \<and> host \<notin> set protected_names
           then remove_option c role host else Inr c) c items)) c (cfg_sections c)"

definition add_host_to_group :: "config \<Rightarrow> string \<Rightarrow> string \<Rightarrow> string \<Rightarrow> config res" where
  "add_host_to_group c grp host opts = cfg_set c grp host (Some opts)"

definition set_kube_master :: "config \<Rightarrow> string list \<Rightarrow> config res" where
  "set_kube_master c hosts = rfold (\<lambda>c host. add_host_to_group c ''kube-master'' host []) c hosts"

definition set_all :: "config \<Rightarrow> hosts \<Rightarrow> config res" where
  "set_all c hosts = rfold (\<lambda>c (host, opts). add_host_to_group c ''all'' host opts) c hosts"

definition set_k8s_cluster :: "config \<Rightarrow> config res" where
  "set_k8s_cluster c =
     rbind (add_host_to_group c ''k8s-cluster:children'' ''kube-node'' []) (\<lambda>c.
       add_host_to_group c ''k8s-cluster:children'' ''kube-master'' [])"

text \<open>
  \<open>host in self.config.items(section)\<close> compares a string with the pairs of a list, so both sides
  are Python objects.
\<close>

datatype py_obj = PyStr string | PyTuple "py_obj list"

definition in_items :: "string \<Rightarrow> (string \<times> string) list \<Rightarrow> bool" where
  "in_items host items = (PyStr host \<in> set (map (\<lambda>(k, v). PyTuple [PyStr k, PyStr v]) items))"

definition set_calico_rr :: "config \<Rightarrow> string list \<Rightarrow> config res" where
  "set_calico_rr c hosts =
     rfold (\<lambda>c host.
       rbind (cfg_items c ''kube-master'') (\<lambda>masters.
         if in_items host masters then Inr c
         else rbind (cfg_items c ''kube-node'') (\<lambda>nodes.
           if in_items host nodes then Inr c
           else add_host_to_group c ''calico-rr'' host []))) c hosts"

definition set_kube_node :: "settings \<Rightarrow> config \<Rightarrow> string list \<Rightarrow> config res" where
  "set_kube_node cfg c hosts =
     rfold (\<lambda>c host.
       rbind (section_len c ''all'') (\<lambda>n.
         if int n \<ge> scale_threshold cfg \<and> has_option c ''etcd'' host then Inr c
         else if int n \<ge> massive_scale_threshold cfg \<and> has_option c ''kube-master'' host then Inr c
         else add_host_to_group c ''kube-node'' host [])) c hosts"

definition set_etcd :: "config \<Rightarrow> string list \<Rightarrow> config res" where
  "set_etcd c hosts =
     rfold (\<lambda>c host.
       rbind (add_host_to_group c ''etcd'' host []) (\<lambda>c.
         add_host_to_group c ''vault'' host [])) c hosts"

text \<open>The part of the constructor between the required groups and the write.\<close>

definition assign_groups :: "settings \<Rightarrow> config \<Rightarrow> string list \<Rightarrow> (config \<times> hosts) res" where
  "assign_groups cfg c changed_hosts =
     rbind (build_hostnames cfg c changed_hosts) (\<lambda>hosts.
       let names = dict_keys hosts; big = int (length hosts) \<ge> scale_threshold cfg in
       rbind (purge_invalid_hosts c names PROTECTED_NAMES) (\<lambda>c.
       rbind (set_all c hosts) (\<lambda>c.
       rbind (set_k8s_cluster c) (\<lambda>c.
       rbind (set_etcd c (take 3 names)) (\<lambda>c.
       rbind (if big then set_kube_master c (take 2 (drop 3 names))
              else set_kube_master c (take 2 names)) (\<lambda>c.
       rbind (set_kube_node cfg c names) (\<lambda>c.
       rbind (if big then set_calico_rr c (take 3 names) else Inr c) (\<lambda>c.
         Inr (c, hosts)))))))))"

section \<open>Groups as sets of names\<close>

text \<open>The names stored in a section itself, without those the defaults show through.\<close>

definition members :: "config \<Rightarrow> string \<Rightarrow> string list" where
  "members c g = (case cfg_view c g of None \<Rightarrow> [] | Some d \<Rightarrow> dict_keys d)"

definition has_group :: "config \<Rightarrow> string \<Rightarrow> bool" where
  "has_group c g = (cfg_view c g \<noteq> None)"

text \<open>The value under a name of a group.\<close>

definition value_in :: "config \<Rightarrow> string \<Rightarrow> string \<Rightarrow> string option option" where
  "value_in c g h = (case cfg_view c g of None \<Rightarrow> None | Some d \<Rightarrow> dict_get d h)"

text \<open>\<open>adds c c' f\<close>: the sections are the same, every group keeps its names, in order, and gains those of
  \<open>f\<close> after them, a group that gains nothing is the same dictionary, and outside \<open>all\<close> the names of \<open>f\<close>
  have the empty value and the others the one they had.\<close>

definition adds :: "config \<Rightarrow> config \<Rightarrow> (string \<Rightarrow> string set) \<Rightarrow> bool" where
  "adds c c' f =
     (cfg_sections c' = cfg_sections c \<and>
      (\<forall>g. has_group c' g = has_group c g \<and>
          set (members c' g) = set (members c g) \<union> f g \<and>
          prefix (members c g) (members c' g) \<and>
          (f g = {} \<longrightarrow> cfg_view c' g = cfg_view c g)) \<and>
      (\<forall>g h. g \<noteq> ''all'' \<longrightarrow> value_in c' g h = (if h \<in> f g then Some (Some []) else value_in c g h)))"

lemma roles_proper: "g \<in> set ROLES \<Longrightarrow> proper g"
  by (auto simp: ROLES_def proper_def default_section_def)

lemma view_upd_proper:
  "proper g \<Longrightarrow> cfg_view (cfg_upd c g d) g' = (if g' = g then Some d else cfg_view c g')"
  by (auto simp: cfg_view_upd proper_def)

lemma adds_refl: "adds c c (\<lambda>g. {})"
  by (simp add: adds_def)

lemma adds_trans: "adds c c1 f \<Longrightarrow> adds c1 c2 f' \<Longrightarrow> adds c c2 (\<lambda>g. f g \<union> f' g)"
  unfolding adds_def
  by (intro conjI allI impI)
     (auto, metis (no_types, lifting) Un_empty prefix_order.order_trans)

lemma adds_sections: "adds c c' f \<Longrightarrow> cfg_sections c' = cfg_sections c"
  by (simp add: adds_def)

lemma adds_value:
  "adds c c' f \<Longrightarrow> g \<noteq> ''all'' \<Longrightarrow> value_in c' g h = (if h \<in> f g then Some (Some []) else value_in c g h)"
  by (simp add: adds_def)

lemma adds_prefix: "adds c c' f \<Longrightarrow> prefix (members c g) (members c' g)"
  by (simp add: adds_def)

lemma adds_group: "adds c c' f \<Longrightarrow> has_group c g \<Longrightarrow> has_group c' g"
  by (simp add: adds_def)

lemma adds_view: "adds c c' f \<Longrightarrow> f g = {} \<Longrightarrow> cfg_view c' g = cfg_view c g"
  by (simp add: adds_def)

lemma adds_members: "adds c c' f \<Longrightarrow> set (members c' g) = set (members c g) \<union> f g"
  by (simp add: adds_def)

section \<open>Configurations the operations do not fail on\<close>

definition config_plain :: "config \<Rightarrow> bool" where
  "config_plain c = (plain_options (defaults c) \<and> (\<forall>(g, d) \<in> set (sections c). plain_options d))"

text \<open>Section names are proper and distinct, option names are distinct and in normal form.\<close>

definition options_ok :: "options \<Rightarrow> bool" where
  "options_ok d = (dict_ok d \<and> (\<forall>k \<in> set (dict_keys d). optionxform k = k))"

definition config_ok :: "config \<Rightarrow> bool" where
  "config_ok c =
     (options_ok (defaults c) \<and> dict_ok (sections c) \<and>
      (\<forall>(g, d) \<in> set (sections c). proper g \<and> options_ok d))"

lemma config_ok_section:
  "config_ok c \<Longrightarrow> dict_get (sections c) g = Some d \<Longrightarrow> proper g \<and> options_ok d"
  by (auto simp: config_ok_def dest!: dict_get_Some_in)

lemma config_ok_upd:
  assumes "config_ok c" "proper g" "options_ok d"
  shows "config_ok (cfg_upd c g d)"
proof -
  have "proper g' \<and> options_ok d'" if "(g', d') \<in> set (dict_set (sections c) g d)" for g' d'
    using that assms dict_set_entries [of "sections c" g d] by (auto simp: config_ok_def)
  with assms show ?thesis
    by (auto simp: config_ok_def cfg_upd_def proper_def intro: pd.ok_put)
qed

lemma sections_upd:
  "proper g \<Longrightarrow> sections (cfg_upd c g d) = dict_set (sections c) g d"
  "proper g \<Longrightarrow> defaults (cfg_upd c g d) = defaults c"
  by (simp_all add: cfg_upd_def proper_def)

lemma options_ok_set: "options_ok d \<Longrightarrow> options_ok (dict_set d (optionxform k) v)"
  by (auto simp: options_ok_def optionxform_def intro: pd.ok_put)

lemma view_options_ok: "config_ok c \<Longrightarrow> cfg_view c g = Some d \<Longrightarrow> options_ok d"
  by (auto simp: cfg_view_def config_ok_def split: if_splits dest!: dict_get_Some_in)

definition good :: "config \<Rightarrow> bool" where
  "good c = (config_ok c \<and> config_plain c \<and> (\<forall>g \<in> set ROLES. has_group c g))"

lemma plain_options_set: "plain_options d \<Longrightarrow> plain v \<Longrightarrow> plain_options (dict_set d k v)"
  using dict_set_entries [of d k v] by (fastforce simp: plain_options_def)

lemma plain_options_del: "plain_options d \<Longrightarrow> plain_options (dict_del d k)"
  by (auto simp: plain_options_def dict_del_entries)

lemma plain_options_update: "plain_options d \<Longrightarrow> plain_options e \<Longrightarrow> plain_options (dict_update d e)"
proof (induction e arbitrary: d)
  case Nil
  then show ?case by (simp add: dict_update_def)
next
  case (Cons x e)
  obtain k v where x: "x = (k, v)" by force
  from Cons.prems have "plain v" "plain_options e" by (auto simp: plain_options_def x)
  with Cons show ?case by (simp add: dict_update_def x plain_options_set)
qed

lemma view_plain: "config_plain c \<Longrightarrow> cfg_view c g = Some d \<Longrightarrow> plain_options d"
  by (auto simp: config_plain_def cfg_view_def split: if_splits dest!: dict_get_Some_in)

lemma upd_plain: "config_plain c \<Longrightarrow> plain_options d \<Longrightarrow> config_plain (cfg_upd c g d)"
  using dict_set_entries [of "sections c" g d] by (fastforce simp: config_plain_def cfg_upd_def)

lemma items_ok:
  assumes "config_plain c" "has_group c g" "proper g"
  shows "\<exists>items. cfg_items c g = Inr items \<and>
           map fst items = dict_keys (dict_update (defaults c) (the (cfg_view c g)))"
proof -
  obtain d where d: "dict_get (sections c) g = Some d" "cfg_view c g = Some d"
    using assms by (auto simp: has_group_def cfg_view_def proper_def)
  have "plain_options (dict_update (defaults c) d)"
    using assms view_plain [OF assms(1) d(2)]
    by (intro plain_options_update) (auto simp: config_plain_def)
  then show ?thesis using d by (auto simp: cfg_items_def Let_def items_plain dict_keys_def)
qed

lemma good_items: "good c \<Longrightarrow> g \<in> set ROLES \<Longrightarrow> is_ok (cfg_items c g)"
  using items_ok [of c g] roles_proper [of g] by (auto simp: good_def is_ok_iff)

lemma in_ROLES [simp]:
  "''all'' \<in> set ROLES" "''kube-master'' \<in> set ROLES" "''kube-node'' \<in> set ROLES"
  "''etcd'' \<in> set ROLES" "''k8s-cluster:children'' \<in> set ROLES" "''calico-rr'' \<in> set ROLES"
  "''vault'' \<in> set ROLES"
  by (simp_all add: ROLES_def)

section \<open>One store, and loops of stores\<close>

lemma add_host_adds:
  assumes "good c" "has_group c g" "proper g" "plain (Some os)" "g = ''all'' \<or> os = []"
  shows "\<exists>c'. add_host_to_group c g h os = Inr c' \<and> good c' \<and> defaults c' = defaults c \<and>
           adds c c' (\<lambda>g'. if g' = g then {optionxform h} else {})"
proof -
  obtain d where d: "cfg_view c g = Some d" using assms by (auto simp: has_group_def)
  let ?d = "dict_set d (optionxform h) (Some os)"
  have "add_host_to_group c g h os = Inr (cfg_upd c g ?d)"
    using d assms by (simp add: add_host_to_group_def gs.put_ok storable_plain)
  moreover have "good (cfg_upd c g ?d)"
    using assms d view_plain upd_plain plain_options_set config_ok_upd view_options_ok options_ok_set
    by (auto simp: good_def has_group_def view_upd_proper)
  moreover have "defaults (cfg_upd c g ?d) = defaults c"
    using assms by (simp add: cfg_upd_def proper_def)
  moreover have "adds c (cfg_upd c g ?d) (\<lambda>g'. if g' = g then {optionxform h} else {})"
    using assms d pd.keys_iff [of g "sections c"]
    by (auto simp: adds_def has_group_def members_def value_in_def view_upd_proper cfg_sections_def
        sections_upd cfg_view_def proper_def)
  ultimately show ?thesis by blast
qed

lemma adds_loop:
  assumes "\<And>x c1. x \<in> set xs \<Longrightarrow> P c1 \<Longrightarrow> \<exists>c2. f c1 x = Inr c2 \<and> adds c1 c2 (F x) \<and> P c2"
    and "P c"
  shows "\<exists>c'. rfold f c xs = Inr c' \<and> adds c c' (\<lambda>g. \<Union>x \<in> set xs. F x g) \<and> P c'"
  using assms
proof (induction xs arbitrary: c)
  case Nil
  then show ?case by (simp add: adds_refl)
next
  case (Cons x xs)
  from Cons.prems obtain c1 where c1: "f c x = Inr c1" "adds c c1 (F x)" "P c1"
    by (meson list.set_intros(1))
  from Cons.IH [OF Cons.prems(1) c1(3)] obtain c' where
    c': "rfold f c1 xs = Inr c'" "adds c1 c' (\<lambda>g. \<Union>x \<in> set xs. F x g)" "P c'" by auto
  from adds_trans [OF c1(2) c'(2)] c1 c' show ?case by auto
qed

text \<open>The state of the loops: groups present, values plain, and the views in \<open>V\<close> as in \<open>c0\<close>.\<close>

definition steady :: "config \<Rightarrow> string set \<Rightarrow> config \<Rightarrow> bool" where
  "steady c0 V c =
     (good c \<and> defaults c = defaults c0 \<and> (\<forall>g \<in> V. cfg_view c g = cfg_view c0 g))"

lemma steady_refl: "good c \<Longrightarrow> steady c V c"
  by (simp add: steady_def)

lemma steady_add_host:
  assumes "steady c0 V c" "g \<in> set ROLES" "g \<notin> V" "plain (Some os)" "g = ''all'' \<or> os = []"
  shows "\<exists>c'. add_host_to_group c g h os = Inr c' \<and>
           adds c c' (\<lambda>g'. if g' = g then {optionxform h} else {}) \<and> steady c0 V c'"
proof -
  have "good c" "has_group c g" using assms(1,2) by (simp_all add: steady_def good_def)
  from add_host_adds [OF this roles_proper [OF assms(2)] assms(4,5)] obtain c' where
    c': "add_host_to_group c g h os = Inr c'" "good c'" "defaults c' = defaults c"
    "adds c c' (\<lambda>g'. if g' = g then {optionxform h} else {})" by blast
  moreover have "cfg_view c' g' = cfg_view c g'" if "g' \<in> V" for g'
    using that assms(3) by (intro adds_view [OF c'(4)]) auto
  then have "steady c0 V c'" using assms(1) c'(2,3) by (simp add: steady_def)
  ultimately show ?thesis by blast
qed

lemma adds_cong: "adds c c' f \<Longrightarrow> (\<And>g. f g = f' g) \<Longrightarrow> adds c c' f'"
  by (metis ext)

definition gains :: "config \<Rightarrow> config res \<Rightarrow> (string \<Rightarrow> string set) \<Rightarrow> bool" where
  "gains c r f = (\<exists>c'. r = Inr c' \<and> adds c c' f \<and> good c' \<and> defaults c' = defaults c)"

lemma gainsI: "r = Inr c' \<Longrightarrow> adds c c' f \<Longrightarrow> steady c V c' \<Longrightarrow> gains c r f"
  by (auto simp: gains_def steady_def)

lemma gains_bind:
  assumes "gains c r f" "\<And>c'. adds c c' f \<Longrightarrow> good c' \<Longrightarrow> defaults c' = defaults c \<Longrightarrow> gains c' (k c') f'"
  shows "gains c (rbind r k) (\<lambda>g. f g \<union> f' g)"
proof -
  obtain c' where c': "r = Inr c'" "adds c c' f" "good c'" "defaults c' = defaults c"
    using assms(1) by (auto simp: gains_def)
  from assms(2) [OF c'(2,3,4)] obtain c'' where
    "k c' = Inr c''" "adds c' c'' f'" "good c''" "defaults c'' = defaults c'"
    by (auto simp: gains_def)
  with c' adds_trans show ?thesis by (auto simp: gains_def)
qed

lemma gains_cong: "gains c r f \<Longrightarrow> (\<And>g. f g = f' g) \<Longrightarrow> gains c r f'"
  by (metis ext)

lemma plain_empty [simp]: "plain (Some [])"
  by (simp add: plain_def)

lemma gains_add_host:
  "good c \<Longrightarrow> g \<in> set ROLES \<Longrightarrow> plain (Some os) \<Longrightarrow> g = ''all'' \<or> os = [] \<Longrightarrow>
     gains c (add_host_to_group c g h os) (\<lambda>g'. if g' = g then {optionxform h} else {})"
  using steady_add_host [OF steady_refl [of c "{}"]] by (auto simp: gains_def steady_def)

lemma gains_loop:
  assumes "good c"
    and "\<And>x c1. x \<in> set xs \<Longrightarrow> steady c V c1 \<Longrightarrow>
           \<exists>c2. f c1 x = Inr c2 \<and> adds c1 c2 (F x) \<and> steady c V c2"
  shows "gains c (rfold f c xs) (\<lambda>g. \<Union>x \<in> set xs. F x g)"
  using adds_loop [of xs "steady c V" f F c] assms steady_refl [OF assms(1)]
  by (auto intro: gainsI)

section \<open>The role operations\<close>

lemma set_kube_master_gains:
  assumes "good c"
  shows "gains c (set_kube_master c hs)
           (\<lambda>g. if g = ''kube-master'' then optionxform ` set hs else {})"
  unfolding set_kube_master_def
  by (rule gains_cong, rule gains_loop [OF assms, where V = "{}"], rule steady_add_host)
     (auto simp: ROLES_def)

lemma set_all_gains:
  assumes "good c" "\<forall>(h, os) \<in> set hs. plain (Some os)"
  shows "gains c (set_all c hs) (\<lambda>g. if g = ''all'' then optionxform ` set (dict_keys hs) else {})"
proof -
  have "gains c (set_all c hs)
      (\<lambda>g. \<Union>(h, os) \<in> set hs. if g = ''all'' then {optionxform h} else {})"
    unfolding set_all_def
  proof (rule gains_loop [OF assms(1), where V = "{}"])
    fix x c1
    assume "x \<in> set hs" "steady c {} c1"
    then show "\<exists>c2. (case x of (h, os) \<Rightarrow> add_host_to_group c1 ''all'' h os) = Inr c2 \<and>
        adds c1 c2 (\<lambda>g. case x of (h, os) \<Rightarrow> if g = ''all'' then {optionxform h} else {}) \<and>
        steady c {} c2"
      using assms(2) steady_add_host [of c "{}" c1 "''all''"] by (auto simp: ROLES_def)
  qed
  then show ?thesis by (rule gains_cong) (force simp: dict_keys_def split: if_splits)
qed

lemma set_etcd_gains:
  assumes "good c"
  shows "gains c (set_etcd c hs) (\<lambda>g. if g \<in> {''etcd'', ''vault''} then optionxform ` set hs else {})"
proof -
  have "gains c (set_etcd c hs)
      (\<lambda>g. \<Union>h \<in> set hs. (if g = ''etcd'' then {optionxform h} else {}) \<union>
                       (if g = ''vault'' then {optionxform h} else {}))"
    unfolding set_etcd_def
  proof (rule gains_loop [OF assms, where V = "{}"])
    fix h c1
    assume "steady c {} c1"
    then obtain c2 where c2: "add_host_to_group c1 ''etcd'' h [] = Inr c2" "steady c {} c2"
      "adds c1 c2 (\<lambda>g. if g = ''etcd'' then {optionxform h} else {})"
      using steady_add_host [of c "{}" c1 "''etcd''" "[]"] by (auto simp: ROLES_def)
    then obtain c3 where c3: "add_host_to_group c2 ''vault'' h [] = Inr c3" "steady c {} c3"
      "adds c2 c3 (\<lambda>g. if g = ''vault'' then {optionxform h} else {})"
      using steady_add_host [of c "{}" c2 "''vault''" "[]"] by (auto simp: ROLES_def)
    from adds_trans [OF c2(3) c3(3)] c2 c3
    show "\<exists>c2. rbind (add_host_to_group c1 ''etcd'' h []) (\<lambda>c. add_host_to_group c ''vault'' h []) = Inr c2 \<and>
        adds c1 c2 (\<lambda>g. (if g = ''etcd'' then {optionxform h} else {}) \<union>
                        (if g = ''vault'' then {optionxform h} else {})) \<and> steady c {} c2"
      by auto
  qed
  then show ?thesis by (rule gains_cong) auto
qed

lemma set_k8s_cluster_gains:
  assumes "good c"
  shows "gains c (set_k8s_cluster c)
           (\<lambda>g. if g = ''k8s-cluster:children'' then {''kube-node'', ''kube-master''} else {})"
proof -
  have "optionxform ''kube-node'' = ''kube-node''" "optionxform ''kube-master'' = ''kube-master''"
    by code_simp+
  then show ?thesis
    unfolding set_k8s_cluster_def
    by (intro gains_cong [OF gains_bind [OF gains_add_host gains_add_host]] assms)
       (auto simp: ROLES_def)
qed

text \<open>The conflict check of \<open>set_calico_rr\<close> compares a name with pairs, so it never holds.\<close>

lemma in_items_False: "\<not> in_items h items"
  by (auto simp: in_items_def)

lemma set_calico_rr_gains:
  assumes "good c"
  shows "gains c (set_calico_rr c hs)
           (\<lambda>g. if g = ''calico-rr'' then optionxform ` set hs else {})"
proof -
  have "gains c (set_calico_rr c hs)
      (\<lambda>g. \<Union>h \<in> set hs. if g = ''calico-rr'' then {optionxform h} else {})"
    unfolding set_calico_rr_def
  proof (rule gains_loop [OF assms, where V = "{}"])
    fix h c1
    assume st: "steady c {} c1"
    then have "good c1" by (simp add: steady_def)
    then have "is_ok (cfg_items c1 ''kube-master'')" "is_ok (cfg_items c1 ''kube-node'')"
      by (simp_all add: good_items)
    with st steady_add_host [of c "{}" c1 "''calico-rr''" "[]" h]
    show "\<exists>c2. rbind (cfg_items c1 ''kube-master'') (\<lambda>masters.
         if in_items h masters then Inr c1
         else rbind (cfg_items c1 ''kube-node'') (\<lambda>nodes.
           if in_items h nodes then Inr c1
           else add_host_to_group c1 ''calico-rr'' h [])) = Inr c2 \<and>
        adds c1 c2 (\<lambda>g. if g = ''calico-rr'' then {optionxform h} else {}) \<and> steady c {} c2"
      by (auto simp: is_ok_iff in_items_False ROLES_def)
  qed
  then show ?thesis by (rule gains_cong) auto
qed

text \<open>Whether \<open>set_kube_node\<close> makes a host a worker, given the groups before it.\<close>

definition works :: "settings \<Rightarrow> config \<Rightarrow> string \<Rightarrow> bool" where
  "works cfg c h =
     (case section_len c ''all'' of
        Inl e \<Rightarrow> False
      | Inr n \<Rightarrow> \<not> (int n \<ge> scale_threshold cfg \<and> has_option c ''etcd'' h) \<and>
                 \<not> (int n \<ge> massive_scale_threshold cfg \<and> has_option c ''kube-master'' h))"

lemma has_option_view:
  "proper g \<Longrightarrow> has_option c g h =
     (case cfg_view c g of None \<Rightarrow> False
      | Some d \<Rightarrow> dict_has d (optionxform h) \<or> dict_has (defaults c) (optionxform h))"
  by (simp add: has_option_def cfg_view_def proper_def)

lemma section_len_view:
  "proper g \<Longrightarrow> section_len c g =
     (case cfg_view c g of None \<Rightarrow> Inl (KeyError g)
      | Some d \<Rightarrow> Inr (length (dict_update d (defaults c))))"
  by (simp add: section_len_def cfg_view_def proper_def)

lemma proper_roles [simp]:
  "proper ''all''" "proper ''kube-master''" "proper ''kube-node''" "proper ''etcd''"
  by (simp_all add: roles_proper)

lemma steady_lookups:
  assumes "steady c V c1" "g \<in> V" "proper g"
  shows "has_option c1 g h = has_option c g h" "section_len c1 g = section_len c g"
  using assms by (auto simp: steady_def has_option_view section_len_view split: option.split)

lemma good_section_len: "good c \<Longrightarrow> \<exists>n. section_len c ''all'' = Inr n"
  by (force simp: good_def has_group_def section_len_view ROLES_def)

lemma set_kube_node_gains:
  assumes "good c"
  shows "gains c (set_kube_node cfg c hs)
           (\<lambda>g. if g = ''kube-node'' then optionxform ` {h \<in> set hs. works cfg c h} else {})"
proof -
  let ?V = "{''all'', ''etcd'', ''kube-master''}"
  obtain n where n: "section_len c ''all'' = Inr n" using good_section_len [OF assms] ..
  have "gains c (set_kube_node cfg c hs)
      (\<lambda>g. \<Union>h \<in> set hs. if g = ''kube-node'' \<and> works cfg c h then {optionxform h} else {})"
    unfolding set_kube_node_def
  proof (rule gains_loop [OF assms, where V = ?V])
    fix h c1
    assume st: "steady c ?V c1"
    have eqs: "section_len c1 ''all'' = Inr n"
      "has_option c1 ''etcd'' h = has_option c ''etcd'' h"
      "has_option c1 ''kube-master'' h = has_option c ''kube-master'' h"
      using steady_lookups [OF st] n by simp_all
    obtain c2 where "add_host_to_group c1 ''kube-node'' h [] = Inr c2" "steady c ?V c2"
      "adds c1 c2 (\<lambda>g. if g = ''kube-node'' then {optionxform h} else {})"
      using steady_add_host [OF st, of "''kube-node''" "[]" h] by auto
    with st eqs n show "\<exists>c2. rbind (section_len c1 ''all'') (\<lambda>n.
         if int n \<ge> scale_threshold cfg \<and> has_option c1 ''etcd'' h then Inr c1
         else if int n \<ge> massive_scale_threshold cfg \<and> has_option c1 ''kube-master'' h then Inr c1
         else add_host_to_group c1 ''kube-node'' h []) = Inr c2 \<and>
        adds c1 c2 (\<lambda>g. if g = ''kube-node'' \<and> works cfg c h then {optionxform h} else {}) \<and>
        steady c ?V c2"
      by (cases "works cfg c h") (auto simp: works_def adds_refl)
  qed
  then show ?thesis by (rule gains_cong) auto
qed

section \<open>The purge\<close>

text \<open>Every section proper keeps the entries under a valid or protected name, in order.\<close>

definition purged :: "config \<Rightarrow> config \<Rightarrow> string list \<Rightarrow> bool" where
  "purged c c' keep =
     (defaults c' = defaults c \<and> dict_keys (sections c') = dict_keys (sections c) \<and>
      (\<forall>g d. dict_get (sections c) g = Some d \<longrightarrow>
         dict_get (sections c') g = Some (filter (\<lambda>(h, v). h \<in> set keep) d)))"

lemma purge_section:
  assumes "cfg_view c g = Some d"
  shows "rfold (\<lambda>c (h, _). if bad h then remove_option c g h else Inr c) c items =
           Inr (cfg_upd c g (filter (\<lambda>(k, v). \<forall>h \<in> fst ` set items. bad h \<longrightarrow> optionxform h \<noteq> k) d))"
  using assms
proof (induction items arbitrary: c d)
  case Nil
  then show ?case by (simp add: cfg_upd_same)
next
  case (Cons x items)
  obtain h v where x: "x = (h, v)" by force
  let ?d = "if bad h then dict_del d (optionxform h) else d"
  have "dict_del d k = d" if "\<not> dict_has d k" for k
    using that by (auto simp: dict_has_def dict_keys_def dict_del_filter intro!: filter_True)
  then have step: "(if bad h then remove_option c g h else Inr c) = Inr (cfg_upd c g ?d)"
    using Cons.prems by (auto simp: remove_option_def cfg_upd_same)
  have "cfg_view (cfg_upd c g ?d) g = Some ?d" by (simp add: cfg_view_upd)
  from Cons.IH [OF this] step x show ?case
    by (auto simp: cfg_upd_upd dict_del_filter intro!: arg_cong [where f = "cfg_upd c g"] filter_cong)
qed

abbreviation keep_names :: "string list \<Rightarrow> options \<Rightarrow> options" where
  "keep_names keep d \<equiv> filter (\<lambda>(h, v). h \<in> set keep) d"

lemma dict_keys_keep: "dict_keys (keep_names keep d) = filter (\<lambda>h. h \<in> set keep) (dict_keys d)"
  by (induction d) auto

lemma options_ok_keep: "options_ok d \<Longrightarrow> options_ok (keep_names keep d)"
  by (simp add: options_ok_def dict_ok_def dict_keys_keep)

lemma plain_options_keep: "plain_options d \<Longrightarrow> plain_options (keep_names keep d)"
  by (simp add: plain_options_def)

lemma dict_update_keys: "set (dict_keys (dict_update d e)) = set (dict_keys d) \<union> fst ` set e"
  by (simp add: dict_update_def pd.keys_put_all_set)

lemma purge_step:
  assumes "config_ok c" "config_plain c" "dict_get (sections c) g = Some d"
  shows "rbind (cfg_items c g) (\<lambda>items.
           rfold (\<lambda>c (host, _).
             if host \<notin> set names \<and> host \<notin> set prot then remove_option c g host else Inr c) c items)
         = Inr (cfg_upd c g (keep_names (names @ prot) d))"
proof -
  let ?bad = "\<lambda>h. h \<notin> set names \<and> h \<notin> set prot"
  have g: "proper g" "options_ok d" using config_ok_section [OF assms(1,3)] by simp_all
  then have v: "cfg_view c g = Some d" using assms(3) by (simp add: cfg_view_def proper_def)
  obtain items where items: "cfg_items c g = Inr items"
    and names: "map fst items = dict_keys (dict_update (defaults c) d)"
    using items_ok [OF assms(2) _ g(1)] v by (auto simp: has_group_def)
  have keys: "fst ` set items = set (dict_keys (defaults c)) \<union> set (dict_keys d)"
    using arg_cong [OF names, of set] by (simp add: dict_update_keys) (simp add: dict_keys_def)
  have normal: "\<forall>h \<in> fst ` set items. optionxform h = h"
    using g(2) assms(1) unfolding keys by (auto simp: options_ok_def config_ok_def)
  have "filter (\<lambda>(k, v). \<forall>h \<in> fst ` set items. ?bad h \<longrightarrow> optionxform h \<noteq> k) d =
      keep_names (names @ prot) d"
  proof (rule filter_cong)
    fix e
    assume e: "e \<in> set d"
    obtain k w where kw: "e = (k, w)" by force
    from e kw have "k \<in> fst ` set items" unfolding keys by (force simp: dict_keys_def)
    then have "(\<forall>h \<in> fst ` set items. ?bad h \<longrightarrow> optionxform h \<noteq> k) \<longleftrightarrow> \<not> ?bad k"
      using normal by metis
    then show "(case e of (k, v) \<Rightarrow> \<forall>h \<in> fst ` set items. ?bad h \<longrightarrow> optionxform h \<noteq> k) =
        (case e of (h, v) \<Rightarrow> h \<in> set (names @ prot))"
      unfolding kw by simp
  qed simp
  with purge_section [OF v, of ?bad items] items show ?thesis by simp
qed

lemma purge_sections:
  assumes "config_ok c" "config_plain c" "distinct gs" "set gs \<subseteq> set (dict_keys (sections c))"
  shows "\<exists>c'. rfold (\<lambda>c role.
       rbind (cfg_items c role) (\<lambda>items.
         rfold (\<lambda>c (host, _).
           if host \<notin> set names \<and> host \<notin> set prot
           then remove_option c role host else Inr c) c items)) c gs = Inr c' \<and>
     config_ok c' \<and> config_plain c' \<and> defaults c' = defaults c \<and>
     dict_keys (sections c') = dict_keys (sections c) \<and>
     (\<forall>g. dict_get (sections c') g =
        (if g \<in> set gs then map_option (keep_names (names @ prot)) (dict_get (sections c) g)
         else dict_get (sections c) g))"
  using assms
proof (induction gs arbitrary: c)
  case Nil
  then show ?case by simp
next
  case (Cons g gs)
  then obtain d where d: "dict_get (sections c) g = Some d" by (auto simp: pd.keys_iff)
  let ?d = "keep_names (names @ prot) d" and ?c = "cfg_upd c g (keep_names (names @ prot) d)"
  have g: "proper g" "options_ok d" using config_ok_section [OF Cons.prems(1) d] by simp_all
  then have "cfg_view c g = Some d" using d by (simp add: cfg_view_def proper_def)
  then have "config_plain ?c"
    using Cons.prems(2) by (intro upd_plain plain_options_keep view_plain)
  moreover have "config_ok ?c" using Cons.prems(1) g by (intro config_ok_upd options_ok_keep)
  moreover have "g \<in> set (dict_keys (sections c))" using Cons.prems(4) by simp
  then have "dict_keys (sections ?c) = dict_keys (sections c)" using g by (simp add: sections_upd)
  moreover have gs: "distinct gs" "set gs \<subseteq> set (dict_keys (sections c))" "g \<notin> set gs"
    using Cons.prems by simp_all
  ultimately have "distinct gs" "set gs \<subseteq> set (dict_keys (sections ?c))"
    "config_ok ?c" "config_plain ?c" and keys: "dict_keys (sections ?c) = dict_keys (sections c)"
    by simp_all
  from Cons.IH [OF this(3,4,1,2)] obtain c' where c':
    "rfold (\<lambda>c role. rbind (cfg_items c role) (\<lambda>items.
         rfold (\<lambda>c (host, _). if host \<notin> set names \<and> host \<notin> set prot
           then remove_option c role host else Inr c) c items)) ?c gs = Inr c'"
    "config_ok c'" "config_plain c'" "defaults c' = defaults ?c"
    "dict_keys (sections c') = dict_keys (sections ?c)"
    and get: "\<forall>g. dict_get (sections c') g =
        (if g \<in> set gs then map_option (keep_names (names @ prot)) (dict_get (sections ?c) g)
         else dict_get (sections ?c) g)"
    by blast
  have "dict_get (sections c') g' =
      (if g' \<in> set (g # gs) then map_option (keep_names (names @ prot)) (dict_get (sections c) g')
       else dict_get (sections c) g')" for g'
    using get g gs(3) d by (cases "g' = g") (simp_all add: sections_upd)
  moreover have "defaults ?c = defaults c" using g by (simp add: sections_upd)
  ultimately show ?case
    using c' keys by (intro exI [of _ c']) (simp add: purge_step [OF Cons.prems(1,2) d])
qed

lemma purge_invalid_hosts_purged:
  assumes "config_ok c" "config_plain c"
  shows "\<exists>c'. purge_invalid_hosts c names prot = Inr c' \<and> purged c c' (names @ prot) \<and>
           config_ok c' \<and> config_plain c'"
proof -
  have "distinct (dict_keys (sections c))" using assms(1) by (simp add: config_ok_def dict_ok_def)
  from purge_sections [OF assms this, of names prot] show ?thesis
    unfolding purge_invalid_hosts_def cfg_sections_def
    by (auto simp: purged_def pd.keys_iff)
qed

end
