(* ===== verification/Inventory_Assign.thy ===== *)
theory Inventory_Assign
  imports Inventory_Groups
begin

text \<open>
  What the constructor's group assignment promises: for every group, the names that survive the purge
  and the names the roles give it (\<open>assigned\<close>). From that come the separation of etcd, masters and
  workers at scale, and the case where it is lost: roles are only ever added to a valid host.
\<close>

section \<open>The specification\<close>

text \<open>The names of a group that the purge leaves.\<close>

definition kept :: "config \<Rightarrow> string list \<Rightarrow> string \<Rightarrow> string set" where
  "kept c names g = set (members c g) \<inter> (set names \<union> set PROTECTED_NAMES)"

text \<open>The same names in the order the group has them.\<close>

definition kept_list :: "config \<Rightarrow> string list \<Rightarrow> string \<Rightarrow> string list" where
  "kept_list c names g = filter (\<lambda>h. h \<in> set names \<union> set PROTECTED_NAMES) (members c g)"

definition at_scale :: "settings \<Rightarrow> string list \<Rightarrow> bool" where
  "at_scale cfg names = (int (length names) \<ge> scale_threshold cfg)"

definition at_massive_scale :: "settings \<Rightarrow> string list \<Rightarrow> bool" where
  "at_massive_scale cfg names = (int (length names) \<ge> massive_scale_threshold cfg)"

definition etcds :: "string list \<Rightarrow> string set" where
  "etcds names = set (take 3 names)"

definition masters :: "settings \<Rightarrow> string list \<Rightarrow> string set" where
  "masters cfg names =
     (if at_scale cfg names then set (take 2 (drop 3 names)) else set (take 2 names))"

definition workers :: "settings \<Rightarrow> config \<Rightarrow> string list \<Rightarrow> string set" where
  "workers cfg c names =
     {h \<in> set names.
        \<not> (at_scale cfg names \<and> h \<in> kept c names ''etcd'' \<union> etcds names) \<and>
        \<not> (at_massive_scale cfg names \<and> h \<in> kept c names ''kube-master'' \<union> masters cfg names)}"

definition assigned :: "settings \<Rightarrow> config \<Rightarrow> string list \<Rightarrow> string \<Rightarrow> string set" where
  "assigned cfg c names g =
     (if g = ''all'' then set names
      else if g \<in> {''etcd'', ''vault''} then etcds names
      else if g = ''kube-master'' then masters cfg names
      else if g = ''kube-node'' then workers cfg c names
      else if g = ''k8s-cluster:children'' then {''kube-node'', ''kube-master''}
      else if g = ''calico-rr'' \<and> at_scale cfg names then etcds names
      else {})"

text \<open>A host table the configuration can hold as it is: distinct names in normal form, plain options.\<close>

definition hosts_ok :: "hosts \<Rightarrow> bool" where
  "hosts_ok hs =
     (dict_ok hs \<and> (\<forall>(h, os) \<in> set hs. optionxform h = h \<and> CHR ''%'' \<notin> set os))"

section \<open>The steps\<close>

lemma hosts_ok_normal:
  assumes "hosts_ok hs" "set xs \<subseteq> set (dict_keys hs)"
  shows "optionxform ` set xs = set xs"
proof -
  have "optionxform h = h" if "h \<in> set xs" for h
    using that assms by (fastforce simp: hosts_ok_def dict_keys_def)
  then show ?thesis by force
qed

lemma protected_no_id: "p \<in> set PROTECTED_NAMES \<Longrightarrow> \<not> is_ok (get_host_id p)"
proof -
  have "list_all (\<lambda>p. \<not> is_ok (get_host_id p)) PROTECTED_NAMES" by code_simp
  then show "p \<in> set PROTECTED_NAMES \<Longrightarrow> \<not> is_ok (get_host_id p)" by (simp add: list_all_iff)
qed

text \<open>Once the host table is built, no name of the \<open>all\<close> group is a protected one.\<close>

lemma all_not_protected:
  assumes "build_hostnames cfg c ws = Inr hosts" "good c" "defaults c = []" "h \<in> set (members c ''all'')"
  shows "h \<notin> set PROTECTED_NAMES"
proof -
  obtain d where v: "cfg_view c ''all'' = Some d" and d: "h \<in> set (dict_keys d)"
    using assms(4) by (cases "cfg_view c ''all''") (simp_all add: members_def)
  obtain items where items: "cfg_items c ''all'' = Inr items"
    and keys: "map fst items = dict_keys (dict_update (defaults c) d)"
    using items_ok [of c "''all''"] assms(2) v by (auto simp: good_def)
  have "h \<in> fst ` set items"
    using arg_cong [OF keys, of set] d by (simp add: dict_update_keys assms(3)) (simp add: dict_keys_def)
  moreover obtain hs hi where "existing_hosts c = Inr (hs, hi)"
    using assms(1) by (auto simp: build_hostnames_def rbind_eq_Inr_iff)
  then have "rfold scan_host ([], 0) items = Inr (hs, hi)" by (simp add: existing_hosts_def items)
  ultimately have "is_ok (get_host_id h)" using scan_hosts by (fastforce simp: is_ok_iff)
  then show ?thesis using protected_no_id by blast
qed

lemma purge_good:
  assumes "good c"
  shows "\<exists>c'. purge_invalid_hosts c names prot = Inr c' \<and> good c' \<and> defaults c' = defaults c \<and>
           (\<forall>g. proper g \<longrightarrow> has_group c' g = has_group c g \<and>
                set (members c' g) = set (members c g) \<inter> set (names @ prot) \<and>
                cfg_view c' g = map_option (keep_names (names @ prot)) (cfg_view c g))"
proof -
  from assms obtain c' where c': "purge_invalid_hosts c names prot = Inr c'"
    "purged c c' (names @ prot)" "config_ok c'" "config_plain c'"
    using purge_invalid_hosts_purged [of c names prot] unfolding good_def by blast
  have p: "has_group c' g = has_group c g \<and>
      set (members c' g) = set (members c g) \<inter> set (names @ prot) \<and>
      cfg_view c' g = map_option (keep_names (names @ prot)) (cfg_view c g)" if "proper g" for g
  proof (cases "dict_get (sections c) g")
    case None
    have "dict_keys (sections c') = dict_keys (sections c)" using c'(2) by (simp add: purged_def)
    with None have "dict_get (sections c') g = None"
      using pd.keys_iff [of g "sections c"] pd.keys_iff [of g "sections c'"] by simp
    with None that show ?thesis
      by (simp add: has_group_def members_def cfg_view_def proper_def)
  next
    case (Some d)
    then have "dict_get (sections c') g = Some (keep_names (names @ prot) d)"
      using c'(2) by (simp add: purged_def)
    with Some that show ?thesis
      by (auto simp: has_group_def members_def cfg_view_def proper_def dict_keys_keep
          simp del: set_append)
  qed
  moreover from p roles_proper assms c' have "good c'" by (auto simp: good_def)
  ultimately show ?thesis using c' by (auto simp: purged_def)
qed

lemma members_group: "has_group c g \<Longrightarrow> \<exists>d. cfg_view c g = Some d \<and> members c g = dict_keys d"
  by (auto simp: has_group_def members_def)

lemma has_option_members:
  assumes "good c" "defaults c = []" "g \<in> set ROLES" "optionxform h = h"
  shows "has_option c g h \<longleftrightarrow> h \<in> set (members c g)"
proof -
  obtain d where "cfg_view c g = Some d" "members c g = dict_keys d"
    using members_group assms by (metis good_def)
  with assms show ?thesis
    by (simp add: has_option_view roles_proper dict_has_def)
qed

lemma section_len_members:
  assumes "good c" "defaults c = []"
  shows "section_len c ''all'' = Inr (card (set (members c ''all'')))"
proof -
  obtain d where d: "cfg_view c ''all'' = Some d" "members c ''all'' = dict_keys d"
    using members_group assms by (metis good_def in_ROLES(1))
  then have "distinct (dict_keys d)"
    using assms view_options_ok by (auto simp: good_def options_ok_def dict_ok_def)
  moreover have "length d = length (dict_keys d)" by (simp add: dict_keys_def)
  ultimately show ?thesis
    using d assms by (simp add: section_len_view dict_update_def distinct_card)
qed

lemma works_members:
  assumes "good c" "defaults c = []" "optionxform h = h" "set (members c ''all'') = set names"
    "distinct names"
  shows "works cfg c h \<longleftrightarrow>
     \<not> (at_scale cfg names \<and> h \<in> set (members c ''etcd'')) \<and>
     \<not> (at_massive_scale cfg names \<and> h \<in> set (members c ''kube-master''))"
  using assms
  by (simp add: works_def section_len_members has_option_members at_scale_def at_massive_scale_def
      distinct_card)

section \<open>The whole assignment\<close>

definition master_list :: "settings \<Rightarrow> string list \<Rightarrow> string list" where
  "master_list cfg names = (if at_scale cfg names then take 2 (drop 3 names) else take 2 names)"

lemma masters_list: "masters cfg names = set (master_list cfg names)"
  by (simp add: masters_def master_list_def)

lemma master_list_subset: "set (master_list cfg names) \<subseteq> set names"
  by (auto simp: master_list_def dest: in_set_takeD in_set_dropD)

lemma etcds_subset: "etcds names \<subseteq> set names"
  by (auto simp: etcds_def dest: in_set_takeD)

lemma assign_groups_eq:
  "build_hostnames cfg c ws = Inr hosts \<Longrightarrow>
   assign_groups cfg c ws =
     (let names = dict_keys hosts in
       rbind (purge_invalid_hosts c names PROTECTED_NAMES) (\<lambda>c.
       rbind (set_all c hosts) (\<lambda>c.
       rbind (set_k8s_cluster c) (\<lambda>c.
       rbind (set_etcd c (take 3 names)) (\<lambda>c.
       rbind (set_kube_master c (master_list cfg names)) (\<lambda>c.
       rbind (set_kube_node cfg c names) (\<lambda>c.
       rbind (if at_scale cfg names then set_calico_rr c (take 3 names) else Inr c) (\<lambda>c.
         Inr (c, hosts)))))))))"
  by (simp add: assign_groups_def Let_def at_scale_def master_list_def dict_keys_def)

lemma calico_step:
  assumes "good c"
  shows "gains c (if b then set_calico_rr c hs else Inr c)
           (\<lambda>g. if g = ''calico-rr'' \<and> b then optionxform ` set hs else {})"
  using set_calico_rr_gains [OF assms, of hs] assms by (auto simp: gains_def adds_refl)

text \<open>The \<open>all\<close> group after the purge and \<open>set_all\<close>.\<close>

definition stored_all :: "config \<Rightarrow> hosts \<Rightarrow> options" where
  "stored_all c hosts =
     foldl (\<lambda>d (h, v). dict_set d (optionxform h) v)
       (keep_names (dict_keys hosts @ PROTECTED_NAMES) (the (cfg_view c ''all'')))
       (map (\<lambda>(h, os). (h, Some os)) hosts)"

lemma set_all_view:
  assumes "set_all c hosts = Inr c'" "cfg_view c ''all'' = Some d"
    and "\<forall>(h, os) \<in> set hosts. plain (Some os)"
  shows "cfg_view c' ''all'' =
    Some (foldl (\<lambda>d (h, v). dict_set d (optionxform h) v) d (map (\<lambda>(h, os). (h, Some os)) hosts))"
proof -
  let ?hs = "map (\<lambda>(h, os). (h, Some os)) hosts"
  have m: "rfold f s (map g xs) = rfold (\<lambda>s x. f s (g x)) s xs" for f g s and xs :: "'x list"
    by (induction xs arbitrary: s) simp_all
  have "set_all c hosts = rfold (\<lambda>c x. cfg_set c ''all'' (fst x) (Some (snd x))) c hosts"
    by (simp add: set_all_def add_host_to_group_def case_prod_beta')
  also have "\<dots> = rfold (\<lambda>c (h, v). cfg_set c ''all'' h v) c ?hs"
    unfolding m by (simp add: case_prod_beta')
  finally have "set_all c hosts = rfold (\<lambda>c (h, v). cfg_set c ''all'' h v) c ?hs" .
  moreover have "\<forall>(h, v) \<in> set ?hs. storable v" using assms(3) by (auto simp: storable_plain)
  ultimately show ?thesis using gs.put_all assms(1,2) by (auto simp: cfg_view_upd)
qed

text \<open>The state before \<open>set_kube_node\<close>: every group has its kept names and what it is given so far.\<close>

lemma assign_before_nodes:
  assumes b: "build_hostnames cfg c ws = Inr hosts" and c: "good c" "defaults c = []"
    and h: "hosts_ok hosts" and names: "names = dict_keys hosts"
  shows "\<exists>c5. good c5 \<and> defaults c5 = [] \<and>
     assign_groups cfg c ws =
       rbind (set_kube_node cfg c5 names) (\<lambda>c.
       rbind (if at_scale cfg names then set_calico_rr c (take 3 names) else Inr c) (\<lambda>c.
         Inr (c, hosts))) \<and>
     (\<forall>g. proper g \<longrightarrow> set (members c5 g) = kept c names g \<union>
        (if g \<in> {''kube-node'', ''calico-rr''} then {} else assigned cfg c names g)) \<and>
     (\<forall>g. proper g \<longrightarrow> prefix (kept_list c names g) (members c5 g)) \<and>
     cfg_view c5 ''all'' = Some (stored_all c hosts) \<and>
     (\<exists>c1. purge_invalid_hosts c names PROTECTED_NAMES = Inr c1 \<and>
        adds c1 c5 (\<lambda>g. if g \<in> {''kube-node'', ''calico-rr''} then {} else assigned cfg c names g))"
proof -
  have norm: "optionxform ` set (take 3 names) = etcds names"
    "optionxform ` set (master_list cfg names) = masters cfg names"
    "optionxform ` set (dict_keys hosts) = set names"
    using hosts_ok_normal [OF h] master_list_subset etcds_subset
    by (auto simp: names etcds_def masters_list)
  obtain c1 where c1: "purge_invalid_hosts c names PROTECTED_NAMES = Inr c1" "good c1"
    "defaults c1 = []"
    and m1: "\<And>g. proper g \<Longrightarrow> set (members c1 g) = kept c names g"
    and v1: "\<And>g. proper g \<Longrightarrow>
      cfg_view c1 g = map_option (keep_names (names @ PROTECTED_NAMES)) (cfg_view c g)"
    using purge_good [OF c(1), of names PROTECTED_NAMES] c(2) by (auto simp: kept_def)
  have k1: "members c1 g = kept_list c names g" if "proper g" for g
    using v1 [OF that] by (auto simp: members_def kept_list_def dict_keys_def filter_map comp_def case_prod_beta' split: option.split)
  note a1 = v1 [OF roles_proper [OF in_ROLES(1)]]
  have pl: "\<forall>(h, os) \<in> set hosts. plain (Some os)" using h by (auto simp: hosts_ok_def plain_def)
  from set_all_gains [OF c1(2) pl, unfolded norm(3)] obtain c2 where c2: "set_all c1 hosts = Inr c2" "good c2"
    "defaults c2 = []" "adds c1 c2 (\<lambda>g. if g = ''all'' then set names else {})"
    by (auto simp: gains_def c1(3))
  have "cfg_view c1 ''all'' \<noteq> None" using c1(2) by (simp add: good_def has_group_def)
  then have a2: "cfg_view c2 ''all'' = Some (stored_all c hosts)"
    using set_all_view [OF c2(1) _ pl] a1 by (auto simp: stored_all_def names)
  from set_k8s_cluster_gains [OF c2(2)] obtain c3 where c3: "set_k8s_cluster c2 = Inr c3" "good c3"
    "defaults c3 = []"
    "adds c2 c3 (\<lambda>g. if g = ''k8s-cluster:children'' then {''kube-node'', ''kube-master''} else {})"
    by (auto simp: gains_def c2(3))
  from set_etcd_gains [OF c3(2), of "take 3 names", unfolded norm(1)] obtain c4 where
    c4: "set_etcd c3 (take 3 names) = Inr c4" "good c4" "defaults c4 = []"
    "adds c3 c4 (\<lambda>g. if g \<in> {''etcd'', ''vault''} then etcds names else {})"
    by (auto simp: gains_def c3(3))
  from set_kube_master_gains [OF c4(2), of "master_list cfg names", unfolded norm(2)] obtain c5 where
    c5: "set_kube_master c4 (master_list cfg names) = Inr c5" "good c5" "defaults c5 = []"
    "adds c4 c5 (\<lambda>g. if g = ''kube-master'' then masters cfg names else {})"
    by (auto simp: gains_def c4(3))
  have "set (members c5 g) = kept c names g \<union>
      (if g \<in> {''kube-node'', ''calico-rr''} then {} else assigned cfg c names g)" if "proper g" for g
    using m1 [OF that] adds_members [OF c2(4), of g] adds_members [OF c3(4), of g]
      adds_members [OF c4(4), of g] adds_members [OF c5(4), of g]
    by (simp add: assigned_def)
  moreover have "prefix (kept_list c names g) (members c5 g)" if "proper g" for g
    using k1 [OF that] adds_prefix [OF c2(4), of g] adds_prefix [OF c3(4), of g]
      adds_prefix [OF c4(4), of g] adds_prefix [OF c5(4), of g]
    by (metis prefix_order.order_trans)
  moreover have "cfg_view c5 ''all'' = cfg_view c2 ''all''"
    using adds_view [OF c3(4), of "''all''"] adds_view [OF c4(4), of "''all''"]
      adds_view [OF c5(4), of "''all''"] by simp
  moreover have "adds c1 c5 (\<lambda>g. if g \<in> {''kube-node'', ''calico-rr''} then {} else assigned cfg c names g)"
    by (rule adds_cong [OF adds_trans [OF adds_trans [OF adds_trans [OF c2(4) c3(4)] c4(4)] c5(4)]])
       (simp add: assigned_def)
  ultimately show ?thesis
    using a2 c5(2,3) c1(1) c2(1) c3(1) c4(1) c5(1)
    by (intro exI [of _ c5]) (simp add: assign_groups_eq [OF b, folded names])
qed

lemma assign_groups_result:
  assumes "build_hostnames cfg c ws = Inr hosts" "good c" "defaults c = []" "hosts_ok hosts"
  shows "\<exists>c'. assign_groups cfg c ws = Inr (c', hosts) \<and> good c' \<and> defaults c' = [] \<and>
     (\<forall>g. proper g \<longrightarrow> set (members c' g) =
        kept c (dict_keys hosts) g \<union> assigned cfg c (dict_keys hosts) g) \<and>
     (\<forall>g. proper g \<longrightarrow> prefix (kept_list c (dict_keys hosts) g) (members c' g)) \<and>
     cfg_view c' ''all'' = Some (stored_all c hosts) \<and>
     (\<exists>c1. purge_invalid_hosts c (dict_keys hosts) PROTECTED_NAMES = Inr c1 \<and>
        adds c1 c' (assigned cfg c (dict_keys hosts)))"
proof -
  let ?names = "dict_keys hosts"
  obtain c5 where c5: "good c5" "defaults c5 = []"
    "assign_groups cfg c ws = rbind (set_kube_node cfg c5 ?names) (\<lambda>c.
       rbind (if at_scale cfg ?names then set_calico_rr c (take 3 ?names) else Inr c) (\<lambda>c.
         Inr (c, hosts)))"
    and m5: "\<And>g. proper g \<Longrightarrow> set (members c5 g) = kept c ?names g \<union>
      (if g \<in> {''kube-node'', ''calico-rr''} then {} else assigned cfg c ?names g)"
    and p5: "\<And>g. proper g \<Longrightarrow> prefix (kept_list c ?names g) (members c5 g)"
    and a5: "cfg_view c5 ''all'' = Some (stored_all c hosts)"
    and d5: "\<exists>c1. purge_invalid_hosts c ?names PROTECTED_NAMES = Inr c1 \<and>
      adds c1 c5 (\<lambda>g. if g \<in> {''kube-node'', ''calico-rr''} then {} else assigned cfg c ?names g)"
    using assign_before_nodes [OF assms refl] by blast
  have dist: "distinct ?names" using assms(4) by (simp add: hosts_ok_def dict_ok_def)
  have "set (members c ''all'') \<inter> set PROTECTED_NAMES = {}"
    using all_not_protected [OF assms(1-3)] by blast
  then have all: "set (members c5 ''all'') = set ?names"
    by (auto simp: m5 kept_def assigned_def)
  have norm: "optionxform h = h" if "h \<in> set ?names" for h
    using hosts_ok_normal [OF assms(4), of "[h]"] that by simp
  have w: "{h \<in> set ?names. works cfg c5 h} = workers cfg c ?names"
    using works_members [OF c5(1,2) norm all dist]
    by (auto simp: workers_def m5 assigned_def)
  have "workers cfg c ?names \<subseteq> set ?names" by (auto simp: workers_def)
  then have wn: "optionxform ` workers cfg c ?names = workers cfg c ?names" using norm by force
  from set_kube_node_gains [OF c5(1), of cfg ?names, unfolded w wn] obtain c6 where
    c6: "set_kube_node cfg c5 ?names = Inr c6" "good c6"
    "adds c5 c6 (\<lambda>g. if g = ''kube-node'' then workers cfg c ?names else {})" "defaults c6 = []"
    by (auto simp: gains_def c5(2))
  have en: "optionxform ` set (take 3 ?names) = etcds ?names"
    using norm etcds_subset [of ?names] by (force simp: etcds_def)
  from calico_step [OF c6(2), of "at_scale cfg ?names" "take 3 ?names", unfolded en] obtain c7 where
    c7: "(if at_scale cfg ?names then set_calico_rr c6 (take 3 ?names) else Inr c6) = Inr c7" "good c7"
    "adds c6 c7 (\<lambda>g. if g = ''calico-rr'' \<and> at_scale cfg ?names then etcds ?names else {})" "defaults c7 = []"
    by (auto simp: gains_def c6(4))
  have "set (members c7 g) = kept c ?names g \<union> assigned cfg c ?names g" if "proper g" for g
    using adds_members [OF c6(3), of g] adds_members [OF c7(3), of g] m5 [OF that]
    by (auto simp: assigned_def)
  moreover have "cfg_view c7 ''all'' = Some (stored_all c hosts)"
    using a5 adds_view [OF c6(3), of "''all''"] adds_view [OF c7(3), of "''all''"] by simp
  moreover have "prefix (kept_list c ?names g) (members c7 g)" if "proper g" for g
    using p5 [OF that] adds_prefix [OF c6(3), of g] adds_prefix [OF c7(3), of g]
    by (metis prefix_order.order_trans)
  moreover have "adds c1 c7 (assigned cfg c ?names)"
    if "adds c1 c5 (\<lambda>g. if g \<in> {''kube-node'', ''calico-rr''} then {} else assigned cfg c ?names g)" for c1
    by (rule adds_cong [OF adds_trans [OF adds_trans [OF that c6(3)] c7(3)]]) (simp add: assigned_def)
  ultimately show ?thesis using c5(3) d5 c6(1) c7(1,2,4) by auto
qed

text \<open>C3: After a run of the group assignment every group holds exactly the names it held that are
  still hosts (or are group names) and the names its role gives it: all hosts in \<open>all\<close>, the first three
  in \<open>etcd\<close> and \<open>vault\<close>, the masters, the workers, and the route reflectors at scale. The assignment
  does not raise on a configuration with plain values.\<close>

theorem assign_groups_members:
  assumes "build_hostnames cfg c ws = Inr hosts" "good c" "defaults c = []" "hosts_ok hosts"
  shows "\<exists>c'. assign_groups cfg c ws = Inr (c', hosts) \<and> good c' \<and>
     (\<forall>g. proper g \<longrightarrow> set (members c' g) =
        kept c (dict_keys hosts) g \<union> assigned cfg c (dict_keys hosts) g)"
  using assign_groups_result [OF assms] by blast

text \<open>The first run of the witnesses: the required groups, all empty, and three new addresses.\<close>

definition first_config :: config where
  "first_config = \<lparr>defaults = [], sections = map (\<lambda>g. (g, [])) ROLES\<rparr>"

definition first_words :: "string list" where
  "first_words = [''10.0.0.1'', ''10.0.0.2'', ''10.0.0.3'']"

definition first_hosts :: hosts where
  "first_hosts = [(''node1'', host_opts_of ''10.0.0.1''), (''node2'', host_opts_of ''10.0.0.2''),
                  (''node3'', host_opts_of ''10.0.0.3'')]"

definition small_scale :: "int \<Rightarrow> settings" where
  "small_scale n = demo_settings\<lparr>scale_threshold := n, massive_scale_threshold := n\<rparr>"

lemma first_groups: "ensure_required_groups new_config ROLES = Inr first_config"
  by code_simp

lemma first_good: "good first_config" "defaults first_config = []"
  by code_simp+

lemma first_build: "build_hostnames cfg first_config first_words = Inr first_hosts"
  if "host_prefix cfg = ''node''"
proof -
  have "existing_hosts first_config = Inr ([], 0)" by code_simp
  moreover have "rfold (change_host ''node'') ([], 1) first_words = Inr (first_hosts, 4)" by code_simp
  ultimately show ?thesis using that by (simp add: build_hostnames_eq)
qed

lemma first_hosts_ok: "hosts_ok first_hosts"
  by code_simp

lemma first_kept: "kept first_config names g = {}"
proof -
  have "members first_config g = []"
    by (auto simp: members_def first_config_def cfg_view_def dict_get_def ROLES_def split: if_splits)
  then show ?thesis by (simp add: kept_def)
qed

theorem assign_groups_members_witness:
  "\<exists>c'. assign_groups demo_settings first_config first_words = Inr (c', first_hosts) \<and>
     set (members c' ''kube-master'') = {''node1'', ''node2''}"
proof -
  have "assigned demo_settings first_config (dict_keys first_hosts) ''kube-master'' =
      {''node1'', ''node2''}"
    by (simp add: assigned_def masters_def at_scale_def demo_settings_def first_hosts_def)
  with assign_groups_members [OF first_build [OF demo_prefix] first_good first_hosts_ok] first_kept
  show ?thesis by (fastforce simp: roles_proper)
qed

section \<open>Separation at scale\<close>

lemma etcds_masters_disjoint:
  assumes "distinct names" "at_scale cfg names"
  shows "etcds names \<inter> masters cfg names = {}"
proof -
  have "set (take 2 (drop 3 names)) \<subseteq> set (drop 3 names)" by (rule set_take_subset)
  moreover have "set (take 3 names) \<inter> set (drop 3 names) = {}"
    using assms(1) by (rule set_take_disj_set_drop_if_distinct) simp
  ultimately show ?thesis using assms(2) by (auto simp: etcds_def masters_def)
qed

text \<open>C2: On an inventory whose role groups are empty of valid hosts, at the scale threshold no host is
  both etcd member and worker or both etcd member and master, and at the massive threshold no host is
  both master and worker.\<close>

theorem separation_at_scale:
  assumes "build_hostnames cfg c ws = Inr hosts" "good c" "defaults c = []" "hosts_ok hosts"
    and "at_scale cfg (dict_keys hosts)"
    and "\<forall>g \<in> {''etcd'', ''kube-master'', ''kube-node''}. kept c (dict_keys hosts) g = {}"
  shows "\<exists>c'. assign_groups cfg c ws = Inr (c', hosts) \<and>
     set (members c' ''etcd'') \<inter> set (members c' ''kube-node'') = {} \<and>
     set (members c' ''etcd'') \<inter> set (members c' ''kube-master'') = {} \<and>
     (at_massive_scale cfg (dict_keys hosts) \<longrightarrow>
        set (members c' ''kube-master'') \<inter> set (members c' ''kube-node'') = {})"
proof -
  let ?n = "dict_keys hosts"
  have "distinct ?n" using assms(4) by (simp add: hosts_ok_def dict_ok_def)
  note d = etcds_masters_disjoint [OF this assms(5)]
  from assign_groups_result [OF assms(1-4)] obtain c' where
    c': "assign_groups cfg c ws = Inr (c', hosts)"
    and m: "\<And>g. proper g \<Longrightarrow> set (members c' g) = kept c ?n g \<union> assigned cfg c ?n g" by blast
  have "set (members c' ''etcd'') = etcds ?n" "set (members c' ''kube-master'') = masters cfg ?n"
    "set (members c' ''kube-node'') = workers cfg c ?n"
    using assms(6) by (simp_all add: m assigned_def)
  with c' d assms(5) show ?thesis by (auto simp: workers_def)
qed

theorem separation_at_scale_witness:
  "\<exists>c'. assign_groups (small_scale 3) first_config first_words = Inr (c', first_hosts) \<and>
     set (members c' ''etcd'') \<inter> set (members c' ''kube-node'') = {}"
proof -
  have p: "host_prefix (small_scale 3) = ''node''" by (simp add: small_scale_def)
  have "at_scale (small_scale 3) (dict_keys first_hosts)"
    by (simp add: at_scale_def small_scale_def first_hosts_def)
  from separation_at_scale [OF first_build [OF p] first_good first_hosts_ok this] first_kept
  show ?thesis by blast
qed

text \<open>C32: Roles are only ever added: a host that was in a group and is still a host stays in it, so
  when an inventory grows over the threshold a first-three host that was a worker is worker and
  etcd member at once.\<close>

theorem old_workers_stay:
  assumes "build_hostnames cfg c ws = Inr hosts" "good c" "defaults c = []" "hosts_ok hosts"
    and "h \<in> etcds (dict_keys hosts)" "h \<in> set (members c ''kube-node'')"
  shows "\<exists>c'. assign_groups cfg c ws = Inr (c', hosts) \<and>
     h \<in> set (members c' ''etcd'') \<inter> set (members c' ''kube-node'')"
proof -
  let ?n = "dict_keys hosts"
  from assign_groups_result [OF assms(1-4)] obtain c' where
    c': "assign_groups cfg c ws = Inr (c', hosts)"
    and m: "\<And>g. proper g \<Longrightarrow> set (members c' g) = kept c ?n g \<union> assigned cfg c ?n g" by blast
  have "h \<in> set ?n" using assms(5) etcds_subset by blast
  with assms(5,6) have "h \<in> set (members c' ''etcd'') \<inter> set (members c' ''kube-node'')"
    by (simp add: m assigned_def kept_def)
  with c' show ?thesis by blast
qed

text \<open>Two hosts under a threshold of three, one of them a worker, before the third is added.\<close>

definition grown_config :: config where
  "grown_config = \<lparr>defaults = [],
     sections = (''all'', [(''node1'', Some (host_opts_of ''10.0.0.1''))]) #
                (''kube-node'', [(''node1'', Some [])]) #
                map (\<lambda>g. (g, [])) [''kube-master'', ''etcd'', ''k8s-cluster:children'',
                                    ''calico-rr'', ''vault'']\<rparr>"

theorem old_workers_stay_witness:
  "\<exists>c'. assign_groups (small_scale 3) grown_config [''10.0.0.2'', ''10.0.0.3''] = Inr (c', first_hosts) \<and>
     ''node1'' \<in> set (members c' ''etcd'') \<inter> set (members c' ''kube-node'')"
proof (rule old_workers_stay)
  show "build_hostnames (small_scale 3) grown_config [''10.0.0.2'', ''10.0.0.3''] = Inr first_hosts"
    by code_simp
  show "''node1'' \<in> etcds (dict_keys first_hosts)" by code_simp
  show "''node1'' \<in> set (members grown_config ''kube-node'')" by code_simp
qed (code_simp, code_simp, rule first_hosts_ok)

section \<open>The control plane\<close>

text \<open>C29: With a scale threshold above three, a host table with a host in it gets an etcd member and a
  master.\<close>

theorem control_plane_exists:
  assumes "build_hostnames cfg c ws = Inr hosts" "good c" "defaults c = []" "hosts_ok hosts"
    and "hosts \<noteq> []" "scale_threshold cfg > 3"
  shows "\<exists>c'. assign_groups cfg c ws = Inr (c', hosts) \<and>
     members c' ''etcd'' \<noteq> [] \<and> members c' ''kube-master'' \<noteq> []"
proof -
  let ?n = "dict_keys hosts"
  from assign_groups_result [OF assms(1-4)] obtain c' where
    c': "assign_groups cfg c ws = Inr (c', hosts)"
    and m: "\<And>g. proper g \<Longrightarrow> set (members c' g) = kept c ?n g \<union> assigned cfg c ?n g" by blast
  have ne: "?n \<noteq> []" using assms(5) by (cases hosts) auto
  have "masters cfg ?n \<noteq> {}" using ne assms(6) by (auto simp: masters_def at_scale_def)
  moreover have "etcds ?n \<noteq> {}" using ne by (simp add: etcds_def)
  ultimately have "set (members c' ''etcd'') \<noteq> {}" "set (members c' ''kube-master'') \<noteq> {}"
    by (simp_all add: m assigned_def)
  with c' show ?thesis by auto
qed

theorem control_plane_exists_witness:
  "\<exists>c'. assign_groups demo_settings first_config first_words = Inr (c', first_hosts) \<and>
     members c' ''etcd'' \<noteq> [] \<and> members c' ''kube-master'' \<noteq> []"
  by (rule control_plane_exists [OF first_build [OF demo_prefix] first_good first_hosts_ok])
     (simp_all add: first_hosts_def demo_settings_def)

section \<open>Where the code departs from its intent\<close>

text \<open>C33: The conflict check of the route reflectors never applies: every host handed to
  \<open>set_calico_rr\<close> ends up in \<open>calico-rr\<close>, also when it is a master or a worker.\<close>

theorem calico_check_is_dead:
  assumes "good c" "h \<in> set hs" "optionxform h = h"
    and "h \<in> set (members c ''kube-master'') \<union> set (members c ''kube-node'')"
  shows "\<exists>c'. set_calico_rr c hs = Inr c' \<and> h \<in> set (members c' ''calico-rr'') \<and>
           h \<in> set (members c' ''kube-master'') \<union> set (members c' ''kube-node'')"
proof -
  from set_calico_rr_gains [OF assms(1), of hs] obtain c' where
    c': "set_calico_rr c hs = Inr c'"
    and a: "adds c c' (\<lambda>g. if g = ''calico-rr'' then optionxform ` set hs else {})"
    by (auto simp: gains_def)
  have "h \<in> optionxform ` set hs" using assms(2,3) by force
  with c' assms(4) adds_members [OF a] show ?thesis by auto
qed

theorem calico_check_is_dead_witness:
  "\<exists>c'. set_calico_rr grown_config [''node1''] = Inr c' \<and> ''node1'' \<in> set (members c' ''calico-rr'') \<and>
     ''node1'' \<in> set (members c' ''kube-master'') \<union> set (members c' ''kube-node'')"
  by (rule calico_check_is_dead) code_simp+

text \<open>The two thresholds are read from the same variable: once \<open>SCALE_THRESHOLD\<close> is set they are
  equal, and \<open>MASSIVE_SCALE_THRESHOLD\<close> is never looked at.\<close>

lemma massive_threshold_is_scale_threshold:
  assumes "module_settings env = Inr cfg" "env ''SCALE_THRESHOLD'' = Some v"
  shows "massive_scale_threshold cfg = scale_threshold cfg \<and>
         module_settings (env(''MASSIVE_SCALE_THRESHOLD'' := w)) = Inr cfg"
  using assms
  by (auto simp: module_settings_def env_int_def env_get_def get_var_as_bool_def rbind_eq_Inr_iff)

lemma set_all_unstorable:
  "(h, os) \<in> set hosts \<Longrightarrow> \<not> storable (Some os) \<Longrightarrow> \<not> is_ok (set_all c hosts)"
proof (induction hosts arbitrary: c)
  case Nil
  then show ?case by simp
next
  case (Cons x hosts)
  then show ?case
    by (cases "add_host_to_group c ''all'' (fst x) (snd x)")
       (auto simp: set_all_def add_host_to_group_def dest: gs.put_Inr split: prod.splits)
qed

text \<open>A single escaped percent sign expands to a percent sign, which can only be stored as the start of
  a reference.\<close>

lemma interpolate_append:
  "depth \<le> 10 \<Longrightarrow> CHR ''%'' \<notin> set u \<Longrightarrow> interpolate m depth (u @ s) = rmap ((@) u) (interpolate m depth s)"
proof (induction u)
  case Nil
  then show ?case by (cases "interpolate m depth s") simp_all
next
  case (Cons x u)
  then have "interpolate m depth ((x # u) @ s) = rmap ((#) x) (interpolate m depth (u @ s))"
    by (subst interpolate.simps) auto
  with Cons show ?case by (cases "interpolate m depth s") simp_all
qed

lemma interpolate_escape:
  assumes "CHR ''%'' \<notin> set u \<union> set v"
  shows "interpolate m 1 (u @ ''%%'' @ v) = Inr (u @ ''%'' @ v)"
proof -
  have "interpolate m 1 (''%%'' @ v) = rmap ((#) (CHR ''%'')) (interpolate m 1 v)"
    by (subst interpolate.simps) simp
  then show ?thesis using assms by (simp add: interpolate_append interpolate_plain)
qed

lemma single_percent_unstorable:
  assumes "CHR ''%'' \<notin> set u \<union> set v" "key_ref v = None"
  shows "\<not> storable (Some (u @ ''%'' @ v))"
proof -
  have "drop_escapes (CHR ''%'' # v) = CHR ''%'' # v"
    using assms(1) drop_escapes_plain [of v] by (cases v) auto
  moreover have "drop_escapes (u @ s) = u @ drop_escapes s" if "CHR ''%'' \<notin> set u" for u s
    using that
  proof (induction u)
    case (Cons x u)
    then show ?case by (cases "u @ s") auto
  qed simp
  moreover have "drop_refs (u @ s) = u @ drop_refs s" if "CHR ''%'' \<notin> set u" for u s
    using that by (induction u) auto
  ultimately show ?thesis
    using assms by (simp add: storable_def check_value_def before_set_def is_ok_def)
qed

lemma rmap_Inl_iff: "rmap f r = Inl e \<longleftrightarrow> r = Inl e"
  by (cases r) simp_all

lemma interpolate_section: "interpolate m depth s \<noteq> Inl (NoSectionError g)"
proof (induction m depth s rule: interpolate.induct)
  case (1 m depth s)
  show ?case
  proof (cases "depth > 10 \<or> s = [] \<or> tl s = [] \<or> hd s \<noteq> CHR ''%''")
    case True
    have "interpolate m depth (tl s) \<noteq> Inl (NoSectionError g)"
      if "\<not> depth > 10" "s \<noteq> []" "hd s \<noteq> CHR ''%''"
      using 1(1) [of "hd s" "tl s"] that by simp
    then show ?thesis
      using True by (cases s; cases "tl s"; subst interpolate.simps) (auto simp add: rmap_Inl_iff)
  next
    case False
    then obtain d u where s: "s = CHR ''%'' # d # u" "\<not> depth > 10"
      by (cases s; cases "tl s") auto
    show ?thesis
    proof (cases "d = CHR ''%'' \<or> key_ref (d # u) = None")
      case True
      then show ?thesis
        using 1(2) [OF s(2,1)] s by (subst interpolate.simps) (auto simp: rmap_Inl_iff)
    next
      case False
      then obtain k w where k: "key_ref (d # u) = Some (k, w)" "d \<noteq> CHR ''%''" by auto
      have w: "interpolate m depth w \<noteq> Inl (NoSectionError g)" if "dict_get m (optionxform k) = Some (Some v)" for v
        using 1(4) [OF s(2,1) _ refl k(2,1) refl that refl] by simp
      have v: "CHR ''%'' \<in> set v \<Longrightarrow> interpolate m (Suc depth) v \<noteq> Inl (NoSectionError g)"
        if "dict_get m (optionxform k) = Some (Some v)" for v
        using 1(3) [OF s(2,1) _ refl k(2,1) refl that refl] by simp
      show ?thesis
        using s k w v
        by (subst interpolate.simps) (auto simp: rmap_Inl_iff rbind_def split: option.split sum.split)
    qed
  qed
qed

lemma items_section: "rmapM (\<lambda>(k, v). rmap (Pair k) (before_get m v)) d \<noteq> Inl (NoSectionError g)"
  using interpolate_section [of m 1]
  by (induction d) (auto simp: rmap_Inl_iff rbind_def before_get_def split: sum.split option.splits)

lemma items_get:
  assumes "rmapM (\<lambda>(k, v). rmap (Pair k) (f v)) d = Inr es"
  shows "dict_keys es = dict_keys d \<and>
     (\<forall>h v. dict_get d h = Some v \<longrightarrow> (\<exists>x. f v = Inr x \<and> dict_get es h = Some x))"
  using assms
  by (induction d arbitrary: es) (auto simp: rbind_eq_Inr_iff rmap_eq_Inr_iff)

lemma existing_hosts_get:
  assumes "existing_hosts c = Inr (hs, hi)" "config_ok c" "defaults c = []"
    and "cfg_view c ''all'' = Some d" "dict_get d h = Some v"
  shows "dict_ok hs \<and> (\<exists>x. before_get d v = Inr x \<and> dict_get hs h = Some x)"
proof -
  have d: "dict_ok d" using view_options_ok [OF assms(2,4)] by (simp add: options_ok_def)
  have "dict_get (sections c) ''all'' = Some d"
    using assms(4) by (simp add: cfg_view_def default_section_def)
  then have i: "cfg_items c ''all'' = rmapM (\<lambda>(k, v). rmap (Pair k) (before_get d v)) d"
    using assms(3) d by (simp add: cfg_items_def dict_update_fresh)
  obtain es where es: "cfg_items c ''all'' = Inr es" "rfold scan_host ([], 0) es = Inr (hs, hi)"
    using assms(1) items_section [of d d] unfolding i [symmetric]
    by (cases "cfg_items c ''all''") (auto simp: existing_hosts_def split: py_error.splits)
  have g: "dict_keys es = dict_keys d" "\<exists>x. before_get d v = Inr x \<and> dict_get es h = Some x"
    using items_get i es(1) assms(5) by metis+
  then have "dict_ok es" using d by (simp add: dict_ok_def)
  moreover have "hs = dict_update [] es" using scan_hosts [OF es(2)] by blast
  ultimately show ?thesis using g(2) by (simp add: dict_update_fresh)
qed

text \<open>C34: Options are stored as they were expanded: when an option string of the \<open>all\<close> group holds one
  escaped percent sign (not before a reference), no command line that keeps its host gets through the
  group assignment, which raises before anything is written.\<close>

theorem expanded_percent_not_storable:
  assumes "config_ok c" "defaults c = []" "cfg_view c ''all'' = Some d"
    and "dict_get d h = Some (Some (u @ ''%%'' @ v))" "CHR ''%'' \<notin> set u \<union> set v" "key_ref v = None"
    and "CHR ''.'' \<notin> set (host_prefix cfg)" "\<not> named_for_deletion h (u @ ''%'' @ v) ws"
  shows "\<not> is_ok (assign_groups cfg c ws)"
proof
  assume "is_ok (assign_groups cfg c ws)"
  then obtain hosts c1 where b: "build_hostnames cfg c ws = Inr hosts" and s: "is_ok (set_all c1 hosts)"
    by (auto simp: assign_groups_def Let_def is_ok_iff rbind_eq_Inr_iff)
  then obtain hs hi where e: "existing_hosts c = Inr (hs, hi)"
    by (auto simp: build_hostnames_def rbind_eq_Inr_iff)
  from existing_hosts_get [OF e assms(1-4)] have "dict_ok hs" "dict_get hs h = Some (u @ ''%'' @ v)"
    using interpolate_escape [OF assms(5)] by (auto simp: before_get_def)
  from build_hostnames_keeps [OF e this assms(7,8) b] have "(h, u @ ''%'' @ v) \<in> set hosts"
    by (rule dict_get_Some_in)
  from set_all_unstorable [OF this single_percent_unstorable [OF assms(5,6)]] s show False by blast
qed

definition percent_config :: config where
  "percent_config = \<lparr>defaults = [],
     sections = [(''all'', [(''node1'', Some ''ansible_host=10.0.0.1 ip=10.0.0.1 pw=a%%b'')])]\<rparr>"

theorem expanded_percent_not_storable_witness:
  "\<not> is_ok (assign_groups demo_settings percent_config [''10.0.0.2'', ''-10.0.0.3''])"
proof (rule expanded_percent_not_storable)
  show "cfg_view percent_config ''all'' =
      Some [(''node1'', Some ''ansible_host=10.0.0.1 ip=10.0.0.1 pw=a%%b'')]" by code_simp
  show "dict_get [(''node1'', Some ''ansible_host=10.0.0.1 ip=10.0.0.1 pw=a%%b'')] ''node1'' =
      Some (Some (''ansible_host=10.0.0.1 ip=10.0.0.1 pw=a'' @ ''%%'' @ ''b''))" by simp
qed code_simp+

text \<open>The purge leaves in every section exactly the entries whose name is a valid host or a group
  name, with their values and order, touches no default, and does not raise on plain values.\<close>

lemma purge_exact:
  assumes "config_ok c" "config_plain c"
  shows "\<exists>c'. purge_invalid_hosts c names PROTECTED_NAMES = Inr c' \<and> defaults c' = defaults c \<and>
     cfg_sections c' = cfg_sections c \<and>
     (\<forall>g d. dict_get (sections c) g = Some d \<longrightarrow>
        dict_get (sections c') g =
          Some (filter (\<lambda>(h, v). h \<in> set names \<or> h \<in> set PROTECTED_NAMES) d))"
  using purge_invalid_hosts_purged [OF assms, of names PROTECTED_NAMES]
  by (auto simp: purged_def cfg_sections_def)

end
