(* ===== verification/Ini_File.thy ===== *)
theory Ini_File
  imports Ini_Config
begin

text \<open>
  The file the inventory builder keeps its configuration in: \<open>ConfigParser.write\<close> and
  \<open>ConfigParser.read\<close> for the delimiters tab and space, comments, continuation lines and duplicate
  checks included, and the round trip between them: reading back what was written gives the same
  sections and options, where an empty value has become no value.
\<close>

abbreviation newline :: char where
  "newline \<equiv> CHR 0x0A"

section \<open>Writing\<close>

text \<open>The delimiter between an option and its value: the first delimiter with a space on each side.\<close>

definition write_delimiter :: string where
  "write_delimiter = [CHR '' '', CHR 0x09, CHR '' '']"

definition option_line :: "string \<times> string option \<Rightarrow> string" where
  "option_line kv =
     (case kv of (k, v) \<Rightarrow>
        k @ (case v of None \<Rightarrow> []
             | Some s \<Rightarrow> write_delimiter @ replace_char newline [newline, CHR 0x09] s))"

definition section_lines :: "string \<Rightarrow> options \<Rightarrow> string list" where
  "section_lines g d = [CHR ''['' # g @ '']''] @ map option_line d @ [[]]"

definition write_lines :: "config \<Rightarrow> string list" where
  "write_lines c =
     (if defaults c \<noteq> [] then section_lines default_section (defaults c) else []) @
     concat (map (\<lambda>(g, d). section_lines g d) (sections c))"

definition cfg_write :: "config \<Rightarrow> string" where
  "cfg_write c = concat (map (\<lambda>l. l @ [newline]) (write_lines c))"

section \<open>Reading\<close>

type_synonym raw_options = "(string, string list option) dict"

record reader =
  rd_defaults :: raw_options
  rd_sections :: "(string, raw_options) dict"
  cursect :: "string option"
  optname :: "string option"
  indent_level :: nat
  elements_added :: "(string \<times> string option) list"

definition new_reader :: reader where
  "new_reader = \<lparr>rd_defaults = [], rd_sections = [], cursect = None, optname = None,
     indent_level = 0, elements_added = []\<rparr>"

definition raw_get :: "reader \<Rightarrow> string \<Rightarrow> raw_options" where
  "raw_get r g =
     (if g = default_section then rd_defaults r
      else case dict_get (rd_sections r) g of None \<Rightarrow> [] | Some d \<Rightarrow> d)"

definition raw_put :: "reader \<Rightarrow> string \<Rightarrow> raw_options \<Rightarrow> reader" where
  "raw_put r g d =
     (if g = default_section then r\<lparr>rd_defaults := d\<rparr>
      else r\<lparr>rd_sections := dict_set (rd_sections r) g d\<rparr>)"

text \<open>An empty line is part of the current value, if there is one.\<close>

definition blank_line :: "reader \<Rightarrow> reader" where
  "blank_line r =
     (case (cursect r, optname r) of
        (Some g, Some k) \<Rightarrow>
          (case dict_get (raw_get r g) k of
             Some (Some l) \<Rightarrow> raw_put r g (dict_set (raw_get r g) k (Some (l @ [[]])))
           | _ \<Rightarrow> r)
      | _ \<Rightarrow> r)"

definition continue_value :: "reader \<Rightarrow> string \<Rightarrow> string \<Rightarrow> string \<Rightarrow> reader res" where
  "continue_value r g k value =
     (case dict_get (raw_get r g) k of
        Some (Some l) \<Rightarrow> Inr (raw_put r g (dict_set (raw_get r g) k (Some (l @ [value]))))
      | Some None \<Rightarrow> Inl AttributeError
      | None \<Rightarrow> Inl (KeyError k))"

text \<open>The section header at the start of a line: what stands between an opening bracket and the last
  closing one, if it is not empty.\<close>

definition section_header :: "string \<Rightarrow> string option" where
  "section_header value =
     (case value of
        [] \<Rightarrow> None
      | c # t \<Rightarrow>
          (let g = rev (tl (dropWhile (\<lambda>c. c \<noteq> CHR '']'') (rev t)))
           in if c = CHR ''['' \<and> CHR '']'' \<in> set t \<and> g \<noteq> [] then Some g else None))"

definition open_section :: "reader \<Rightarrow> string \<Rightarrow> reader res" where
  "open_section r g =
     (if dict_has (rd_sections r) g then
        (if (g, None) \<in> set (elements_added r) then Inl (DuplicateSectionError g)
         else Inr (r\<lparr>cursect := Some g, optname := None,
                     elements_added := (g, None) # elements_added r\<rparr>))
      else if g = default_section then Inr (r\<lparr>cursect := Some g, optname := None\<rparr>)
      else Inr (r\<lparr>rd_sections := dict_set (rd_sections r) g [], cursect := Some g, optname := None,
                  elements_added := (g, None) # elements_added r\<rparr>))"

definition is_delimiter :: "char \<Rightarrow> bool" where
  "is_delimiter c = (c = CHR 0x09 \<or> c = CHR '' '')"

definition read_option :: "reader \<Rightarrow> string \<Rightarrow> string \<Rightarrow> reader res" where
  "read_option r g value =
     (let k = optionxform (rstrip (takeWhile (\<lambda>c. \<not> is_delimiter c) value));
          rest = dropWhile (\<lambda>c. \<not> is_delimiter c) value;
          v = (if rest = [] then None else Some [strip rest])
      in if (g, Some k) \<in> set (elements_added r) then Inl (DuplicateOptionError g k)
         else Inr (raw_put (r\<lparr>optname := Some k, elements_added := (g, Some k) # elements_added r\<rparr>)
                     g (dict_set (raw_get r g) k v)))"

definition header_or_option :: "reader \<Rightarrow> string \<Rightarrow> reader res" where
  "header_or_option r value =
     (case section_header value of
        Some g \<Rightarrow> open_section r g
      | None \<Rightarrow>
          (case cursect r of
             None \<Rightarrow> Inl (MissingSectionHeaderError value)
           | Some g \<Rightarrow> read_option r g value))"

definition read_line :: "reader \<Rightarrow> string \<Rightarrow> reader res" where
  "read_line r line =
     (let t = strip line;
          comment = (t \<noteq> [] \<and> hd t \<in> {CHR ''#'', CHR '';''});
          ind = length (takeWhile is_space line)
      in if comment then Inr r
         else if t = [] then Inr (blank_line r)
         else case (cursect r, optname r) of
                (Some g, Some k) \<Rightarrow>
                  if ind > indent_level r then continue_value r g k t
                  else header_or_option (r\<lparr>indent_level := ind\<rparr>) t
              | _ \<Rightarrow> header_or_option (r\<lparr>indent_level := ind\<rparr>) t)"

text \<open>\<open>_join_multiline_values\<close>.\<close>

definition join_value :: "string list option \<Rightarrow> string option" where
  "join_value v = map_option (\<lambda>l. rstrip (str_join [newline] l)) v"

definition join_options :: "raw_options \<Rightarrow> options" where
  "join_options d = map (\<lambda>(k, v). (k, join_value v)) d"

definition join_values :: "reader \<Rightarrow> config" where
  "join_values r =
     \<lparr>defaults = join_options (rd_defaults r),
      sections = map (\<lambda>(g, d). (g, join_options d)) (rd_sections r)\<rparr>"

definition cfg_read :: "string \<Rightarrow> config res" where
  "cfg_read text = rmap join_values (rfold read_line new_reader (splitlines text))"

section \<open>The round trip\<close>

text \<open>Names and values that a line can hold.\<close>

definition key_ok :: "string \<Rightarrow> bool" where
  "key_ok k =
     (k \<noteq> [] \<and> optionxform k = k \<and> (\<forall>c \<in> set k. \<not> is_space c) \<and>
      hd k \<notin> {CHR ''#'', CHR '';'', CHR ''[''})"

definition val_ok :: "string option \<Rightarrow> bool" where
  "val_ok v = (case v of None \<Rightarrow> True | Some s \<Rightarrow> stripped s \<and> newline \<notin> set s)"

definition norm_value :: "string option \<Rightarrow> string option" where
  "norm_value v = (if v = Some [] then None else v)"

definition norm_options :: "options \<Rightarrow> options" where
  "norm_options d = map (\<lambda>(k, v). (k, norm_value v)) d"

definition norm_config :: "config \<Rightarrow> config" where
  "norm_config c =
     \<lparr>defaults = norm_options (defaults c),
      sections = map (\<lambda>(g, d). (g, norm_options d)) (sections c)\<rparr>"

definition lines_ok :: "options \<Rightarrow> bool" where
  "lines_ok d = (dict_ok d \<and> (\<forall>(k, v) \<in> set d. key_ok k \<and> val_ok v))"

definition file_ok :: "config \<Rightarrow> bool" where
  "file_ok c =
     (lines_ok (defaults c) \<and> dict_ok (sections c) \<and>
      (\<forall>(g, d) \<in> set (sections c). proper g \<and> newline \<notin> set g \<and> lines_ok d))"

subsection \<open>One line\<close>

lemma is_space_simps [simp]:
  "is_space CHR '' ''" "is_space CHR 0x09" "is_space newline" "\<not> is_space CHR '']''"
  "\<not> is_space CHR ''[''"
  by code_simp+

lemma is_delimiter_space: "is_delimiter c \<Longrightarrow> is_space c"
  by (auto simp: is_delimiter_def)

lemma key_ok_stripped: "key_ok k \<Longrightarrow> stripped k"
  by (auto simp: key_ok_def stripped_def)

lemma replace_char_absent: "c \<notin> set s \<Longrightarrow> replace_char c t s = s"
  by (induction s) (auto simp: replace_char_def)

definition shown_value :: "string option \<Rightarrow> string" where
  "shown_value v =
     (case v of None \<Rightarrow> [] | Some s \<Rightarrow> if s = [] then [] else write_delimiter @ s)"

lemma strip_option_line:
  assumes "key_ok k" "val_ok v"
  shows "strip (option_line (k, v)) = k @ shown_value v"
proof (cases v)
  case None
  with assms show ?thesis
    by (simp add: option_line_def shown_value_def strip_stripped key_ok_stripped)
next
  case (Some s)
  then have line: "option_line (k, v) = k @ write_delimiter @ s"
    using assms by (simp add: option_line_def val_ok_def replace_char_absent)
  show ?thesis
  proof (cases "s = []")
    case True
    with line Some assms strip_space_around [OF key_ok_stripped, of k "[]" write_delimiter]
    show ?thesis by (simp add: shown_value_def write_delimiter_def)
  next
    case False
    have "stripped (k @ write_delimiter @ s)"
      using False assms Some by (auto simp: stripped_def key_ok_def val_ok_def write_delimiter_def)
    with line False Some show ?thesis by (simp add: shown_value_def strip_stripped)
  qed
qed

definition raw_value :: "string option \<Rightarrow> string list option" where
  "raw_value v = (case v of None \<Rightarrow> None | Some s \<Rightarrow> if s = [] then None else Some [s])"

lemma takeWhile_key:
  assumes "key_ok k"
  shows "takeWhile (\<lambda>c. \<not> is_delimiter c) (k @ shown_value v) = k"
    and "dropWhile (\<lambda>c. \<not> is_delimiter c) (k @ shown_value v) = shown_value v"
proof -
  have "\<forall>c \<in> set k. \<not> is_delimiter c" using assms is_delimiter_space by (auto simp: key_ok_def)
  moreover have "takeWhile (\<lambda>c. \<not> is_delimiter c) (shown_value v) = []"
    "dropWhile (\<lambda>c. \<not> is_delimiter c) (shown_value v) = shown_value v"
    by (auto simp: shown_value_def write_delimiter_def is_delimiter_def split: option.split)
  ultimately show "takeWhile (\<lambda>c. \<not> is_delimiter c) (k @ shown_value v) = k"
    and "dropWhile (\<lambda>c. \<not> is_delimiter c) (k @ shown_value v) = shown_value v"
    by (simp_all add: takeWhile_append2 dropWhile_append2)
qed

lemma strip_shown_value:
  "val_ok v \<Longrightarrow> (if shown_value v = [] then None else Some [strip (shown_value v)]) = raw_value v"
  using strip_space_around [where v = write_delimiter and w = "[]"]
  by (auto simp: shown_value_def raw_value_def val_ok_def write_delimiter_def split: option.split)

lemma key_first:
  assumes "key_ok k"
  shows "\<exists>c t. k = c # t \<and> \<not> is_space c \<and> c \<notin> {CHR ''#'', CHR '';'', CHR ''[''}"
  using assms by (cases k) (auto simp: key_ok_def)

lemma read_option_line:
  assumes "key_ok k" "val_ok v" "cursect r = Some g" "indent_level r = 0"
    and "(g, Some k) \<notin> set (elements_added r)"
  shows "read_line r (option_line (k, v)) =
    Inr (raw_put (r\<lparr>optname := Some k, elements_added := (g, Some k) # elements_added r\<rparr>)
          g (dict_set (raw_get r g) k (raw_value v)))"
proof -
  obtain c t where k: "k = c # t" "\<not> is_space c" "c \<notin> {CHR ''#'', CHR '';'', CHR ''[''}"
    using key_first [OF assms(1)] by blast
  let ?t = "k @ shown_value v"
  have "takeWhile is_space (option_line (k, v)) = []" using k by (simp add: option_line_def)
  moreover have "?t \<noteq> []" "hd ?t \<notin> {CHR ''#'', CHR '';''}" using k by auto
  moreover have "r\<lparr>indent_level := 0\<rparr> = r" using assms(4) by simp
  ultimately have "read_line r (option_line (k, v)) = header_or_option r ?t"
    by (auto simp: read_line_def Let_def strip_option_line [OF assms(1,2)] split: option.split)
  moreover have "section_header ?t = None" using k by (simp add: section_header_def)
  then have "header_or_option r ?t = read_option r g ?t"
    by (simp add: header_or_option_def assms(3))
  moreover have "optionxform (rstrip k) = k"
    using assms(1) by (simp add: key_ok_def rstrip_id)
  then have "read_option r g ?t =
    Inr (raw_put (r\<lparr>optname := Some k, elements_added := (g, Some k) # elements_added r\<rparr>)
          g (dict_set (raw_get r g) k (raw_value v)))"
    using assms(5) by (simp only: read_option_def Let_def takeWhile_key [OF assms(1)]
        strip_shown_value [OF assms(2)]) simp
  ultimately show ?thesis by simp
qed

subsection \<open>One section\<close>

definition raw_has :: "reader \<Rightarrow> string \<Rightarrow> bool" where
  "raw_has r g = (g = default_section \<or> dict_has (rd_sections r) g)"

definition raw_options :: "options \<Rightarrow> raw_options" where
  "raw_options d = map (\<lambda>(k, v). (k, raw_value v)) d"

definition after_items :: "reader \<Rightarrow> string \<Rightarrow> options \<Rightarrow> reader" where
  "after_items r g d =
     raw_put (r\<lparr>optname := (if d = [] then optname r else Some (fst (last d))),
                elements_added := rev (map (\<lambda>(k, _). (g, Some k)) d) @ elements_added r\<rparr>)
       g (raw_get r g @ raw_options d)"

lemma raw_get_put [simp]: "raw_has r g \<Longrightarrow> raw_get (raw_put r g d) g = d"
  by (simp add: raw_get_def raw_put_def)

lemma raw_put_same: "raw_has r g \<Longrightarrow> raw_put r g (raw_get r g) = r"
  by (auto simp: raw_get_def raw_put_def raw_has_def dict_has_get dict_set_same)

lemma raw_put_put [simp]: "raw_put (raw_put r g d) g d' = raw_put r g d'"
proof -
  have "dict_set (dict_set s g d) g d' = dict_set s g d'" for s :: "(string, raw_options) dict"
    by (induction s) auto
  then show ?thesis by (simp add: raw_put_def)
qed

lemma raw_put_fields [simp]:
  "cursect (raw_put r g d) = cursect r" "optname (raw_put r g d) = optname r"
  "indent_level (raw_put r g d) = indent_level r"
  "elements_added (raw_put r g d) = elements_added r"
  "raw_put (r\<lparr>optname := x\<rparr>) g d = (raw_put r g d)\<lparr>optname := x\<rparr>"
  "raw_put (r\<lparr>elements_added := y\<rparr>) g d = (raw_put r g d)\<lparr>elements_added := y\<rparr>"
  by (simp_all add: raw_put_def)

lemma raw_get_fields [simp]:
  "raw_get (r\<lparr>optname := x\<rparr>) g = raw_get r g"
  "raw_get (r\<lparr>elements_added := y\<rparr>) g = raw_get r g"
  "raw_has (r\<lparr>optname := x\<rparr>) g = raw_has r g"
  "raw_has (r\<lparr>elements_added := y\<rparr>) g = raw_has r g"
  by (simp_all add: raw_get_def raw_has_def)

lemma raw_has_put [simp]: "raw_has r g \<Longrightarrow> raw_has (raw_put r g d) g"
  by (auto simp: raw_has_def raw_put_def dict_has_def)

lemma read_items:
  assumes "cursect r = Some g" "indent_level r = 0" "raw_has r g"
    and "\<forall>(k, v) \<in> set d. key_ok k \<and> val_ok v" "distinct (dict_keys (raw_get r g) @ dict_keys d)"
    and "\<forall>k \<in> set (dict_keys d). (g, Some k) \<notin> set (elements_added r)"
  shows "rfold read_line r (map option_line d) = Inr (after_items r g d)"
  using assms
proof (induction d arbitrary: r)
  case Nil
  then show ?case by (simp add: after_items_def raw_options_def raw_put_same)
next
  case (Cons e d)
  obtain k v where e: "e = (k, v)" by force
  let ?r = "raw_put (r\<lparr>optname := Some k, elements_added := (g, Some k) # elements_added r\<rparr>)
              g (raw_get r g @ [(k, raw_value v)])"
  have "dict_set (raw_get r g) k (raw_value v) = raw_get r g @ [(k, raw_value v)]"
    using Cons.prems(5) by (intro dict_set_fresh) (simp add: e)
  then have "read_line r (option_line e) = Inr ?r"
    using read_option_line [of k v r g] Cons.prems by (simp add: e)
  moreover have "rfold read_line ?r (map option_line d) = Inr (after_items ?r g d)"
    using Cons.prems by (intro Cons.IH) (auto simp: e)
  moreover have "after_items ?r g d = after_items r g (e # d)"
    using Cons.prems(3) by (simp add: after_items_def e raw_options_def)
  ultimately show ?case by simp
qed

text \<open>What a blank line does to the last value is undone when the values are joined.\<close>

lemma join_value_blank: "join_value (Some (l @ [[]])) = join_value (Some l)"
proof -
  have "rstrip (str_join [newline] (l @ [[]])) = rstrip (str_join [newline] l)"
  proof (cases "l = []")
    case True
    then show ?thesis by simp
  next
    case False
    then have "str_join [newline] (l @ [[]]) = str_join [newline] l @ [newline]"
      by (induction l) (auto simp: str_join_Cons)
    then show ?thesis using rstrip_append_space [of "[newline]"] by simp
  qed
  then show ?thesis by (simp add: join_value_def)
qed

lemma join_options_set:
  "dict_get d k = Some v' \<Longrightarrow> join_value v = join_value v' \<Longrightarrow>
     join_options (dict_set d k v) = join_options d"
  by (induction d) (auto simp: join_options_def split: if_splits)

lemma blank_line_join:
  assumes "cursect r = Some g" "raw_has r g"
  shows "\<exists>d. blank_line r = raw_put r g d \<and> join_options d = join_options (raw_get r g)"
proof -
  have same: "\<exists>d. r = raw_put r g d \<and> join_options d = join_options (raw_get r g)"
    using assms raw_put_same by metis
  show ?thesis
  proof (cases "optname r")
    case None
    with same assms show ?thesis by (simp add: blank_line_def)
  next
    case (Some k)
    show ?thesis
    proof (cases "dict_get (raw_get r g) k")
      case None
      with same Some assms show ?thesis by (simp add: blank_line_def)
    next
      case v: (Some v)
      show ?thesis
      proof (cases v)
        case None
        with same Some v assms show ?thesis by (simp add: blank_line_def)
      next
        case l: (Some l)
        then have "blank_line r = raw_put r g (dict_set (raw_get r g) k (Some (l @ [[]])))"
          using Some v assms by (simp add: blank_line_def)
        moreover have "join_options (dict_set (raw_get r g) k (Some (l @ [[]]))) =
            join_options (raw_get r g)"
          using v l by (intro join_options_set [where v' = "Some l"] join_value_blank) simp
        ultimately show ?thesis by blast
      qed
    qed
  qed
qed

lemma join_raw_options: "\<forall>(k, v) \<in> set d. val_ok v \<Longrightarrow> join_options (raw_options d) = norm_options d"
proof -
  have "join_value (raw_value v) = norm_value v" if "val_ok v" for v
    using that by (auto simp: join_value_def raw_value_def norm_value_def val_ok_def stripped_def
        rstrip_id split: option.splits)
  then show "\<forall>(k, v) \<in> set d. val_ok v \<Longrightarrow> join_options (raw_options d) = norm_options d"
    by (auto simp: join_options_def raw_options_def norm_options_def)
qed

lemma read_header:
  assumes "newline \<notin> set g" "g \<noteq> []"
  shows "read_line r (CHR ''['' # g @ '']'') = open_section (r\<lparr>indent_level := 0\<rparr>) g"
proof -
  let ?l = "CHR ''['' # g @ '']''"
  have "strip ?l = ?l" by (intro strip_stripped) (simp add: stripped_def)
  moreover have "takeWhile is_space ?l = []" by simp
  moreover have "section_header ?l = Some g"
    using assms by (simp add: section_header_def Let_def)
  ultimately show ?thesis
    by (simp add: read_line_def header_or_option_def Let_def split: option.split)
qed

text \<open>Reading a section that was written extends the reader by that section.\<close>

lemma read_section:
  assumes "newline \<notin> set g" "g \<noteq> []" "lines_ok d"
    and "open_section (r\<lparr>indent_level := 0\<rparr>) g = Inr r1"
    and "cursect r1 = Some g" "indent_level r1 = 0" "raw_has r1 g" "raw_get r1 g = []"
    and "\<forall>k. (g, Some k) \<notin> set (elements_added r1)" "optname r1 = None"
  shows "\<exists>R opt. rfold read_line r (section_lines g d) =
       Inr ((raw_put r1 g R)\<lparr>optname := opt,
              elements_added := rev (map (\<lambda>(k, _). (g, Some k)) d) @ elements_added r1\<rparr>) \<and>
     join_options R = norm_options d"
proof -
  let ?r2 = "after_items r1 g d"
  have d: "\<forall>(k, v) \<in> set d. key_ok k \<and> val_ok v" "dict_ok d"
    using assms(3) by (simp_all add: lines_ok_def)
  have "rfold read_line r1 (map option_line d) = Inr ?r2"
    using assms d by (intro read_items) (auto simp: dict_ok_def)
  moreover have r2: "cursect ?r2 = Some g" "raw_has ?r2 g" "raw_get ?r2 g = raw_options d"
    using assms by (simp_all add: after_items_def)
  moreover obtain R where R: "blank_line ?r2 = raw_put ?r2 g R"
    "join_options R = join_options (raw_options d)"
    using blank_line_join [OF r2(1,2)] r2(3) by auto
  moreover have "read_line ?r2 [] = Inr (blank_line ?r2)"
    by (simp add: read_line_def strip_def lstrip_def rstrip_def)
  moreover have "raw_put ?r2 g R = (raw_put r1 g R)\<lparr>
      optname := (if d = [] then optname r1 else Some (fst (last d))),
      elements_added := rev (map (\<lambda>(k, _). (g, Some k)) d) @ elements_added r1\<rparr>"
    by (simp add: after_items_def)
  moreover have "join_options (raw_options d) = norm_options d"
    using d by (intro join_raw_options) auto
  ultimately show ?thesis
    using assms by (auto simp: section_lines_def rfold_append read_header)
qed

definition elements_of :: "reader \<Rightarrow> string set" where
  "elements_of r = fst ` set (elements_added r)"

lemma read_new_section:
  assumes "newline \<notin> set g" "proper g" "lines_ok d"
    and "g \<notin> elements_of r" "\<not> dict_has (rd_sections r) g"
  shows "\<exists>r' R. rfold read_line r (section_lines g d) = Inr r' \<and>
     rd_defaults r' = rd_defaults r \<and> rd_sections r' = rd_sections r @ [(g, R)] \<and>
     join_options R = norm_options d \<and> elements_of r' \<subseteq> insert g (elements_of r)"
proof -
  let ?r1 = "r\<lparr>rd_sections := rd_sections r @ [(g, [])], cursect := Some g, optname := None,
               indent_level := 0, elements_added := (g, None) # elements_added r\<rparr>"
  have fresh: "dict_set (rd_sections r) g R = rd_sections r @ [(g, R)]" for R
    using assms(5) by (intro dict_set_fresh) (simp add: dict_has_def)
  have upd: "dict_set (rd_sections r @ [(g, [])]) g R = rd_sections r @ [(g, R)]" for R
  proof -
    have "dict_set (e @ [(g, [])]) g R = e @ [(g, R)]" if "g \<notin> set (dict_keys e)"
      for e :: "(string, raw_options) dict"
      using that by (induction e) auto
    then show ?thesis using assms(5) by (simp add: dict_has_def)
  qed
  have g: "g \<noteq> []" "g \<noteq> default_section" using assms(2) by (simp_all add: proper_def)
  have "open_section (r\<lparr>indent_level := 0\<rparr>) g = Inr ?r1"
    using assms(5) g fresh by (simp add: open_section_def)
  moreover have "raw_get ?r1 g = []"
    using g assms(5) by (simp add: raw_get_def dict_get_def dict_has_get map_add_def)
  moreover have "\<forall>k. (g, Some k) \<notin> set (elements_added ?r1)"
    using assms(4) by (auto simp: elements_of_def image_iff)
  moreover have "raw_has ?r1 g" by (simp add: raw_has_def dict_has_def)
  ultimately obtain R opt where "rfold read_line r (section_lines g d) =
       Inr ((raw_put ?r1 g R)\<lparr>optname := opt,
              elements_added := rev (map (\<lambda>(k, _). (g, Some k)) d) @ elements_added ?r1\<rparr>)"
    "join_options R = norm_options d"
    using read_section [OF assms(1) g(1) assms(3), of r ?r1] by auto
  then show ?thesis using g upd by (auto simp: raw_put_def elements_of_def)
qed

lemma read_sections:
  assumes "\<forall>(g, d) \<in> set ss. proper g \<and> newline \<notin> set g \<and> lines_ok d" "distinct (dict_keys ss)"
    and "\<forall>g \<in> set (dict_keys ss). g \<notin> elements_of r \<and> \<not> dict_has (rd_sections r) g"
  shows "\<exists>r' S. rfold read_line r (concat (map (\<lambda>(g, d). section_lines g d) ss)) = Inr r' \<and>
     rd_defaults r' = rd_defaults r \<and> rd_sections r' = rd_sections r @ S \<and>
     map (\<lambda>(g, d). (g, join_options d)) S = map (\<lambda>(g, d). (g, norm_options d)) ss"
  using assms
proof (induction ss arbitrary: r)
  case Nil
  then show ?case by simp
next
  case (Cons s ss)
  obtain g d where s: "s = (g, d)" by force
  from Cons.prems s read_new_section [of g d r] obtain r1 R where
    r1: "rfold read_line r (section_lines g d) = Inr r1" "rd_defaults r1 = rd_defaults r"
    "rd_sections r1 = rd_sections r @ [(g, R)]" "join_options R = norm_options d"
    "elements_of r1 \<subseteq> insert g (elements_of r)" by auto
  have "\<forall>g' \<in> set (dict_keys ss). g' \<notin> elements_of r1 \<and> \<not> dict_has (rd_sections r1) g'"
    using Cons.prems(2,3) r1(3,5) s by (auto simp: dict_has_def)
  with Cons.IH [of r1] Cons.prems obtain r' S where
    r': "rfold read_line r1 (concat (map (\<lambda>(g, d). section_lines g d) ss)) = Inr r'"
    "rd_defaults r' = rd_defaults r1" "rd_sections r' = rd_sections r1 @ S"
    "map (\<lambda>(g, d). (g, join_options d)) S = map (\<lambda>(g, d). (g, norm_options d)) ss" by auto
  with r1 s show ?case
    by (intro exI [of _ r'] exI [of _ "(g, R) # S"]) (simp add: rfold_append)
qed

lemma read_defaults:
  assumes "lines_ok d" "d \<noteq> []"
  shows "\<exists>r' R. rfold read_line new_reader (section_lines default_section d) = Inr r' \<and>
     rd_defaults r' = R \<and> rd_sections r' = [] \<and> join_options R = norm_options d \<and>
     elements_of r' \<subseteq> {default_section}"
proof -
  let ?g = default_section
  let ?r1 = "new_reader\<lparr>cursect := Some ?g\<rparr>"
  have g: "newline \<notin> set ?g" "?g \<noteq> []" by (simp_all add: default_section_def)
  have "open_section (new_reader\<lparr>indent_level := 0\<rparr>) ?g = Inr ?r1"
    by (simp add: open_section_def new_reader_def)
  then obtain R opt where "rfold read_line new_reader (section_lines ?g d) =
       Inr ((raw_put ?r1 ?g R)\<lparr>optname := opt,
              elements_added := rev (map (\<lambda>(k, _). (?g, Some k)) d) @ elements_added ?r1\<rparr>)"
    "join_options R = norm_options d"
    using read_section [OF g assms(1), of new_reader ?r1]
    by (auto simp: new_reader_def raw_has_def raw_get_def)
  then show ?thesis by (auto simp: raw_put_def elements_of_def new_reader_def)
qed

subsection \<open>The whole file\<close>

lemma splitlines_lines:
  assumes "\<forall>l \<in> set ls. newline \<notin> set l"
  shows "splitlines (concat (map (\<lambda>l. l @ [newline]) ls)) = ls"
proof -
  have "split_on newline (concat (map (\<lambda>l. l @ [newline]) ls)) = ls @ [[]]"
    using assms by (induction ls) (auto simp: split_on_sep)
  then show ?thesis by (simp add: splitlines_def)
qed

lemma section_lines_no_newline:
  assumes "newline \<notin> set g" "lines_ok d" "l \<in> set (section_lines g d)"
  shows "newline \<notin> set l"
proof -
  have "newline \<notin> set (option_line (k, v))" if "(k, v) \<in> set d" for k v
  proof -
    have "key_ok k" "val_ok v" using that assms(2) by (auto simp: lines_ok_def)
    then show ?thesis
      by (auto simp: option_line_def key_ok_def val_ok_def write_delimiter_def replace_char_absent
          split: option.splits)
  qed
  with assms show ?thesis by (auto simp: section_lines_def)
qed

lemma write_lines_no_newline: "file_ok c \<Longrightarrow> l \<in> set (write_lines c) \<Longrightarrow> newline \<notin> set l"
  using section_lines_no_newline [of default_section "defaults c"]
  by (auto simp: write_lines_def file_ok_def default_section_def split: if_splits
      dest: section_lines_no_newline)

lemma read_write_file:
  assumes "file_ok c"
  shows "cfg_read (cfg_write c) = Inr (norm_config c)"
proof -
  let ?ss = "concat (map (\<lambda>(g, d). section_lines g d) (sections c))"
  have c: "lines_ok (defaults c)" "distinct (dict_keys (sections c))"
    "\<forall>(g, d) \<in> set (sections c). proper g \<and> newline \<notin> set g \<and> lines_ok d"
    using assms by (auto simp: file_ok_def dict_ok_def)
  have "splitlines (cfg_write c) = write_lines c"
    unfolding cfg_write_def using assms write_lines_no_newline by (blast intro: splitlines_lines)
  moreover obtain r R where r: "rd_defaults r = R" "rd_sections r = []"
    "join_options R = norm_options (defaults c)" "elements_of r \<subseteq> {default_section}"
    "rfold read_line new_reader (write_lines c) = rfold read_line r ?ss"
  proof (cases "defaults c = []")
    case True
    then show ?thesis
      using that [of new_reader "[]"]
      by (simp add: new_reader_def join_options_def norm_options_def elements_of_def write_lines_def)
  next
    case False
    with that read_defaults [OF c(1)] show ?thesis
      by (auto simp: write_lines_def rfold_append)
  qed
  moreover have "\<forall>g \<in> set (dict_keys (sections c)). g \<notin> elements_of r \<and> \<not> dict_has (rd_sections r) g"
    using c(3) r(2,4) by (auto simp: proper_def dict_keys_def)
  then obtain r' S where "rfold read_line r ?ss = Inr r'" "rd_defaults r' = rd_defaults r"
    "rd_sections r' = rd_sections r @ S"
    "map (\<lambda>(g, d). (g, join_options d)) S = map (\<lambda>(g, d). (g, norm_options d)) (sections c)"
    using read_sections [OF c(3,2)] by blast
  ultimately show ?thesis by (simp add: cfg_read_def join_values_def norm_config_def)
qed

section \<open>What the reader gives\<close>

text \<open>A value read from a line is not empty and starts with no white space, so a configuration that comes
  from a file is in normal form: an option without text has no value.\<close>

definition raw_full :: "raw_options \<Rightarrow> bool" where
  "raw_full d =
     (\<forall>(k, v) \<in> set d. \<forall>l. v = Some l \<longrightarrow> (\<exists>c s ls. l = (c # s) # ls \<and> \<not> is_space c))"

definition reader_full :: "reader \<Rightarrow> bool" where
  "reader_full r = (raw_full (rd_defaults r) \<and> (\<forall>(g, d) \<in> set (rd_sections r). raw_full d))"

lemma raw_full_Nil [simp]: "raw_full []"
  by (simp add: raw_full_def)

lemma raw_full_get: "reader_full r \<Longrightarrow> raw_full (raw_get r g)"
  by (cases "dict_get (rd_sections r) g") (auto simp: reader_full_def raw_get_def dest!: dict_get_Some_in)

lemma raw_full_set:
  "raw_full d \<Longrightarrow> (\<And>l. v = Some l \<Longrightarrow> \<exists>c s ls. l = (c # s) # ls \<and> \<not> is_space c) \<Longrightarrow>
     raw_full (dict_set d k v)"
  using dict_set_entries [of d k v] unfolding raw_full_def by blast

lemma reader_full_put: "reader_full r \<Longrightarrow> raw_full d \<Longrightarrow> reader_full (raw_put r g d)"
  using dict_set_entries [of "rd_sections r" g d] by (auto simp: reader_full_def raw_put_def)

lemma reader_full_append:
  assumes "reader_full r" "dict_get (raw_get r g) k = Some (Some l)"
  shows "reader_full (raw_put r g (dict_set (raw_get r g) k (Some (l @ xs))))"
proof -
  have "\<exists>c s ls. l = (c # s) # ls \<and> \<not> is_space c"
    using raw_full_get [OF assms(1), of g] dict_get_Some_in [OF assms(2)] by (auto simp: raw_full_def)
  with assms(1) show ?thesis by (auto intro!: reader_full_put raw_full_set raw_full_get)
qed

lemma strip_empty: "strip s = [] \<Longrightarrow> \<forall>c \<in> set s. is_space c"
proof -
  assume "strip s = []"
  then have "\<forall>c \<in> set (lstrip s). is_space c" by (simp add: strip_def rstrip_def)
  then have "lstrip s = []"
    unfolding lstrip_def by (metis hd_dropWhile hd_in_set)
  then show ?thesis by (simp add: lstrip_def)
qed

lemma read_option_full:
  assumes "read_option r g t = Inr r'" "reader_full r" "stripped t"
  shows "reader_full r'"
proof -
  let ?rest = "dropWhile (\<lambda>c. \<not> is_delimiter c) t"
  have "\<exists>c s. strip ?rest = c # s \<and> \<not> is_space c" if "?rest \<noteq> []"
  proof -
    have "last ?rest = last t"
      using that by (metis last_appendR takeWhile_dropWhile_id)
    then have "\<not> is_space (last ?rest)" using assms(3) that by (auto simp: stripped_def)
    then have "strip ?rest \<noteq> []" using strip_empty that last_in_set by blast
    then show ?thesis using stripped_strip [of ?rest] by (cases "strip ?rest") (auto simp: stripped_def)
  qed
  then have "raw_full (dict_set (raw_get r g) k (if ?rest = [] then None else Some [strip ?rest]))" for k
    using raw_full_get [OF assms(2)] by (intro raw_full_set) (auto split: if_splits)
  moreover have "reader_full (q\<lparr>optname := x, elements_added := y\<rparr>) = reader_full q" for q x y
    by (simp add: reader_full_def)
  ultimately show ?thesis
    using assms(1,2) by (auto simp: read_option_def Let_def split: if_splits intro!: reader_full_put)
qed

lemma open_section_full: "open_section r g = Inr r' \<Longrightarrow> reader_full r \<Longrightarrow> reader_full r'"
  using dict_set_entries [of "rd_sections r" g "[]"]
  by (auto simp: open_section_def reader_full_def split: if_splits)

lemma header_or_option_full:
  "header_or_option r t = Inr r' \<Longrightarrow> reader_full r \<Longrightarrow> stripped t \<Longrightarrow> reader_full r'"
  by (auto simp: header_or_option_def split: option.splits intro: open_section_full read_option_full)

lemma read_line_full:
  assumes "read_line r line = Inr r'" "reader_full r"
  shows "reader_full r'"
proof -
  have i: "reader_full (r\<lparr>indent_level := n\<rparr>)" for n using assms(2) by (simp add: reader_full_def)
  have "reader_full (blank_line r)"
    using assms(2) by (auto simp: blank_line_def split: option.split intro: reader_full_append)
  moreover have "reader_full r1" if "continue_value r g k t = Inr r1" for g k t r1
    using that assms(2) by (auto simp: continue_value_def split: option.splits intro: reader_full_append)
  moreover have "reader_full r1" if "header_or_option (r\<lparr>indent_level := n\<rparr>) (strip line) = Inr r1" for n r1
    using header_or_option_full [OF that i stripped_strip] .
  ultimately show ?thesis
    using assms by (auto simp: read_line_def Let_def split: if_splits option.splits)
qed

lemma join_value_normal:
  assumes "\<And>l. v = Some l \<Longrightarrow> \<exists>c s ls. l = (c # s) # ls \<and> \<not> is_space c"
  shows "norm_value (join_value v) = join_value v"
proof (cases v)
  case None
  then show ?thesis by (simp add: norm_value_def join_value_def)
next
  case (Some l)
  then obtain c s ls where l: "l = (c # s) # ls" "\<not> is_space c" using assms by blast
  then have "c \<in> set (str_join [newline] l)" by (simp add: str_join_Cons)
  then have "rstrip (str_join [newline] l) \<noteq> []" using l(2) by (auto simp: rstrip_def)
  then show ?thesis using Some by (simp add: norm_value_def join_value_def)
qed

lemma join_options_normal: "raw_full d \<Longrightarrow> norm_options (join_options d) = join_options d"
  using join_value_normal by (fastforce simp: norm_options_def join_options_def raw_full_def)

lemma cfg_read_normal:
  assumes "cfg_read t = Inr c"
  shows "norm_config c = c"
proof -
  obtain r where r: "rfold read_line new_reader (splitlines t) = Inr r" "c = join_values r"
    using assms by (auto simp: cfg_read_def rmap_eq_Inr_iff)
  have "reader_full new_reader" by (simp add: new_reader_def reader_full_def raw_full_def)
  with r(1) have "reader_full r" using rfold_invariant [where P = reader_full] read_line_full by blast
  then show ?thesis
    using join_options_normal by (fastforce simp: r(2) norm_config_def join_values_def reader_full_def)
qed

end
