(* ===== verification/Json.thy ===== *)
theory Json
  imports Py_Strings
begin

text \<open>
  The part of Python's \<open>json\<close> the program uses: \<open>loads\<close> and \<open>dumps\<close> on values whose text is made of
  characters below 256. Numbers with a fraction or an exponent are kept as the text they are written
  with. The parser's depth is bounded by a fuel of twice the length of the text, which is enough:
  it never runs out (\<open>json_loads_total\<close>).
\<close>

section \<open>Values\<close>

datatype json =
    JNull
  | JBool bool
  | JInt int
  | JFloat string
  | JStr string
  | JList "json list"
  | JDict "(string \<times> json) list"

abbreviation quote :: char where "quote \<equiv> CHR 0x22"
abbreviation backslash :: char where "backslash \<equiv> CHR 0x5C"

section \<open>Writing\<close>

definition hex_char :: "nat \<Rightarrow> char" where
  "hex_char d = char_of (if d < 10 then 48 + d else 87 + d)"

definition escape_char :: "char \<Rightarrow> string" where
  "escape_char c =
     (if c = quote then [backslash, quote]
      else if c = backslash then [backslash, backslash]
      else if c = CHR 0x0A then [backslash, CHR ''n'']
      else if c = CHR 0x0D then [backslash, CHR ''r'']
      else if c = CHR 0x09 then [backslash, CHR ''t'']
      else if c = CHR 0x0C then [backslash, CHR ''f'']
      else if c = CHR 0x08 then [backslash, CHR ''b'']
      else if CHR 0x20 \<le> c \<and> c \<le> CHR 0x7E then [c]
      else [backslash, CHR ''u'', CHR ''0'', CHR ''0'',
            hex_char (of_char c div 16), hex_char (of_char c mod 16)])"

definition dump_str :: "string \<Rightarrow> string" where
  "dump_str s = quote # concat (map escape_char s) @ [quote]"

text \<open>The line break of a pretty-printed value: nothing without \<open>indent\<close>.\<close>

definition line_break :: "nat option \<Rightarrow> nat \<Rightarrow> string" where
  "line_break indent level =
     (case indent of None \<Rightarrow> [] | Some n \<Rightarrow> CHR 0x0A # replicate (n * level) (CHR '' ''))"

fun dumps :: "nat option \<Rightarrow> nat \<Rightarrow> json \<Rightarrow> string"
  and dumps_elems :: "nat option \<Rightarrow> nat \<Rightarrow> json list \<Rightarrow> string"
  and dumps_members :: "nat option \<Rightarrow> nat \<Rightarrow> (string \<times> json) list \<Rightarrow> string" where
  "dumps ind l JNull = ''null''"
| "dumps ind l (JBool b) = (if b then ''true'' else ''false'')"
| "dumps ind l (JInt i) = int_str i"
| "dumps ind l (JFloat t) = t"
| "dumps ind l (JStr s) = dump_str s"
| "dumps ind l (JList xs) =
     (if xs = [] then ''[]''
      else ''['' @ line_break ind (l + 1) @ dumps_elems ind (l + 1) xs @ line_break ind l @ '']'')"
| "dumps ind l (JDict d) =
     (if d = [] then ''{}''
      else ''{'' @ line_break ind (l + 1) @ dumps_members ind (l + 1) d @ line_break ind l @ ''}'')"
| "dumps_elems ind l [] = []"
| "dumps_elems ind l (x # xs) =
     dumps ind l x @ (if xs = [] then [] else '', '' @ line_break ind l @ dumps_elems ind l xs)"
| "dumps_members ind l [] = []"
| "dumps_members ind l ((k, v) # d) =
     dump_str k @ '': '' @ dumps ind l v @
     (if d = [] then [] else '', '' @ line_break ind l @ dumps_members ind l d)"

definition json_dumps :: "nat option \<Rightarrow> json \<Rightarrow> string" where
  "json_dumps indent v = dumps indent 0 v"

section \<open>Reading\<close>

definition json_error :: py_error where
  "json_error = ValueError ''No JSON object could be decoded''"

definition is_ws :: "char \<Rightarrow> bool" where
  "is_ws c = (c = CHR '' '' \<or> c = CHR 0x09 \<or> c = CHR 0x0A \<or> c = CHR 0x0D)"

definition skip_ws :: "string \<Rightarrow> string" where
  "skip_ws s = dropWhile is_ws s"

definition hex_val :: "char \<Rightarrow> nat option" where
  "hex_val c =
     (if is_digit c then Some (of_char c - 48)
      else if CHR ''a'' \<le> c \<and> c \<le> CHR ''f'' then Some (of_char c - 87)
      else if CHR ''A'' \<le> c \<and> c \<le> CHR ''F'' then Some (of_char c - 55)
      else None)"

text \<open>The four digits of a \<open>\u\<close> escape; a code point above 255 is outside the model's characters.\<close>

definition hex4 :: "char \<Rightarrow> char \<Rightarrow> char \<Rightarrow> char \<Rightarrow> char option" where
  "hex4 a b c d =
     (case (hex_val a, hex_val b, hex_val c, hex_val d) of
        (Some w, Some x, Some y, Some z) \<Rightarrow>
          (let n = w * 4096 + x * 256 + y * 16 + z in if n < 256 then Some (char_of n) else None)
      | _ \<Rightarrow> None)"

definition unescape :: "char \<Rightarrow> char option" where
  "unescape c =
     (if c = quote \<or> c = backslash \<or> c = CHR ''/'' then Some c
      else if c = CHR ''b'' then Some (CHR 0x08)
      else if c = CHR ''f'' then Some (CHR 0x0C)
      else if c = CHR ''n'' then Some (CHR 0x0A)
      else if c = CHR ''r'' then Some (CHR 0x0D)
      else if c = CHR ''t'' then Some (CHR 0x09)
      else None)"

text \<open>The rest of a string literal after its opening quote, and what follows it.\<close>

fun scan_str :: "string \<Rightarrow> (string \<times> string) res" where
  "scan_str [] = Inl json_error"
| "scan_str (c # s) =
     (if c = quote then Inr ([], s)
      else if c = backslash then
        (case s of
           [] \<Rightarrow> Inl json_error
         | e # t \<Rightarrow>
             if e = CHR ''u'' then
               (case t of
                  h1 # h2 # h3 # h4 # r \<Rightarrow>
                    (case hex4 h1 h2 h3 h4 of
                       None \<Rightarrow> Inl json_error
                     | Some x \<Rightarrow> rmap (apfst ((#) x)) (scan_str r))
                | _ \<Rightarrow> Inl json_error)
             else (case unescape e of
                     None \<Rightarrow> Inl json_error
                   | Some x \<Rightarrow> rmap (apfst ((#) x)) (scan_str t)))
      else if c < CHR 0x20 then Inl json_error
      else rmap (apfst ((#) c)) (scan_str s))"

text \<open>The longest number at the start: sign, integer part, fraction, exponent.\<close>

definition scan_int :: "string \<Rightarrow> (string \<times> string) option" where
  "scan_int s =
     (let (sign, t) = (case s of c # r \<Rightarrow> if c = CHR ''-'' then ([c], r) else ([], s) | [] \<Rightarrow> ([], s))
      in case t of
           [] \<Rightarrow> None
         | c # r \<Rightarrow>
             if \<not> is_digit c then None
             else if c = CHR ''0'' then Some (sign @ [c], r)
             else Some (sign @ takeWhile is_digit t, dropWhile is_digit t))"

definition scan_frac :: "string \<Rightarrow> string \<times> string" where
  "scan_frac s =
     (case s of
        c # d # r \<Rightarrow>
          if c = CHR ''.'' \<and> is_digit d then (c # takeWhile is_digit (d # r), dropWhile is_digit (d # r))
          else ([], s)
      | _ \<Rightarrow> ([], s))"

definition scan_exp :: "string \<Rightarrow> string \<times> string" where
  "scan_exp s =
     (case s of
        c # r \<Rightarrow>
          if c = CHR ''e'' \<or> c = CHR ''E'' then
            (let (sign, t) = (case r of x # u \<Rightarrow> if x = CHR ''+'' \<or> x = CHR ''-'' then ([x], u) else ([], r)
                              | [] \<Rightarrow> ([], r))
             in if t \<noteq> [] \<and> is_digit (hd t)
                then (c # sign @ takeWhile is_digit t, dropWhile is_digit t) else ([], s))
          else ([], s)
      | [] \<Rightarrow> ([], s))"

definition scan_number :: "string \<Rightarrow> (json \<times> string) res" where
  "scan_number s =
     (case scan_int s of
        None \<Rightarrow> Inl json_error
      | Some (i, r1) \<Rightarrow>
          (case scan_frac r1 of (f, r2) \<Rightarrow>
           case scan_exp r2 of (e, r3) \<Rightarrow>
             if f = [] \<and> e = []
             then Inr (JInt (if hd i = CHR ''-'' then - int (digits_val (tl i)) else int (digits_val i)), r3)
             else Inr (JFloat (i @ f @ e), r3)))"

definition literals :: "(string \<times> json) list" where
  "literals = [(''null'', JNull), (''true'', JBool True), (''false'', JBool False),
     (''NaN'', JFloat ''NaN''), (''Infinity'', JFloat ''Infinity''), (''-Infinity'', JFloat ''-Infinity'')]"

definition scan_literal :: "string \<Rightarrow> (json \<times> string) res" where
  "scan_literal s =
     (case find (\<lambda>(t, v). take (length t) s = t) literals of
        Some (t, v) \<Rightarrow> Inr (v, drop (length t) s)
      | None \<Rightarrow> scan_number s)"

fun scan_value :: "nat \<Rightarrow> string \<Rightarrow> (json \<times> string) res"
  and scan_elems :: "nat \<Rightarrow> string \<Rightarrow> (json list \<times> string) res"
  and scan_members :: "nat \<Rightarrow> string \<Rightarrow> ((string \<times> json) list \<times> string) res" where
  "scan_value 0 s = Inl RecursionError"
| "scan_value (Suc n) s =
     (case s of
        [] \<Rightarrow> Inl json_error
      | c # t \<Rightarrow>
          if c = quote then rmap (apfst JStr) (scan_str t)
          else if c = CHR ''['' then
            (case skip_ws t of
               [] \<Rightarrow> Inl json_error
             | d # u \<Rightarrow> if d = CHR '']'' then Inr (JList [], u) else rmap (apfst JList) (scan_elems n (d # u)))
          else if c = CHR ''{'' then
            (case skip_ws t of
               [] \<Rightarrow> Inl json_error
             | d # u \<Rightarrow>
                 if d = CHR ''}'' then Inr (JDict [], u)
                 else rmap (apfst (\<lambda>kvs. JDict (dict_update [] kvs))) (scan_members n (d # u)))
          else scan_literal s)"
| "scan_elems 0 s = Inl RecursionError"
| "scan_elems (Suc n) s =
     rbind (scan_value n s) (\<lambda>(v, r).
       case skip_ws r of
         [] \<Rightarrow> Inl json_error
       | c # t \<Rightarrow>
           if c = CHR '']'' then Inr ([v], t)
           else if c = CHR '','' then rmap (apfst ((#) v)) (scan_elems n (skip_ws t))
           else Inl json_error)"
| "scan_members 0 s = Inl RecursionError"
| "scan_members (Suc n) s =
     (case s of
        [] \<Rightarrow> Inl json_error
      | q # s \<Rightarrow>
          if q \<noteq> quote then Inl json_error
          else rbind (scan_str s) (\<lambda>(k, r).
            case skip_ws r of
              [] \<Rightarrow> Inl json_error
            | c # t \<Rightarrow>
                if c \<noteq> CHR '':'' then Inl json_error
                else rbind (scan_value n (skip_ws t)) (\<lambda>(v, r).
                  case skip_ws r of
                    [] \<Rightarrow> Inl json_error
                  | c # t \<Rightarrow>
                      if c = CHR ''}'' then Inr ([(k, v)], t)
                      else if c = CHR '','' then rmap (apfst ((#) (k, v))) (scan_members n (skip_ws t))
                      else Inl json_error)))"

definition json_loads :: "string \<Rightarrow> json res" where
  "json_loads s =
     rbind (scan_value (2 * length s + 1) (skip_ws s)) (\<lambda>(v, r).
       if skip_ws r = [] then Inr v else Inl json_error)"

section \<open>Enough fuel\<close>

lemma skip_ws_length: "length (skip_ws s) \<le> length s"
  by (simp add: skip_ws_def length_dropWhile_le)

lemma skip_ws_Cons: "skip_ws s = c # t \<Longrightarrow> length t < length s"
  using skip_ws_length [of s] by simp

lemma scan_str_length: "scan_str s = Inr (x, r) \<Longrightarrow> length r < length s"
proof (induction s arbitrary: x r rule: length_induct)
  case (1 s)
  then have IH: "length t < length s \<Longrightarrow> scan_str t = Inr (y, r) \<Longrightarrow> length r < length t" for t y by blast
  show ?case
  proof (cases s)
    case Nil
    then show ?thesis using 1 by simp
  next
    case (Cons c u)
    from 1(2) show ?thesis unfolding Cons
      by (auto split: if_splits list.splits option.splits simp: rmap_eq_Inr_iff Cons dest!: IH [rotated])
  qed
qed

lemma scan_int_length: "scan_int s = Some (i, r) \<Longrightarrow> length r < length s"
  using length_dropWhile_le [of is_digit "tl s"] length_dropWhile_le [of is_digit "tl (tl s)"]
  by (auto simp: scan_int_def split: list.splits if_splits prod.splits)

lemma scan_frac_length: "scan_frac s = (f, r) \<Longrightarrow> length r \<le> length s"
  using length_dropWhile_le [of is_digit "tl s"]
  by (auto simp: scan_frac_def split: list.splits if_splits)

lemma scan_exp_length: "scan_exp s = (e, r) \<Longrightarrow> length r \<le> length s"
  using length_dropWhile_le [of is_digit "tl s"] length_dropWhile_le [of is_digit "tl (tl s)"]
  by (auto simp: scan_exp_def split: list.splits if_splits prod.splits)

lemma scan_number_length: "scan_number s = Inr (v, r) \<Longrightarrow> length r < length s"
  by (fastforce simp: scan_number_def split: option.splits prod.splits if_splits
      dest!: scan_int_length scan_frac_length scan_exp_length)

lemma scan_literal_length: "scan_literal s = Inr (v, r) \<Longrightarrow> length r < length s"
proof -
  assume s: "scan_literal s = Inr (v, r)"
  show ?thesis
  proof (cases "find (\<lambda>(t, v). take (length t) s = t) literals")
    case None
    with s show ?thesis by (simp add: scan_literal_def scan_number_length)
  next
    case (Some tv)
    then obtain t u where t: "tv = (t, u)" "(t, u) \<in> set literals" "take (length t) s = t"
      by (cases tv) (auto simp: find_Some_iff dest!: nth_mem)
    then have "t \<noteq> []" by (auto simp: literals_def)
    then have "s \<noteq> []" using t(3) by auto
    then show ?thesis using s Some t \<open>t \<noteq> []\<close> by (auto simp: scan_literal_def)
  qed
qed

lemma scan_length_all:
  "(\<forall>s v r. scan_value n s = Inr (v, r) \<longrightarrow> length r < length s) \<and>
   (\<forall>s vs r. scan_elems n s = Inr (vs, r) \<longrightarrow> length r < length s) \<and>
   (\<forall>s kvs r. scan_members n s = Inr (kvs, r) \<longrightarrow> length r < length s)"
proof (induction n)
  case 0
  then show ?case by simp
next
  case (Suc n)
  then have IH: "scan_value n s = Inr (v, r) \<Longrightarrow> length r < length s"
    "scan_elems n s = Inr (vs, r) \<Longrightarrow> length r < length s"
    "scan_members n s = Inr (kvs, r) \<Longrightarrow> length r < length s" for s v r vs kvs
    by blast+
  have v: "length r < length s" if r: "scan_value (Suc n) s = Inr (v, r)" for s v r
  proof (cases s)
    case Nil
    then show ?thesis using r by simp
  next
    case (Cons c t)
    have t: "length (skip_ws t) \<le> length t" by (rule skip_ws_length)
    from r consider x where "scan_str t = Inr (x, r)"
      | "scan_literal s = Inr (v, r)" | d where "skip_ws t = d # r"
      | vs where "scan_elems n (skip_ws t) = Inr (vs, r)"
      | kvs where "scan_members n (skip_ws t) = Inr (kvs, r)"
      unfolding Cons scan_value.simps
      by (cases "skip_ws t") (auto simp: rmap_eq_Inr_iff split: if_split_asm)
    then show ?thesis
      using t by cases (auto simp: Cons dest!: scan_str_length scan_literal_length IH)
  qed
  have ws: "length t < length r" if "skip_ws r = d # t" for d t r
    using that by (rule skip_ws_Cons)
  have e: "length r < length s" if r: "scan_elems (Suc n) s = Inr (vs, r)" for s vs r
  proof -
    from r obtain x r1 where x: "scan_value n s = Inr (x, r1)"
      and r1: "(case skip_ws r1 of [] \<Rightarrow> Inl json_error
        | c # t \<Rightarrow> if c = CHR '']'' then Inr ([x], t)
          else if c = CHR '','' then rmap (apfst ((#) x)) (scan_elems n (skip_ws t))
          else Inl json_error) = Inr (vs, r)"
      unfolding scan_elems.simps rbind_eq_Inr_iff by auto
    then obtain d t where dt: "skip_ws r1 = d # t" by (cases "skip_ws r1") auto
    have t: "r = t \<or> (\<exists>ys. scan_elems n (skip_ws t) = Inr (ys, r))"
      using r1 unfolding dt list.case by (auto simp: rmap_eq_Inr_iff split: if_split_asm)
    have "length r \<le> length t" using t IH(2) skip_ws_length [of t] by force
    then show ?thesis using IH(1) [OF x] ws [OF dt] by simp
  qed
  have m: "length r < length s" if r: "scan_members (Suc n) s = Inr (kvs, r)" for s kvs r
  proof -
    from r obtain q u where s: "s = q # u" by (cases s) auto
    from r obtain k r1 where k: "scan_str u = Inr (k, r1)"
      unfolding s scan_members.simps list.case by (cases "scan_str u") (auto split: if_split_asm)
    from r obtain c t where ct: "skip_ws r1 = c # t" "c = CHR '':''"
      unfolding s scan_members.simps list.case k by (cases "skip_ws r1") (auto split: if_split_asm)
    from r obtain x r2 where x: "scan_value n (skip_ws t) = Inr (x, r2)"
      unfolding s scan_members.simps list.case k
      by (cases "scan_value n (skip_ws t)") (auto simp: ct split: if_split_asm)
    from r obtain d t2 where dt: "skip_ws r2 = d # t2"
      unfolding s scan_members.simps list.case k
      by (cases "skip_ws r2") (auto simp: ct x split: if_split_asm)
    have t: "r = t2 \<or> (\<exists>ys. scan_members n (skip_ws t2) = Inr (ys, r))"
      using r unfolding s scan_members.simps list.case k
      by (auto simp: ct x dt rmap_eq_Inr_iff split: if_split_asm)
    have "length r \<le> length t2" using t IH(3) skip_ws_length [of t2] by force
    then show ?thesis
      using scan_str_length [OF k] ws [OF ct(1)] IH(1) [OF x] ws [OF dt] skip_ws_length [of t]
      by (simp add: s)
  qed
  show ?case using v e m by blast
qed

lemmas scan_length = scan_length_all [THEN conjunct1, rule_format]
  scan_length_all [THEN conjunct2, THEN conjunct1, rule_format]
  scan_length_all [THEN conjunct2, THEN conjunct2, rule_format]

lemma scan_str_error: "scan_str s = Inl e \<Longrightarrow> e = json_error"
proof (induction s rule: length_induct)
  case (1 s)
  then have IH: "length t < length s \<Longrightarrow> scan_str t = Inl e \<Longrightarrow> e = json_error" for t by blast
  have m: "rmap f r = Inl e \<longleftrightarrow> r = Inl e" for f :: "string \<times> string \<Rightarrow> string \<times> string" and r
    by (cases r) simp_all
  show ?case
  proof (cases s)
    case Nil
    then show ?thesis using 1(2) by simp
  next
    case (Cons c u)
    from 1(2) show ?thesis unfolding Cons
      by (auto split: if_splits list.splits option.splits simp: m Cons dest!: IH [rotated])
  qed
qed

lemma json_error_not [simp]: "json_error \<noteq> RecursionError"
  by (simp add: json_error_def)

lemma scan_literal_total: "scan_literal s \<noteq> Inl RecursionError"
  by (auto simp: scan_literal_def scan_number_def split: option.split prod.split)

lemma rmap_Inl: "rmap f r = Inl e \<longleftrightarrow> r = Inl e"
  by (cases r) simp_all

lemma scan_str_total: "scan_str t \<noteq> Inl RecursionError"
  using scan_str_error json_error_not by metis

lemma scan_value_total:
  assumes E: "\<And>s. 2 * length s + 2 \<le> n \<Longrightarrow> scan_elems n s \<noteq> Inl RecursionError"
    and M: "\<And>s. 2 * length s + 2 \<le> n \<Longrightarrow> scan_members n s \<noteq> Inl RecursionError"
    and l: "2 * length s + 1 \<le> Suc n"
  shows "scan_value (Suc n) s \<noteq> Inl RecursionError"
proof (cases s)
  case Nil
  then show ?thesis by simp
next
  case (Cons c t)
  have "2 * length (skip_ws t) + 2 \<le> n" using l skip_ws_length [of t] by (simp add: Cons)
  then have "scan_elems n (skip_ws t) \<noteq> Inl RecursionError" "scan_members n (skip_ws t) \<noteq> Inl RecursionError"
    using E M by blast+
  then show ?thesis
    unfolding Cons scan_value.simps
    by (cases "skip_ws t") (simp_all add: rmap_Inl scan_str_total scan_literal_total)
qed

lemma scan_elems_total:
  assumes V: "\<And>s. 2 * length s + 1 \<le> n \<Longrightarrow> scan_value n s \<noteq> Inl RecursionError"
    and E: "\<And>s. 2 * length s + 2 \<le> n \<Longrightarrow> scan_elems n s \<noteq> Inl RecursionError"
    and l: "2 * length s + 2 \<le> Suc n"
  shows "scan_elems (Suc n) s \<noteq> Inl RecursionError"
proof (cases "scan_value n s")
  case (Inl err)
  then show ?thesis using V [of s] l by simp
next
  case (Inr xr)
  obtain x r where xr: "xr = (x, r)" by force
  show ?thesis
  proof (cases "skip_ws r")
    case Nil
    then show ?thesis by (simp add: Inr xr)
  next
    case (Cons d t)
    have "length (skip_ws t) < length s"
      using scan_length(1) [OF Inr [unfolded xr]] skip_ws_Cons [OF Cons] skip_ws_length [of t] by linarith
    then have "scan_elems n (skip_ws t) \<noteq> Inl RecursionError" using E l by simp
    then show ?thesis by (simp add: Inr xr Cons rmap_Inl)
  qed
qed

lemma scan_members_total:
  assumes V: "\<And>s. 2 * length s + 1 \<le> n \<Longrightarrow> scan_value n s \<noteq> Inl RecursionError"
    and M: "\<And>s. 2 * length s + 2 \<le> n \<Longrightarrow> scan_members n s \<noteq> Inl RecursionError"
    and l: "2 * length s + 2 \<le> Suc n"
  shows "scan_members (Suc n) s \<noteq> Inl RecursionError"
proof (cases s)
  case Nil
  then show ?thesis by simp
next
  case s: (Cons q u)
  show ?thesis
  proof (cases "scan_str u")
    case (Inl err)
    then show ?thesis using scan_str_total [of u] by (auto simp: s)
  next
    case k: (Inr kr)
    obtain key r1 where kr: "kr = (key, r1)" by force
    have l1: "length r1 < length u" using scan_str_length k kr by blast
    show ?thesis
    proof (cases "skip_ws r1")
      case Nil
      then show ?thesis by (simp add: s k kr)
    next
      case ct: (Cons c t)
      have l2: "length (skip_ws t) < length r1" using skip_ws_Cons [OF ct] skip_ws_length [of t] by linarith
      have vt: "scan_value n (skip_ws t) \<noteq> Inl RecursionError" using V l l1 l2 by (simp add: s)
      show ?thesis
      proof (cases "scan_value n (skip_ws t)")
        case (Inl err)
        then show ?thesis using vt by (simp add: s k kr ct)
      next
        case x: (Inr xr)
        obtain v r2 where xr: "xr = (v, r2)" by force
        have l3: "length r2 < length (skip_ws t)" using scan_length(1) x xr by blast
        show ?thesis
        proof (cases "skip_ws r2")
          case Nil
          then show ?thesis by (simp add: s k kr ct x xr)
        next
          case dt: (Cons d t2)
          have "length (skip_ws t2) < length r2" using skip_ws_Cons [OF dt] skip_ws_length [of t2] by linarith
          then have "scan_members n (skip_ws t2) \<noteq> Inl RecursionError" using M l l1 l2 l3 by (simp add: s)
          then show ?thesis by (simp add: s k kr ct x xr dt rmap_Inl)
        qed
      qed
    qed
  qed
qed

lemma scan_total_all:
  "(\<forall>s. 2 * length s + 1 \<le> n \<longrightarrow> scan_value n s \<noteq> Inl RecursionError) \<and>
   (\<forall>s. 2 * length s + 2 \<le> n \<longrightarrow> scan_elems n s \<noteq> Inl RecursionError) \<and>
   (\<forall>s. 2 * length s + 2 \<le> n \<longrightarrow> scan_members n s \<noteq> Inl RecursionError)"
proof (induction n)
  case 0
  then show ?case by simp
next
  case (Suc n)
  then show ?case using scan_value_total scan_elems_total scan_members_total by blast
qed

text \<open>Parsing any text ends with a value or the decoder's error: the fuel is never used up.\<close>

lemma json_loads_total: "(\<exists>v. json_loads s = Inr v) \<or> (\<exists>e. json_loads s = Inl e \<and> e \<noteq> RecursionError)"
proof -
  have "2 * length (skip_ws s) + 1 \<le> 2 * length s + 1" using skip_ws_length by simp
  then have "scan_value (2 * length s + 1) (skip_ws s) \<noteq> Inl RecursionError" using scan_total_all by blast
  then show ?thesis
    by (cases "scan_value (2 * length s + 1) (skip_ws s)") (auto simp: json_loads_def split: prod.split)
qed

section \<open>Round trip\<close>

text \<open>Values without floats whose dictionaries have distinct keys.\<close>

fun json_ok :: "json \<Rightarrow> bool" where
  "json_ok (JFloat t) = False"
| "json_ok (JList xs) = (\<forall>x \<in> set xs. json_ok x)"
| "json_ok (JDict d) = (dict_ok d \<and> (\<forall>kv \<in> set d. json_ok (snd kv)))"
| "json_ok _ = True"

definition ends_number :: "string \<Rightarrow> bool" where
  "ends_number r =
     (r = [] \<or> \<not> is_digit (hd r) \<and> hd r \<notin> {CHR ''.'', CHR ''e'', CHR ''E''})"

lemma skip_ws_append: "\<forall>c \<in> set w. is_ws c \<Longrightarrow> skip_ws (w @ s) = skip_ws s"
  by (simp add: skip_ws_def)

lemma skip_ws_id: "s \<noteq> [] \<Longrightarrow> \<not> is_ws (hd s) \<Longrightarrow> skip_ws s = s"
  by (cases s) (simp_all add: skip_ws_def)

lemma line_break_ws: "\<forall>c \<in> set (line_break ind l). is_ws c"
  by (cases ind) (auto simp: line_break_def is_ws_def)

subsection \<open>Strings\<close>

lemma hex_digit: "d < 16 \<Longrightarrow> hex_val (hex_char d) = Some d"
proof -
  have "list_all (\<lambda>d. hex_val (hex_char d) = Some d) [0..<16]" by code_simp
  then show "d < 16 \<Longrightarrow> hex_val (hex_char d) = Some d" by (simp add: list_all_iff)
qed

lemma hex4_char:
  "hex4 (CHR ''0'') (CHR ''0'') (hex_char (of_char c div 16)) (hex_char (of_char c mod 16)) = Some c"
proof -
  have "hex_val (CHR ''0'') = Some 0" by code_simp
  moreover have "of_char c div 16 * 16 + of_char c mod 16 = (of_char c :: nat)" by simp
  moreover have l: "of_char c < (256 :: nat)" by (metis of_char_mod_256 mod_less_divisor zero_less_numeral)
  moreover have "hex_val (hex_char (of_char c div 16)) = Some (of_char c div 16)"
    "hex_val (hex_char (of_char c mod 16)) = Some (of_char c mod 16)"
    using l by (simp_all add: hex_digit div_less_iff_less_mult)
  ultimately show ?thesis by (simp add: hex4_def Let_def)
qed

lemma scan_escape: "scan_str (escape_char c @ t) = rmap (apfst ((#) c)) (scan_str t)"
proof -
  have "CHR 0x20 \<le> c \<Longrightarrow> \<not> c < CHR 0x20" by (simp add: not_less)
  then show ?thesis
    by (auto simp: escape_char_def unescape_def hex4_char)
qed

lemma scan_dump_str: "scan_str (concat (map escape_char s) @ quote # r) = Inr (s, r)"
  by (induction s) (simp_all add: scan_escape)

subsection \<open>Numbers and literals\<close>

lemma nat_str_first: "n > 0 \<Longrightarrow> hd (nat_str n) \<noteq> CHR ''0''"
proof (induction n rule: nat_str.induct)
  case (1 n)
  have "list_all (\<lambda>d. digit_char d \<noteq> CHR ''0'') [1..<10]" by code_simp
  then have z: "digit_char d \<noteq> CHR ''0''" if "0 < d" "d < 10" for d
    using that by (simp add: list_all_iff)
  show ?case
  proof (cases "n < 10")
    case True
    then show ?thesis using z "1.prems" by (subst nat_str.simps) simp
  next
    case False
    then show ?thesis using 1 by (subst nat_str.simps) simp
  qed
qed

lemma nat_str_0: "nat_str 0 = ''0''"
  by code_simp

lemma takeWhile_ends: "ends_number r \<Longrightarrow> takeWhile is_digit r = [] \<and> dropWhile is_digit r = r"
  by (cases r) (auto simp: ends_number_def)

lemma scan_int_str:
  assumes "ends_number r"
  shows "scan_int (int_str i @ r) = Some (int_str i, r)"
proof -
  have nat: "scan_int (nat_str n @ r) = Some (nat_str n, r) \<and>
      scan_int (CHR ''-'' # nat_str n @ r) = Some (CHR ''-'' # nat_str n, r)" for n
  proof (cases n)
    case 0
    then show ?thesis by (simp add: nat_str_0 scan_int_def) code_simp
  next
    case (Suc m)
    obtain c t where ct: "nat_str n = c # t" by (cases "nat_str n") auto
    have d: "is_digit c" "\<forall>x \<in> set t. is_digit x" using nat_str_digits [of n] ct by auto
    have "c \<noteq> CHR ''0''" using nat_str_first [of n] Suc ct by simp
    moreover have "c \<noteq> CHR ''-''" using d by auto
    moreover have "takeWhile is_digit (t @ r) = t" "dropWhile is_digit (t @ r) = r"
      using d takeWhile_ends [OF assms] by (simp_all add: takeWhile_append2 dropWhile_append2)
    ultimately show ?thesis using d(1) by (simp add: ct scan_int_def)
  qed
  then show ?thesis by (simp add: int_str_def)
qed

lemma scan_number_int: "ends_number r \<Longrightarrow> scan_number (int_str i @ r) = Inr (JInt i, r)"
proof -
  assume r: "ends_number r"
  have "scan_frac r = ([], r)" "scan_exp r = ([], r)"
    using r by (cases r; auto simp: scan_frac_def scan_exp_def ends_number_def split: list.split)+
  moreover have "hd (nat_str n) \<noteq> CHR ''-''" for n
    using nat_str_digits [of n] by (cases "nat_str n") auto
  ultimately show ?thesis
    using scan_int_str [OF r, of i] by (auto simp: scan_number_def int_str_def)
qed

lemma int_str_first: "\<exists>c t. int_str i = c # t \<and> (is_digit c \<or> c = CHR ''-'' \<and> t \<noteq> [] \<and> is_digit (hd t))"
proof -
  have "\<exists>c t. nat_str n = c # t \<and> is_digit c" for n
    using nat_str_digits [of n] by (cases "nat_str n") auto
  then show ?thesis unfolding int_str_def by (metis list.sel(1) list.distinct(1))
qed

lemma is_digit_no_literal [simp]:
  "\<not> is_digit (CHR ''n'')" "\<not> is_digit (CHR ''t'')" "\<not> is_digit (CHR ''f'')" "\<not> is_digit (CHR ''N'')"
  "\<not> is_digit (CHR ''I'')" "\<not> is_digit quote" "\<not> is_digit (CHR ''['')" "\<not> is_digit (CHR ''{'')"
  "\<not> is_digit (CHR '']'')"
  by code_simp+

lemma scan_literal_int:
  assumes "ends_number r"
  shows "scan_literal (int_str i @ r) = Inr (JInt i, r)"
proof -
  obtain c t where ct: "int_str i = c # t" "is_digit c \<or> c = CHR ''-'' \<and> t \<noteq> [] \<and> is_digit (hd t)"
    using int_str_first by blast
  have "take (length u) (int_str i @ r) \<noteq> u" if "(u, v) \<in> set literals" for u v
  proof -
    have c: "c \<noteq> CHR ''n''" "c \<noteq> CHR ''t''" "c \<noteq> CHR ''f''" "c \<noteq> CHR ''N''" "c \<noteq> CHR ''I''"
      using ct(2) by auto
    show ?thesis
    proof (cases "u = ''-Infinity''")
      case True
      then show ?thesis using ct by (cases t) auto
    next
      case False
      then have "u \<noteq> []" "hd u \<noteq> c" using that c by (auto simp: literals_def)
      then show ?thesis by (cases u) (auto simp: ct(1))
    qed
  qed
  then have "find (\<lambda>(t, v). take (length t) (int_str i @ r) = t) literals = None"
    by (auto simp: find_None_iff)
  then show ?thesis by (simp add: scan_literal_def scan_number_int [OF assms])
qed

lemma scan_literal_words:
  "scan_literal (''null'' @ r) = Inr (JNull, r)"
  "scan_literal (''true'' @ r) = Inr (JBool True, r)"
  "scan_literal (''false'' @ r) = Inr (JBool False, r)"
  by (simp_all add: scan_literal_def literals_def)

subsection \<open>Values\<close>

lemma is_ws_space: "is_ws c \<Longrightarrow> is_space c"
  by (auto simp: is_ws_def is_space_def less_eq_char_def)

lemma dumps_first:
  assumes "json_ok v"
  shows "dumps ind l v \<noteq> []" "\<not> is_ws (hd (dumps ind l v))" "hd (dumps ind l v) \<noteq> CHR '']''"
proof -
  have "\<not> is_ws c \<and> c \<noteq> CHR '']''" if "is_digit c \<or> c = CHR ''-''" for c
  proof (cases "is_digit c")
    case True
    then show ?thesis using is_digit_not_space is_ws_space is_digit_no_literal(9) by blast
  next
    case False
    then show ?thesis using that by (simp add: is_ws_def)
  qed
  then have int: "int_str i \<noteq> [] \<and> \<not> is_ws (hd (int_str i)) \<and> hd (int_str i) \<noteq> CHR '']''" for i
    using int_str_first [of i] by (metis list.sel(1) list.distinct(1))
  have "dumps ind l v \<noteq> [] \<and> \<not> is_ws (hd (dumps ind l v)) \<and> hd (dumps ind l v) \<noteq> CHR '']''"
  proof (cases v)
    case (JInt i)
    then show ?thesis using int by simp
  next
    case (JFloat t)
    then show ?thesis using assms by simp
  qed (simp_all add: dump_str_def is_ws_def)
  then show "dumps ind l v \<noteq> []" "\<not> is_ws (hd (dumps ind l v))" "hd (dumps ind l v) \<noteq> CHR '']''"
    by simp_all
qed

lemma skip_ws_value: "json_ok v \<Longrightarrow> skip_ws (dumps ind l v @ r) = dumps ind l v @ r"
  using dumps_first [of v ind l] by (intro skip_ws_id) simp_all

lemma skip_ws_break: "skip_ws (line_break ind l @ s) = skip_ws s"
  by (rule skip_ws_append [OF line_break_ws])

lemma ends_number_ws:
  assumes "\<forall>c \<in> set w. is_ws c" "c \<in> {CHR '','', CHR '']'', CHR ''}''}"
  shows "ends_number (w @ c # r)"
proof (cases w)
  case Nil
  then show ?thesis using assms(2) by (auto simp: ends_number_def is_digit_code)
next
  case (Cons x u)
  then have "is_ws x" using assms(1) by simp
  then have "\<not> is_digit x" "x \<notin> {CHR ''.'', CHR ''e'', CHR ''E''}"
    using is_ws_space is_digit_not_space by (blast, auto simp: is_ws_def)
  then show ?thesis by (simp add: Cons ends_number_def)
qed

lemma scan_value_int:
  assumes "ends_number r" "n \<noteq> 0"
  shows "scan_value n (int_str i @ r) = Inr (JInt i, r)"
proof -
  obtain m where n: "n = Suc m" using assms(2) by (cases n) auto
  obtain c t where ct: "int_str i = c # t" "is_digit c \<or> c = CHR ''-''"
    using int_str_first [of i] by blast
  then have "c \<noteq> quote" "c \<noteq> CHR ''[''" "c \<noteq> CHR ''{''" by auto
  then show ?thesis using scan_literal_int [OF assms(1), of i] by (simp add: n ct(1))
qed

lemma scan_value_list:
  assumes "xs \<noteq> []" "json_ok (hd xs)"
    and "scan_elems n (dumps_elems ind (l + 1) xs @ line_break ind l @ '']'' @ r) = Inr (xs, r)"
  shows "scan_value (Suc n) (dumps ind l (JList xs) @ r) = Inr (JList xs, r)"
proof -
  obtain x ys where xs: "xs = x # ys" using assms(1) by (cases xs) auto
  let ?t = "dumps_elems ind (l + 1) xs @ line_break ind l @ '']'' @ r"
  have f: "?t = dumps ind (l + 1) x @ drop (length (dumps ind (l + 1) x)) ?t" by (simp add: xs)
  have "skip_ws ?t = ?t"
    using skip_ws_value [of x ind "l + 1" "drop (length (dumps ind (l + 1) x)) ?t"] assms(2) f by (simp add: xs)
  moreover obtain c u where cu: "dumps ind (l + 1) x = c # u" using dumps_first(1) assms(2) xs
    by (metis list.exhaust list.sel(1))
  moreover have "c \<noteq> CHR '']''" using dumps_first(3) [of x ind "l + 1"] cu assms(2) xs by simp
  ultimately show ?thesis
    using assms(3) by (simp add: xs skip_ws_break)
qed

lemma scan_value_dict:
  assumes "d \<noteq> []" "dict_ok d"
    and "scan_members n (dumps_members ind (l + 1) d @ line_break ind l @ ''}'' @ r) = Inr (d, r)"
  shows "scan_value (Suc n) (dumps ind l (JDict d) @ r) = Inr (JDict d, r)"
proof -
  obtain k v e where d: "d = (k, v) # e" using assms(1) by (cases d) auto
  have "dict_update [] d = d" using assms(2) by (rule dict_update_fresh)
  moreover have "skip_ws (quote # u) = quote # u" for u by (simp add: skip_ws_def is_ws_def)
  ultimately show ?thesis
    using assms(3) by (simp add: d skip_ws_break dump_str_def)
qed

lemma scan_elems_step:
  assumes "scan_value n (dumps ind l x @ t) = Inr (x, t)"
    and "t = w @ '']'' @ r \<and> xs = [] \<or>
         t = '', '' @ u \<and> scan_elems n (skip_ws u) = Inr (xs, r)"
    and "\<forall>c \<in> set w. is_ws c"
  shows "scan_elems (Suc n) (dumps ind l x @ t) = Inr (x # xs, r)"
proof -
  have "skip_ws (w @ '']'' @ r) = '']'' @ r" using assms(3) by (simp add: skip_ws_append) (simp add: skip_ws_def is_ws_def)
  moreover have "skip_ws ('', '' @ u) = '', '' @ u" "skip_ws ('' '' @ u) = skip_ws u"
    by (simp_all add: skip_ws_def is_ws_def)
  ultimately show ?thesis using assms(1,2) by auto
qed

lemma scan_members_step:
  assumes "scan_value n (dumps ind l v @ t) = Inr (v, t)" "json_ok v"
    and "t = w @ ''}'' @ r \<and> d = [] \<or>
         t = '', '' @ u \<and> scan_members n (skip_ws u) = Inr (d, r)"
    and "\<forall>c \<in> set w. is_ws c"
  shows "scan_members (Suc n) (dump_str k @ '': '' @ dumps ind l v @ t) = Inr ((k, v) # d, r)"
proof -
  have "skip_ws (w @ ''}'' @ r) = ''}'' @ r" using assms(4) by (simp add: skip_ws_append) (simp add: skip_ws_def is_ws_def)
  moreover have "skip_ws ('', '' @ u) = '', '' @ u" "skip_ws ('' '' @ u) = skip_ws u"
    "skip_ws ('': '' @ s) = '': '' @ s" "skip_ws ('' '' @ dumps ind l v @ t) = dumps ind l v @ t" for s
    using skip_ws_value [OF assms(2)] by (simp_all add: skip_ws_def is_ws_def)
  ultimately show ?thesis
    using assms(1,3) by (auto simp: dump_str_def scan_dump_str)
qed

lemma round_trip_all:
  "json_ok v \<Longrightarrow> ends_number r \<Longrightarrow> 2 * length (dumps ind l v @ r) + 1 \<le> n \<Longrightarrow>
     scan_value n (dumps ind l v @ r) = Inr (v, r)"
  "xs \<noteq> [] \<Longrightarrow> \<forall>x \<in> set xs. json_ok x \<Longrightarrow> \<forall>c \<in> set w. is_ws c \<Longrightarrow>
     2 * length (dumps_elems ind l xs @ w @ '']'' @ r) + 2 \<le> n \<Longrightarrow>
     scan_elems n (dumps_elems ind l xs @ w @ '']'' @ r) = Inr (xs, r)"
  "d \<noteq> [] \<Longrightarrow> \<forall>kv \<in> set d. json_ok (snd kv) \<Longrightarrow> \<forall>c \<in> set w. is_ws c \<Longrightarrow>
     2 * length (dumps_members ind l d @ w @ ''}'' @ r) + 2 \<le> n \<Longrightarrow>
     scan_members n (dumps_members ind l d @ w @ ''}'' @ r) = Inr (d, r)"
proof (induction ind l v and ind l xs and ind l d arbitrary: n r and n r w and n r w
    rule: dumps_dumps_elems_dumps_members.induct)
  case (1 ind l)
  then show ?case by (cases n) (simp_all add: scan_literal_words(1) [simplified])
next
  case (2 ind l b)
  then show ?case by (cases n) (simp_all add: scan_literal_words(2,3) [simplified])
next
  case (3 ind l i)
  then show ?case by (simp add: scan_value_int)
next
  case (4 ind l t)
  then show ?case by simp
next
  case (5 ind l s)
  then show ?case by (cases n) (simp_all add: dump_str_def scan_dump_str)
next
  case (6 ind l xs)
  then obtain m where n: "n = Suc m" by (cases n) auto
  show ?case
  proof (cases "xs = []")
    case True
    then show ?thesis by (simp add: n skip_ws_def is_ws_def)
  next
    case False
    then have "scan_elems m (dumps_elems ind (l + 1) xs @ line_break ind l @ '']'' @ r) = Inr (xs, r)"
      using 6 n by (intro "6.IH") (simp_all add: line_break_ws)
    with False 6(2) show ?thesis unfolding n by (intro scan_value_list) simp_all
  qed
next
  case (7 ind l d)
  then obtain m where n: "n = Suc m" by (cases n) auto
  show ?case
  proof (cases "d = []")
    case True
    then show ?thesis by (simp add: n skip_ws_def is_ws_def dict_update_def)
  next
    case False
    then have "scan_members m (dumps_members ind (l + 1) d @ line_break ind l @ ''}'' @ r) = Inr (d, r)"
      using 7 n by (intro "7.IH") (simp_all add: line_break_ws)
    with False 7(2) show ?thesis unfolding n by (intro scan_value_dict) simp_all
  qed
next
  case (8 ind l)
  then show ?case by simp
next
  case (9 ind l x xs)
  then obtain m where n: "n = Suc m" by (cases n) auto
  let ?e = "dumps_elems ind l xs @ w @ '']'' @ r"
  let ?t = "if xs = [] then w @ '']'' @ r else '', '' @ line_break ind l @ ?e"
  have "ends_number ?t"
    using 9(5) ends_number_ws [of w] ends_number_ws [of "[]"] by simp
  then have "scan_value m (dumps ind l x @ ?t) = Inr (x, ?t)"
    using 9(4,6) n by (intro "9.IH"(1)) auto
  moreover have "?t = w @ '']'' @ r \<and> xs = [] \<or>
      ?t = '', '' @ (line_break ind l @ ?e) \<and> scan_elems m (skip_ws (line_break ind l @ ?e)) = Inr (xs, r)"
  proof (cases "xs = []")
    case False
    then have "scan_elems m ?e = Inr (xs, r)" using 9(4,5,6) n by (intro "9.IH"(2)) auto
    moreover have "skip_ws ?e = ?e"
      using False 9(4) skip_ws_value [of "hd xs" ind l] by (cases xs) simp_all
    ultimately show ?thesis using False by (simp add: skip_ws_break)
  qed simp
  ultimately have "scan_elems (Suc m) (dumps ind l x @ ?t) = Inr (x # xs, r)"
    using 9(5) by (rule scan_elems_step)
  then show ?case by (simp add: n split: if_splits)
next
  case (10 ind l)
  then show ?case by simp
next
  case (11 ind l k v d)
  then obtain m where n: "n = Suc m" by (cases n) auto
  let ?e = "dumps_members ind l d @ w @ ''}'' @ r"
  let ?t = "if d = [] then w @ ''}'' @ r else '', '' @ line_break ind l @ ?e"
  have v: "json_ok v" using 11(4) by simp
  have "ends_number ?t"
    using 11(5) ends_number_ws [of w] ends_number_ws [of "[]"] by simp
  then have "scan_value m (dumps ind l v @ ?t) = Inr (v, ?t)"
    using 11(4,6) n by (intro "11.IH"(1)) auto
  moreover have "?t = w @ ''}'' @ r \<and> d = [] \<or>
      ?t = '', '' @ (line_break ind l @ ?e) \<and> scan_members m (skip_ws (line_break ind l @ ?e)) = Inr (d, r)"
  proof (cases "d = []")
    case False
    then have "scan_members m ?e = Inr (d, r)" using 11(4,5,6) n by (intro "11.IH"(2)) auto
    moreover have "skip_ws ?e = ?e"
      using False by (cases d) (auto simp: dump_str_def skip_ws_def is_ws_def)
    ultimately show ?thesis using False by (simp add: skip_ws_break)
  qed simp
  ultimately have "scan_members (Suc m) (dump_str k @ '': '' @ dumps ind l v @ ?t) = Inr ((k, v) # d, r)"
    using v 11(5) by (intro scan_members_step) auto
  then show ?case by (simp add: n split: if_splits)
qed

text \<open>
  Parsing what was written gives the value back, compact or indented, and whatever white space ends
  the text.
\<close>

lemma json_loads_dumps_ws:
  assumes v: "json_ok v" and w: "\<forall>c \<in> set w. is_ws c"
  shows "json_loads (json_dumps ind v @ w) = Inr v"
proof -
  have "ends_number w"
  proof (cases w)
    case (Cons x u)
    then have "is_ws x" using w by simp
    then have "\<not> is_digit x" "x \<notin> {CHR ''.'', CHR ''e'', CHR ''E''}"
      using is_ws_space is_digit_not_space by (blast, auto simp: is_ws_def)
    then show ?thesis by (simp add: Cons ends_number_def)
  qed (simp add: ends_number_def)
  from round_trip_all(1) [OF v this, of ind 0 "2 * length (dumps ind 0 v @ w) + 1"]
  have "scan_value (2 * length (dumps ind 0 v @ w) + 1) (dumps ind 0 v @ w) = Inr (v, w)" by simp
  moreover have "skip_ws (dumps ind 0 v @ w) = dumps ind 0 v @ w" using skip_ws_value [OF v] by simp
  moreover have "skip_ws w = []" using skip_ws_append [OF w, of "[]"] by (simp add: skip_ws_def)
  ultimately show ?thesis by (simp add: json_loads_def json_dumps_def)
qed

lemma json_loads_dumps: "json_ok v \<Longrightarrow> json_loads (json_dumps ind v) = Inr v"
  using json_loads_dumps_ws [of v "[]"] by simp

section \<open>Formatting\<close>

text \<open>\<open>repr\<close> of a string: single quotes unless it has one and no double quote.\<close>

definition repr_char :: "char \<Rightarrow> char \<Rightarrow> string" where
  "repr_char q c =
     (if c = q \<or> c = backslash then [backslash, c]
      else if c = CHR 0x0A then [backslash, CHR ''n'']
      else if c = CHR 0x0D then [backslash, CHR ''r'']
      else if c = CHR 0x09 then [backslash, CHR ''t'']
      else if CHR 0x20 \<le> c \<and> c \<le> CHR 0x7E then [c]
      else [backslash, CHR ''x'', hex_char (of_char c div 16), hex_char (of_char c mod 16)])"

definition repr_str :: "string \<Rightarrow> string" where
  "repr_str s =
     (let q = (if CHR 0x27 \<in> set s \<and> quote \<notin> set s then quote else CHR 0x27)
      in q # concat (map (repr_char q) s) @ [q])"

text \<open>\<open>repr\<close> of a parsed value; \<open>u\<close> is the prefix of a string literal, \<open>u\<close> in Python 2.\<close>

fun py_repr :: "string \<Rightarrow> json \<Rightarrow> string" where
  "py_repr u JNull = ''None''"
| "py_repr u (JBool b) = (if b then ''True'' else ''False'')"
| "py_repr u (JInt i) = int_str i"
| "py_repr u (JFloat t) = t"
| "py_repr u (JStr s) = u @ repr_str s"
| "py_repr u (JList xs) = ''['' @ str_join '', '' (map (py_repr u) xs) @ '']''"
| "py_repr u (JDict d) =
     ''{'' @ str_join '', '' (map (\<lambda>kv. u @ repr_str (fst kv) @ '': '' @ py_repr u (snd kv)) d) @ ''}''"

text \<open>\<open>str.format\<close> of a value: a string stands for itself.\<close>

definition py_format :: "string \<Rightarrow> json \<Rightarrow> string" where
  "py_format u v = (case v of JStr s \<Rightarrow> s | _ \<Rightarrow> py_repr u v)"

text \<open>\<open>v[k]\<close> with a string key, \<open>v.get(k, d)\<close> and \<open>v.items()\<close> of a parsed value.\<close>

definition json_index :: "json \<Rightarrow> string \<Rightarrow> json res" where
  "json_index v k =
     (case v of
        JDict d \<Rightarrow> (case dict_get d k of None \<Rightarrow> Inl (KeyError k) | Some x \<Rightarrow> Inr x)
      | _ \<Rightarrow> Inl TypeError)"

definition json_items :: "json \<Rightarrow> (string \<times> json) list res" where
  "json_items v = (case v of JDict d \<Rightarrow> Inr d | _ \<Rightarrow> Inl AttributeError)"

end
