(* ===== verification/Inventory_Run.thy ===== *)
theory Inventory_Run
  imports Inventory_Assign Ini_File Json
begin

text \<open>
  The program around the groups: the constructor, the commands, the loader and \<open>main\<close> of
  \<open>contrib/inventory_builder/inventory.py\<close>, on a world of files and terminal output. A run is an
  outcome or an exception together with the world it leaves behind. YAML parsing is PyYAML's and an
  argument: it takes the text of a file to the value the loader walks.
\<close>

section \<open>The world\<close>

record world =
  files :: "string \<rightharpoonup> string"
  writable :: "string \<Rightarrow> bool"
  stdout :: string

definition print_line :: "world \<Rightarrow> string \<Rightarrow> world" where
  "print_line w s = w\<lparr>stdout := stdout w @ s @ [newline]\<rparr>"

type_synonym 'a run = "'a res \<times> world"

definition run_bind :: "'a run \<Rightarrow> ('a \<Rightarrow> world \<Rightarrow> 'b run) \<Rightarrow> 'b run" where
  "run_bind m f = (case m of (Inl e, w) \<Rightarrow> (Inl e, w) | (Inr x, w) \<Rightarrow> f x w)"

lemma run_bind_simps [simp]:
  "run_bind (Inl e, w) f = (Inl e, w)"
  "run_bind (Inr x, w) f = f x w"
  by (simp_all add: run_bind_def)

datatype outcome = Exited | Updated

section \<open>Commands\<close>

definition save_warning :: string where
  "save_warning =
     ''WARNING: Unable to save config. Make sure you set CONFIG_FILE env var.''"

definition write_config :: "config \<Rightarrow> string option \<Rightarrow> world \<Rightarrow> unit run" where
  "write_config c config_file w =
     (case config_file of
        Some p \<Rightarrow>
          if p = [] then (Inr (), print_line w save_warning)
          else if writable w p then (Inr (), w\<lparr>files := (files w)(p \<mapsto> cfg_write c)\<rparr>)
          else (Inl (IOError p), w)
      | None \<Rightarrow> (Inr (), print_line w save_warning))"

definition print_config :: "config \<Rightarrow> world \<Rightarrow> world" where
  "print_config c w = w\<lparr>stdout := stdout w @ cfg_write c\<rparr>"

definition print_ips :: "config \<Rightarrow> world \<Rightarrow> unit run" where
  "print_ips c w =
     (case rbind (cfg_items c ''all'') (rmapM (\<lambda>(host, opts). get_ip_from_opts opts)) of
        Inl e \<Rightarrow> (Inl e, w)
      | Inr ips \<Rightarrow> (Inr (), print_line w (str_join '' '' ips)))"

section \<open>The loader\<close>

text \<open>\<open>ansible_host\<close> and \<open>ip\<close> from the mandatory \<open>ip\<close> entry, then the other entries in order.\<close>

definition load_optstring :: "json \<Rightarrow> string res" where
  "load_optstring opts =
     rbind (json_index opts ''ip'') (\<lambda>ip.
     rbind (json_items opts) (\<lambda>items.
       Inr (foldl (\<lambda>s (key, val). if key = ''ip'' then s else s @ '' '' @ key @ ''='' @ py_format [] val)
              (host_opts_of (py_format [] ip)) items)))"

definition load_host :: "string \<Rightarrow> config \<Rightarrow> string \<times> json \<Rightarrow> config res" where
  "load_host grp c entry =
     (case entry of (host, opts) \<Rightarrow>
        rbind (load_optstring opts) (\<lambda>optstring.
        rbind (add_host_to_group c ''all'' host optstring) (\<lambda>c.
          add_host_to_group c grp host [])))"

definition load_group :: "config \<Rightarrow> string \<times> json \<Rightarrow> config res" where
  "load_group c entry =
     (case entry of (grp, hosts) \<Rightarrow>
        rbind (ensure_required_groups c [grp]) (\<lambda>c.
        rbind (json_items hosts) (\<lambda>items.
          rfold (load_host grp) c items)))"

definition load_data :: "config \<Rightarrow> json \<Rightarrow> config res" where
  "load_data c data =
     rbind (ensure_required_groups c ROLES) (\<lambda>c.
     rbind (set_k8s_cluster c) (\<lambda>c.
     rbind (json_items data) (\<lambda>items.
       rfold load_group c items)))"

text \<open>JSON first; YAML where JSON raises a \<open>ValueError\<close>.\<close>

definition read_data ::
  "(string \<Rightarrow> json res) \<Rightarrow> string \<Rightarrow> world
     \<Rightarrow> json run" where
  "read_data yaml_load filename w =
     (case files w filename of
        None \<Rightarrow> (Inl (IOError filename), w)
      | Some text \<Rightarrow>
          (case json_loads text of
             Inr data \<Rightarrow> (Inr data, w)
           | Inl (ValueError m) \<Rightarrow>
               (case yaml_load text of
                  Inr data \<Rightarrow> (Inr data, print_line w ''yaml'')
                | Inl (ValueError m) \<Rightarrow>
                    (Inl (GenericException ''Cannot read %s as JSON, YAML, or CSV''), w)
                | Inl e \<Rightarrow> (Inl e, w))
           | Inl e \<Rightarrow> (Inl e, w)))"

fun load_files ::
  "(string \<Rightarrow> json res) \<Rightarrow> config \<Rightarrow> string option
     \<Rightarrow> string list \<Rightarrow> world \<Rightarrow> config run" where
  "load_files yaml_load c config_file [] w = (Inr c, w)"
| "load_files yaml_load c config_file (filename # filenames) w =
     run_bind (read_data yaml_load filename w) (\<lambda>data w.
       case load_data c data of
         Inl e \<Rightarrow> (Inl e, w)
       | Inr c' \<Rightarrow> run_bind (write_config c' config_file w) (\<lambda>_ w.
           load_files yaml_load c' config_file filenames w))"

definition load_file ::
  "(string \<Rightarrow> json res) \<Rightarrow> config \<Rightarrow> string option
     \<Rightarrow> string list \<Rightarrow> world \<Rightarrow> config run" where
  "load_file yaml_load c config_file filenames w =
     (if filenames = [] then (Inl (GenericException ''No input file specified.''), w)
      else load_files yaml_load c config_file filenames w)"

section \<open>The constructor\<close>

definition help_text :: string where
  "help_text = concat (map (\<lambda>l. l @ [newline])
     [''Usage: inventory.py ip1 [ip2 ...]'',
      ''Examples: inventory.py 10.10.1.3 10.10.1.4 10.10.1.5'',
      '''',
      ''Available commands:'',
      ''help - Display this message'',
      ''print_cfg - Write inventory file to stdout'',
      ''print_ips - Write a space-delimited list of IPs from '' @ [CHR 0x22] @ ''all'' @ [CHR 0x22] @ '' group'',
      '''',
      ''Advanced usage:'',
      ''Add another host after initial creation: inventory.py 10.10.1.5'',
      ''Delete a host: inventory.py -10.10.1.3'',
      ''Delete a host by id: inventory.py -node1'',
      '''',
      ''Configurable env vars:'',
      ''DEBUG                   Enable debug printing. Default: True'',
      ''CONFIG_FILE             File to write config to Default: ./inventory/sample/hosts.ini'',
      ''HOST_PREFIX             Host prefix for generated hosts. Default: node'',
      ''SCALE_THRESHOLD         Separate ETCD role if # of nodes >= 50'',
      ''MASSIVE_SCALE_THRESHOLD Separate K8s master and ETCD if # of nodes >= 200''])"

definition show_help :: "world \<Rightarrow> world" where
  "show_help w = print_line w help_text"

definition parse_command ::
  "(string \<Rightarrow> json res) \<Rightarrow> config \<Rightarrow> string option
     \<Rightarrow> string \<Rightarrow> string list \<Rightarrow> world \<Rightarrow> config run" where
  "parse_command yaml_load c config_file command args w =
     (if command = ''help'' then (Inr c, show_help w)
      else if command = ''print_cfg'' then (Inr c, print_config c w)
      else if command = ''print_ips'' then run_bind (print_ips c w) (\<lambda>_ w. (Inr c, w))
      else if command = ''load'' then load_file yaml_load c config_file args w
      else (Inl (GenericException ''Invalid command specified.''), w))"

text \<open>\<open>self.config.read\<close>: a file that cannot be opened leaves the new configuration empty.\<close>

definition read_config :: "string option \<Rightarrow> world \<Rightarrow> config res" where
  "read_config config_file w =
     (case config_file of
        None \<Rightarrow> Inr new_config
      | Some p \<Rightarrow>
          if p = [] then Inr new_config
          else (case files w p of None \<Rightarrow> Inr new_config | Some text \<Rightarrow> cfg_read text))"

definition KubesprayInventory ::
  "(string \<Rightarrow> json res) \<Rightarrow> settings
     \<Rightarrow> string list \<Rightarrow> string option \<Rightarrow> world \<Rightarrow> (outcome \<times> config) run" where
  "KubesprayInventory yaml_load cfg changed_hosts config_file w =
     (case read_config config_file w of
        Inl e \<Rightarrow> (Inl e, w)
      | Inr c \<Rightarrow>
          if changed_hosts \<noteq> [] \<and> hd changed_hosts \<in> set AVAILABLE_COMMANDS
          then run_bind (parse_command yaml_load c config_file
                           (hd changed_hosts) (tl changed_hosts) w)
                 (\<lambda>c w. (Inr (Exited, c), w))
          else (case ensure_required_groups c ROLES of
              Inl e \<Rightarrow> (Inl e, w)
            | Inr c \<Rightarrow>
                if changed_hosts = [] then (Inr (Exited, c), show_help w)
                else (case assign_groups cfg c changed_hosts of
                    Inl e \<Rightarrow> (Inl e, w)
                  | Inr (c, hosts) \<Rightarrow>
                      run_bind (write_config c config_file w) (\<lambda>_ w. (Inr (Updated, c), w)))))"

text \<open>The module is loaded, which reads the environment, and \<open>main\<close> runs on the command line.\<close>

definition inventory_main ::
  "(string \<Rightarrow> json res) \<Rightarrow> environ
     \<Rightarrow> string list \<Rightarrow> world \<Rightarrow> (outcome \<times> config) run" where
  "inventory_main yaml_load env argv w =
     (case module_settings env of
        Inl e \<Rightarrow> (Inl e, w)
      | Inr cfg \<Rightarrow> KubesprayInventory yaml_load cfg argv (Some (config_path cfg)) w)"

end
