(* ===== verification/Inventory_Rerun.thy ===== *)
theory Inventory_Rerun
  imports Inventory_Run
begin

text \<open>
  What a second run finds: the \<open>all\<close> group after a run is the host table the run computed, entry for
  entry, and a run on known addresses leaves configuration and file as they are. The proofs follow the order of the
  entries through \<open>build_hostnames\<close>, the purge and \<open>set_all\<close>, and the file through \<open>read_write_file\<close>.
\<close>

section \<open>The order of the host table\<close>

lemma dict_eqI:
  assumes "dict_ok d" "dict_keys d = dict_keys e" "\<And>k. k \<in> set (dict_keys d) \<Longrightarrow> dict_get d k = dict_get e k"
  shows "d = e"
  using assms
proof (induction d arbitrary: e)
  case Nil
  then show ?case by (simp add: dict_keys_def)
next
  case (Cons x d)
  from Cons.prems(2) obtain y e' where e: "e = y # e'" "fst x = fst y" "dict_keys d = dict_keys e'"
    by (cases e) simp_all
  obtain k v w where x: "x = (k, v)" "y = (k, w)" using e(2) by (metis prod.collapse)
  have "v = w" using Cons.prems(3) [of k] by (simp add: x e)
  moreover have "dict_get d j = dict_get e' j" if "j \<in> set (dict_keys d)" for j
    using that Cons.prems(1) Cons.prems(3) [of j] e(3) by (auto simp: x e dict_ok_def split: if_splits)
  then have "d = e'" using Cons.IH [of e'] Cons.prems(1) e(3) by (simp add: dict_ok_def)
  ultimately show ?case by (simp add: x e)
qed

lemma put_all_same_keys:
  assumes "dict_keys d = map fst xs" "distinct (map fst xs)"
  shows "foldl (\<lambda>d (k, v). dict_set d k v) d xs = xs"
proof (rule dict_eqI)
  let ?r = "foldl (\<lambda>d (k, v). dict_set d k v) d xs"
  have k: "dict_keys ?r = dict_keys d"
    using assms(1) by (intro pd.keys_put_all_old) (metis list.set_map order_refl)
  then show "dict_keys ?r = dict_keys xs" using assms(1) by (simp add: dict_keys_def)
  with assms(2) show "dict_ok ?r" by (simp add: dict_ok_def dict_keys_def)
  fix j
  assume "j \<in> set (dict_keys ?r)"
  then have j: "j \<in> fst ` set xs" using k assms(1) by simp
  have "map_of (rev xs) = map_of xs"
    using assms(2) by (subst map_of_inject_set) (simp_all flip: rev_map)
  with j pd.get_put_all [of d xs j] show "dict_get ?r j = dict_get xs j"
    by (auto simp: dict_get_def [of xs] split: option.split dest!: weak_map_of_SomeI)
qed

text \<open>Storing a table over the entries of its first part gives the table.\<close>

lemma put_all_extends:
  assumes "dict_keys d = dict_keys xs" "dict_ok (xs @ ys)"
  shows "foldl (\<lambda>d (k, v). dict_set d k v) d (xs @ ys) = xs @ ys"
proof -
  have d: "distinct (map fst xs)" "dict_ok ys" "set (dict_keys xs) \<inter> set (dict_keys ys) = {}"
    using assms(2) by (auto simp: dict_ok_def dict_keys_def)
  then have "foldl (\<lambda>d (k, v). dict_set d k v) d xs = xs"
    using assms(1) by (intro put_all_same_keys) (simp_all add: dict_keys_def)
  moreover have "dict_ok (xs @ ys) \<Longrightarrow> foldl (\<lambda>d (k, v). dict_set d k v) xs ys = xs @ ys"
  proof (induction ys arbitrary: xs)
    case Nil
    then show ?case by simp
  next
    case (Cons y ys)
    obtain k v where y: "y = (k, v)" by force
    with Cons.prems have "dict_set xs k v = xs @ [y]"
      by (simp add: dict_set_fresh dict_ok_def)
    with Cons.IH [of "xs @ [y]"] Cons.prems y show ?case by simp
  qed
  ultimately show ?thesis using assms(2) by simp
qed

text \<open>A table grown from \<open>hs0\<close>: some of its entries in their order, then new names with an id.\<close>

definition grows :: "hosts \<Rightarrow> hosts \<Rightarrow> bool" where
  "grows hs0 hs =
     (\<exists>P new. hs = filter (\<lambda>e. P (fst e)) hs0 @ new \<and>
        set (dict_keys hs0) \<inter> set (dict_keys new) = {})"

lemma grows_refl: "grows hs hs"
  by (auto simp: grows_def intro!: exI [of _ "\<lambda>_. True"])

lemma grows_del:
  assumes "grows hs0 hs"
  shows "grows hs0 (dict_del hs x)"
proof -
  obtain P new where "hs = filter (\<lambda>e. P (fst e)) hs0 @ new"
    and d: "set (dict_keys hs0) \<inter> set (dict_keys new) = {}"
    using assms by (auto simp: grows_def)
  then have "dict_del hs x = filter (\<lambda>e. P (fst e) \<and> fst e \<noteq> x) hs0 @ dict_del new x"
    by (simp add: dict_del_filter conj_commute)
  moreover have "set (dict_keys hs0) \<inter> set (dict_keys (dict_del new x)) = {}" using d by auto
  ultimately show ?thesis
    unfolding grows_def by (intro exI [of _ "\<lambda>k. P k \<and> k \<noteq> x"] exI [of _ "dict_del new x"]) simp
qed

lemma grows_add:
  assumes "grows hs0 hs" "h \<notin> set (dict_keys hs)" "h \<notin> set (dict_keys hs0)"
  shows "grows hs0 (dict_set hs h os)"
proof -
  obtain P new where hs: "hs = filter (\<lambda>e. P (fst e)) hs0 @ new"
    and d: "set (dict_keys hs0) \<inter> set (dict_keys new) = {}"
    using assms by (auto simp: grows_def)
  then have "dict_set hs h os = filter (\<lambda>e. P (fst e)) hs0 @ (new @ [(h, os)])"
    using assms(2) by (simp add: dict_set_fresh)
  moreover have "set (dict_keys hs0) \<inter> set (dict_keys (new @ [(h, os)])) = {}" using d assms(3) by auto
  ultimately show ?thesis unfolding grows_def by blast
qed

definition grown :: "string \<Rightarrow> hosts \<Rightarrow> hosts \<times> nat \<Rightarrow> bool" where
  "grown p hs0 st =
     (grows hs0 (fst st) \<and> dict_ok (fst st) \<and>
      fresh_from p hs0 (snd st) \<and> fresh_from p (fst st) (snd st) \<and>
      (\<forall>h \<in> set (dict_keys (fst st)). is_ok (get_host_id h)))"

lemma grown_del: "grown p hs0 (hs, n) \<Longrightarrow> grown p hs0 (dict_del hs x, n)"
  by (auto simp: grown_def grows_del fresh_from_del)

lemma grown_add:
  assumes "grown p hs0 (hs, n)" "CHR ''.'' \<notin> set p"
  shows "grown p hs0 (dict_set hs (p @ nat_str n) os, n + 1)"
proof -
  let ?h = "p @ nat_str n"
  have g: "grows hs0 hs" "dict_ok hs" "fresh_from p hs0 n" "fresh_from p hs n"
    "\<forall>h \<in> set (dict_keys hs). is_ok (get_host_id h)"
    using assms(1) by (simp_all add: grown_def)
  have new: "?h \<notin> set (dict_keys hs)" "?h \<notin> set (dict_keys hs0)"
    using g(3,4) by (simp_all add: fresh_from_def)
  have id: "is_ok (get_host_id ?h)" using get_host_id_generated [OF assms(2), of n] by (auto simp: is_ok_iff)
  have "fresh_from p hs0 (n + 1)" using g(3) by (simp add: fresh_from_def)
  with g id new fresh_from_set [OF g(4), of os] show ?thesis
    unfolding grown_def fst_conv snd_conv by (auto intro: grows_add pd.ok_put simp del: Suc_eq_plus1_left)
qed

lemma change_host_grown:
  assumes "grown p hs0 st" "CHR ''.'' \<notin> set p" "change_host p st w = Inr st'"
  shows "grown p hs0 st'"
proof -
  obtain hs n where st: "st = (hs, n)" by force
  obtain c v where w: "w = c # v" using assms(3) st by (cases w) (auto simp: change_host_def)
  consider "st' = st" | x where "st' = (dict_del hs x, n)"
    | "st' = (dict_set hs (p @ nat_str n) (host_opts_of w), n + 1)"
    using assms(3)
    by (auto simp: st w change_host_eq rbind_eq_Inr_iff rmap_eq_Inr_iff delete_host_by_ip_def
        split: if_splits)
  then show ?thesis using assms grown_del grown_add st by cases auto
qed

lemma build_hostnames_grown:
  assumes "existing_hosts c = Inr (hs0, hi)" "dict_ok hs0" "CHR ''.'' \<notin> set (host_prefix cfg)"
    and "build_hostnames cfg c ws = Inr hosts"
  shows "\<exists>n. grown (host_prefix cfg) hs0 (hosts, n)"
proof -
  obtain n where r: "rfold (change_host (host_prefix cfg)) (hs0, hi + 1) ws = Inr (hosts, n)"
    using assms(1,4) by (auto simp: build_hostnames_eq rmap_eq_Inr_iff)
  have "grown (host_prefix cfg) hs0 (hosts, n)"
  proof (rule rfold_invariant [OF r])
    have "is_ok (get_host_id h)" if "h \<in> set (dict_keys hs0)" for h
      using existing_hosts_ids [OF assms(1)] that by (auto simp: is_ok_iff)
    then show "grown (host_prefix cfg) hs0 (hs0, hi + 1)"
      using assms existing_hosts_fresh [OF assms(1,3)]
      by (simp add: grown_def grows_refl fresh_from_def)
  qed (use change_host_grown [OF _ assms(3)] in blast)
  then show ?thesis ..
qed

section \<open>The table and the group\<close>

lemma good_all: "good c \<Longrightarrow> \<exists>d. cfg_view c ''all'' = Some d \<and> plain_options d \<and> options_ok d"
  using view_plain [of c "''all''"] view_options_ok [of c "''all''"] members_group [of c "''all''"]
  by (simp add: good_def) (meson in_ROLES(1))

lemma existing_hosts_view:
  assumes "defaults c = []" "cfg_view c ''all'' = Some d" "plain_options d" "dict_ok d"
  shows "existing_hosts c = rfold scan_host ([], 0) (map (\<lambda>(k, v). (k, value_str v)) d)"
  using assms
  by (simp add: existing_hosts_def cfg_items_def cfg_view_def items_plain default_section_def
      dict_update_fresh Let_def)

lemma existing_hosts_table:
  assumes "defaults c = []" "cfg_view c ''all'' = Some d" "plain_options d" "dict_ok d"
    and "\<forall>h \<in> set (dict_keys d). is_ok (get_host_id h)"
  shows "\<exists>hi. existing_hosts c = Inr (map (\<lambda>(k, v). (k, value_str v)) d, hi)"
proof -
  let ?es = "map (\<lambda>(k, v). (k, value_str v)) d"
  have k: "dict_keys ?es = dict_keys d" by (induction d) auto
  have "\<forall>(h, os) \<in> set ?es. is_ok (get_host_id h)"
    using assms(5) k by (force simp: dict_keys_def)
  then obtain hs hi where r: "rfold scan_host ([], 0) ?es = Inr (hs, hi)"
    using scan_hosts_ok by (fastforce simp: is_ok_iff)
  then have "hs = dict_update [] ?es" using scan_hosts by blast
  then have "hs = ?es" using assms(4) k by (simp add: dict_update_fresh dict_ok_def)
  with r show ?thesis using existing_hosts_view [OF assms(1-4)] by auto
qed

lemma existing_hosts_eq:
  assumes "existing_hosts c = Inr (hs, hi)" "defaults c = []" "cfg_view c ''all'' = Some d"
    "plain_options d" "dict_ok d"
  shows "hs = map (\<lambda>(k, v). (k, value_str v)) d"
proof -
  let ?es = "map (\<lambda>(k, v). (k, value_str v)) d"
  have "dict_keys ?es = dict_keys d" by (induction d) auto
  moreover have "hs = dict_update [] ?es"
    using scan_hosts assms(1) existing_hosts_view [OF assms(2-5)] by simp
  ultimately show ?thesis using assms(5) by (simp add: dict_update_fresh dict_ok_def)
qed

lemma kept_entries_keys:
  assumes hosts: "hosts = filter (\<lambda>e. P (fst e)) hs0 @ new"
    and new: "set (dict_keys hs0) \<inter> set (dict_keys new) = {}"
    and keys: "dict_keys hs0 = dict_keys d"
    and prot: "\<forall>h \<in> set (dict_keys d). h \<notin> set prot"
  shows "dict_keys (keep_names (dict_keys hosts @ prot) d) = dict_keys (filter (\<lambda>e. P (fst e)) hs0)"
proof -
  have f: "dict_keys (filter (\<lambda>e. Q (fst e)) x) = filter Q (dict_keys x)" for Q and x :: "('k, 'w) dict"
    by (induction x) auto
  have "h \<in> set (dict_keys hosts @ prot) \<longleftrightarrow> P h" if "h \<in> set (dict_keys d)" for h
  proof -
    have "h \<notin> set (dict_keys new)" "h \<notin> set prot" using that new keys prot by auto
    then show ?thesis using that keys by (simp add: hosts f)
  qed
  then show ?thesis unfolding dict_keys_keep f keys by (intro filter_cong) simp_all
qed

lemma stored_all_table:
  assumes "build_hostnames cfg c ws = Inr hosts" "good c" "defaults c = []" "hosts_ok hosts"
    and "CHR ''.'' \<notin> set (host_prefix cfg)"
  shows "stored_all c hosts = map (\<lambda>(h, os). (h, Some os)) hosts"
proof -
  let ?f = "map (\<lambda>(h, os). (h, Some os)) :: hosts \<Rightarrow> options"
  have fk: "dict_keys (?f x) = dict_keys x" for x by (induction x) auto
  obtain d where d: "cfg_view c ''all'' = Some d" "plain_options d" "dict_ok d"
    using good_all [OF assms(2)] by (auto simp: options_ok_def)
  obtain hs0 hi where e: "existing_hosts c = Inr (hs0, hi)"
    using assms(1) by (auto simp: build_hostnames_def rbind_eq_Inr_iff)
  have hs0: "hs0 = map (\<lambda>(k, v). (k, value_str v)) d" using existing_hosts_eq [OF e assms(3) d] .
  have k: "dict_keys hs0 = dict_keys d" unfolding hs0 by (induction d) auto
  then have "dict_ok hs0" using d by (simp add: dict_ok_def)
  from build_hostnames_grown [OF e this assms(5,1)] obtain P new where
    hosts: "hosts = filter (\<lambda>e. P (fst e)) hs0 @ new"
    and new: "set (dict_keys hs0) \<inter> set (dict_keys new) = {}"
    by (auto simp: grown_def grows_def)
  have "\<forall>h \<in> set (dict_keys d). h \<notin> set PROTECTED_NAMES"
    using all_not_protected [OF assms(1-3)] d by (simp add: members_def)
  note keep = kept_entries_keys [OF hosts new k this]
  have norm: "optionxform h = h" if "(h, os) \<in> set hosts" for h os
    using that assms(4) by (auto simp: hosts_ok_def)
  have "stored_all c hosts =
      foldl (\<lambda>d (h, v). dict_set d h v) (keep_names (dict_keys hosts @ PROTECTED_NAMES) d) (?f hosts)"
    unfolding stored_all_def d option.sel by (rule foldl_cong) (auto simp: norm)
  also have "\<dots> = ?f (filter (\<lambda>e. P (fst e)) hs0) @ ?f new"
    unfolding hosts map_append
  proof (rule put_all_extends)
    show "dict_keys (keep_names (dict_keys (filter (\<lambda>e. P (fst e)) hs0 @ new) @ PROTECTED_NAMES) d) =
        dict_keys (?f (filter (\<lambda>e. P (fst e)) hs0))"
      using keep unfolding hosts fk .
    have "dict_ok (?f hosts)" using assms(4) fk [of hosts] by (simp add: hosts_ok_def dict_ok_def)
    then show "dict_ok (?f (filter (\<lambda>e. P (fst e)) hs0) @ ?f new)" by (simp add: hosts)
  qed
  finally show ?thesis by (simp add: hosts)
qed

lemma map_value_str: "map (\<lambda>(k, v). (k, value_str v)) (map (\<lambda>(h, os). (h, Some os)) hs) = hs"
  by (induction hs) (auto simp: value_str_def)

lemma keys_map_Some: "dict_keys (map (\<lambda>(h, os). (h, Some os)) hs) = dict_keys hs"
  by (induction hs) auto

lemma host_table_result:
  assumes "build_hostnames cfg c ws = Inr hosts" "good c" "defaults c = []" "hosts_ok hosts"
    and "CHR ''.'' \<notin> set (host_prefix cfg)"
  shows "\<exists>c'. assign_groups cfg c ws = Inr (c', hosts) \<and> good c' \<and> defaults c' = [] \<and>
     cfg_view c' ''all'' = Some (map (\<lambda>(h, os). (h, Some os)) hosts) \<and>
     (\<forall>h \<in> set (dict_keys hosts). is_ok (get_host_id h))"
proof -
  obtain c' where c': "assign_groups cfg c ws = Inr (c', hosts)" "good c'" "defaults c' = []"
    "cfg_view c' ''all'' = Some (map (\<lambda>(h, os). (h, Some os)) hosts)"
    using assign_groups_result [OF assms(1-4)] stored_all_table [OF assms] by auto
  obtain hs0 hi where e: "existing_hosts c = Inr (hs0, hi)"
    using assms(1) by (auto simp: build_hostnames_def rbind_eq_Inr_iff)
  obtain d0 where "cfg_view c ''all'' = Some d0" "plain_options d0" "dict_ok d0"
    using good_all [OF assms(2)] by (auto simp: options_ok_def)
  moreover from existing_hosts_eq [OF e assms(3) this] have "dict_keys hs0 = dict_keys d0"
    by (induction d0 arbitrary: hs0) auto
  ultimately have "dict_ok hs0" by (simp add: dict_ok_def)
  from build_hostnames_grown [OF e this assms(5,1)] c' show ?thesis by (auto simp: grown_def)
qed

lemma existing_hosts_stored:
  assumes "good c" "defaults c = []" "norm_options d = norm_options (map (\<lambda>(h, os). (h, Some os)) hosts)"
    and "cfg_view c ''all'' = Some d" "\<forall>h \<in> set (dict_keys hosts). is_ok (get_host_id h)"
  shows "\<exists>hi. existing_hosts c = Inr (hosts, hi)"
proof -
  have v: "value_str (norm_value x) = value_str x" for x by (simp add: value_str_def norm_value_def)
  have n: "map (\<lambda>(k, v). (k, value_str v)) (norm_options e) = map (\<lambda>(k, v). (k, value_str v)) e" for e
    by (induction e) (auto simp: norm_options_def v)
  have k: "dict_keys (norm_options e) = dict_keys e" for e
    by (induction e) (auto simp: norm_options_def)
  have "dict_keys d = dict_keys hosts"
    using arg_cong [OF assms(3), of dict_keys] by (simp only: k keys_map_Some)
  moreover have "map (\<lambda>(k, v). (k, value_str v)) d = hosts"
    using arg_cong [OF assms(3), of "map (\<lambda>(k, v). (k, value_str v))"] by (simp only: n map_value_str)
  ultimately show ?thesis
    using existing_hosts_table [OF assms(2,4)] good_all [OF assms(1)] assms(4,5)
    by (auto simp: options_ok_def)
qed

text \<open>What a run stores is what the next run reads: after the assignment the \<open>all\<close> group holds
  exactly the host table, in its order, and \<open>build_hostnames\<close> starts from that table again.\<close>

lemma host_table_persists:
  assumes "build_hostnames cfg c ws = Inr hosts" "good c" "defaults c = []" "hosts_ok hosts"
    and "CHR ''.'' \<notin> set (host_prefix cfg)"
  shows "\<exists>c' hi. assign_groups cfg c ws = Inr (c', hosts) \<and>
     cfg_view c' ''all'' = Some (map (\<lambda>(h, os). (h, Some os)) hosts) \<and>
     existing_hosts c' = Inr (hosts, hi)"
  using host_table_result [OF assms] existing_hosts_stored by blast

section \<open>Names the groups are given\<close>

lemma if_subset: "A \<subseteq> C \<Longrightarrow> B \<subseteq> C \<Longrightarrow> (if b then A else B) \<subseteq> C"
  by simp

lemma assigned_names: "assigned cfg c names g \<subseteq> set names \<union> set PROTECTED_NAMES"
  unfolding assigned_def
proof (intro if_subset)
  show "masters cfg names \<subseteq> set names \<union> set PROTECTED_NAMES"
    using master_list_subset by (auto simp: masters_list)
  have "{''kube-node'', ''kube-master''} \<subseteq> set PROTECTED_NAMES" by code_simp
  then show "{''kube-node'', ''kube-master''} \<subseteq> set names \<union> set PROTECTED_NAMES" by blast
  show "workers cfg c names \<subseteq> set names \<union> set PROTECTED_NAMES" by (auto simp: workers_def)
qed (use etcds_subset [of names] in blast)+

lemma members_distinct: "good c \<Longrightarrow> distinct (members c g)"
  using view_options_ok
  by (auto simp: good_def members_def options_ok_def dict_ok_def split: option.split)

section \<open>What the file can hold is kept\<close>

lemma lines_ok_set: "lines_ok d \<Longrightarrow> key_ok k \<Longrightarrow> val_ok v \<Longrightarrow> lines_ok (dict_set d k v)"
  using dict_set_entries [of d k v] by (auto simp: lines_ok_def intro: pd.ok_put)

lemma lines_ok_del: "lines_ok d \<Longrightarrow> lines_ok (dict_del d k)"
  by (auto simp: lines_ok_def dict_del_entries intro: pd.ok_del)

lemma file_ok_view: "file_ok c \<Longrightarrow> cfg_view c g = Some d \<Longrightarrow> lines_ok d"
  by (auto simp: file_ok_def cfg_view_def split: if_splits dest!: dict_get_Some_in)

lemma file_ok_upd:
  assumes "file_ok c" "cfg_view c g = Some d0" "lines_ok d"
  shows "file_ok (cfg_upd c g d)"
proof (cases "proper g")
  case True
  then obtain d1 where "(g, d1) \<in> set (sections c)"
    using assms(2) by (auto simp: cfg_view_def proper_def dest!: dict_get_Some_in)
  then have "newline \<notin> set g" using assms(1) by (auto simp: file_ok_def)
  then show ?thesis
    using True assms(1,3) dict_set_entries [of "sections c" g d]
    by (auto simp: file_ok_def sections_upd intro: pd.ok_put)
next
  case False
  then show ?thesis using assms by (auto simp: proper_def cfg_upd_def file_ok_def)
qed

lemma add_host_file_ok:
  assumes "add_host_to_group c g h os = Inr c'" "file_ok c" "key_ok h" "val_ok (Some os)"
  shows "file_ok c'"
proof -
  obtain d where "cfg_view c g = Some d" "c' = cfg_upd c g (dict_set d h (Some os))"
    using assms(1,3) gs.put_Inr [of c g h "Some os" c'] by (auto simp: add_host_to_group_def key_ok_def)
  then show ?thesis using assms file_ok_upd file_ok_view lines_ok_set by blast
qed

lemma add_empty_file_ok:
  "add_host_to_group c g h [] = Inr c' \<Longrightarrow> file_ok c \<Longrightarrow> key_ok h \<Longrightarrow> file_ok c'"
  by (erule add_host_file_ok) (simp_all add: val_ok_def stripped_def)

lemma remove_option_file_ok: "remove_option c g h = Inr c' \<Longrightarrow> file_ok c \<Longrightarrow> file_ok c'"
  by (auto simp: remove_option_def split: option.splits if_splits
      intro!: file_ok_upd lines_ok_del dest: file_ok_view)

lemmas rfold_file_ok = rfold_invariant [where P = file_ok]

lemma purge_file_ok:
  assumes "purge_invalid_hosts c names prot = Inr c'" "file_ok c"
  shows "file_ok c'"
proof -
  have inner: "rfold (\<lambda>c (host, _). if host \<notin> set names \<and> host \<notin> set prot
      then remove_option c role host else Inr c) c1 items = Inr c2 \<Longrightarrow> file_ok c1 \<Longrightarrow> file_ok c2"
    for c1 c2 role items
    by (erule rfold_file_ok) (auto split: if_splits intro: remove_option_file_ok)
  show ?thesis
    using assms unfolding purge_invalid_hosts_def
    by - (erule rfold_file_ok, assumption, auto simp: rbind_eq_Inr_iff dest: inner)
qed

lemma role_loops_file_ok:
  assumes "file_ok c" "\<forall>h \<in> set hs. key_ok h"
  shows "set_kube_master c hs = Inr c' \<Longrightarrow> file_ok c'"
    and "set_etcd c hs = Inr c' \<Longrightarrow> file_ok c'"
    and "set_kube_node cfg c hs = Inr c' \<Longrightarrow> file_ok c'"
    and "set_calico_rr c hs = Inr c' \<Longrightarrow> file_ok c'"
  unfolding set_kube_master_def set_etcd_def set_kube_node_def set_calico_rr_def
  by (erule rfold_file_ok [OF _ assms(1)],
      auto simp: rbind_eq_Inr_iff split: if_splits intro: add_empty_file_ok dest!: bspec [OF assms(2)])+

lemma set_all_file_ok:
  assumes "set_all c hosts = Inr c'" "file_ok c" "\<forall>(h, os) \<in> set hosts. key_ok h \<and> val_ok (Some os)"
  shows "file_ok c'"
  using assms unfolding set_all_def
  by - (erule rfold_file_ok, auto intro: add_host_file_ok)

lemma set_k8s_cluster_file_ok:
  assumes "set_k8s_cluster c = Inr c'" "file_ok c"
  shows "file_ok c'"
proof -
  have "key_ok ''kube-node''" "key_ok ''kube-master''" by code_simp+
  with assms show ?thesis
    by (auto simp: set_k8s_cluster_def rbind_eq_Inr_iff intro: add_empty_file_ok)
qed

lemma assign_groups_file_ok:
  assumes "assign_groups cfg c ws = Inr (c', hosts)" "file_ok c"
    and "\<forall>(h, os) \<in> set hosts. key_ok h \<and> val_ok (Some os)"
  shows "file_ok c'"
proof -
  have b: "build_hostnames cfg c ws = Inr hosts"
    using assms(1) by (auto simp: assign_groups_def Let_def rbind_eq_Inr_iff)
  have k: "\<forall>h \<in> set (dict_keys hosts). key_ok h" using assms(3) by (auto simp: dict_keys_def)
  then have k': "\<forall>h \<in> set (take 3 (dict_keys hosts)). key_ok h"
    "\<forall>h \<in> set (master_list cfg (dict_keys hosts)). key_ok h"
    using master_list_subset by (auto dest: in_set_takeD)
  obtain c1 c2 c3 c4 c5 c6 where
    s: "purge_invalid_hosts c (dict_keys hosts) PROTECTED_NAMES = Inr c1" "set_all c1 hosts = Inr c2"
      "set_k8s_cluster c2 = Inr c3" "set_etcd c3 (take 3 (dict_keys hosts)) = Inr c4"
      "set_kube_master c4 (master_list cfg (dict_keys hosts)) = Inr c5"
      "set_kube_node cfg c5 (dict_keys hosts) = Inr c6"
    and l: "(if at_scale cfg (dict_keys hosts) then set_calico_rr c6 (take 3 (dict_keys hosts))
             else Inr c6) = Inr c'"
    using assms(1) unfolding assign_groups_eq [OF b] Let_def rbind_eq_Inr_iff by blast
  have "file_ok c3"
    using s(1-3) assms(2,3) purge_file_ok set_all_file_ok set_k8s_cluster_file_ok by blast
  from role_loops_file_ok(2) [OF this k'(1) s(4)] have "file_ok c4" .
  from role_loops_file_ok(1) [OF this k'(2) s(5)] have "file_ok c5" .
  from role_loops_file_ok(3) [OF this k s(6)] have "file_ok c6" .
  with l role_loops_file_ok(4) [OF this k'(1)] show ?thesis by (auto split: if_splits)
qed

section \<open>What the program reads in and generates\<close>

text \<open>A configuration of a file without defaults and percent signs that reads back as it is written.\<close>

definition clean_config :: "config \<Rightarrow> bool" where
  "clean_config c = (config_ok c \<and> config_plain c \<and> defaults c = [] \<and> file_ok c)"

lemma clean_new: "clean_config new_config"
  by code_simp

lemma ensure_one:
  "proper g \<Longrightarrow> ensure_required_groups c [g] = Inr (if has_group c g then c else cfg_upd c g [])"
  by (simp add: ensure_required_groups_def add_section_def proper_def has_group_def cfg_view_def
      cfg_upd_def dict_has_get)

lemma ensure_Cons:
  "ensure_required_groups c (g # gs) =
     rbind (ensure_required_groups c [g]) (\<lambda>c. ensure_required_groups c gs)"
  by (simp add: ensure_required_groups_def rbind_assoc)

lemma ensure_Nil [simp]: "ensure_required_groups c [] = Inr c"
  by (simp add: ensure_required_groups_def)

lemma add_group_clean:
  assumes "clean_config c" "proper g" "newline \<notin> set g" "\<not> has_group c g"
  shows "clean_config (cfg_upd c g [])"
proof -
  let ?c = "cfg_upd c g []"
  have "\<not> dict_has (sections c) g"
    using assms(2,4) by (simp add: has_group_def cfg_view_def proper_def dict_has_get)
  then have s: "sections ?c = sections c @ [(g, [])]"
    using assms by (simp add: sections_upd dict_set_fresh dict_has_def)
  have "config_ok ?c" using assms by (intro config_ok_upd) (auto simp: clean_config_def options_ok_def)
  moreover have "config_plain ?c" using assms by (intro upd_plain) (auto simp: clean_config_def plain_options_def)
  moreover have "dict_ok (sections ?c)"
    using assms(1,2) by (auto simp: clean_config_def file_ok_def sections_upd(1) intro: pd.ok_put)
  then have "file_ok ?c"
    using assms s by (auto simp: clean_config_def file_ok_def sections_upd(2) lines_ok_def)
  ultimately show ?thesis using assms by (simp add: clean_config_def sections_upd)
qed

lemma ensure_groups_clean:
  "clean_config c \<Longrightarrow> \<forall>g \<in> set gs. proper g \<and> newline \<notin> set g \<Longrightarrow>
     \<exists>c'. ensure_required_groups c gs = Inr c' \<and> clean_config c' \<and>
       (\<forall>g. has_group c g \<or> g \<in> set gs \<longrightarrow> has_group c' g)"
proof (induction gs arbitrary: c)
  case Nil
  then show ?case by simp
next
  case (Cons g gs)
  let ?c = "if has_group c g then c else cfg_upd c g []"
  have "clean_config ?c" using Cons.prems by (simp add: add_group_clean)
  from Cons.IH [OF this] Cons.prems obtain c' where
    "ensure_required_groups ?c gs = Inr c'" "clean_config c'"
    "\<forall>g. has_group ?c g \<or> g \<in> set gs \<longrightarrow> has_group c' g" by auto
  moreover have "has_group ?c g" "has_group c g' \<Longrightarrow> has_group ?c g'" for g'
    using Cons.prems(2) by (auto simp: has_group_def view_upd_proper)
  ultimately show ?case using Cons.prems(2) by (subst ensure_Cons) (auto simp: ensure_one)
qed

lemma ensure_roles:
  assumes "clean_config c"
  shows "\<exists>c'. ensure_required_groups c ROLES = Inr c' \<and> clean_config c' \<and> good c'"
proof -
  have "list_all (\<lambda>g. proper g \<and> newline \<notin> set g) ROLES" by code_simp
  with ensure_groups_clean [OF assms, of ROLES] show ?thesis
    by (auto simp: list_all_iff good_def clean_config_def)
qed

lemma ensure_present: "\<forall>g \<in> set gs. proper g \<and> has_group c g \<Longrightarrow> ensure_required_groups c gs = Inr c"
  by (induction gs) (simp, subst ensure_Cons, simp add: ensure_one)

subsection \<open>Normal forms of files\<close>

lemma norm_view: "cfg_view (norm_config c) g = map_option norm_options (cfg_view c g)"
proof -
  have "dict_get (map (\<lambda>(g, d). (g, norm_options d)) ss) g = map_option norm_options (dict_get ss g)" for ss
    by (induction ss) (auto simp: dict_get_def)
  then show ?thesis by (simp add: cfg_view_def norm_config_def)
qed

lemma norm_keys [simp]: "dict_keys (norm_options d) = dict_keys d"
  by (induction d) (auto simp: norm_options_def)

lemma norm_members [simp]: "members (norm_config c) g = members c g"
  by (simp add: members_def norm_view split: option.split)

lemma norm_options_idem: "norm_options (norm_options d) = norm_options d"
  by (auto simp: norm_options_def norm_value_def)

lemma norm_config_ok:
  assumes "config_ok c" "config_plain c"
  shows "config_ok (norm_config c)" "config_plain (norm_config c)"
proof -
  have o: "options_ok (norm_options d) = options_ok d" for d
    by (simp add: options_ok_def dict_ok_def)
  have p: "plain_options d \<Longrightarrow> plain_options (norm_options d)" for d
    by (auto simp: plain_options_def norm_options_def norm_value_def plain_def)
  have "dict_keys (map (\<lambda>(g, d). (g, norm_options d)) ss) = dict_keys ss"
    for ss :: "(string, options) dict"
    by (induction ss) auto
  then show "config_ok (norm_config c)"
    using assms by (auto simp: config_ok_def norm_config_def o dict_ok_def)
  show "config_plain (norm_config c)"
    using assms by (auto simp: config_plain_def norm_config_def p)
qed

lemma norm_good: "good c \<Longrightarrow> good (norm_config c)"
  using norm_config_ok by (auto simp: good_def has_group_def norm_view)

lemma norm_lines_ok: "lines_ok d \<Longrightarrow> lines_ok (norm_options d)"
  by (auto simp: lines_ok_def dict_ok_def) (auto simp: norm_options_def norm_value_def val_ok_def)

lemma norm_file_ok:
  assumes "file_ok c"
  shows "file_ok (norm_config c)"
proof -
  have "dict_keys (map (\<lambda>(g, d). (g, norm_options d)) ss) = dict_keys ss"
    for ss :: "(string, options) dict"
    by (induction ss) auto
  then show ?thesis
    using assms by (auto simp: file_ok_def norm_config_def dict_ok_def norm_lines_ok)
qed

lemma norm_defaults: "defaults c = [] \<Longrightarrow> defaults (norm_config c) = []"
  by (simp add: norm_config_def norm_options_def)

lemma clean_norm: "clean_config c \<Longrightarrow> clean_config (norm_config c)"
  by (simp add: clean_config_def norm_config_ok norm_file_ok norm_defaults)

text \<open>What is read from a file is in normal form, and stays so when the required groups are added.\<close>

lemma map_id_iff: "map f xs = xs \<longleftrightarrow> (\<forall>x \<in> set xs. f x = x)"
  by (induction xs) auto

lemma norm_config_iff:
  "norm_config c = c \<longleftrightarrow>
     norm_options (defaults c) = defaults c \<and> (\<forall>(g, d) \<in> set (sections c). norm_options d = d)"
  by (cases c) (auto simp: norm_config_def map_id_iff)

lemma ensure_groups_normal:
  assumes "ensure_required_groups c gs = Inr c'" "norm_config c = c"
  shows "norm_config c' = c'"
  using assms unfolding ensure_required_groups_def
proof (rule rfold_invariant)
  fix c1 g c2
  assume "norm_config c1 = c1"
    and "(case add_section c1 g of Inl (DuplicateSectionError g) \<Rightarrow> Inr c1 | r \<Rightarrow> r) = Inr c2"
  then show "norm_config c2 = c2"
    using dict_set_entries [of "sections c1" g "[]"]
    by (auto simp: add_section_def norm_config_iff norm_options_def split: if_splits)
qed

lemma read_config_normal: "read_config p w = Inr c \<Longrightarrow> norm_config c = c"
  by (auto simp: read_config_def split: option.splits if_splits intro: cfg_read_normal)
     (simp_all add: new_config_def norm_config_def norm_options_def)

subsection \<open>A second assignment\<close>

lemma value_in_norm: "value_in (norm_config c) g h = map_option norm_value (value_in c g h)"
proof -
  have "dict_get (norm_options d) h = map_option norm_value (dict_get d h)" for d
    by (induction d) (auto simp: norm_options_def)
  then show ?thesis by (simp add: value_in_def norm_view split: option.split)
qed

lemma dict_get_keep:
  "dict_get (keep_names names d) h = (if h \<in> set names then dict_get d h else None)"
  by (induction d) auto

lemma purge_values:
  assumes "good c" "purge_invalid_hosts c names prot = Inr c'" "proper g"
  shows "value_in c' g h = (if h \<in> set (names @ prot) then value_in c g h else None)"
    and "cfg_sections c' = cfg_sections c"
proof -
  obtain c1 where "purge_invalid_hosts c names prot = Inr c1"
    and "\<forall>g. proper g \<longrightarrow> cfg_view c1 g = map_option (keep_names (names @ prot)) (cfg_view c g)"
    using purge_good [OF assms(1), of names prot] by auto
  then show "value_in c' g h = (if h \<in> set (names @ prot) then value_in c g h else None)"
    using assms(2,3) by (simp add: value_in_def dict_get_keep del: set_append split: option.split)
  obtain c2 where "purge_invalid_hosts c names prot = Inr c2" "purged c c2 (names @ prot)"
    using purge_invalid_hosts_purged [of c names prot] assms(1) unfolding good_def by blast
  then show "cfg_sections c' = cfg_sections c"
    using assms(2) by (simp add: purged_def cfg_sections_def)
qed

lemma value_in_members: "value_in c g h = None \<longleftrightarrow> h \<notin> set (members c g)"
  by (simp add: value_in_def members_def pd.keys_iff split: option.split)

text \<open>Two configurations with the same sections, names and values are equal.\<close>

lemma config_eqI:
  assumes "good c" "good c'" "defaults c = defaults c'" "cfg_sections c = cfg_sections c'"
    and "\<And>g. proper g \<Longrightarrow> members c g = members c' g"
    and "\<And>g h. proper g \<Longrightarrow> value_in c g h = value_in c' g h"
  shows "c = c'"
proof -
  have "sections c = sections c'"
  proof (rule dict_eqI)
    show k: "dict_ok (sections c)" "dict_keys (sections c) = dict_keys (sections c')"
      using assms(1,4) by (simp_all add: good_def config_ok_def cfg_sections_def)
    fix g
    assume "g \<in> set (dict_keys (sections c))"
    then obtain d d' where d: "dict_get (sections c) g = Some d" "dict_get (sections c') g = Some d'"
      using k(2) pd.keys_iff [of g "sections c"] pd.keys_iff [of g "sections c'"] by auto
    then have g: "proper g" "options_ok d" using config_ok_section assms(1) by (auto simp: good_def)
    then have v: "cfg_view c g = Some d" "cfg_view c' g = Some d'"
      using d by (simp_all add: cfg_view_def proper_def)
    have "d = d'"
    proof (rule dict_eqI)
      show "dict_ok d" using g(2) by (simp add: options_ok_def)
      show "dict_keys d = dict_keys d'" using assms(5) [OF g(1)] by (simp add: members_def v)
      show "dict_get d h = dict_get d' h" for h using assms(6) [OF g(1), of h] by (simp add: value_in_def v)
    qed
    then show "dict_get (sections c) g = dict_get (sections c') g" by (simp add: d)
  qed
  with assms(3) show ?thesis by (cases c; cases c') simp
qed

text \<open>The groups a second assignment gives are the ones the first gave.\<close>

lemma assigned_again:
  assumes "\<And>g. proper g \<Longrightarrow> set (members c' g) = kept c names g \<union> assigned cfg c names g"
  shows "assigned cfg (norm_config c') names = assigned cfg c names"
proof -
  have k: "kept (norm_config c') names g = kept c names g \<union> assigned cfg c names g" if "proper g" for g
  proof -
    have "kept c names g \<subseteq> set names \<union> set PROTECTED_NAMES" by (auto simp: kept_def)
    then show ?thesis
      using assigned_names [of cfg c names g] by (auto simp: kept_def [of "norm_config c'"] assms [OF that])
  qed
  have "assigned cfg c names ''etcd'' = etcds names" "assigned cfg c names ''kube-master'' = masters cfg names"
    by (simp_all add: assigned_def)
  then have "workers cfg (norm_config c') names = workers cfg c names"
    using k [of "''etcd''"] k [of "''kube-master''"] by (auto simp: workers_def)
  then show ?thesis by (simp add: assigned_def fun_eq_iff)
qed

lemma second_members:
  assumes "set (members c2 g) = set (members c' g)" "prefix (members c' g) (members c2 g)"
    and "good c'" "good c2"
  shows "members c2 g = members c' g"
  using assms members_distinct [of c' g] members_distinct [of c2 g]
  by (metis distinct_card prefix_def append_eq_conv_conj take_all order_refl)

lemma second_assignment:
  assumes first: "build_hostnames cfg c ws = Inr hosts" "good c" "defaults c = []" "hosts_ok hosts"
    "assign_groups cfg c ws = Inr (c', hosts)" "norm_config c = c"
    and dot: "CHR ''.'' \<notin> set (host_prefix cfg)"
    and second: "build_hostnames cfg (norm_config c') ws' = Inr hosts"
  shows "assign_groups cfg (norm_config c') ws' = Inr (c', hosts)"
proof -
  let ?n = "dict_keys hosts" and ?c1 = "norm_config c'" and ?P = PROTECTED_NAMES
  from assign_groups_result [OF first(1-4)] first(5) obtain cp where c': "good c'" "defaults c' = []"
    and m': "\<And>g. proper g \<Longrightarrow> set (members c' g) = kept c ?n g \<union> assigned cfg c ?n g"
    and p: "purge_invalid_hosts c ?n ?P = Inr cp" "adds cp c' (assigned cfg c ?n)" by auto
  have n: "good ?c1" "defaults ?c1 = []" using norm_good [OF c'(1)] norm_defaults [OF c'(2)] by simp_all
  have again: "assigned cfg ?c1 ?n = assigned cfg c ?n" by (rule assigned_again) (rule m')
  from assign_groups_result [OF second n first(4)] obtain c2 c1p where
    c2: "assign_groups cfg ?c1 ws' = Inr (c2, hosts)" "good c2" "defaults c2 = []"
    and m2: "\<And>g. proper g \<Longrightarrow> set (members c2 g) = kept ?c1 ?n g \<union> assigned cfg c ?n g"
    and p2: "\<And>g. proper g \<Longrightarrow> prefix (kept_list ?c1 ?n g) (members c2 g)"
    and p1: "purge_invalid_hosts ?c1 ?n ?P = Inr c1p" "adds c1p c2 (assigned cfg c ?n)"
    unfolding again by auto
  have valid: "set (members c' g) \<subseteq> set (?n @ ?P)" if "proper g" for g
    using assigned_names [of cfg c ?n g] by (auto simp: m' [OF that] kept_def)
  have k1: "kept_list ?c1 ?n g = members c' g" "kept ?c1 ?n g = set (members c' g)" if "proper g" for g
    using valid [OF that] by (auto simp: kept_list_def kept_def filter_id_conv)
  have mem: "members c2 g = members c' g" if "proper g" for g
    using second_members [OF _ _ c'(1) c2(2)] m2 [OF that] p2 [OF that] k1 [OF that] m' [OF that] by auto
  have "value_in c2 g h = value_in c' g h" if g: "proper g" "g \<noteq> ''all''" for g h
  proof -
    have v': "value_in c' g h = (if h \<in> assigned cfg c ?n g then Some (Some []) else value_in cp g h)"
      by (rule adds_value [OF p(2) g(2)])
    have vc: "map_option norm_value (value_in c g h) = value_in c g h"
      using value_in_norm [of c g h] first(6) by simp
    have "value_in c1p g h = map_option norm_value (value_in c' g h)"
      using purge_values(1) [OF n(1) p1(1) g(1), of h] valid [OF g(1)] value_in_members [of c' g h]
      by (auto simp: value_in_norm)
    then have "value_in c2 g h = (if h \<in> assigned cfg c ?n g then Some (Some [])
        else map_option norm_value (value_in c' g h))"
      by (simp add: adds_value [OF p1(2) g(2)])
    then show ?thesis
      using v' vc purge_values(1) [OF first(2) p(1) g(1), of h] by (simp split: if_splits)
  qed
  moreover have "cfg_view c2 ''all'' = cfg_view c' ''all''"
    using assign_groups_result [OF first(1-4)] assign_groups_result [OF second n first(4)] first(5) c2(1)
      stored_all_table [OF first(1-4) dot] stored_all_table [OF second n first(4) dot] by auto
  then have "value_in c2 ''all'' h = value_in c' ''all'' h" for h by (simp add: value_in_def)
  ultimately have val: "value_in c2 g h = value_in c' g h" if "proper g" for g h
    using that by (cases "g = ''all''") auto
  have s: "cfg_sections ?c1 = cfg_sections c'"
    by (simp add: cfg_sections_def norm_config_def dict_keys_def comp_def case_prod_beta')
  have "cfg_sections c2 = cfg_sections c'"
    using adds_sections [OF p1(2)] purge_values(2) [OF n(1) p1(1)] s by (metis proper_roles(1))
  with config_eqI [OF c2(2) c'(1)] c2(3) c'(2) mem val have "c2 = c'" by simp
  with c2(1) show ?thesis by simp
qed

subsection \<open>The entries of the host table\<close>

definition clean_text :: "string \<Rightarrow> bool" where
  "clean_text a = (\<forall>c \<in> set a. \<not> is_space c \<and> c \<noteq> CHR ''%'' \<and> c \<noteq> CHR ''='')"

text \<open>A word that deletes, or an address of clean characters that starts with a digit.\<close>

definition clean_word :: "string \<Rightarrow> bool" where
  "clean_word w = (w \<noteq> [] \<and> (hd w = CHR ''-'' \<or> is_digit (hd w) \<and> clean_text w))"

definition prefix_ok :: "string \<Rightarrow> bool" where
  "prefix_ok p =
     (optionxform p = p \<and> (\<forall>c \<in> set p. \<not> is_space c \<and> c \<noteq> CHR ''.'') \<and>
      (p \<noteq> [] \<longrightarrow> hd p \<notin> {CHR ''#'', CHR '';'', CHR ''[''}))"

definition entry_ok :: "string \<times> string \<Rightarrow> bool" where
  "entry_ok e = (case e of (h, os) \<Rightarrow> key_ok h \<and> val_ok (Some os) \<and> CHR ''%'' \<notin> set os)"

lemma digit_not_comment: "is_digit c \<Longrightarrow> c \<notin> {CHR ''#'', CHR '';'', CHR ''[''}"
  by (auto simp: is_digit_code)

lemma generated_key_ok:
  assumes "prefix_ok p"
  shows "key_ok (p @ nat_str n)"
proof -
  have d: "\<forall>c \<in> set (nat_str n). is_digit c" by (rule nat_str_digits)
  then have "optionxform (p @ nat_str n) = p @ nat_str n"
    using assms by (simp add: prefix_ok_def optionxform_def str_lower_digits)
  moreover have "hd (p @ nat_str n) \<notin> {CHR ''#'', CHR '';'', CHR ''[''}"
  proof (cases p)
    case Nil
    then show ?thesis using d digit_not_comment [of "hd (nat_str n)"] by simp
  next
    case (Cons x xs)
    then show ?thesis using assms by (simp add: prefix_ok_def)
  qed
  ultimately show ?thesis
    using assms d is_digit_not_space by (simp add: key_ok_def prefix_ok_def) blast
qed

lemma generated_entry_ok:
  assumes "key_ok h" "clean_text a" "a \<noteq> []"
  shows "entry_ok (h, host_opts_of a)"
proof -
  have "last (host_opts_of a) = last a" using assms(3) by (simp add: host_opts_of_def)
  then have "\<not> is_space (last (host_opts_of a))" using assms(2,3) by (simp add: clean_text_def)
  moreover have "\<not> is_space (hd (host_opts_of a))" by (simp add: host_opts_of_def) code_simp
  moreover have "newline \<notin> set a" "CHR ''%'' \<notin> set a"
    using assms(2) is_space_simps(3) unfolding clean_text_def by blast+
  ultimately show ?thesis
    using assms(1) by (simp add: entry_ok_def val_ok_def stripped_def host_opts_of_def)
qed

lemma change_host_entries:
  assumes "change_host p st w = Inr st'" "\<forall>e \<in> set (fst st). entry_ok e" "clean_word w" "prefix_ok p"
  shows "\<forall>e \<in> set (fst st'). entry_ok e"
proof -
  obtain hs n where st: "st = (hs, n)" by force
  obtain c v where w: "w = c # v" using assms(3) by (cases w) (auto simp: clean_word_def)
  consider "st' = st" | x where "st' = (dict_del hs x, n)"
    | "st' = (dict_set hs (p @ nat_str n) (host_opts_of w), n + 1)" "is_digit c"
    using assms(1)
    by (auto simp: st w change_host_eq rbind_eq_Inr_iff rmap_eq_Inr_iff delete_host_by_ip_def
        split: if_splits)
  then show ?thesis
  proof cases
    case 3
    then have "entry_ok (p @ nat_str n, host_opts_of w)"
      using assms(3,4) w by (intro generated_entry_ok generated_key_ok) (auto simp: clean_word_def)
    then show ?thesis
      using 3 assms(2) dict_set_entries [of hs "p @ nat_str n" "host_opts_of w"] st by auto
  qed (use assms(2) st in \<open>auto simp: dict_del_entries\<close>)
qed

text \<open>The host table of a clean configuration and clean words can be stored and written.\<close>

lemma build_hostnames_entries:
  assumes "build_hostnames cfg c ws = Inr hosts" "good c" "clean_config c"
    and "\<forall>w \<in> set ws. clean_word w" "prefix_ok (host_prefix cfg)"
  shows "hosts_ok hosts \<and> (\<forall>e \<in> set hosts. entry_ok e)"
proof -
  obtain hs0 hi where e: "existing_hosts c = Inr (hs0, hi)"
    using assms(1) by (auto simp: build_hostnames_def rbind_eq_Inr_iff)
  obtain d where d: "cfg_view c ''all'' = Some d" "plain_options d" "dict_ok d"
    using good_all [OF assms(2)] by (auto simp: options_ok_def)
  have hs0: "hs0 = map (\<lambda>(k, v). (k, value_str v)) d"
    using existing_hosts_eq [OF e _ d] assms(3) by (simp add: clean_config_def)
  have "lines_ok d" using file_ok_view d(1) assms(3) by (auto simp: clean_config_def)
  then have ent: "\<forall>e \<in> set hs0. entry_ok e"
    using d(2) by (fastforce simp: hs0 entry_ok_def lines_ok_def plain_options_def plain_def
        val_ok_def value_str_def stripped_def split: option.splits)
  have "dict_keys hs0 = dict_keys d" unfolding hs0 by (induction d) auto
  then have "dict_ok hs0" using d(3) by (simp add: dict_ok_def)
  moreover have "CHR ''.'' \<notin> set (host_prefix cfg)" using assms(5) by (auto simp: prefix_ok_def)
  ultimately have "dict_ok hosts"
    using build_hostnames_grown [OF e _ _ assms(1)] by (auto simp: grown_def)
  moreover obtain n where r: "rfold (change_host (host_prefix cfg)) (hs0, hi + 1) ws = Inr (hosts, n)"
    using assms(1) by (auto simp: build_hostnames_eq [OF e] rmap_eq_Inr_iff)
  have "\<forall>e \<in> set (fst (hosts, n)). entry_ok e"
    by (rule rfold_invariant [OF r, where P = "\<lambda>st. \<forall>e \<in> set (fst st). entry_ok e"])
       (simp add: ent, rule change_host_entries, assumption+, simp_all add: assms(4,5))
  ultimately show ?thesis
    by (auto simp: hosts_ok_def entry_ok_def key_ok_def)
qed

section \<open>Runs on a file\<close>

lemma clean_not_command: "clean_word w \<Longrightarrow> w \<notin> set AVAILABLE_COMMANDS"
proof -
  have "list_all (\<lambda>w. \<not> clean_word w) AVAILABLE_COMMANDS" by code_simp
  then show "clean_word w \<Longrightarrow> w \<notin> set AVAILABLE_COMMANDS" by (auto simp: list_all_iff)
qed

text \<open>An updating run is: read, required groups, assignment, write.\<close>

lemma update_run:
  assumes "read_config (Some p) w = Inr c0" "ensure_required_groups c0 ROLES = Inr c"
    and "ws \<noteq> []" "hd ws \<notin> set AVAILABLE_COMMANDS"
  shows "KubesprayInventory yl cfg ws (Some p) w =
     (case assign_groups cfg c ws of
        Inl e \<Rightarrow> (Inl e, w)
      | Inr (c', hosts) \<Rightarrow> run_bind (write_config c' (Some p) w) (\<lambda>_ w. (Inr (Updated, c'), w)))"
  using assms by (simp add: KubesprayInventory_def)

text \<open>What an updating run that succeeded leaves: its host table, and a file that reads back.\<close>

lemma updated_state:
  assumes "p \<noteq> []" "read_config (Some p) w = Inr c0" "clean_config c0" "prefix_ok (host_prefix cfg)"
    and "ws \<noteq> []" "\<forall>x \<in> set ws. clean_word x"
    and "KubesprayInventory yl cfg ws (Some p) w = (Inr (Updated, c'), w')"
  obtains c hs where "good c" "defaults c = []" "norm_config c = c" "build_hostnames cfg c ws = Inr hs" "hosts_ok hs"
    "assign_groups cfg c ws = Inr (c', hs)" "good c'" "defaults c' = []"
    "cfg_view c' ''all'' = Some (map (\<lambda>(h, os). (h, Some os)) hs)"
    "\<forall>h \<in> set (dict_keys hs). is_ok (get_host_id h)"
    "writable w' p" "files w' p = Some (cfg_write c')" "read_config (Some p) w' = Inr (norm_config c')"
proof -
  obtain c where c: "ensure_required_groups c0 ROLES = Inr c" "clean_config c" "good c"
    using ensure_roles [OF assms(3)] by blast
  have dot: "CHR ''.'' \<notin> set (host_prefix cfg)" using assms(4) by (auto simp: prefix_ok_def)
  have "hd ws \<notin> set AVAILABLE_COMMANDS" using assms(5,6) by (simp add: clean_not_command)
  from update_run [OF assms(2) c(1) assms(5) this] assms(7) obtain hs where
    a: "assign_groups cfg c ws = Inr (c', hs)" and "write_config c' (Some p) w = (Inr (), w')"
    by (auto split: sum.splits prod.splits simp: run_bind_def)
  then have w': "writable w' p" "files w' p = Some (cfg_write c')"
    using assms(1) by (auto simp: write_config_def split: if_splits)
  have b: "build_hostnames cfg c ws = Inr hs"
    using a by (auto simp: assign_groups_def Let_def rbind_eq_Inr_iff)
  have hs: "hosts_ok hs" "\<forall>e \<in> set hs. entry_ok e"
    using build_hostnames_entries [OF b c(3,2) assms(6,4)] by blast+
  have d: "defaults c = []" using c(2) by (simp add: clean_config_def)
  have "file_ok c'"
    using assign_groups_file_ok [OF a] c(2) hs(2) by (auto simp: clean_config_def entry_ok_def)
  then have "read_config (Some p) w' = Inr (norm_config c')"
    using assms(1) w'(2) by (simp add: read_config_def read_write_file)
  moreover have "norm_config c = c"
    using ensure_groups_normal [OF c(1)] read_config_normal [OF assms(2)] by simp
  ultimately show ?thesis
    using that host_table_result [OF b c(3) d hs(1) dot] a b c(3) d hs(1) w' by auto
qed

lemma norm_state:
  assumes "good c'" "defaults c' = []" "cfg_view c' ''all'' = Some (map (\<lambda>(h, os). (h, Some os)) hs)"
    "\<forall>h \<in> set (dict_keys hs). is_ok (get_host_id h)"
  shows "good (norm_config c')" "defaults (norm_config c') = []"
    "ensure_required_groups (norm_config c') ROLES = Inr (norm_config c')"
    "\<exists>hi. existing_hosts (norm_config c') = Inr (hs, hi)"
proof -
  let ?c = "norm_config c'"
  show n: "good ?c" "defaults ?c = []"
    using norm_good [OF assms(1)] assms(2) by (simp_all add: norm_config_def norm_options_def)
  then show "ensure_required_groups ?c ROLES = Inr ?c"
    by (intro ensure_present) (auto simp: good_def roles_proper)
  show "\<exists>hi. existing_hosts ?c = Inr (hs, hi)"
    using existing_hosts_stored [OF n _ _ assms(4)] assms(3) by (fastforce simp: norm_view norm_options_idem)
qed

text \<open>C4: Running the program again on the file it wrote, with addresses the inventory knows, succeeds and
  changes nothing: it ends with the same configuration, sections, names, values and order, and leaves
  the same world, the text of the file included.\<close>

theorem rerun_changes_nothing:
  assumes "p \<noteq> []" "read_config (Some p) w = Inr c0" "clean_config c0" "prefix_ok (host_prefix cfg)"
    and "ws \<noteq> []" "\<forall>x \<in> set ws. clean_word x"
    and "KubesprayInventory yl cfg ws (Some p) w = (Inr (Updated, c'), w')"
    and "existing_hosts c' = Inr (hosts, hi)" "has_ips hosts"
    and "ws' \<noteq> []" "\<forall>x \<in> set ws'. clean_word x \<and> x \<in> snd ` set (table_abs hosts) \<and> hd x \<noteq> CHR ''-''"
  shows "KubesprayInventory yl cfg ws' (Some p) w' = (Inr (Updated, c'), w')"
proof -
  from updated_state [OF assms(1-7)] obtain c hs where
    c: "good c" "defaults c = []" "norm_config c = c" "build_hostnames cfg c ws = Inr hs" "hosts_ok hs"
      "assign_groups cfg c ws = Inr (c', hs)"
    and c': "good c'" "defaults c' = []" "cfg_view c' ''all'' = Some (map (\<lambda>(h, os). (h, Some os)) hs)"
      "\<forall>h \<in> set (dict_keys hs). is_ok (get_host_id h)"
    and w': "writable w' p" "files w' p = Some (cfg_write c')" "read_config (Some p) w' = Inr (norm_config c')" .
  have dot: "CHR ''.'' \<notin> set (host_prefix cfg)" using assms(4) by (auto simp: prefix_ok_def)
  from existing_hosts_stored [OF c'(1,2) refl c'(3,4)] assms(8) have hosts: "hosts = hs" by auto
  note n = norm_state [OF c']
  obtain hi' where "existing_hosts (norm_config c') = Inr (hs, hi')" using n(4) by blast
  then have b': "build_hostnames cfg (norm_config c') ws' = Inr hs"
    using assms(9,11) by (intro build_hostnames_same) (auto simp: hosts clean_word_def)
  from second_assignment [OF c(4,1,2,5,6,3) dot b'] have
    a: "assign_groups cfg (norm_config c') ws' = Inr (c', hs)" .
  have "w'\<lparr>files := (files w')(p \<mapsto> cfg_write c')\<rparr> = w'" using w'(2) by (simp add: fun_upd_idem)
  moreover have "hd ws' \<notin> set AVAILABLE_COMMANDS" using assms(10,11) by (simp add: clean_not_command)
  from update_run [OF w'(3) n(3) assms(10) this] a w'(1) assms(1) have
    "KubesprayInventory yl cfg ws' (Some p) w' = (Inr (Updated, c'), w'\<lparr>files := (files w')(p \<mapsto> cfg_write c')\<rparr>)"
    by (simp add: write_config_def)
  ultimately show ?thesis by simp
qed

definition demo_world :: world where
  "demo_world = \<lparr>files = Map.empty, writable = (\<lambda>_. True), stdout = []\<rparr>"

definition no_data :: "string \<Rightarrow> json res" where
  "no_data text = Inr JNull"

lemma updated_case:
  assumes "case r of (Inr (Updated, c'), w') \<Rightarrow> P c' | _ \<Rightarrow> False"
  shows "\<exists>c' w'. r = (Inr (Updated, c'), w') \<and> P c'"
proof -
  obtain x w' where r: "r = (x, w')" by force
  with assms obtain oc c' where "x = Inr (oc, c')" by (cases x) auto
  with r assms show ?thesis by (cases oc) simp_all
qed

lemma demo_run:
  "\<exists>c' w' hi. KubesprayInventory no_data demo_settings first_words (Some ''hosts.ini'') demo_world =
     (Inr (Updated, c'), w') \<and> existing_hosts c' = Inr (first_hosts, hi)"
proof -
  have "case KubesprayInventory no_data demo_settings first_words (Some ''hosts.ini'') demo_world of
      (Inr (Updated, c'), w') \<Rightarrow> existing_hosts c' = Inr (first_hosts, 3) | _ \<Rightarrow> False"
    by code_simp
  from updated_case [OF this] show ?thesis by blast
qed

theorem rerun_changes_nothing_witness:
  "\<exists>c' w'.
     KubesprayInventory no_data demo_settings first_words (Some ''hosts.ini'') demo_world =
       (Inr (Updated, c'), w') \<and>
     KubesprayInventory no_data demo_settings [''10.0.0.2''] (Some ''hosts.ini'') w' =
       (Inr (Updated, c'), w')"
proof -
  obtain c' w' hi where
    run: "KubesprayInventory no_data demo_settings first_words (Some ''hosts.ini'') demo_world =
      (Inr (Updated, c'), w')" and e: "existing_hosts c' = Inr (first_hosts, hi)"
    using demo_run by blast
  have r: "read_config (Some ''hosts.ini'') demo_world = Inr new_config"
    by (simp add: read_config_def demo_world_def)
  have p: "prefix_ok (host_prefix demo_settings)" by code_simp
  have w: "first_words \<noteq> []" "\<forall>x \<in> set first_words. clean_word x" "has_ips first_hosts" by code_simp+
  have x: "\<forall>x \<in> set [''10.0.0.2'']. clean_word x \<and> x \<in> snd ` set (table_abs first_hosts) \<and> hd x \<noteq> CHR ''-''"
    by code_simp
  from rerun_changes_nothing [OF _ r clean_new p w(1,2) run e w(3) _ x] run show ?thesis by blast
qed

end
