(* ===== verification/Inventory_Commands.thy ===== *)
theory Inventory_Commands
  imports Inventory_Rerun
begin

text \<open>
  The commands: what \<open>print_ips\<close> prints after a run, what \<open>load\<close> puts into the groups, and which files
  a run can touch at all.
\<close>

section \<open>Printing the addresses\<close>

lemma cfg_items_all:
  assumes "good c" "defaults c = []" "cfg_view c ''all'' = Some d"
  shows "cfg_items c ''all'' = Inr (map (\<lambda>(k, v). (k, value_str v)) d)"
proof -
  have "plain_options d" "dict_ok d"
    using good_all [OF assms(1)] assms(3) by (auto simp: options_ok_def)
  with assms show ?thesis
    by (simp add: cfg_items_def cfg_view_def items_plain default_section_def dict_update_fresh Let_def)
qed

lemma rmapM_ips: "has_ips hs \<Longrightarrow> rmapM (\<lambda>(host, opts). get_ip_from_opts opts) hs = Inr (map snd (table_abs hs))"
  by (induction hs) (auto simp: get_ip_ip_of)

lemma norm_entries:
  "map (\<lambda>(k, v). (k, value_str v)) (norm_options (map (\<lambda>(h, os). (h, Some os)) hs)) = hs"
  by (induction hs) (auto simp: norm_options_def norm_value_def value_str_def)

text \<open>After a run that updated the inventory, \<open>print_ips\<close> on the file it wrote prints the addresses of
  its host table, in the table's order with a space between them, and changes no file.\<close>

lemma print_ips_prints_table:
  assumes "p \<noteq> []" "read_config (Some p) w = Inr c0" "clean_config c0" "prefix_ok (host_prefix cfg)"
    and "ws \<noteq> []" "\<forall>x \<in> set ws. clean_word x"
    and "KubesprayInventory yl cfg ws (Some p) w = (Inr (Updated, c'), w')"
    and "existing_hosts c' = Inr (hosts, hi)" "has_ips hosts"
  shows "\<exists>c''. KubesprayInventory yl cfg [''print_ips''] (Some p) w' =
     (Inr (Exited, c''), print_line w' (str_join '' '' (map snd (table_abs hosts))))"
proof -
  from updated_state [OF assms(1-7)] obtain hs where
    c': "good c'" "defaults c' = []" "cfg_view c' ''all'' = Some (map (\<lambda>(h, os). (h, Some os)) hs)"
      "\<forall>h \<in> set (dict_keys hs). is_ok (get_host_id h)"
    and w': "read_config (Some p) w' = Inr (norm_config c')" .
  from existing_hosts_stored [OF c'(1,2) refl c'(3,4)] assms(8) have hosts: "hosts = hs" by auto
  note n = norm_state [OF c']
  have "cfg_items (norm_config c') ''all'' = Inr hosts"
    using cfg_items_all [OF n(1,2)] c'(3) by (simp add: norm_view norm_entries hosts)
  then have "print_ips (norm_config c') w' =
      (Inr (), print_line w' (str_join '' '' (map snd (table_abs hosts))))"
    using assms(9) by (simp add: print_ips_def rmapM_ips)
  moreover have "''print_ips'' \<in> set AVAILABLE_COMMANDS" by code_simp
  ultimately show ?thesis using w' by (simp add: KubesprayInventory_def parse_command_def)
qed

section \<open>What a run writes\<close>

text \<open>\<open>only_writes p w w'\<close>: the files of \<open>w'\<close> are those of \<open>w\<close>, except the one at \<open>p\<close>.\<close>

definition only_writes :: "string option \<Rightarrow> world \<Rightarrow> world \<Rightarrow> bool" where
  "only_writes p w w' =
     (writable w' = writable w \<and> (\<forall>q. Some q \<noteq> p \<longrightarrow> files w' q = files w q))"

lemma only_writes_refl [simp]: "only_writes p w w"
  by (simp add: only_writes_def)

lemma only_writes_trans: "only_writes p w w1 \<Longrightarrow> only_writes p w1 w2 \<Longrightarrow> only_writes p w w2"
  by (simp add: only_writes_def)

lemma print_writes_nothing [simp]:
  "files (print_line w s) = files w" "writable (print_line w s) = writable w"
  by (simp_all add: print_line_def)

lemma print_ips_files: "print_ips c w = (r, w') \<Longrightarrow> files w' = files w \<and> writable w' = writable w"
  by (auto simp: print_ips_def split: sum.splits)

lemma write_config_writes:
  assumes "write_config c p w = (r, w')"
  shows "only_writes p w w'" "r = Inl e \<Longrightarrow> w' = w"
  using assms by (auto simp: write_config_def only_writes_def split: option.splits if_splits)

lemma read_data_files:
  "read_data yl f w = (r, w') \<Longrightarrow> files w' = files w \<and> writable w' = writable w"
  by (auto simp: read_data_def split: option.splits sum.splits py_error.splits)

lemma load_files_writes: "load_files yl c p fs w = (r, w') \<Longrightarrow> only_writes p w w'"
proof (induction yl c p fs w rule: load_files.induct)
  case (1 yl c p w)
  then show ?case by simp
next
  case (2 yl c p f fs w)
  obtain d w1 where d: "read_data yl f w = (d, w1)" by force
  then have o1: "only_writes p w w1" using read_data_files by (fastforce simp: only_writes_def)
  show ?case
  proof (cases d)
    case (Inl e)
    then show ?thesis using 2(2) d o1 by simp
  next
    case (Inr data)
    show ?thesis
    proof (cases "load_data c data")
      case (Inl e)
      then show ?thesis using 2(2) d Inr o1 by simp
    next
      case c': (Inr c')
      obtain x w2 where x: "write_config c' p w1 = (x, w2)" by force
      note o2 = only_writes_trans [OF o1 write_config_writes(1) [OF x]]
      show ?thesis
      proof (cases x)
        case (Inl e)
        then show ?thesis using 2(2) d Inr c' x o2 by simp
      next
        case u: (Inr u)
        then have "load_files yl c' p fs w2 = (r, w')" using 2(2) d Inr c' x by simp
        from only_writes_trans [OF o2 2(1) [OF c' this]]
        show ?thesis .
      qed
    qed
  qed
qed

lemma run_files:
  assumes "KubesprayInventory yl cfg ws p w = (r, w')"
  shows "(\<forall>q. Some q \<noteq> p \<longrightarrow> files w' q = files w q) \<and>
     (\<not> (\<exists>c. r = Inr (Updated, c)) \<longrightarrow> \<not> (\<exists>fs. ws = ''load'' # fs) \<longrightarrow> files w' = files w)"
proof (cases "read_config p w")
  case (Inl e)
  then show ?thesis using assms by (auto simp: KubesprayInventory_def)
next
  case (Inr c)
  show ?thesis
  proof (cases "ws \<noteq> [] \<and> hd ws \<in> set AVAILABLE_COMMANDS")
    case True
    then obtain cmd args where ws: "ws = cmd # args" by (cases ws) auto
    obtain x w1 where x: "parse_command yl c p cmd args w = (x, w1)" by force
    have "w' = w1" using assms True Inr x by (cases x) (auto simp: KubesprayInventory_def ws)
    moreover have "only_writes p w w1 \<and> (cmd \<noteq> ''load'' \<longrightarrow> files w1 = files w)"
    proof (cases "cmd = ''load''")
      case True
      then show ?thesis
        using x load_files_writes by (fastforce simp: parse_command_def load_file_def split: if_splits)
    next
      case False
      obtain y w2 where y: "print_ips c w = (y, w2)" by force
      have f: "files w2 = files w" "writable w2 = writable w" using print_ips_files [OF y] by simp_all
      have "files w1 = files w \<and> writable w1 = writable w"
        using False x y f
        by (cases y) (auto simp: parse_command_def show_help_def print_config_def split: if_splits)
      then show ?thesis by (simp add: only_writes_def)
    qed
    ultimately show ?thesis by (auto simp: ws only_writes_def)
  next
    case False
    obtain v w1 where v: "write_config (fst (projr (assign_groups cfg (projr (ensure_required_groups c ROLES)) ws))) p w =
        (v, w1)" by force
    note o = write_config_writes [OF v]
    from assms False Inr v o(2) have
      "files w' = files w \<or> w' = w1 \<and> (\<exists>c. r = Inr (Updated, c))"
      by (cases v) (auto simp: KubesprayInventory_def show_help_def split: sum.splits if_splits)
    then show ?thesis using o(1) by (auto simp: only_writes_def)
  qed
qed

text \<open>C30: A run writes no file but the configuration file, and not even that when it raises or only
  prints: it is written by a successful update or by \<open>load\<close>.\<close>

theorem run_writes_only_config:
  assumes "KubesprayInventory yl cfg ws p w = (r, w')"
  shows "(\<forall>q. Some q \<noteq> p \<longrightarrow> files w' q = files w q) \<and>
     (\<not> (\<exists>c. r = Inr (Updated, c)) \<longrightarrow> \<not> (\<exists>fs. ws = ''load'' # fs) \<longrightarrow> files w' = files w)"
  using assms by (rule run_files)

theorem run_writes_only_config_witness:
  "\<exists>e w'. KubesprayInventory no_data demo_settings [''10.0.0.1'', ''other''] (Some ''hosts.ini'') demo_world =
     (Inl e, w') \<and> files w' = files demo_world"
proof -
  have "\<not> is_ok (fst (KubesprayInventory no_data demo_settings
      [''10.0.0.1'', ''other''] (Some ''hosts.ini'') demo_world))"
    by code_simp
  then obtain e w' where "KubesprayInventory no_data demo_settings
      [''10.0.0.1'', ''other''] (Some ''hosts.ini'') demo_world = (Inl e, w')"
    by (metis is_ok_simps(1) prod.collapse sum.exhaust)
  with run_writes_only_config [OF this] show ?thesis by auto
qed

section \<open>Loading\<close>

text \<open>The option string the loader builds for a host names its address in the place the other
  commands read it from, whatever further entries the host has.\<close>

lemma load_optstring_readable:
  assumes "dict_get opts ''ip'' = Some (JStr ip)" "address_ok ip"
  shows "\<exists>s. load_optstring (JDict opts) = Inr s \<and> get_ip_from_opts s = Inr ip"
proof -
  have ext: "\<exists>t. foldl (\<lambda>s (key, val). if key = ''ip'' then s else s @ '' '' @ key @ ''='' @ py_format [] val) s es =
      s @ t \<and> (t = [] \<or> hd t = CHR '' '')" for s and es :: "(string \<times> json) list"
  proof (induction es arbitrary: s)
    case Nil
    then show ?case by simp
  next
    case (Cons e es)
    obtain k v where e: "e = (k, v)" by force
    from Cons.IH [of s] Cons.IH [of "s @ '' '' @ k @ ''='' @ py_format [] v"] show ?case
      by (cases "k = ''ip''") (auto simp: e)
  qed
  obtain t where t: "load_optstring (JDict opts) = Inr (host_opts_of ip @ t)" "t = [] \<or> hd t = CHR '' ''"
    using ext [of "host_opts_of ip" opts] assms(1) by (auto simp: load_optstring_def json_index_def json_items_def py_format_def)
  have "get_ip_from_opts (host_opts_of ip @ t) = Inr ip"
  proof (cases t)
    case Nil
    then show ?thesis using get_ip_host_opts_of [OF assms(2)] by simp
  next
    case (Cons x u)
    then have "host_opts_of ip @ t =
        (''ansible_host'' @ CHR ''='' # ip) @ CHR '' '' # (''ip'' @ CHR ''='' # ip) @ CHR '' '' # u"
      using t(2) by (simp add: host_opts_of_def)
    moreover have "CHR '' '' \<notin> set (''ansible_host'' @ CHR ''='' # ip)"
      "CHR '' '' \<notin> set (''ip'' @ CHR ''='' # ip)"
      using assms(2) by (simp_all add: address_ok_def)
    ultimately have "split_on (CHR '' '') (host_opts_of ip @ t) =
        (''ansible_host'' @ CHR ''='' # ip) # (''ip'' @ CHR ''='' # ip) # split_on (CHR '' '') u"
      by (metis split_on_sep)
    moreover have "split_on (CHR ''='') (''ansible_host'' @ CHR ''='' # ip) = [''ansible_host'', ip]"
      "split_on (CHR ''='') (''ip'' @ CHR ''='' # ip) = [''ip'', ip]"
      by (intro split_on_key_value [OF assms(2)], simp)+
    ultimately show ?thesis by (simp add: get_ip_from_opts_def)
  qed
  with t show ?thesis by blast
qed

text \<open>The operations of the loader keep names and add their own.\<close>

definition keeps_members :: "config \<Rightarrow> config \<Rightarrow> bool" where
  "keeps_members c c' = (\<forall>g. set (members c g) \<subseteq> set (members c' g))"

lemma keeps_members_refl [simp]: "keeps_members c c"
  by (simp add: keeps_members_def)

lemma keeps_members_trans [trans]: "keeps_members c c1 \<Longrightarrow> keeps_members c1 c2 \<Longrightarrow> keeps_members c c2"
  by (auto simp: keeps_members_def)

lemma add_host_keeps:
  assumes "add_host_to_group c g h os = Inr c'"
  shows "keeps_members c c'" "optionxform h \<in> set (members c' g)"
proof -
  obtain d where "cfg_view c g = Some d" "c' = cfg_upd c g (dict_set d (optionxform h) (Some os))"
    using gs.put_Inr assms by (fastforce simp: add_host_to_group_def)
  then show "keeps_members c c'" "optionxform h \<in> set (members c' g)"
    by (auto simp: keeps_members_def members_def cfg_view_upd split: if_splits)
       (auto simp: cfg_view_def split: if_splits)
qed

lemma rfold_keeps:
  assumes "rfold f c xs = Inr c'" "\<And>c x c'. f c x = Inr c' \<Longrightarrow> keeps_members c c'"
  shows "keeps_members c c'"
  by (rule rfold_invariant [OF assms(1), where P = "keeps_members c"])
     (auto intro: keeps_members_trans assms(2))

lemma ensure_keeps: "ensure_required_groups c gs = Inr c' \<Longrightarrow> keeps_members c c'"
  unfolding ensure_required_groups_def
proof (erule rfold_keeps)
  fix c g c'
  assume "(case add_section c g of Inl (DuplicateSectionError g) \<Rightarrow> Inr c | r \<Rightarrow> r) = Inr c'"
  then have "c' = c \<or> g \<noteq> default_section \<and> \<not> dict_has (sections c) g \<and>
      c' = c\<lparr>sections := dict_set (sections c) g []\<rparr>"
    by (auto simp: add_section_def split: if_splits)
  then show "keeps_members c c'"
    by (auto simp: keeps_members_def members_def cfg_view_def dict_has_get split: if_splits)
qed

lemma load_host_keeps:
  assumes "load_host g c (h, os) = Inr c'"
  shows "keeps_members c c'" "optionxform h \<in> set (members c' ''all'')" "optionxform h \<in> set (members c' g)"
proof -
  obtain s c1 where c1: "add_host_to_group c ''all'' h s = Inr c1" "add_host_to_group c1 g h [] = Inr c'"
    using assms by (auto simp: load_host_def rbind_eq_Inr_iff)
  note k = add_host_keeps [OF c1(1)] add_host_keeps [OF c1(2)]
  show "keeps_members c c'" using k(1,3) by (rule keeps_members_trans)
  show "optionxform h \<in> set (members c' g)" using k(4) .
  show "optionxform h \<in> set (members c' ''all'')" using k(2,3) by (auto simp: keeps_members_def)
qed

lemma rfold_reaches:
  assumes "rfold f c xs = Inr c'" "x \<in> set xs" "\<And>c x c'. f c x = Inr c' \<Longrightarrow> keeps_members c c'"
  shows "\<exists>c1 c2. f c1 x = Inr c2 \<and> keeps_members c c1 \<and> keeps_members c2 c'"
  using assms
proof (induction xs arbitrary: c)
  case Nil
  then show ?case by simp
next
  case (Cons y ys)
  then obtain c1 where c1: "f c y = Inr c1" "rfold f c1 ys = Inr c'" by (auto simp: rbind_eq_Inr_iff)
  show ?case
  proof (cases "x = y")
    case True
    then show ?thesis using c1 Cons.prems(3) rfold_keeps by (metis keeps_members_refl)
  next
    case False
    then show ?thesis using Cons c1 by (metis keeps_members_trans set_ConsD)
  qed
qed

text \<open>C31: A load that succeeds puts every host of every group of the file into \<open>all\<close> and into its group,
  and takes no name out of any group.\<close>

theorem load_data_members:
  assumes "load_data c (JDict data) = Inr c'"
  shows "(\<forall>g. set (members c g) \<subseteq> set (members c' g)) \<and>
     (\<forall>g hs h os. (g, JDict hs) \<in> set data \<longrightarrow> (h, os) \<in> set hs \<longrightarrow>
        optionxform h \<in> set (members c' ''all'') \<inter> set (members c' g))"
proof -
  obtain c1 c2 where c: "ensure_required_groups c ROLES = Inr c1" "set_k8s_cluster c1 = Inr c2"
    "rfold load_group c2 data = Inr c'"
    using assms by (auto simp: load_data_def rbind_eq_Inr_iff json_items_def)
  have lg: "keeps_members c c'" if "load_group c x = Inr c'" for c x c'
  proof -
    obtain g hs where x: "x = (g, hs)" by force
    with that obtain c1 es where c1: "ensure_required_groups c [g] = Inr c1" "rfold (load_host g) c1 es = Inr c'"
      by (auto simp: load_group_def rbind_eq_Inr_iff)
    have "keeps_members c1 c'"
      using c1(2) by (rule rfold_keeps) (metis load_host_keeps(1) prod.collapse)
    with ensure_keeps [OF c1(1)] show ?thesis by (rule keeps_members_trans)
  qed
  have "keeps_members c1 c2"
    using c(2) by (auto simp: set_k8s_cluster_def rbind_eq_Inr_iff intro: keeps_members_trans add_host_keeps(1))
  then have "keeps_members c c'"
    using ensure_keeps [OF c(1)] rfold_keeps [OF c(3)] lg unfolding keeps_members_def by (meson subset_trans)
  moreover have "optionxform h \<in> set (members c' ''all'') \<inter> set (members c' g)"
    if "(g, JDict hs) \<in> set data" "(h, os) \<in> set hs" for g hs h os
  proof -
    from rfold_reaches [OF c(3) that(1)] lg obtain a b where
      b: "load_group a (g, JDict hs) = Inr b" "keeps_members b c'" by blast
    then obtain a' where "rfold (load_host g) a' hs = Inr b" by (auto simp: load_group_def rbind_eq_Inr_iff json_items_def)
    from rfold_reaches [OF this that(2)] obtain x y where
      "load_host g x (h, os) = Inr y" "keeps_members y b" using load_host_keeps(1) by (metis prod.collapse)
    with load_host_keeps [OF this(1)] b(2) show ?thesis unfolding keeps_members_def by blast
  qed
  ultimately show ?thesis by (auto simp: keeps_members_def)
qed

theorem load_data_members_witness:
  "\<exists>c'. load_data new_config (JDict [(''etcd'', JDict [(''n1'', JDict [(''ip'', JStr ''10.0.0.4'')])])]) = Inr c' \<and>
     ''n1'' \<in> set (members c' ''all'') \<inter> set (members c' ''etcd'')"
proof -
  let ?d = "[(''etcd'', JDict [(''n1'', JDict [(''ip'', JStr ''10.0.0.4'')])])]"
  have "is_ok (load_data new_config (JDict ?d))" by code_simp
  then obtain c' where c': "load_data new_config (JDict ?d) = Inr c'" by (auto simp: is_ok_iff)
  have "optionxform ''n1'' = ''n1''" by code_simp
  with load_data_members [OF c'] c' show ?thesis by fastforce
qed

end
