(* ===== verification/Inventory_Lifecycle.thy ===== *)
theory Inventory_Lifecycle
  imports Inventory_Commands
begin

text \<open>
  The life of an inventory file: a step relation on worlds whose steps are the runs of the inventory
  builder on one file and whatever else happens around it, the histories of such steps from the day
  the file did not exist, the invariant every history keeps, and the refinement of an abstract
  machine whose whole state is the table of names and addresses.
\<close>

section \<open>The abstract machine\<close>

text \<open>One action of a history: a command line that updates the inventory, or anything that does not.\<close>

datatype action = Update settings "string list" | Quiet

definition host_number :: "string \<Rightarrow> nat" where
  "host_number h = (case get_host_id h of Inl e \<Rightarrow> 0 | Inr i \<Rightarrow> i)"

definition highest_number :: "string list \<Rightarrow> nat" where
  "highest_number names = foldl (\<lambda>m h. max m (host_number h)) 0 names"

fun table_after :: "table \<Rightarrow> action \<Rightarrow> table" where
  "table_after t (Update cfg ws) =
     fst (foldl (spec_word (host_prefix cfg)) (t, highest_number (map fst t) + 1) ws)"
| "table_after t Quiet = t"

section \<open>The steps of the world\<close>

text \<open>What the next run finds in the file, with the groups it adds at once.\<close>

definition stored_config :: "string \<Rightarrow> world \<Rightarrow> config res" where
  "stored_config p w = rbind (read_config (Some p) w) (\<lambda>c. ensure_required_groups c ROLES)"

definition stored_hosts :: "string \<Rightarrow> world \<Rightarrow> hosts res" where
  "stored_hosts p w = rbind (stored_config p w) (\<lambda>c. rmap fst (existing_hosts c))"

text \<open>
  A step is a successful update with a command line of clean words, any other run but \<open>load\<close> (a
  failed one included, whatever its words), or any change of the world that leaves the file alone.
\<close>

inductive run_step :: "(string \<Rightarrow> json res) \<Rightarrow> string \<Rightarrow> action \<Rightarrow> world \<Rightarrow> world \<Rightarrow> bool"
  for yl p where
  update: "prefix_ok (host_prefix cfg) \<Longrightarrow> ws \<noteq> [] \<Longrightarrow> \<forall>x \<in> set ws. clean_word x \<Longrightarrow>
     KubesprayInventory yl cfg ws (Some p) w = (Inr (Updated, c'), w') \<Longrightarrow>
     run_step yl p (Update cfg ws) w w'"
| quiet: "KubesprayInventory yl cfg ws (Some p) w = (r, w') \<Longrightarrow> \<nexists>c'. r = Inr (Updated, c') \<Longrightarrow>
     \<nexists>fs. ws = ''load'' # fs \<Longrightarrow> run_step yl p Quiet w w'"
| elsewhere: "files w' p = files w p \<Longrightarrow> run_step yl p Quiet w w'"


text \<open>The histories of the file, from a world without it, with the actions in their order.\<close>

inductive history :: "(string \<Rightarrow> json res) \<Rightarrow> string \<Rightarrow> action list \<Rightarrow> world \<Rightarrow> bool" for yl p where
  absent: "files w p = None \<Longrightarrow> history yl p [] w"
| later: "history yl p acts w \<Longrightarrow> run_step yl p a w w' \<Longrightarrow> history yl p (acts @ [a]) w'"

section \<open>The highest id\<close>

lemma scan_hosts_highest:
  "rfold scan_host (hs, hi) es = Inr (hs', hi') \<Longrightarrow>
     hi' = foldl (\<lambda>m h. max m (host_number h)) hi (map fst es)"
proof (induction es arbitrary: hs hi)
  case Nil
  then show ?case by simp
next
  case (Cons e es)
  obtain h os where e: "e = (h, os)" by force
  from Cons.prems e obtain i where i: "get_host_id h = Inr i"
    and r: "rfold scan_host (dict_set hs h os, if i > hi then i else hi) es = Inr (hs', hi')"
    by (auto simp: scan_host_eq rbind_eq_Inr_iff)
  have "(if i > hi then i else hi) = max hi (host_number h)" by (simp add: host_number_def i)
  with Cons.IH [OF r] show ?case by (simp add: e)
qed

lemma existing_hosts_highest:
  assumes "existing_hosts c = Inr (hs, hi)" "good c" "defaults c = []"
  shows "hi = highest_number (dict_keys hs)"
proof -
  obtain d where d: "cfg_view c ''all'' = Some d" "plain_options d" "dict_ok d"
    using good_all [OF assms(2)] by (auto simp: options_ok_def)
  let ?es = "map (\<lambda>(k, v). (k, value_str v)) d"
  have "rfold scan_host ([], 0) ?es = Inr (hs, hi)"
    using existing_hosts_view [OF assms(3) d] assms(1) by simp
  then show ?thesis
    using scan_hosts_highest existing_hosts_eq [OF assms(1,3) d]
    by (fastforce simp: highest_number_def dict_keys_def)
qed

section \<open>The invariant\<close>

text \<open>
  A sound configuration: it reads back as it is written, its host table has distinct names and distinct
  addresses, every group but \<open>k8s-cluster:children\<close> has names of that table only, and that one has
  the two groups it is made of.
\<close>

definition members_valid :: "config \<Rightarrow> string list \<Rightarrow> bool" where
  "members_valid c names =
     ((\<forall>g. proper g \<longrightarrow> g \<noteq> ''k8s-cluster:children'' \<longrightarrow> set (members c g) \<subseteq> set names) \<and>
      set (members c ''k8s-cluster:children'') \<subseteq> {''kube-node'', ''kube-master''})"

definition sound :: "config \<Rightarrow> bool" where
  "sound c =
     (good c \<and> clean_config c \<and>
      (\<exists>hs hi. existing_hosts c = Inr (hs, hi) \<and> table_ok hs \<and> members_valid c (dict_keys hs)))"

lemma sound_first: "sound first_config"
proof -
  have "existing_hosts first_config = Inr ([], 0)" "clean_config first_config" "table_ok []"
    by code_simp+
  moreover have "members first_config g = []" for g
    by (auto simp: members_def first_config_def cfg_view_def dict_get_def ROLES_def split: if_splits)
  ultimately show ?thesis using first_good by (simp add: sound_def members_valid_def)
qed

text \<open>A group of a sound configuration keeps valid names only, and is given valid names only.\<close>

lemma assigned_valid:
  assumes "members_valid c names" "\<forall>h \<in> set names. is_ok (get_host_id h)" "proper g"
    and "g \<noteq> ''k8s-cluster:children''"
  shows "kept c names' g \<union> assigned cfg c names' g \<subseteq> set names'"
proof -
  have "h \<notin> set PROTECTED_NAMES" if "h \<in> set (members c g)" for h
    using assms that protected_no_id unfolding members_valid_def by blast
  then have "kept c names' g \<subseteq> set names'" by (auto simp: kept_def)
  moreover have "masters cfg names' \<subseteq> set names'" using master_list_subset by (auto simp: masters_list)
  then have "assigned cfg c names' g \<subseteq> set names'"
    using assms(4) etcds_subset [of names'] by (auto simp: assigned_def workers_def)
  ultimately show ?thesis by blast
qed

lemma clean_text_address: "clean_text a \<Longrightarrow> address_ok a"
  using is_space_simps(1) unfolding clean_text_def address_ok_def by blast

lemma clean_word_ok: "clean_word w \<Longrightarrow> word_ok w"
  using clean_text_address by (auto simp: clean_word_def word_ok_def)

lemma assignment_valid:
  assumes "members_valid c (dict_keys hs)" "\<forall>h \<in> set (dict_keys hs). is_ok (get_host_id h)"
    and "\<And>g. proper g \<Longrightarrow> set (members c' g) = kept c names g \<union> assigned cfg c names g"
  shows "members_valid c' names"
proof -
  let ?k = "''k8s-cluster:children''"
  have "kept c names ?k \<union> assigned cfg c names ?k \<subseteq> {''kube-node'', ''kube-master''}"
    using assms(1) by (auto simp: members_valid_def kept_def assigned_def)
  moreover have "set (members c' g) \<subseteq> set names" if "proper g" "g \<noteq> ?k" for g
    using assigned_valid [OF assms(1,2) that] by (simp only: assms(3) [OF that(1)])
  ultimately show ?thesis
    unfolding members_valid_def assms(3) [OF roles_proper [OF in_ROLES(5)]] by blast
qed

text \<open>The abstract table of a configuration, and how an update changes the groups.\<close>

definition config_table :: "config \<Rightarrow> table" where
  "config_table c = (case existing_hosts c of Inl e \<Rightarrow> [] | Inr (hs, hi) \<Rightarrow> table_abs hs)"

definition updated :: "settings \<Rightarrow> string list \<Rightarrow> config \<Rightarrow> config \<Rightarrow> bool" where
  "updated cfg ws c c1 =
     (sound c1 \<and> config_table c1 = table_after (config_table c) (Update cfg ws) \<and>
      (\<forall>g. proper g \<longrightarrow> set (members c1 g) =
         kept c (map fst (config_table c1)) g \<union> assigned cfg c (map fst (config_table c1)) g))"

text \<open>One update of a sound configuration: it succeeds, its table is the abstract one, and what the file
  gives back is sound again.\<close>

lemma sound_update:
  assumes "sound c" "prefix_ok (host_prefix cfg)" "\<forall>x \<in> set ws. clean_word x"
  shows "\<exists>c' hs. assign_groups cfg c ws = Inr (c', hs) \<and> file_ok c' \<and>
     ensure_required_groups (norm_config c') ROLES = Inr (norm_config c') \<and>
     updated cfg ws c (norm_config c')"
proof -
  obtain hs hi where e: "existing_hosts c = Inr (hs, hi)" using assms(1) by (auto simp: sound_def)
  have c: "good c" "clean_config c" "defaults c = []" "table_ok hs" "members_valid c (dict_keys hs)"
    using assms(1) e by (auto simp: sound_def clean_config_def)
  have dot: "CHR ''.'' \<notin> set (host_prefix cfg)" using assms(2) by (auto simp: prefix_ok_def)
  have "\<forall>x \<in> set ws. word_ok x" using assms(3) clean_word_ok by blast
  from build_hostnames_refines_words [OF e c(4) dot this] obtain hs' where
    b: "build_hostnames cfg c ws = Inr hs'" "table_ok hs'"
    and t: "table_abs hs' = table_after (config_table c) (Update cfg ws)"
    using existing_hosts_highest [OF e c(1,3)] by (auto simp: table_abs_names config_table_def e)
  have ent: "hosts_ok hs'" "\<forall>e \<in> set hs'. entry_ok e"
    using build_hostnames_entries [OF b(1) c(1,2) assms(3,2)] by blast+
  from host_table_result [OF b(1) c(1,3) ent(1) dot] obtain c' where
    a: "assign_groups cfg c ws = Inr (c', hs')" and c': "good c'" "defaults c' = []"
      "cfg_view c' ''all'' = Some (map (\<lambda>(h, os). (h, Some os)) hs')"
      "\<forall>h \<in> set (dict_keys hs'). is_ok (get_host_id h)" by blast
  have f: "file_ok c'"
    using assign_groups_file_ok [OF a] c(2) ent(2) by (auto simp: clean_config_def entry_ok_def)
  then have n: "clean_config (norm_config c')"
    using c' by (intro clean_norm) (simp add: clean_config_def good_def)
  note s = norm_state [OF c']
  obtain c2 where "assign_groups cfg c ws = Inr (c2, hs')"
    and "\<And>g. proper g \<Longrightarrow>
      set (members c2 g) = kept c (dict_keys hs') g \<union> assigned cfg c (dict_keys hs') g"
    using assign_groups_result [OF b(1) c(1,3) ent(1)] by blast
  with a have m: "\<And>g. proper g \<Longrightarrow> set (members (norm_config c') g) =
      kept c (dict_keys hs') g \<union> assigned cfg c (dict_keys hs') g" by simp
  have "\<forall>h \<in> set (dict_keys hs). is_ok (get_host_id h)"
    using existing_hosts_ids [OF e] by (auto simp: is_ok_iff)
  then have v: "members_valid (norm_config c') (dict_keys hs')"
    using m by (intro assignment_valid [OF c(5)]) simp_all
  obtain hi' where e': "existing_hosts (norm_config c') = Inr (hs', hi')" using s(4) by blast
  have ct: "config_table (norm_config c') = table_abs hs'" by (simp add: config_table_def e')
  have "sound (norm_config c')" using n s(1) b(2) v e' by (simp add: sound_def)
  then have "updated cfg ws c (norm_config c')"
    unfolding updated_def ct table_abs_names using t m by blast
  with a f s(3) show ?thesis by (intro exI conjI)
qed

section \<open>Histories\<close>

definition holds :: "string \<Rightarrow> world \<Rightarrow> config \<Rightarrow> bool" where
  "holds p w c = (stored_config p w = Inr c \<and> sound c)"

lemma holds_absent: "files w p = None \<Longrightarrow> holds p w first_config"
  using first_groups sound_first by (simp add: holds_def stored_config_def read_config_def)

lemma holds_same_file: "files w' p = files w p \<Longrightarrow> holds p w' c = holds p w c"
  by (simp add: holds_def stored_config_def read_config_def)

text \<open>An update from such a world: all that can go wrong is the writing of the file.\<close>

lemma holds_update:
  assumes "holds p w c" "p \<noteq> []" "prefix_ok (host_prefix cfg)" "ws \<noteq> []" "\<forall>x \<in> set ws. clean_word x"
  shows "\<exists>c' c1. KubesprayInventory yl cfg ws (Some p) w =
       run_bind (write_config c' (Some p) w) (\<lambda>_ w. (Inr (Updated, c'), w)) \<and>
     updated cfg ws c c1 \<and> (\<forall>w'. files w' p = Some (cfg_write c') \<longrightarrow> holds p w' c1)"
proof -
  obtain c0 where c: "read_config (Some p) w = Inr c0" "ensure_required_groups c0 ROLES = Inr c" "sound c"
    using assms(1) by (auto simp: holds_def stored_config_def rbind_eq_Inr_iff)
  from sound_update [OF c(3) assms(3,5)] obtain c' hs where
    c': "assign_groups cfg c ws = Inr (c', hs)" "file_ok c'"
      "ensure_required_groups (norm_config c') ROLES = Inr (norm_config c')"
    and u: "updated cfg ws c (norm_config c')" by blast
  have "holds p w' (norm_config c')" if "files w' p = Some (cfg_write c')" for w'
    using that assms(2) c'(3) u
    by (simp add: holds_def stored_config_def read_config_def read_write_file [OF c'(2)] updated_def)
  moreover have "hd ws \<notin> set AVAILABLE_COMMANDS" using assms(4,5) by (simp add: clean_not_command)
  from update_run [OF c(1,2) assms(4) this] c'(1) have
    "KubesprayInventory yl cfg ws (Some p) w =
       run_bind (write_config c' (Some p) w) (\<lambda>_ w. (Inr (Updated, c'), w))" by simp
  ultimately show ?thesis using u by blast
qed

text \<open>A step keeps the configuration or updates it, as its action says.\<close>

lemma holds_step:
  assumes "holds p w c" "run_step yl p a w w'" "p \<noteq> []"
  obtains (updates) cfg ws c1 where "a = Update cfg ws" "updated cfg ws c c1" "holds p w' c1"
  | (keeps) "a = Quiet" "holds p w' c"
  using assms(2)
proof cases
  case (update cfg ws c')
  from holds_update [OF assms(1,3) update(2-4), of yl] obtain c2 c1 where
    c2: "KubesprayInventory yl cfg ws (Some p) w =
       run_bind (write_config c2 (Some p) w) (\<lambda>_ w. (Inr (Updated, c2), w))"
    and u: "updated cfg ws c c1" and h: "\<And>w'. files w' p = Some (cfg_write c2) \<Longrightarrow> holds p w' c1" by blast
  have "files w' p = Some (cfg_write c2)"
    using update(5) c2 assms(3) by (auto simp: write_config_def split: if_splits)
  with updates [OF update(1) u] h show ?thesis by blast
next
  case (quiet cfg ws r)
  then have "files w' p = files w p" using run_files [OF quiet(2)] by auto
  with keeps [OF quiet(1)] assms(1) holds_same_file show ?thesis by blast
next
  case elsewhere
  with keeps assms(1) holds_same_file show ?thesis by blast
qed

lemma history_holds:
  assumes "history yl p acts w" "p \<noteq> []"
  shows "\<exists>c. holds p w c \<and> config_table c = foldl table_after [] acts"
  using assms(1)
proof induction
  case (absent w)
  have "config_table first_config = []" by code_simp
  then show ?case using holds_absent [OF absent] by auto
next
  case (later acts w a w')
  then obtain c where c: "holds p w c" "config_table c = foldl table_after [] acts" by blast
  from c(1) later.hyps(2) assms(2) show ?case
    by (cases rule: holds_step) (auto simp: updated_def c(2) simp del: table_after.simps(1))
qed

lemma holds_stored:
  "holds p w c \<Longrightarrow> \<exists>hs hi. stored_config p w = Inr c \<and> existing_hosts c = Inr (hs, hi) \<and>
     stored_hosts p w = Inr hs \<and> table_ok hs \<and> members_valid c (dict_keys hs) \<and> table_abs hs = config_table c"
  by (auto simp: holds_def sound_def stored_hosts_def config_table_def)

lemma history_extends:
  assumes "history yl p acts w" "p \<noteq> []" "writable w p" "prefix_ok (host_prefix cfg)"
    and "ws \<noteq> []" "\<forall>x \<in> set ws. clean_word x"
  shows "\<exists>c' w'. KubesprayInventory yl cfg ws (Some p) w = (Inr (Updated, c'), w') \<and>
     history yl p (acts @ [Update cfg ws]) w' \<and> writable w' p"
proof -
  obtain c where "holds p w c" using history_holds [OF assms(1,2)] by blast
  from holds_update [OF this assms(2,4-6)] obtain c' where
    "KubesprayInventory yl cfg ws (Some p) w =
       run_bind (write_config c' (Some p) w) (\<lambda>_ w. (Inr (Updated, c'), w))" by blast
  then have r: "KubesprayInventory yl cfg ws (Some p) w =
      (Inr (Updated, c'), w\<lparr>files := (files w)(p \<mapsto> cfg_write c')\<rparr>)"
    using assms(2,3) by (simp add: write_config_def)
  with history.later [OF assms(1) run_step.update [OF assms(4-6) r]] assms(3) show ?thesis by auto
qed

section \<open>What holds in every history\<close>

text \<open>C5: The inventory file refines the abstract table. Take any history since the file did not exist
  whose runs are updates (deletions, or addresses without white space, percent or equals sign, under a
  plain host prefix), runs that fail or only print, and events that leave the file alone; \<open>load\<close> is no
  step of it. Then the hosts the next run reads are, names, addresses and order, the table that the
  updates give in the abstract machine.\<close>

theorem history_refines_table:
  assumes "history yl p acts w" "p \<noteq> []"
  shows "rmap table_abs (stored_hosts p w) = Inr (foldl table_after [] acts)"
  using history_holds [OF assms] holds_stored by fastforce

text \<open>C11: After every history of such updates and of runs and events that leave the file alone (no \<open>load\<close>,
  no other words, from the day the file did not exist) the stored inventory is consistent: the names of its hosts are distinct, every
  host has an address and the addresses are distinct, and no group has a member that is not a host,
  except \<open>k8s-cluster:children\<close>, which has no members but the two groups.\<close>

theorem history_consistent:
  assumes "history yl p acts w" "p \<noteq> []"
  shows "\<exists>c hs. stored_config p w = Inr c \<and> stored_hosts p w = Inr hs \<and>
     distinct (dict_keys hs) \<and> has_ips hs \<and> distinct (map snd (table_abs hs)) \<and>
     (\<forall>g. proper g \<longrightarrow> g \<noteq> ''k8s-cluster:children'' \<longrightarrow> set (members c g) \<subseteq> set (dict_keys hs)) \<and>
     set (members c ''k8s-cluster:children'') \<subseteq> {''kube-node'', ''kube-master''}"
proof -
  obtain c where "holds p w c" using history_holds [OF assms] by blast
  from holds_stored [OF this] show ?thesis
    unfolding table_ok_def members_valid_def dict_ok_def by blast
qed

text \<open>C12: No history of such updates and of runs and events that leave the file alone, \<open>load\<close> excluded,
  leads to a file the program cannot update: if the file can be written and the host prefix is plain (no
  upper case, white space or dot, no comment or bracket at its start), every non-empty command line of
  deletions and of addresses without white space, percent or equals sign succeeds, and its end is such a
  history again. (After \<open>load\<close> it can fail: \<open>load_stops_updates\<close>.)\<close>

theorem history_never_stuck:
  assumes "history yl p acts w" "p \<noteq> []" "writable w p" "prefix_ok (host_prefix cfg)"
    and "ws \<noteq> []" "\<forall>x \<in> set ws. clean_word x"
  shows "\<exists>c' w'. KubesprayInventory yl cfg ws (Some p) w = (Inr (Updated, c'), w') \<and>
     history yl p (acts @ [Update cfg ws]) w' \<and> writable w' p"
  using assms by (rule history_extends)

text \<open>The history of the witnesses: three hosts, a failed run, a deletion and a new host.\<close>

definition demo_acts :: "action list" where
  "demo_acts = [Update demo_settings first_words, Quiet,
                Update demo_settings [''-10.0.0.2'', ''10.0.0.7'']]"

lemma demo_history: "\<exists>w. history no_data ''hosts.ini'' demo_acts w \<and> writable w ''hosts.ini''"
proof -
  have p: "prefix_ok (host_prefix demo_settings)" by code_simp
  have ws: "first_words \<noteq> []" "\<forall>x \<in> set first_words. clean_word x"
    "\<forall>x \<in> set [''-10.0.0.2'', ''10.0.0.7'']. clean_word x" by code_simp+
  have "history no_data ''hosts.ini'' [] demo_world" "writable demo_world ''hosts.ini''"
    by (simp_all add: history.absent demo_world_def)
  from history_extends [OF this(1) _ this(2) p ws(1,2)] obtain w1 where
    w1: "history no_data ''hosts.ini'' ([] @ [Update demo_settings first_words]) w1"
      "writable w1 ''hosts.ini''" by blast
  have "history no_data ''hosts.ini'' (([] @ [Update demo_settings first_words]) @ [Quiet]) w1"
    using history.later [OF w1(1) run_step.elsewhere [of w1 _ w1]] by blast
  from history_extends [OF this _ w1(2) p _ ws(3)] show ?thesis by (auto simp: demo_acts_def)
qed

lemma demo_acts_table:
  "foldl table_after [] demo_acts =
     [(''node1'', ''10.0.0.1''), (''node3'', ''10.0.0.3''), (''node4'', ''10.0.0.7'')]"
  by code_simp

theorem history_refines_table_witness:
  "\<exists>w. history no_data ''hosts.ini'' demo_acts w \<and> rmap table_abs (stored_hosts ''hosts.ini'' w) =
     Inr [(''node1'', ''10.0.0.1''), (''node3'', ''10.0.0.3''), (''node4'', ''10.0.0.7'')]"
proof -
  obtain w where "history no_data ''hosts.ini'' demo_acts w" using demo_history by blast
  with history_refines_table [OF this] show ?thesis by (auto simp: demo_acts_table)
qed

theorem history_consistent_witness:
  "\<exists>w c hs. history no_data ''hosts.ini'' demo_acts w \<and> stored_config ''hosts.ini'' w = Inr c \<and>
     stored_hosts ''hosts.ini'' w = Inr hs \<and> distinct (dict_keys hs) \<and>
     set (members c ''etcd'') \<subseteq> set (dict_keys hs)"
proof -
  obtain w where h: "history no_data ''hosts.ini'' demo_acts w" using demo_history by blast
  have "proper ''etcd''" by code_simp
  with history_consistent [OF h] h show ?thesis by fastforce
qed

theorem history_never_stuck_witness:
  "\<exists>w c' w'. history no_data ''hosts.ini'' demo_acts w \<and>
     KubesprayInventory no_data demo_settings [''-node1''] (Some ''hosts.ini'') w = (Inr (Updated, c'), w')"
proof -
  obtain w where h: "history no_data ''hosts.ini'' demo_acts w" "writable w ''hosts.ini''"
    using demo_history by blast
  have "prefix_ok (host_prefix demo_settings)" "\<forall>x \<in> set [''-node1'']. clean_word x" by code_simp+
  from history_never_stuck [OF h(1) _ h(2) this(1) _ this(2)] h(1) show ?thesis by blast
qed

section \<open>Why load is no step\<close>

text \<open>A host whose name has no number can be stored, by \<open>load\<close> for example, and ends every later update.\<close>

lemma unnumbered_host_stuck:
  assumes "stored_config p w = Inr c" "config_ok c" "defaults c = []"
    and "h \<in> set (members c ''all'')" "\<not> is_ok (get_host_id h)"
    and "ws \<noteq> []" "hd ws \<notin> set AVAILABLE_COMMANDS"
  shows "\<exists>e. KubesprayInventory yl cfg ws (Some p) w = (Inl e, w)"
proof -
  obtain c0 where c0: "read_config (Some p) w = Inr c0" "ensure_required_groups c0 ROLES = Inr c"
    using assms(1) by (auto simp: stored_config_def rbind_eq_Inr_iff)
  obtain d v where d: "cfg_view c ''all'' = Some d" "dict_get d h = Some v"
    using assms(4) by (cases "cfg_view c ''all''") (auto simp: members_def pd.keys_iff)
  have "existing_hosts c \<noteq> Inr (hs, hi)" for hs hi
  proof
    assume e: "existing_hosts c = Inr (hs, hi)"
    from existing_hosts_get [OF e assms(2,3) d] have "h \<in> set (dict_keys hs)" by (auto simp: pd.keys_iff)
    with existing_hosts_ids [OF e] assms(5) show False by (auto simp: is_ok_iff)
  qed
  then obtain e where "existing_hosts c = Inl e" by (cases "existing_hosts c") auto
  then have "assign_groups cfg c ws = Inl e" by (simp add: assign_groups_def build_hostnames_def)
  with update_run [OF c0 assms(6,7)] show ?thesis by simp
qed

text \<open>A file of hosts, loaded by a run that succeeds, after which adding an address raises.\<close>

definition load_world :: world where
  "load_world = demo_world\<lparr>files := [''hosts.json'' \<mapsto>
     ''{'' @ dump_str ''kube-node'' @ '': {'' @ dump_str ''web'' @ '': {'' @ dump_str ''ip'' @ '': '' @
       dump_str ''10.0.0.1'' @ ''}}}'']\<rparr>"

lemma load_stops_updates:
  "case KubesprayInventory no_data demo_settings [''load'', ''hosts.json''] (Some ''hosts.ini'') load_world of
     (Inr (oc, c), w) \<Rightarrow>
       fst (KubesprayInventory no_data demo_settings [''10.0.0.2''] (Some ''hosts.ini'') w) =
         Inl (ValueError ''Host name must end in an integer'')
   | _ \<Rightarrow> False"
  by code_simp

section \<open>Separation over histories\<close>

text \<open>An action that changes no setting and deletes nothing.\<close>

definition extends :: "settings \<Rightarrow> action \<Rightarrow> bool" where
  "extends cfg a =
     (case a of Update cfg' ws \<Rightarrow> cfg' = cfg \<and> (\<forall>x \<in> set ws. hd x \<noteq> CHR ''-'') | Quiet \<Rightarrow> True)"

lemma additions_prefix:
  "\<forall>x \<in> set ws. hd x \<noteq> CHR ''-'' \<Longrightarrow> prefix t (fst (foldl (spec_word p) (t, n) ws))"
proof (induction ws arbitrary: t n)
  case Nil
  then show ?case by simp
next
  case (Cons x ws)
  obtain t' n' where t': "spec_word p (t, n) x = (t', n')" by force
  then have "prefix t t'" using Cons.prems by (auto simp: spec_word_def split: if_splits)
  moreover have "prefix t' (fst (foldl (spec_word p) (t', n') ws))" using Cons by simp
  ultimately show ?case by (metis t' foldl_Cons prefix_order.order_trans)
qed

abbreviation names_of :: "config \<Rightarrow> string list" where
  "names_of c \<equiv> map fst (config_table c)"

text \<open>The control plane is the one the host table gives, and no worker is in it.\<close>

definition separated :: "settings \<Rightarrow> bool \<Rightarrow> config \<Rightarrow> string list \<Rightarrow> bool" where
  "separated cfg massive c names =
     (at_scale cfg names \<and>
      set (members c ''etcd'') \<subseteq> etcds names \<and> set (members c ''kube-master'') \<subseteq> masters cfg names \<and>
      set (members c ''kube-node'') \<inter> etcds names = {} \<and>
      (massive \<longrightarrow> at_massive_scale cfg names \<and> set (members c ''kube-node'') \<inter> masters cfg names = {}))"

lemma separated_update:
  assumes "updated cfg ws c c1" "separated cfg massive c (names_of c1)"
  shows "separated cfg massive c1 (names_of c1)"
proof -
  have m: "set (members c1 g) = kept c (names_of c1) g \<union> assigned cfg c (names_of c1) g" if "g \<in> set ROLES" for g
    using assms(1) roles_proper [OF that] unfolding updated_def by blast
  have k: "kept c (names_of c1) g \<subseteq> set (members c g)" for g by (auto simp: kept_def)
  show ?thesis
    using assms(2) k [of "''etcd''"] k [of "''kube-master''"] k [of "''kube-node''"]
    unfolding separated_def m [OF in_ROLES(2)] m [OF in_ROLES(3)] m [OF in_ROLES(4)]
    by (auto simp: assigned_def workers_def)
qed

lemma separated_grows:
  assumes "separated cfg massive c names" "prefix names names1" "scale_threshold cfg \<ge> 5"
  shows "separated cfg massive c names1"
proof -
  obtain xs where n: "names1 = names @ xs" using assms(2) by (auto simp: prefix_def)
  have len: "length names \<ge> 5" using assms(1,3) by (simp add: separated_def at_scale_def)
  then have "etcds names1 = etcds names" "masters cfg names1 = masters cfg names"
    using assms(1) by (simp_all add: n etcds_def masters_def at_scale_def separated_def)
  then show ?thesis using assms(1) by (auto simp: separated_def at_scale_def at_massive_scale_def n)
qed

lemma separated_disjoint:
  assumes "separated cfg massive c names" "distinct names"
  shows "set (members c ''etcd'') \<inter> set (members c ''kube-node'') = {} \<and>
     set (members c ''etcd'') \<inter> set (members c ''kube-master'') = {} \<and>
     (massive \<longrightarrow> set (members c ''kube-master'') \<inter> set (members c ''kube-node'') = {})"
  using assms etcds_masters_disjoint [of names cfg] unfolding separated_def by blast

lemma holds_unique: "holds p w c \<Longrightarrow> holds p w c' \<Longrightarrow> c = c'"
  by (simp add: holds_def)

inductive_cases empty_historyE: "history yl p [] w"

lemma first_separated:
  "at_scale cfg names \<Longrightarrow> separated cfg (at_massive_scale cfg names) first_config names"
proof -
  have "members first_config g = []" for g
    by (auto simp: members_def first_config_def cfg_view_def dict_get_def ROLES_def split: if_splits)
  then show "at_scale cfg names \<Longrightarrow> ?thesis" by (simp add: separated_def)
qed

lemma history_separated:
  assumes "history yl p (Update cfg ws # acts) w" "p \<noteq> []" "scale_threshold cfg \<ge> 5"
    and "at_scale cfg first" "first = map fst (table_after [] (Update cfg ws))" "\<forall>a \<in> set acts. extends cfg a"
  shows "\<exists>c. holds p w c \<and> separated cfg (at_massive_scale cfg first) c (names_of c)"
  using assms(1,6)
proof (induction "Update cfg ws # acts" w arbitrary: acts)
  case (later acts' w a w')
  show ?case
  proof (cases acts')
    case Nil
    then have a: "a = Update cfg ws" using later.hyps(4) by simp
    have w: "holds p w first_config" using later.hyps(1) Nil by (auto elim: empty_historyE intro: holds_absent)
    have e: "config_table first_config = []" by code_simp
    obtain c1 where c1: "updated cfg ws first_config c1" "holds p w' c1"
      using w later.hyps(3) assms(2) a by (cases rule: holds_step) auto
    then have "names_of c1 = first" unfolding assms(5) updated_def e by simp
    with separated_update [OF c1(1)] first_separated [OF assms(4)] c1(2) show ?thesis by auto
  next
    case (Cons b bs)
    then have bs: "acts' = Update cfg ws # bs" "acts = bs @ [a]" using later.hyps(4) by auto
    then obtain c where c: "holds p w c" "separated cfg (at_massive_scale cfg first) c (names_of c)"
      using later.hyps(2) later.prems by auto
    have a: "extends cfg a" using bs later.prems by simp
    from c(1) later.hyps(3) assms(2) show ?thesis
    proof (cases rule: holds_step)
      case (updates cfg' us c1)
      with a have u: "cfg' = cfg" "\<forall>x \<in> set us. hd x \<noteq> CHR ''-''" by (simp_all add: extends_def)
      have "prefix (names_of c) (names_of c1)"
        using additions_prefix [OF u(2)] updates(2) by (simp add: updated_def map_mono_prefix)
      with separated_update updates(2,3) separated_grows [OF c(2)] assms(3) u(1) show ?thesis by blast
    next
      case keeps
      with c(2) show ?thesis by blast
    qed
  qed
qed

text \<open>C13: An inventory that starts at scale stays separated as it grows by addresses. The scale threshold
  is at least five, the first update of the history creates at least as many hosts as the threshold, and
  every later step is an update with the same settings that deletes nothing, a run other than \<open>load\<close>
  that leaves the file as it is, or an event elsewhere. Then no etcd member is a worker or a master, and
  when the first table was at massive scale no master is a worker.\<close>

theorem separation_persists:
  assumes "history yl p (Update cfg ws # acts) w" "p \<noteq> []" "scale_threshold cfg \<ge> 5"
    and "at_scale cfg (map fst (table_after [] (Update cfg ws)))" "\<forall>a \<in> set acts. extends cfg a"
  shows "\<exists>c. stored_config p w = Inr c \<and>
     set (members c ''etcd'') \<inter> set (members c ''kube-node'') = {} \<and>
     set (members c ''etcd'') \<inter> set (members c ''kube-master'') = {} \<and>
     (at_massive_scale cfg (map fst (table_after [] (Update cfg ws))) \<longrightarrow>
        set (members c ''kube-master'') \<inter> set (members c ''kube-node'') = {})"
proof -
  obtain c where c: "holds p w c"
    "separated cfg (at_massive_scale cfg (map fst (table_after [] (Update cfg ws)))) c (names_of c)"
    using history_separated [OF assms(1-4) refl assms(5)] by blast
  obtain hs where hs: "stored_config p w = Inr c" "table_ok hs" "table_abs hs = config_table c"
    using holds_stored [OF c(1)] by blast
  then have "distinct (names_of c)" by (metis table_abs_names table_ok_def dict_ok_def)
  from separated_disjoint [OF c(2) this] hs(1) show ?thesis by blast
qed

definition five_words :: "string list" where
  "five_words = [''10.0.0.1'', ''10.0.0.2'', ''10.0.0.3'', ''10.0.0.4'', ''10.0.0.5'']"

theorem separation_persists_witness:
  "\<exists>w c. history no_data ''hosts.ini'' [Update (small_scale 5) five_words, Update (small_scale 5) [''10.0.0.6'']] w \<and>
     stored_config ''hosts.ini'' w = Inr c \<and> set (members c ''etcd'') \<inter> set (members c ''kube-node'') = {}"
proof -
  have p: "prefix_ok (host_prefix (small_scale 5))" by code_simp
  have ws: "five_words \<noteq> []" "\<forall>x \<in> set five_words. clean_word x"
    "\<forall>x \<in> set [''10.0.0.6'']. clean_word x" by code_simp+
  have "history no_data ''hosts.ini'' [] demo_world" "writable demo_world ''hosts.ini''"
    by (simp_all add: history.absent demo_world_def)
  from history_extends [OF this(1) _ this(2) p ws(1,2)] obtain w1 where
    w1: "history no_data ''hosts.ini'' ([] @ [Update (small_scale 5) five_words]) w1"
      "writable w1 ''hosts.ini''" by blast
  from history_extends [OF w1(1) _ w1(2) p _ ws(3)] obtain w where
    w: "history no_data ''hosts.ini'' [Update (small_scale 5) five_words, Update (small_scale 5) [''10.0.0.6'']] w"
    by auto
  have "scale_threshold (small_scale 5) \<ge> 5"
    "at_scale (small_scale 5) (map fst (table_after [] (Update (small_scale 5) five_words)))"
    "\<forall>a \<in> set [Update (small_scale 5) [''10.0.0.6'']]. extends (small_scale 5) a"
    by code_simp (code_simp, simp add: extends_def)
  from separation_persists [OF w _ this] w show ?thesis by blast
qed

text \<open>Without the restriction to additions it does not: six hosts at scale, the first one deleted, and the
  fourth, a master, becomes an etcd member as well.\<close>

lemma deletion_breaks_separation:
  "case KubesprayInventory no_data (small_scale 5) (five_words @ [''10.0.0.6'']) (Some ''hosts.ini'') demo_world of
     (Inr (Updated, c), w) \<Rightarrow>
       ''node4'' \<notin> set (members c ''etcd'') \<and>
       (case KubesprayInventory no_data (small_scale 5) [''-10.0.0.1''] (Some ''hosts.ini'') w of
          (Inr (Updated, c'), w') \<Rightarrow>
            ''node4'' \<in> set (members c' ''etcd'') \<inter> set (members c' ''kube-master'') \<and>
            ''node6'' \<in> set (members c' ''kube-node'') \<inter> set (members c' ''kube-master'')
        | _ \<Rightarrow> False)
   | _ \<Rightarrow> False"
  by code_simp

end
