(* ===== verification/Kube_Module.thy ===== *)
theory Kube_Module
  imports Py_Strings
begin

text \<open>
  The Ansible module \<open>library/kube.py\<close>: its parameters, the command lines \<open>KubeManager\<close> builds, and the
  state it dispatches on. \<open>run_command\<close> is Ansible's: it is an argument that takes a command line and
  the world to an exit code with the two outputs, or an exception, and the world after it.
  \<open>fail_json\<close> and \<open>exit_json\<close> end the module, so a run is an exit or a result together with the world.
\<close>

section \<open>The module's run\<close>

type_synonym 'w kubectl = "string list \<Rightarrow> 'w \<Rightarrow> (int \<times> string \<times> string) res \<times> 'w"

datatype kube_exit = FailJson string | Raised py_error

type_synonym ('a, 'w) kube = "(kube_exit + 'a) \<times> 'w"

definition kube_bind :: "('a, 'w) kube \<Rightarrow> ('a \<Rightarrow> 'w \<Rightarrow> ('b, 'w) kube) \<Rightarrow> ('b, 'w) kube" where
  "kube_bind m f = (case m of (Inl e, w) \<Rightarrow> (Inl e, w) | (Inr x, w) \<Rightarrow> f x w)"

lemma kube_bind_simps [simp]:
  "kube_bind (Inl e, w) f = (Inl e, w)"
  "kube_bind (Inr x, w) f = f x w"
  by (simp_all add: kube_bind_def)

text \<open>\<open>str.splitlines\<close> with all of its line breaks.\<close>

definition is_break :: "char \<Rightarrow> bool" where
  "is_break c = ((CHR 0x0A \<le> c \<and> c \<le> CHR 0x0D) \<or> (CHR 0x1C \<le> c \<and> c \<le> CHR 0x1E))"

fun lines_from :: "string \<Rightarrow> string \<Rightarrow> string list" where
  "lines_from cur [] = (if cur = [] then [] else [cur])"
| "lines_from cur [c] = (if is_break c then [cur] else [cur @ [c]])"
| "lines_from cur (c # d # s) =
     (if c = CHR 0x0D \<and> d = CHR 0x0A then cur # lines_from [] s
      else if is_break c then cur # lines_from [] (d # s)
      else lines_from (cur @ [c]) (d # s))"

definition output_lines :: "string \<Rightarrow> string list" where
  "output_lines s = lines_from [] s"

section \<open>Parameters and manager\<close>

record kube_params =
  p_name :: "string option"
  p_filename :: "string list option"
  p_namespace :: "string option"
  p_resource :: "string option"
  p_label :: "string option"
  p_server :: "string option"
  p_kubectl :: "string option"
  p_force :: bool
  p_all :: bool
  p_log_level :: int
  p_state :: string

record kube_manager =
  base_cmd :: "string list"
  all_flag :: bool
  force :: bool
  res_name :: "string option"
  filename :: "string list"
  resource :: "string option"
  label :: "string option"

text \<open>The truth value of a string that may be missing.\<close>

definition given :: "string option \<Rightarrow> bool" where
  "given v = (v \<noteq> None \<and> v \<noteq> Some [])"

definition KubeManager :: "(string \<Rightarrow> kube_exit + string) \<Rightarrow> kube_params \<Rightarrow> kube_exit + kube_manager" where
  "KubeManager get_bin_path ps =
     (case (case p_kubectl ps of Some k \<Rightarrow> Inr k | None \<Rightarrow> get_bin_path ''kubectl'') of
        Inl e \<Rightarrow> Inl e
      | Inr k \<Rightarrow> Inr \<lparr>
          base_cmd = [k] @
            (if given (p_server ps) then [''--server='' @ the (p_server ps)] else []) @
            (if p_log_level ps \<noteq> 0 then [''--v='' @ int_str (p_log_level ps)] else []) @
            (if given (p_namespace ps) then [''--namespace='' @ the (p_namespace ps)] else []),
          all_flag = p_all ps,
          force = p_force ps,
          res_name = p_name ps,
          filename = map strip (case p_filename ps of None \<Rightarrow> [] | Some fs \<Rightarrow> fs),
          resource = p_resource ps,
          label = p_label ps\<rparr>)"

section \<open>Commands\<close>

text \<open>
  \<open>str(exc)\<close> is the text of the exception \<open>run_command\<close> raised. \<open>except Exception\<close> does not catch a \<open>SystemExit\<close>.
\<close>

definition caught :: "py_error \<Rightarrow> bool" where
  "caught exc = (case exc of SystemExit c \<Rightarrow> False | _ \<Rightarrow> True)"

definition execute :: "(py_error \<Rightarrow> string) \<Rightarrow> 'w kubectl \<Rightarrow> kube_manager \<Rightarrow> string list \<Rightarrow> 'w
     \<Rightarrow> (string list, 'w) kube" where
  "execute str_exc run_command m cmd w =
     (let args = base_cmd m @ cmd
      in case run_command args w of
           (Inl exc, w) \<Rightarrow>
             if caught exc
             then (Inl (FailJson (''error running kubectl ('' @ str_join '' '' args @ '') command: '' @ str_exc exc)), w)
             else (Inl (Raised exc), w)
         | (Inr (rc, out, err), w) \<Rightarrow>
             if rc \<noteq> 0
             then (Inl (FailJson (''error running kubectl ('' @ str_join '' '' args @ '') command (rc='' @
                     int_str rc @ ''), out='' @ [CHR 0x27] @ out @ [CHR 0x27] @ '', err='' @ [CHR 0x27] @
                     err @ [CHR 0x27])), w)
             else (Inr (output_lines out), w))"

definition execute_nofail :: "'w kubectl \<Rightarrow> kube_manager \<Rightarrow> string list \<Rightarrow> 'w
     \<Rightarrow> (string list option, 'w) kube" where
  "execute_nofail run_command m cmd w =
     (case run_command (base_cmd m @ cmd) w of
        (Inl exc, w) \<Rightarrow> (Inl (Raised exc), w)
      | (Inr (rc, out, err), w) \<Rightarrow> (Inr (if rc \<noteq> 0 then None else Some (output_lines out)), w))"

definition exists_resource :: "'w kubectl \<Rightarrow> kube_manager \<Rightarrow> 'w \<Rightarrow> (bool, 'w) kube" where
  "exists_resource run_command m w =
     (if filename m = [] \<and> \<not> given (resource m)
      then (Inl (FailJson ''resource required without filename''), w)
      else kube_bind
        (execute_nofail run_command m
           ([''get''] @
            (if filename m \<noteq> [] then [''--filename='' @ str_join '','' (filename m)]
             else [the (resource m)] @
               (if given (res_name m) then [the (res_name m)] else []) @
               (if given (label m) then [''--selector='' @ the (label m)] else []) @
               (if all_flag m then [''--all-namespaces''] else [])) @
            [''--no-headers'']) w)
        (\<lambda>result w. (Inr (result \<noteq> None \<and> result \<noteq> Some []), w)))"

definition create :: "(py_error \<Rightarrow> string) \<Rightarrow> 'w kubectl \<Rightarrow> kube_manager \<Rightarrow> bool \<Rightarrow> bool \<Rightarrow> 'w
     \<Rightarrow> (string list, 'w) kube" where
  "create str_exc run_command m check frc w =
     kube_bind (if check then exists_resource run_command m w else (Inr False, w)) (\<lambda>found w.
       if found then (Inr [], w)
       else if filename m = [] then (Inl (FailJson ''filename required to create''), w)
       else execute str_exc run_command m
         ([''apply''] @ (if frc then [''--force''] else []) @ [''--filename='' @ str_join '','' (filename m)]) w)"

definition replace :: "(py_error \<Rightarrow> string) \<Rightarrow> 'w kubectl \<Rightarrow> kube_manager \<Rightarrow> bool \<Rightarrow> 'w
     \<Rightarrow> (string list, 'w) kube" where
  "replace str_exc run_command m frc w =
     (if filename m = [] then (Inl (FailJson ''filename required to reload''), w)
      else execute str_exc run_command m
         ([''apply''] @ (if frc then [''--force''] else []) @ [''--filename='' @ str_join '','' (filename m)]) w)"

definition delete :: "(py_error \<Rightarrow> string) \<Rightarrow> 'w kubectl \<Rightarrow> kube_manager \<Rightarrow> 'w \<Rightarrow> (string list, 'w) kube" where
  "delete str_exc run_command m w =
     kube_bind (if force m then (Inr True, w) else exists_resource run_command m w) (\<lambda>found w.
       if \<not> found then (Inr [], w)
       else if filename m \<noteq> []
       then execute str_exc run_command m ([''delete''] @ [''--filename='' @ str_join '','' (filename m)]) w
       else if \<not> given (resource m)
       then (Inl (FailJson ''resource required to delete without filename''), w)
       else execute str_exc run_command m
         ([''delete''] @ [the (resource m)] @
          (if given (res_name m) then [the (res_name m)] else []) @
          (if given (label m) then [''--selector='' @ the (label m)] else []) @
          (if all_flag m then [''--all''] else []) @
          (if force m then [''--ignore-not-found''] else [])) w)"

definition stop :: "(py_error \<Rightarrow> string) \<Rightarrow> 'w kubectl \<Rightarrow> kube_manager \<Rightarrow> 'w \<Rightarrow> (string list, 'w) kube" where
  "stop str_exc run_command m w =
     kube_bind (if force m then (Inr True, w) else exists_resource run_command m w) (\<lambda>found w.
       if \<not> found then (Inr [], w)
       else if filename m \<noteq> []
       then execute str_exc run_command m ([''stop''] @ [''--filename='' @ str_join '','' (filename m)]) w
       else if \<not> given (resource m)
       then (Inl (FailJson ''resource required to stop without filename''), w)
       else execute str_exc run_command m
         ([''stop''] @ [the (resource m)] @
          (if given (res_name m) then [the (res_name m)] else []) @
          (if given (label m) then [''--selector='' @ the (label m)] else []) @
          (if all_flag m then [''--all''] else []) @
          (if force m then [''--ignore-not-found''] else [])) w)"

text \<open>\<open>main\<close>: the result is the pair of \<open>changed\<close> and the message of \<open>exit_json\<close>.\<close>

definition kube_main :: "(string \<Rightarrow> kube_exit + string) \<Rightarrow> (py_error \<Rightarrow> string) \<Rightarrow> 'w kubectl \<Rightarrow> kube_params
     \<Rightarrow> 'w \<Rightarrow> (bool \<times> string, 'w) kube" where
  "kube_main get_bin_path str_exc run_command ps w =
     (case KubeManager get_bin_path ps of
        Inl e \<Rightarrow> (Inl e, w)
      | Inr manager \<Rightarrow>
          kube_bind
            (if p_state ps = ''present'' then create str_exc run_command manager False True w
             else if p_state ps = ''absent'' then delete str_exc run_command manager w
             else if p_state ps = ''reloaded'' then replace str_exc run_command manager True w
             else if p_state ps = ''stopped'' then stop str_exc run_command manager w
             else if p_state ps = ''latest'' then replace str_exc run_command manager True w
             else (Inl (FailJson (''Unrecognized state '' @ p_state ps @ ''.'')), w))
            (\<lambda>result w. (Inr (False, ''success: '' @ str_join '' '' result), w)))"

section \<open>The contract of a removal\<close>

text \<open>
  The arguments that select what a command is about. They differ in one place: with \<open>all\<close> the question
  is asked in every namespace, and the removal is of everything of the kind in the one namespace.
\<close>

definition target :: "kube_manager \<Rightarrow> string \<Rightarrow> string list" where
  "target m all_opt =
     (if filename m \<noteq> [] then [''--filename='' @ str_join '','' (filename m)]
      else [the (resource m)] @
        (if given (res_name m) then [the (res_name m)] else []) @
        (if given (label m) then [''--selector='' @ the (label m)] else []) @
        (if all_flag m then [all_opt] else []))"

definition has_target :: "kube_manager \<Rightarrow> bool" where
  "has_target m = (filename m \<noteq> [] \<or> given (resource m))"

definition get_args :: "kube_manager \<Rightarrow> string list" where
  "get_args m = base_cmd m @ [''get''] @ target m ''--all-namespaces'' @ [''--no-headers'']"

definition removal_args :: "string \<Rightarrow> kube_manager \<Rightarrow> string list" where
  "removal_args verb m =
     base_cmd m @ [verb] @ target m ''--all'' @
     (if filename m = [] \<and> force m then [''--ignore-not-found''] else [])"

text \<open>What \<open>get\<close> says of a resource: it is there when the command succeeds and prints something.\<close>

definition found_by :: "(int \<times> string \<times> string) res \<Rightarrow> bool" where
  "found_by r = (case r of Inr (rc, out, err) \<Rightarrow> rc = 0 \<and> out \<noteq> [] | Inl e \<Rightarrow> False)"

text \<open>\<open>run_command\<close> on a world that records the command lines.\<close>

definition logging :: "'w kubectl \<Rightarrow> (string list list \<times> 'w) kubectl" where
  "logging run_command args w =
     (case w of (log, u) \<Rightarrow>
      case run_command args u of (r, u') \<Rightarrow> (r, (log @ [args], u')))"

lemma lines_from_not_Nil: "cur \<noteq> [] \<Longrightarrow> lines_from cur s \<noteq> []"
  by (induction cur s rule: lines_from.induct) auto

lemma output_lines_Nil [simp]: "output_lines s = [] \<longleftrightarrow> s = []"
  by (cases s; cases "tl s") (auto simp: output_lines_def lines_from_not_Nil)

lemma exists_eq:
  assumes "has_target m"
  shows "exists_resource run_command m w =
     (case run_command (get_args m) w of
        (Inl e, w') \<Rightarrow> (Inl (Raised e), w')
      | (Inr r, w') \<Rightarrow> (Inr (found_by (Inr r)), w'))"
proof -
  have n: "(filename m = [] \<and> \<not> given (resource m)) = False" using assms by (auto simp: has_target_def)
  have "exists_resource run_command m w =
      kube_bind (execute_nofail run_command m ([''get''] @ target m ''--all-namespaces'' @ [''--no-headers'']) w)
        (\<lambda>result w. (Inr (result \<noteq> None \<and> result \<noteq> Some []), w))"
    unfolding exists_resource_def n target_def by simp
  then show ?thesis
    by (simp add: execute_nofail_def get_args_def found_by_def split: prod.split sum.split)
qed

text \<open>\<open>ran kc args w ls w'\<close>: the command was run on \<open>w\<close>, exited with 0 and the lines \<open>ls\<close>, and left \<open>w'\<close>.\<close>

definition ran :: "'w kubectl \<Rightarrow> string list \<Rightarrow> 'w \<Rightarrow> string list \<Rightarrow> 'w \<Rightarrow> bool" where
  "ran kc args w ls w' = (\<exists>out err. kc args w = (Inr (0, out, err), w') \<and> ls = output_lines out)"

text \<open>
  A removal that succeeded: by force the command was run; otherwise \<open>get\<close> was, and then the command if
  the resource was found, and nothing else if it was not.
\<close>

definition removed :: "'w kubectl \<Rightarrow> kube_manager \<Rightarrow> string \<Rightarrow> 'w \<Rightarrow> string list \<Rightarrow> 'w \<Rightarrow> bool" where
  "removed kc m verb w ls w' =
     (has_target m \<and>
      (if force m then ran kc (removal_args verb m) w ls w'
       else \<exists>r w1. kc (get_args m) w = (Inr r, w1) \<and>
              (if found_by (Inr r) then ran kc (removal_args verb m) w1 ls w' else ls = [] \<and> w' = w1)))"

text \<open>
  A removal of a resource: with \<open>force\<close> the command is run, otherwise only when \<open>get\<close> finds the
  resource. \<open>delete\<close> and \<open>stop\<close> are the two providers.
\<close>

locale removal =
  fixes op :: "'w kubectl \<Rightarrow> kube_manager \<Rightarrow> 'w \<Rightarrow> (string list, 'w) kube"
    and exec :: "'w kubectl \<Rightarrow> string list \<Rightarrow> 'w \<Rightarrow> (string list, 'w) kube"
    and verb :: string
  assumes forced: "force m \<Longrightarrow> has_target m \<Longrightarrow> op kc m w = exec kc (removal_args verb m) w"
    and unforced: "\<not> force m \<Longrightarrow> has_target m \<Longrightarrow> op kc m w =
          (case kc (get_args m) w of
             (Inl e, w') \<Rightarrow> (Inl (Raised e), w')
           | (Inr r, w') \<Rightarrow>
               if found_by (Inr r) then exec kc (removal_args verb m) w' else (Inr [], w'))"
    and no_target: "\<not> has_target m \<Longrightarrow> \<exists>msg. op kc m w = (Inl (FailJson msg), w)"
    and exec_runs: "snd (exec kc args w) = snd (kc args w)"
    and exec_result: "fst (exec kc args w) = Inr ls \<longleftrightarrow>
          (\<exists>out err. fst (kc args w) = Inr (0, out, err) \<and> ls = output_lines out)"
begin

lemma exec_world: "exec kc args w = (r, w') \<Longrightarrow> w' = snd (kc args w)"
  using exec_runs [of kc args w] by simp

lemma unforced_cases:
  assumes "\<not> force m" "has_target m" "op kc m w = (r, w')"
  shows "(\<not> found_by (fst (kc (get_args m) w)) \<and> w' = snd (kc (get_args m) w)) \<or>
     (found_by (fst (kc (get_args m) w)) \<and> w' = snd (kc (removal_args verb m) (snd (kc (get_args m) w))))"
proof -
  obtain g w1 where g: "kc (get_args m) w = (g, w1)" by force
  show ?thesis
    using unforced [OF assms(1,2), of kc w] assms(3) g exec_runs [of kc "removal_args verb m" w1]
    by (cases g) (auto simp: found_by_def split: if_splits dest: arg_cong [of _ _ snd])
qed

lemma absent_is_success:
  assumes "\<not> force m" "has_target m" "fst (kc (get_args m) w) = Inr (rc, out, err)" "rc \<noteq> 0 \<or> out = []"
  shows "op kc m w = (Inr [], snd (kc (get_args m) w))"
  using unforced [OF assms(1,2), of kc w] assms(3,4)
  by (cases "kc (get_args m) w") (auto simp: found_by_def)

lemma forced_world:
  assumes "force m" "has_target m" "op kc m w = (r, w')"
  shows "w' = snd (kc (removal_args verb m) w)"
  using forced [OF assms(1,2)] assms(3) exec_world by metis

lemma success_steps:
  assumes "op kc m w = (Inr ls, w')"
  shows "removed kc m verb w ls w'"
proof -
  have t: "has_target m" using no_target [of m kc w] assms by (cases "has_target m") auto
  have ran: "ran kc args v ls w'" if "exec kc args v = (Inr ls, w')" for args v
    using that exec_runs [of kc args v] exec_result [of kc args v ls]
    by (cases "kc args v") (auto simp: ran_def)
  show ?thesis
  proof (cases "force m")
    case True
    with forced [OF True t, of kc w] assms ran t show ?thesis by (simp add: removed_def)
  next
    case False
    obtain g w1 where g: "kc (get_args m) w = (g, w1)" by force
    with unforced [OF False t, of kc w] assms obtain r where r: "g = Inr r"
      and e: "if found_by (Inr r) then exec kc (removal_args verb m) w1 = (Inr ls, w') else ls = [] \<and> w' = w1"
      by (cases g) (auto split: if_splits)
    then show ?thesis using False t g ran by (auto simp: removed_def split: if_splits)
  qed
qed

end

definition run_args :: "(py_error \<Rightarrow> string) \<Rightarrow> 'w kubectl \<Rightarrow> string list \<Rightarrow> 'w \<Rightarrow> (string list, 'w) kube" where
  "run_args str_exc run_command args w =
     execute str_exc run_command
       \<lparr>base_cmd = [], all_flag = False, force = False, res_name = None, filename = [],
        resource = None, label = None\<rparr> args w"

lemma execute_run_args: "execute str_exc kc m cmd w = run_args str_exc kc (base_cmd m @ cmd) w"
  by (simp add: execute_def run_args_def)

lemma run_args_world: "snd (run_args str_exc kc args w) = snd (kc args w)"
  by (simp add: run_args_def execute_def split: prod.split sum.split)

lemma run_args_result: "fst (run_args str_exc kc args w) = Inr ls \<longleftrightarrow>
    (\<exists>out err. fst (kc args w) = Inr (0, out, err) \<and> ls = output_lines out)"
  by (auto simp: run_args_def execute_def split: prod.split sum.split)

interpretation del: removal "delete str_exc" "run_args str_exc" "''delete''"
proof unfold_locales
  fix m :: kube_manager and kc :: "'w kubectl" and w
  show "force m \<Longrightarrow> has_target m \<Longrightarrow>
      delete str_exc kc m w = run_args str_exc kc (removal_args ''delete'' m) w"
    by (auto simp: delete_def has_target_def removal_args_def target_def execute_run_args)
  show "\<not> force m \<Longrightarrow> has_target m \<Longrightarrow> delete str_exc kc m w =
      (case kc (get_args m) w of
         (Inl e, w') \<Rightarrow> (Inl (Raised e), w')
       | (Inr r, w') \<Rightarrow>
           if found_by (Inr r) then run_args str_exc kc (removal_args ''delete'' m) w' else (Inr [], w'))"
    by (auto simp: delete_def exists_eq execute_run_args removal_args_def target_def has_target_def
        split: prod.split sum.split)
  show "\<not> has_target m \<Longrightarrow> \<exists>msg. delete str_exc kc m w = (Inl (FailJson msg), w)"
    by (auto simp: delete_def has_target_def exists_resource_def)
qed (rule run_args_world, rule run_args_result)

interpretation stp: removal "stop str_exc" "run_args str_exc" "''stop''"
proof unfold_locales
  fix m :: kube_manager and kc :: "'w kubectl" and w
  show "force m \<Longrightarrow> has_target m \<Longrightarrow>
      stop str_exc kc m w = run_args str_exc kc (removal_args ''stop'' m) w"
    by (auto simp: stop_def has_target_def removal_args_def target_def execute_run_args)
  show "\<not> force m \<Longrightarrow> has_target m \<Longrightarrow> stop str_exc kc m w =
      (case kc (get_args m) w of
         (Inl e, w') \<Rightarrow> (Inl (Raised e), w')
       | (Inr r, w') \<Rightarrow>
           if found_by (Inr r) then run_args str_exc kc (removal_args ''stop'' m) w' else (Inr [], w'))"
    by (auto simp: stop_def exists_eq execute_run_args removal_args_def target_def has_target_def
        split: prod.split sum.split)
  show "\<not> has_target m \<Longrightarrow> \<exists>msg. stop str_exc kc m w = (Inl (FailJson msg), w)"
    by (auto simp: stop_def has_target_def exists_resource_def)
qed (rule run_args_world, rule run_args_result)

section \<open>What the module does to a cluster\<close>

lemma logging_snd [simp]: "snd (logging kc args (log, u)) = (log @ [args], snd (kc args u))"
  by (simp add: logging_def split: prod.split)

lemma logging_fst [simp]: "fst (logging kc args (log, u)) = fst (kc args u)"
  by (simp add: logging_def split: prod.split)

text \<open>A cluster for the witnesses: the names it has, which \<open>get\<close> lists and \<open>delete\<close> removes.\<close>

definition demo_kubectl :: "string list kubectl" where
  "demo_kubectl args w =
     (if ''get'' \<in> set args then (Inr (0, concat (filter (\<lambda>n. n \<in> set args) w), []), w)
      else if ''delete'' \<in> set args then (Inr (0, ''deleted'', []), filter (\<lambda>n. n \<notin> set args) w)
      else (Inr (1, [], ''unknown command''), w))"

definition demo_params :: kube_params where
  "demo_params = \<lparr>p_name = Some ''nginx'', p_filename = None, p_namespace = Some ''web'',
     p_resource = Some ''rc'', p_label = None, p_server = None, p_kubectl = Some ''kubectl'',
     p_force = False, p_all = False, p_log_level = 0, p_state = ''absent''\<rparr>"

definition no_bin :: "string \<Rightarrow> kube_exit + string" where
  "no_bin name = Inl (FailJson name)"

definition no_text :: "py_error \<Rightarrow> string" where
  "no_text e = []"

definition demo_manager :: kube_manager where
  "demo_manager = \<lparr>base_cmd = [''kubectl'', ''--namespace=web''], all_flag = False, force = False,
     res_name = Some ''nginx'', filename = [], resource = Some ''rc'', label = None\<rparr>"

lemma demo_manager: "KubeManager no_bin demo_params = Inr demo_manager"
  by code_simp

text \<open>C8: Without \<open>force\<close>, \<open>delete\<close> asks for the resource once, with \<open>get_args\<close>, and runs \<open>kubectl delete\<close>, once and
  with \<open>removal_args\<close>, exactly when the answer is that the resource is there. Both name the same files, or the
  same resource, name and label; with \<open>all\<close> the question is about every namespace and the removal is not.\<close>

theorem delete_only_what_exists:
  assumes "\<not> force m" "has_target m" "delete str_exc (logging run_command) m ([], u) = (r, (log, u'))"
  shows "log = get_args m #
     (if found_by (fst (run_command (get_args m) u)) then [removal_args ''delete'' m] else [])"
  using del.unforced_cases [OF assms] by auto

theorem delete_only_what_exists_witness:
  "\<exists>r log u'. delete no_text (logging demo_kubectl) demo_manager ([], [''nginx'']) = (r, (log, u')) \<and>
     log = [[''kubectl'', ''--namespace=web'', ''get'', ''rc'', ''nginx'', ''--no-headers''],
            [''kubectl'', ''--namespace=web'', ''delete'', ''rc'', ''nginx'']]"
proof -
  obtain r log u' where d: "delete no_text (logging demo_kubectl) demo_manager ([], [''nginx'']) = (r, (log, u'))"
    by (metis surj_pair)
  have "\<not> force demo_manager" "has_target demo_manager" by code_simp+
  from delete_only_what_exists [OF this d] have "log = get_args demo_manager #
     (if found_by (fst (demo_kubectl (get_args demo_manager) [''nginx'']))
      then [removal_args ''delete'' demo_manager] else [])" .
  moreover have "get_args demo_manager #
     (if found_by (fst (demo_kubectl (get_args demo_manager) [''nginx'']))
      then [removal_args ''delete'' demo_manager] else []) =
     [[''kubectl'', ''--namespace=web'', ''get'', ''rc'', ''nginx'', ''--no-headers''],
      [''kubectl'', ''--namespace=web'', ''delete'', ''rc'', ''nginx'']]" by code_simp
  ultimately show ?thesis using d by metis
qed

text \<open>The state \<open>absent\<close> or \<open>stopped\<close> of a resource that is not there is reached without a change: one
  \<open>get\<close> is run, nothing is removed, and the module succeeds.\<close>

lemma removal_of_absent_succeeds:
  assumes "KubeManager get_bin_path ps = Inr m" "p_state ps = ''absent'' \<or> p_state ps = ''stopped''"
    and "\<not> p_force ps" "has_target m"
    and "fst (run_command (get_args m) u) = Inr (rc, out, err)" "rc \<noteq> 0 \<or> out = []"
  shows "kube_main get_bin_path str_exc (logging run_command) ps ([], u) =
     (Inr (False, ''success: ''), ([get_args m], snd (run_command (get_args m) u)))"
proof -
  have "\<not> force m" using assms(1,3) by (auto simp: KubeManager_def split: sum.splits option.splits)
  note r = this assms(4)
  have g: "fst (logging run_command (get_args m) ([], u)) = Inr (rc, out, err)" using assms(5) by simp
  from del.absent_is_success [where kc = "logging run_command" and w = "([], u)", OF r g assms(6)]
    stp.absent_is_success [where kc = "logging run_command" and w = "([], u)", OF r g assms(6)] assms(1,2)
  show ?thesis by (auto simp: kube_main_def)
qed

text \<open>The states \<open>present\<close>, \<open>latest\<close> and \<open>reloaded\<close> do the same: one \<open>kubectl apply --force\<close> of the
  files, whatever the cluster holds and whether or not the module's \<open>force\<close> is set.\<close>

lemma apply_states_agree:
  assumes "KubeManager get_bin_path ps = Inr m" "filename m \<noteq> []"
    and "p_state ps \<in> {''present'', ''latest'', ''reloaded''}"
  shows "kube_main get_bin_path str_exc run_command ps w =
     kube_bind (execute str_exc run_command m
         [''apply'', ''--force'', ''--filename='' @ str_join '','' (filename m)] w)
       (\<lambda>result w. (Inr (False, ''success: '' @ str_join '' '' result), w))"
  using assms by (auto simp: kube_main_def create_def replace_def)

text \<open>The state \<open>present\<close> does not check for existence: a resource given by name only, as in the
  module's own first example, always fails, and no command is run.\<close>

lemma present_needs_filename:
  assumes "KubeManager get_bin_path ps = Inr m" "p_state ps = ''present''" "filename m = []"
  shows "kube_main get_bin_path str_exc run_command ps w = (Inl (FailJson ''filename required to create''), w)"
  using assms by (simp add: kube_main_def create_def)

definition apply_args :: "kube_manager \<Rightarrow> string list" where
  "apply_args m = base_cmd m @ [''apply'', ''--force'', ''--filename='' @ str_join '','' (filename m)]"

text \<open>What the module has done when it reports success for a state.\<close>

definition state_reached :: "'w kubectl \<Rightarrow> kube_manager \<Rightarrow> string \<Rightarrow> 'w \<Rightarrow> string list \<Rightarrow> 'w \<Rightarrow> bool" where
  "state_reached kc m state w ls w' =
     (if state \<in> {''present'', ''latest'', ''reloaded''} then filename m \<noteq> [] \<and> ran kc (apply_args m) w ls w'
      else if state = ''absent'' then removed kc m ''delete'' w ls w'
      else state = ''stopped'' \<and> removed kc m ''stop'' w ls w')"

lemma execute_ran: "execute str_exc kc m cmd w = (Inr ls, w') \<Longrightarrow> ran kc (base_cmd m @ cmd) w ls w'"
  using run_args_result [of str_exc kc "base_cmd m @ cmd" w ls] run_args_world [of str_exc kc "base_cmd m @ cmd" w]
  by (cases "kc (base_cmd m @ cmd) w") (auto simp: execute_run_args ran_def)

lemma apply_ran:
  "create str_exc kc m False True w = (Inr ls, w') \<Longrightarrow> filename m \<noteq> [] \<and> ran kc (apply_args m) w ls w'"
  "replace str_exc kc m True w = (Inr ls, w') \<Longrightarrow> filename m \<noteq> [] \<and> ran kc (apply_args m) w ls w'"
  by (auto simp: create_def replace_def apply_args_def dest: execute_ran split: if_splits)

text \<open>C9: When the module reports success for a state, it has run the command of that state and nothing else, it
  exited with 0 and its lines are the message: \<open>apply --force\<close> of the files for \<open>present\<close>, \<open>latest\<close> and
  \<open>reloaded\<close>; for \<open>absent\<close> and \<open>stopped\<close> the removal, after a \<open>get\<close> that found the resource unless it is
  forced, or only a \<open>get\<close> that did not find it. It never reports a change, and no other state succeeds.\<close>

theorem success_means_done:
  assumes "KubeManager get_bin_path ps = Inr m"
    and "kube_main get_bin_path str_exc run_command ps w = (Inr (changed, msg), w')"
  shows "\<not> changed \<and>
     (\<exists>ls. msg = ''success: '' @ str_join '' '' ls \<and> state_reached run_command m (p_state ps) w ls w')"
proof -
  from assms obtain ls where c: "\<not> changed" "msg = ''success: '' @ str_join '' '' ls"
    and r: "p_state ps = ''present'' \<and> create str_exc run_command m False True w = (Inr ls, w') \<or>
      p_state ps = ''absent'' \<and> delete str_exc run_command m w = (Inr ls, w') \<or>
      p_state ps \<in> {''reloaded'', ''latest''} \<and> replace str_exc run_command m True w = (Inr ls, w') \<or>
      p_state ps = ''stopped'' \<and> stop str_exc run_command m w = (Inr ls, w')"
    by (auto simp: kube_main_def kube_bind_def split: prod.splits sum.splits if_splits)
  from r have "state_reached run_command m (p_state ps) w ls w'"
    using apply_ran del.success_steps stp.success_steps by (fastforce simp: state_reached_def)
  with c show ?thesis by blast
qed

theorem success_means_done_witness:
  "\<exists>ls. kube_main no_bin no_text demo_kubectl demo_params [''nginx''] = (Inr (False, ''success: '' @ str_join '' '' ls), []) \<and>
     removed demo_kubectl demo_manager ''delete'' [''nginx''] ls []"
proof -
  have r: "kube_main no_bin no_text demo_kubectl demo_params [''nginx''] = (Inr (False, ''success: deleted''), [])"
    by code_simp
  have "p_state demo_params = ''absent''" by (simp add: demo_params_def)
  with success_means_done [OF demo_manager r] r show ?thesis by (auto simp: state_reached_def)
qed

end
