(* ===== verification/Terraform_Parse.thy ===== *)
theory Terraform_Parse
  imports Json "HOL-Library.Multiset"
begin

text \<open>
  The attribute helpers of \<open>contrib/terraform/terraform.py\<close>. A Terraform state stores nested attributes
  flat, under keys such as \<open>tags.role\<close> and \<open>network.0.name\<close> next to a count under \<open>tags.#\<close>; the helpers
  gather them back into dictionaries and lists. The theorems at the end say that they invert that
  flattening, whatever other attributes stand between; the lists come in the order of a dictionary.
\<close>

section \<open>Values and dictionaries\<close>

type_synonym attrs = "(string, json) dict"

text \<open>\<open>v.get(k, d)\<close>.\<close>

definition json_get :: "json \<Rightarrow> string \<Rightarrow> json \<Rightarrow> json res" where
  "json_get v k d =
     (case v of
        JDict e \<Rightarrow> Inr (case dict_get e k of None \<Rightarrow> d | Some x \<Rightarrow> x)
      | _ \<Rightarrow> Inl AttributeError)"

text \<open>A string where the code concatenates, and where it calls a method of one.\<close>

definition concat_str :: "json \<Rightarrow> string res" where
  "concat_str v = (case v of JStr s \<Rightarrow> Inr s | _ \<Rightarrow> Inl TypeError)"

definition method_str :: "json \<Rightarrow> string res" where
  "method_str v = (case v of JStr s \<Rightarrow> Inr s | _ \<Rightarrow> Inl AttributeError)"

text \<open>A \<open>for\<close> loop over a value.\<close>

definition json_iter :: "json \<Rightarrow> json list res" where
  "json_iter v =
     (case v of
        JList xs \<Rightarrow> Inr xs
      | JDict d \<Rightarrow> Inr (map JStr (dict_keys d))
      | JStr s \<Rightarrow> Inr (map (\<lambda>c. JStr [c]) s)
      | _ \<Rightarrow> Inl TypeError)"

text \<open>\<open>attrs[k]\<close> on a dictionary the code has built, and a dictionary display, evaluated in order.\<close>

definition attr :: "attrs \<Rightarrow> string \<Rightarrow> json res" where
  "attr d k = json_index (JDict d) k"

definition make_attrs :: "(string \<times> json res) list \<Rightarrow> attrs res" where
  "make_attrs entries = rfold (\<lambda>d (k, v). rmap (dict_set d k) v) [] entries"

text \<open>\<open>attrs.update({...})\<close>: the argument is evaluated first.\<close>

definition update_attrs :: "attrs \<Rightarrow> (string \<times> json res) list \<Rightarrow> attrs res" where
  "update_attrs d entries = rmap (dict_update d) (make_attrs entries)"

section \<open>The helpers\<close>

definition is_word_char :: "char \<Rightarrow> bool" where
  "is_word_char c = (is_alpha c \<or> is_digit c \<or> c = CHR ''_'')"

definition clean_dc :: "json \<Rightarrow> string res" where
  "clean_dc dcname =
     (case dcname of
        JStr s \<Rightarrow> Inr (map (\<lambda>c. if is_word_char c \<or> c = CHR ''-'' then c else CHR ''-'') s)
      | _ \<Rightarrow> Inl TypeError)"

definition parse_prefix_entry :: "string \<Rightarrow> char \<Rightarrow> string \<times> json \<Rightarrow> (string \<times> json) list" where
  "parse_prefix_entry pre sep entry =
     (case entry of (compkey, value) \<Rightarrow>
      case split_once sep compkey of
        None \<Rightarrow> []
      | Some (curprefix, rest) \<Rightarrow>
          if curprefix \<noteq> pre \<or> rest = ''#'' then [] else [(rest, value)])"

definition parse_prefix :: "attrs \<Rightarrow> string \<Rightarrow> char \<Rightarrow> (string \<times> json) list" where
  "parse_prefix source pre sep = concat (map (parse_prefix_entry pre sep) source)"

definition attr_list_step :: "char \<Rightarrow> (string, attrs) dict \<Rightarrow> string \<times> json \<Rightarrow> (string, attrs) dict res" where
  "attr_list_step sep d entry =
     (case entry of (compkey, value) \<Rightarrow>
      case split_once sep compkey of
        None \<Rightarrow> Inl (ValueError ''need more than 1 value to unpack'')
      | Some (idx, key) \<Rightarrow>
          Inr (dict_set d idx
                (dict_set (case dict_get d idx of None \<Rightarrow> [] | Some e \<Rightarrow> e) key value)))"

text \<open>
  \<open>attrs.values()\<close> of Python 2: the values in the order of the dictionary, which Python leaves open. It
  is a parameter, a function of the keys in the order they were stored in; all the program can rely on
  is that every key comes once.
\<close>

type_synonym key_order = "string list \<Rightarrow> string list"

definition fair_order :: "key_order \<Rightarrow> bool" where
  "fair_order order = (\<forall>ks. distinct ks \<longrightarrow> mset (order ks) = mset ks)"

definition dict_values :: "key_order \<Rightarrow> (string, attrs) dict \<Rightarrow> attrs list" where
  "dict_values order d =
     map (\<lambda>k. case dict_get d k of None \<Rightarrow> [] | Some e \<Rightarrow> e) (order (dict_keys d))"

definition parse_attr_list :: "key_order \<Rightarrow> attrs \<Rightarrow> string \<Rightarrow> char \<Rightarrow> attrs list res" where
  "parse_attr_list order source pre sep =
     rmap (dict_values order) (rfold (attr_list_step sep) [] (parse_prefix source pre sep))"

definition parse_dict :: "attrs \<Rightarrow> string \<Rightarrow> char \<Rightarrow> attrs" where
  "parse_dict source pre sep = dict_update [] (parse_prefix source pre sep)"

definition parse_list :: "attrs \<Rightarrow> string \<Rightarrow> char \<Rightarrow> json list" where
  "parse_list source pre sep = map snd (parse_prefix source pre sep)"

definition parse_bool :: "json \<Rightarrow> bool res" where
  "parse_bool string_form =
     rbind (method_str string_form) (\<lambda>s.
       case str_lower s of
         [] \<Rightarrow> Inl IndexError
       | token # _ \<Rightarrow>
           if token = CHR ''t'' then Inr True
           else if token = CHR ''f'' then Inr False
           else Inl (ValueError (''could not convert '' @ py_repr ''u'' (JStr s) @ '' to a bool'')))"

section \<open>Flat attributes\<close>

text \<open>The flat form of a dictionary: its count, and each entry under the prefix.\<close>

definition flatten :: "string \<Rightarrow> char \<Rightarrow> attrs \<Rightarrow> attrs" where
  "flatten pre sep d =
     (pre @ sep # ''#'', JStr (nat_str (length d))) # map (\<lambda>(k, v). (pre @ sep # k, v)) d"

text \<open>The attributes of a state that are under a prefix, wherever they stand.\<close>

definition under_prefix :: "string \<Rightarrow> char \<Rightarrow> attrs \<Rightarrow> attrs" where
  "under_prefix pre sep source =
     filter (\<lambda>(k, v). case split_once sep k of None \<Rightarrow> False | Some (p, rest) \<Rightarrow> p = pre) source"

lemma parse_prefix_append [simp]:
  "parse_prefix (d @ e) pre sep = parse_prefix d pre sep @ parse_prefix e pre sep"
  by (simp add: parse_prefix_def)

lemma parse_prefix_under: "parse_prefix (under_prefix pre sep source) pre sep = parse_prefix source pre sep"
  by (induction source)
     (auto simp: under_prefix_def parse_prefix_def parse_prefix_entry_def split: option.splits)

lemma parse_prefix_map:
  assumes "sep \<notin> set pre" "''#'' \<notin> set (dict_keys d)"
  shows "parse_prefix (map (\<lambda>(k, v). (pre @ sep # k, v)) d) pre sep = d"
  using assms by (induction d) (auto simp: parse_prefix_def parse_prefix_entry_def)

lemma parse_prefix_count: "sep \<notin> set pre \<Longrightarrow> parse_prefix [(pre @ sep # ''#'', v)] pre sep = []"
  by (simp add: parse_prefix_def parse_prefix_entry_def)

lemma parse_prefix_flatten:
  assumes "sep \<notin> set pre" "''#'' \<notin> set (dict_keys d)" "under_prefix pre sep source = flatten pre sep d"
  shows "parse_prefix source pre sep = d"
proof -
  have "parse_prefix (flatten pre sep d) pre sep = d"
    using parse_prefix_append [of "[_]" "map (\<lambda>(k, v). (pre @ sep # k, v)) d" pre sep]
      parse_prefix_map [OF assms(1,2)] parse_prefix_count [OF assms(1)]
    by (simp add: flatten_def)
  then show ?thesis using parse_prefix_under [of pre sep source] assms(3) by simp
qed

text \<open>C15: \<open>parse_dict\<close> and \<open>parse_list\<close> invert the flattening: from a state whose attributes under a prefix
  are a dictionary in flat form, in its order but with any other attributes before, between and after
  them, they give back the dictionary and its values, and the count is left out.\<close>

theorem parse_dict_inverts_flatten:
  assumes "sep \<notin> set pre" "dict_ok d" "''#'' \<notin> set (dict_keys d)"
    and "under_prefix pre sep source = flatten pre sep d"
  shows "parse_dict source pre sep = d \<and> parse_list source pre sep = map snd d"
  using parse_prefix_flatten [OF assms(1,3,4)] assms(2)
  by (simp add: parse_dict_def parse_list_def dict_update_fresh)

theorem parse_dict_inverts_flatten_witness:
  "parse_dict [(''id'', JStr ''7''), (''tags.#'', JStr ''2''), (''image_name'', JStr ''x''),
     (''tags.role'', JStr ''etcd''), (''tagset.x'', JStr ''y''), (''tags.a.b'', JStr ''c'')]
     ''tags'' (CHR ''.'') = [(''role'', JStr ''etcd''), (''a.b'', JStr ''c'')]"
proof -
  let ?d = "[(''role'', JStr ''etcd''), (''a.b'', JStr ''c'')]"
  have n: "nat_str (Suc (Suc 0)) = ''2''" by code_simp
  have "under_prefix ''tags'' (CHR ''.'') [(''id'', JStr ''7''), (''tags.#'', JStr ''2''), (''image_name'', JStr ''x''),
     (''tags.role'', JStr ''etcd''), (''tagset.x'', JStr ''y''), (''tags.a.b'', JStr ''c'')] =
     flatten ''tags'' (CHR ''.'') ?d"
    by (simp add: under_prefix_def flatten_def n)
  moreover have "CHR ''.'' \<notin> set ''tags''" "dict_ok ?d" "''#'' \<notin> set (dict_keys ?d)" by code_simp+
  ultimately show ?thesis using parse_dict_inverts_flatten [of "CHR ''.''" "''tags''" ?d] by blast
qed

subsection \<open>Lists of blocks\<close>

fun flat_blocks :: "char \<Rightarrow> nat \<Rightarrow> attrs list \<Rightarrow> attrs" where
  "flat_blocks sep n [] = []"
| "flat_blocks sep n (d # ds) =
     map (\<lambda>(k, v). (nat_str n @ sep # k, v)) d @ flat_blocks sep (Suc n) ds"

text \<open>A list of blocks in flat form, each block under its number.\<close>

definition flatten_list :: "string \<Rightarrow> char \<Rightarrow> attrs list \<Rightarrow> attrs" where
  "flatten_list pre sep ds =
     (pre @ sep # ''#'', JStr (nat_str (length ds))) #
     map (\<lambda>(k, v). (pre @ sep # k, v)) (flat_blocks sep 0 ds)"

lemma dict_set_last:
  "i \<notin> set (dict_keys acc) \<Longrightarrow> dict_set (acc @ [(i, x)]) i y = acc @ [(i, y)]"
  by (induction acc) auto

lemma dict_get_last: "i \<notin> set (dict_keys acc) \<Longrightarrow> dict_get (acc @ [(i, x)]) i = Some x"
  by (induction acc) auto

lemma block_entries:
  assumes "sep \<notin> set i" "i \<notin> set (dict_keys acc)" "dict_ok (e @ d)"
  shows "rfold (attr_list_step sep) (acc @ [(i, e)]) (map (\<lambda>(k, v). (i @ sep # k, v)) d) =
    Inr (acc @ [(i, e @ d)])"
  using assms(3)
proof (induction d arbitrary: e)
  case Nil
  then show ?case by simp
next
  case (Cons kv d)
  obtain k v where kv: "kv = (k, v)" by force
  have "k \<notin> set (dict_keys e)" using Cons.prems by (simp add: kv dict_ok_def)
  then have "attr_list_step sep (acc @ [(i, e)]) (i @ sep # k, v) = Inr (acc @ [(i, e @ [(k, v)])])"
    using assms(1,2) by (simp add: attr_list_step_def dict_set_last dict_get_last dict_set_fresh)
  then show ?case using Cons.IH [of "e @ [(k, v)]"] Cons.prems by (simp add: kv)
qed

lemma block_new:
  assumes "sep \<notin> set i" "i \<notin> set (dict_keys acc)" "dict_ok d" "d \<noteq> []"
  shows "rfold (attr_list_step sep) acc (map (\<lambda>(k, v). (i @ sep # k, v)) d) = Inr (acc @ [(i, d)])"
proof -
  obtain k v e where d: "d = (k, v) # e" using assms(4) by (cases d) auto
  have "dict_get acc i = None" using assms(2) by (simp add: pd.keys_iff)
  then have "attr_list_step sep acc (i @ sep # k, v) = Inr (acc @ [(i, [(k, v)])])"
    using assms(1,2) by (simp add: attr_list_step_def dict_set_fresh)
  then show ?thesis using block_entries [OF assms(1,2), of "[(k, v)]" e] assms(3) by (simp add: d)
qed

lemma blocks_fold:
  assumes "\<not> is_digit sep" "\<forall>d \<in> set ds. dict_ok d \<and> d \<noteq> []"
    and "\<forall>m \<ge> n. nat_str m \<notin> set (dict_keys acc)"
  shows "rfold (attr_list_step sep) acc (flat_blocks sep n ds) =
     Inr (acc @ zip (map nat_str [n..<n + length ds]) ds)"
  using assms(2,3)
proof (induction ds arbitrary: n acc)
  case Nil
  then show ?case by simp
next
  case (Cons d ds)
  have sep: "sep \<notin> set (nat_str n)" using nat_str_digits assms(1) by blast
  have "rfold (attr_list_step sep) acc (map (\<lambda>(k, v). (nat_str n @ sep # k, v)) d) = Inr (acc @ [(nat_str n, d)])"
    using Cons.prems by (intro block_new sep) auto
  moreover have "\<forall>m \<ge> Suc n. nat_str m \<notin> set (dict_keys (acc @ [(nat_str n, d)]))"
    using Cons.prems(2) by auto
  moreover have "[n..<Suc (n + length ds)] = n # [Suc n..<Suc n + length ds]" by (simp add: upt_rec)
  ultimately show ?case
    using Cons.IH [of "Suc n" "acc @ [(nat_str n, d)]"] Cons.prems(1) by (simp add: rfold_append)
qed

lemma flat_blocks_no_count: "''#'' \<notin> set (dict_keys (flat_blocks sep n ds))"
proof -
  have ne: "''#'' \<noteq> nat_str m @ sep # k" for m k
    by (cases "nat_str m") auto
  show ?thesis
  proof (induction ds arbitrary: n)
    case Nil
    then show ?case by simp
  next
    case (Cons d ds)
    have "''#'' \<notin> set (dict_keys (map (\<lambda>(k, v). (nat_str n @ sep # k, v)) d))"
      by (auto simp: dict_keys_def) (use ne in metis)
    with Cons show ?case by simp
  qed
qed

lemma numbered_keys: "dict_keys (zip (map nat_str [0..<length ds]) ds) = map nat_str [0..<length ds]"
  by (simp add: dict_keys_def)

lemma numbers_distinct: "distinct (map nat_str ns) = distinct ns"
  by (simp add: distinct_map inj_on_def)

lemma dict_get_zip: "distinct ks \<Longrightarrow> length ks = length vs \<Longrightarrow> i < length ks \<Longrightarrow> dict_get (zip ks vs) (ks ! i) = Some (vs ! i)"
  by (simp add: dict_get_def map_of_zip_nth)

lemma fair_values:
  assumes "fair_order order" "dict_ok d"
  shows "mset (dict_values order d) = mset (map snd d)"
proof -
  let ?f = "\<lambda>k. case dict_get d k of None \<Rightarrow> [] | Some e \<Rightarrow> e"
  have "mset (order (dict_keys d)) = mset (dict_keys d)"
    using assms by (simp add: fair_order_def dict_ok_def)
  then have "mset (dict_values order d) = mset (map ?f (dict_keys d))"
    unfolding dict_values_def mset_map by (rule arg_cong)
  moreover have "map ?f (dict_keys d) = map snd d"
    using assms(2) by (auto simp: dict_keys_def dict_get_def dict_ok_def)
  ultimately show ?thesis by simp
qed

text \<open>C16: \<open>parse_attr_list\<close> inverts the flattening of a list of blocks up to the order of a dictionary: from a
  state whose attributes under a prefix are the blocks in flat form, with any other attributes between
  them, it does not raise and gives back the blocks with all their attributes, each once, in the order
  the dictionary gives its keys, which are the numbers of the blocks; a single block is its own list.\<close>

theorem parse_attr_list_inverts_flatten:
  assumes "sep \<notin> set pre" "\<not> is_digit sep" "\<forall>d \<in> set ds. dict_ok d \<and> d \<noteq> []"
    and "under_prefix pre sep source = flatten_list pre sep ds" "fair_order order"
  shows "\<exists>bs. parse_attr_list order source pre sep = Inr bs \<and> mset bs = mset ds \<and>
     bs = dict_values order (zip (map nat_str [0..<length ds]) ds) \<and> (length ds = 1 \<longrightarrow> bs = ds)"
proof -
  let ?z = "zip (map nat_str [0..<length ds]) ds"
  have "parse_prefix (flatten_list pre sep ds) pre sep = flat_blocks sep 0 ds"
    using parse_prefix_append [of "[_]" "map (\<lambda>(k, v). (pre @ sep # k, v)) (flat_blocks sep 0 ds)" pre sep]
      parse_prefix_map [OF assms(1) flat_blocks_no_count] parse_prefix_count [OF assms(1)]
    by (simp add: flatten_list_def)
  then have p: "parse_prefix source pre sep = flat_blocks sep 0 ds"
    using parse_prefix_under [of pre sep source] assms(4) by simp
  have r: "parse_attr_list order source pre sep = Inr (dict_values order ?z)"
    using blocks_fold [OF assms(2,3), of 0 "[]"] by (simp add: parse_attr_list_def p)
  have "dict_ok ?z" by (simp add: dict_ok_def numbered_keys numbers_distinct)
  moreover have "map snd ?z = ds" by simp
  ultimately have m: "mset (dict_values order ?z) = mset ds" using fair_values [OF assms(5)] by metis
  have "dict_values order ?z = ds" if "length ds = 1"
    using m that by (cases ds) (auto simp: mset_single_iff_right)
  with r m show ?thesis by blast
qed

text \<open>The keys in reverse, which is how CPython 2.7 orders a dictionary of \<open>'0'\<close> and \<open>'1'\<close>.\<close>

theorem parse_attr_list_inverts_flatten_witness:
  "\<exists>bs. parse_attr_list rev [(''network.#'', JStr ''2''), (''id'', JStr ''7''), (''network.0.name'', JStr ''front''),
     (''networks'', JStr ''2''), (''network.0.port.0'', JStr ''80''), (''network.1.name'', JStr ''back'')]
     ''network'' (CHR ''.'') = Inr bs \<and>
   mset bs = {#[(''name'', JStr ''front''), (''port.0'', JStr ''80'')], [(''name'', JStr ''back'')]#}"
proof -
  let ?ds = "[[(''name'', JStr ''front''), (''port.0'', JStr ''80'')], [(''name'', JStr ''back'')]]"
  have n: "nat_str (Suc (Suc 0)) = ''2''" "nat_str 0 = ''0''" "nat_str (Suc 0) = ''1''" by code_simp+
  have "under_prefix ''network'' (CHR ''.'') [(''network.#'', JStr ''2''), (''id'', JStr ''7''),
     (''network.0.name'', JStr ''front''), (''networks'', JStr ''2''), (''network.0.port.0'', JStr ''80''),
     (''network.1.name'', JStr ''back'')] = flatten_list ''network'' (CHR ''.'') ?ds"
    by (simp add: under_prefix_def flatten_list_def n)
  moreover have "fair_order rev" by (simp add: fair_order_def)
  moreover have "CHR ''.'' \<notin> set ''network''" "\<not> is_digit (CHR ''.'')" "\<forall>d \<in> set ?ds. dict_ok d \<and> d \<noteq> []"
    by code_simp+
  ultimately show ?thesis
    using parse_attr_list_inverts_flatten [of "CHR ''.''" "''network''" ?ds] by fastforce
qed

end
