(* ===== verification/Terraform_Hosts.thy ===== *)
theory Terraform_Hosts
  imports Terraform_Parse
begin

text \<open>
  The resource parsers of \<open>contrib/terraform/terraform.py\<close>: each takes a resource of the state and the
  name of its module to a host, which is a name, its attributes and its groups. A dictionary display
  is a list of its entries, evaluated in order, so the first attribute that is missing raises. The
  decorator \<open>calculate_mantl_vars\<close> wraps every parser of the registry \<open>PARSERS\<close>. The parsers that gather
  lists of blocks take the order of Python's dictionaries as their first argument.
\<close>

type_synonym host = "json \<times> attrs \<times> string list"

section \<open>Pieces the parsers share\<close>

definition raw_attributes :: "json \<Rightarrow> attrs res" where
  "raw_attributes resource =
     rbind (json_index resource ''primary'') (\<lambda>p. rbind (json_index p ''attributes'') json_items)"

definition get_or :: "attrs \<Rightarrow> string \<Rightarrow> json \<Rightarrow> json" where
  "get_or d k dflt = (case dict_get d k of None \<Rightarrow> dflt | Some v \<Rightarrow> v)"

text \<open>A list of group names, evaluated in order, and \<open>'...%s=%s' % item\<close> over the items of a dictionary.\<close>

definition collect :: "string res list \<Rightarrow> string list res" where
  "collect names = rmapM (\<lambda>r. r) names"

definition prefixed :: "string \<Rightarrow> json \<Rightarrow> string res" where
  "prefixed pre v = rmap ((@) pre) (concat_str v)"

definition item_groups :: "string \<Rightarrow> attrs \<Rightarrow> string res list" where
  "item_groups pre d = map (\<lambda>(k, v). Inr (pre @ k @ ''='' @ py_format ''u'' v)) d"

text \<open>\<open>except (KeyError, ValueError)\<close>.\<close>

definition on_key_value_error :: "'a res \<Rightarrow> 'a res \<Rightarrow> 'a res" where
  "on_key_value_error r handler =
     (case r of Inl (KeyError k) \<Rightarrow> handler | Inl (ValueError m) \<Rightarrow> handler | _ \<Rightarrow> r)"

definition truthy :: "json \<Rightarrow> bool" where
  "truthy v =
     (case v of JNull \<Rightarrow> False | JBool b \<Rightarrow> b | JInt i \<Rightarrow> i \<noteq> 0 | JFloat t \<Rightarrow> True
      | JStr s \<Rightarrow> s \<noteq> [] | JList xs \<Rightarrow> xs \<noteq> [] | JDict d \<Rightarrow> d \<noteq> [])"

definition blocks :: "attrs list res \<Rightarrow> json res" where
  "blocks r = rmap (\<lambda>ds. JList (map JDict ds)) r"

definition calculate_mantl_vars :: "(json \<Rightarrow> json \<Rightarrow> host res) \<Rightarrow> json \<Rightarrow> json \<Rightarrow> host res" where
  "calculate_mantl_vars func resource module_name =
     rbind (func resource module_name) (\<lambda>(name, attrs, groups).
       let attrs = dict_set attrs ''consul_is_server''
             (JBool (get_or attrs ''role'' (JStr []) = JStr ''control''))
       in Inr (name, attrs,
            if truthy (get_or attrs ''publicly_routable'' (JBool False))
            then groups @ [''publicly_routable''] else groups))"

section \<open>Triton\<close>

fun first_private :: "json list \<Rightarrow> json option res" where
  "first_private [] = Inr None"
| "first_private (ip # ips) =
     rbind (method_str ip) (\<lambda>s.
       if starts_with s ''10'' \<or> starts_with s ''192.168'' then Inr (Some ip) else first_private ips)"

definition triton_machine :: "json \<Rightarrow> json \<Rightarrow> host res" where
  "triton_machine resource module_name =
     rbind (raw_attributes resource) (\<lambda>raw.
       let name = get_or raw ''name'' JNull;
           ips = parse_list raw ''ips'' (CHR ''.'');
           networks = parse_list raw ''networks'' (CHR ''.'');
           tags = parse_dict raw ''tags'' (CHR ''.'')
       in rbind (make_attrs
            [(''id'', attr raw ''id''),
             (''dataset'', attr raw ''dataset''),
             (''disk'', attr raw ''disk''),
             (''firewall_enabled'', rbind (attr raw ''firewall_enabled'') (\<lambda>v. rmap JBool (parse_bool v))),
             (''image'', attr raw ''image''),
             (''ips'', Inr (JList ips)),
             (''memory'', attr raw ''memory''),
             (''name'', attr raw ''name''),
             (''networks'', Inr (JList networks)),
             (''package'', attr raw ''package''),
             (''primary_ip'', attr raw ''primaryip''),
             (''root_authorized_keys'', attr raw ''root_authorized_keys''),
             (''state'', attr raw ''state''),
             (''tags'', Inr (JDict tags)),
             (''type'', attr raw ''type''),
             (''user_data'', attr raw ''user_data''),
             (''user_script'', attr raw ''user_script''),
             (''ansible_ssh_host'', attr raw ''primaryip''),
             (''ansible_ssh_port'', Inr (JInt 22)),
             (''ansible_ssh_user'', Inr (JStr ''root'')),
             (''public_ipv4'', attr raw ''primaryip''),
             (''provider'', Inr (JStr ''triton''))]) (\<lambda>attrs.
          rbind (first_private ips) (\<lambda>private.
          rbind (case private of Some ip \<Rightarrow> Inr ip | None \<Rightarrow> attr attrs ''public_ipv4'') (\<lambda>ip.
          rbind (update_attrs (dict_set attrs ''private_ipv4'' ip)
            [(''consul_dc'', rmap JStr (clean_dc (get_or tags ''dc'' (JStr ''none'')))),
             (''role'', Inr (get_or tags ''role'' (JStr ''none''))),
             (''ansible_python_interpreter'', Inr (get_or tags ''python_bin'' (JStr ''python'')))]) (\<lambda>attrs.
          rbind (collect
            ([rbind (attr attrs ''image'') (prefixed ''triton_image=''),
              rbind (attr attrs ''package'') (prefixed ''triton_package=''),
              rbind (attr attrs ''state'') (prefixed ''triton_state=''),
              rbind (attr attrs ''firewall_enabled'') (\<lambda>v.
                Inr (''triton_firewall_enabled='' @ py_format ''u'' v))] @
             item_groups ''triton_tags_'' tags @
             map (prefixed ''triton_network='') networks @
             [rbind (attr attrs ''role'') (prefixed ''role=''),
              rbind (attr attrs ''consul_dc'') (prefixed ''dc='')])) (\<lambda>groups.
          Inr (name, attrs, groups)))))))"

section \<open>DigitalOcean and SoftLayer\<close>

text \<open>\<open>json.loads(raw_attrs.get('user_data', '{}'))\<close>.\<close>

definition load_user_data :: "attrs \<Rightarrow> json res" where
  "load_user_data raw = rbind (concat_str (get_or raw ''user_data'' (JStr ''{}''))) json_loads"

definition digitalocean_host :: "json \<Rightarrow> json \<Rightarrow> host res" where
  "digitalocean_host resource tfvars =
     rbind (raw_attributes resource) (\<lambda>raw.
     rbind (attr raw ''name'') (\<lambda>name.
     rbind (make_attrs
       [(''id'', attr raw ''id''),
        (''image'', attr raw ''image''),
        (''ipv4_address'', attr raw ''ipv4_address''),
        (''locked'', rbind (attr raw ''locked'') (\<lambda>v. rmap JBool (parse_bool v))),
        (''metadata'', load_user_data raw),
        (''region'', attr raw ''region''),
        (''size'', attr raw ''size''),
        (''ssh_keys'', Inr (JList (parse_list raw ''ssh_keys'' (CHR ''.'')))),
        (''status'', attr raw ''status''),
        (''ansible_ssh_host'', attr raw ''ipv4_address''),
        (''ansible_ssh_port'', Inr (JInt 22)),
        (''ansible_ssh_user'', Inr (JStr ''root'')),
        (''public_ipv4'', attr raw ''ipv4_address''),
        (''private_ipv4'', rmap (get_or raw ''ipv4_address_private'') (attr raw ''ipv4_address'')),
        (''provider'', Inr (JStr ''digitalocean''))]) (\<lambda>attrs.
     rbind (attr attrs ''metadata'') (\<lambda>metadata.
     rbind (update_attrs attrs
       [(''consul_dc'', rbind (attr attrs ''region'') (\<lambda>region.
           rbind (json_get metadata ''dc'' region) (\<lambda>dc. rmap JStr (clean_dc dc)))),
        (''role'', json_get metadata ''role'' (JStr ''none'')),
        (''ansible_python_interpreter'', json_get metadata ''python_bin'' (JStr ''python''))]) (\<lambda>attrs.
     rbind (json_items metadata) (\<lambda>items.
     rbind (collect
       ([rbind (attr attrs ''image'') (prefixed ''do_image=''),
         rbind (attr attrs ''locked'') (\<lambda>v. Inr (''do_locked='' @ py_format ''u'' v)),
         rbind (attr attrs ''region'') (prefixed ''do_region=''),
         rbind (attr attrs ''size'') (prefixed ''do_size=''),
         rbind (attr attrs ''status'') (prefixed ''do_status='')] @
        item_groups ''do_metadata_'' items @
        [rbind (attr attrs ''role'') (prefixed ''role=''),
         rbind (attr attrs ''consul_dc'') (prefixed ''dc='')])) (\<lambda>groups.
     Inr (name, attrs, groups))))))))"

definition softlayer_host :: "json \<Rightarrow> json \<Rightarrow> host res" where
  "softlayer_host resource module_name =
     rbind (raw_attributes resource) (\<lambda>raw.
     rbind (attr raw ''name'') (\<lambda>name.
     rbind (make_attrs
       [(''id'', attr raw ''id''),
        (''image'', attr raw ''image''),
        (''ipv4_address'', attr raw ''ipv4_address''),
        (''metadata'', load_user_data raw),
        (''region'', attr raw ''region''),
        (''ram'', attr raw ''ram''),
        (''cpu'', attr raw ''cpu''),
        (''ssh_keys'', Inr (JList (parse_list raw ''ssh_keys'' (CHR ''.'')))),
        (''public_ipv4'', attr raw ''ipv4_address''),
        (''private_ipv4'', attr raw ''ipv4_address_private''),
        (''ansible_ssh_host'', attr raw ''ipv4_address''),
        (''ansible_ssh_port'', Inr (JInt 22)),
        (''ansible_ssh_user'', Inr (JStr ''root'')),
        (''provider'', Inr (JStr ''softlayer''))]) (\<lambda>attrs.
     rbind (attr attrs ''metadata'') (\<lambda>metadata.
     rbind (update_attrs attrs
       [(''consul_dc'', rbind (attr attrs ''region'') (\<lambda>region.
           rbind (json_get metadata ''dc'' region) (\<lambda>dc. rmap JStr (clean_dc dc)))),
        (''role'', json_get metadata ''role'' (JStr ''none'')),
        (''ansible_python_interpreter'', json_get metadata ''python_bin'' (JStr ''python''))]) (\<lambda>attrs.
     rbind (collect
       [rbind (attr attrs ''role'') (prefixed ''role=''),
        rbind (attr attrs ''consul_dc'') (prefixed ''dc='')]) (\<lambda>groups.
     Inr (name, attrs, groups)))))))"

section \<open>OpenStack\<close>

text \<open>The second of the two definitions of \<open>openstack_floating_ips\<close>, which replaces the first.\<close>

definition openstack_floating_ips :: "json \<Rightarrow> (json \<times> json) res" where
  "openstack_floating_ips resource =
     rbind (raw_attributes resource) (\<lambda>raw.
     rbind (attr raw ''instance_id'') (\<lambda>i.
     rbind (attr raw ''floating_ip'') (\<lambda>ip. Inr (i, ip))))"

text \<open>\<open>int(v)\<close>.\<close>

definition to_int :: "json \<Rightarrow> int res" where
  "to_int v =
     (case v of
        JStr s \<Rightarrow> py_int s
      | JInt i \<Rightarrow> Inr i
      | JBool b \<Rightarrow> Inr (if b then 1 else 0)
      | JFloat t \<Rightarrow> Inr (case scan_int t of Some (i, _) \<Rightarrow> projr (py_int i) | None \<Rightarrow> 0)
      | _ \<Rightarrow> Inl TypeError)"

text \<open>\<open>re.search("^volume.*.device$", key)\<close>: a dot does not match a newline, \<open>$\<close> matches before a last one.\<close>

definition is_volume_device :: "string \<Rightarrow> bool" where
  "is_volume_device key =
     (let k = (if key \<noteq> [] \<and> last key = CHR 0x0A then butlast key else key)
      in starts_with k ''volume'' \<and> suffix ''device'' k \<and> length k \<ge> 13 \<and> CHR 0x0A \<notin> set k)"

definition volume_devices :: "attrs \<Rightarrow> attrs \<Rightarrow> attrs" where
  "volume_devices attrs raw =
     fst (foldl (\<lambda>(attrs, device_index) (key, value).
         if is_volume_device key
         then (dict_set attrs (''disk_volume_device_'' @ nat_str device_index) value, device_index + 1)
         else (attrs, device_index)) (attrs, 1) raw)"

definition openstack_host :: "key_order \<Rightarrow> json \<Rightarrow> json \<Rightarrow> host res" where
  "openstack_host order resource module_name =
     rbind (raw_attributes resource) (\<lambda>raw.
     rbind (attr raw ''name'') (\<lambda>name.
       let flavor = parse_dict raw ''flavor'' (CHR ''_'');
           image = parse_dict raw ''image'' (CHR ''_'');
           metadata = parse_dict raw ''metadata'' (CHR ''.'')
       in rbind (make_attrs
            [(''access_ip_v4'', attr raw ''access_ip_v4''),
             (''access_ip_v6'', attr raw ''access_ip_v6''),
             (''ip'', attr raw ''network.0.fixed_ip_v4''),
             (''flavor'', Inr (JDict flavor)),
             (''id'', attr raw ''id''),
             (''image'', Inr (JDict image)),
             (''key_pair'', attr raw ''key_pair''),
             (''metadata'', Inr (JDict metadata)),
             (''network'', blocks (parse_attr_list order raw ''network'' (CHR ''.''))),
             (''region'', Inr (get_or raw ''region'' (JStr []))),
             (''security_groups'', Inr (JList (parse_list raw ''security_groups'' (CHR ''.'')))),
             (''ansible_ssh_port'', Inr (JInt 22)),
             (''host_domain'', Inr (JStr ''novalocal'')),
             (''use_host_domain'', Inr (JBool True)),
             (''public_ipv4'', attr raw ''access_ip_v4''),
             (''private_ipv4'', attr raw ''access_ip_v4''),
             (''provider'', Inr (JStr ''openstack''))]) (\<lambda>attrs.
          rbind (if dict_has raw ''floating_ip''
                 then rmap (dict_set attrs ''private_ipv4'') (attr raw ''network.0.fixed_ip_v4'')
                 else Inr attrs) (\<lambda>attrs.
          rbind (on_key_value_error
                  (update_attrs attrs
                    [(''ansible_ssh_host'', attr raw ''access_ip_v4''),
                     (''publicly_routable'', Inr (JBool True))])
                  (update_attrs attrs
                    [(''ansible_ssh_host'', Inr (JStr [])), (''publicly_routable'', Inr (JBool False))]))
            (\<lambda>attrs.
          let attrs = (case dict_get raw ''metadata.ssh_user'' of
                         Some u \<Rightarrow> dict_set attrs ''ansible_ssh_user'' u | None \<Rightarrow> attrs)
          in rbind (case dict_get raw ''volume.#'' of
                      None \<Rightarrow> Inr attrs
                    | Some v \<Rightarrow> rmap (\<lambda>n. if n > 0 then volume_devices attrs raw else attrs) (to_int v))
            (\<lambda>attrs.
          rbind (update_attrs attrs
            [(''consul_dc'', rmap JStr (clean_dc (get_or metadata ''dc'' module_name))),
             (''role'', Inr (get_or metadata ''role'' (JStr ''none''))),
             (''ansible_python_interpreter'', Inr (get_or metadata ''python_bin'' (JStr ''python'')))]) (\<lambda>attrs.
          rbind (collect
            ([rbind (attr image ''name'') (prefixed ''os_image=''),
              rbind (attr flavor ''name'') (prefixed ''os_flavor='')] @
             item_groups ''os_metadata_'' metadata @
             [rbind (attr attrs ''region'') (prefixed ''os_region=''),
              prefixed ''role='' (get_or metadata ''role'' (JStr ''none'')),
              rbind (attr attrs ''consul_dc'') (prefixed ''dc='')])) (\<lambda>groups.
          rbind (method_str (get_or metadata ''kubespray_groups'' (JStr []))) (\<lambda>kubespray_groups.
          Inr (name, attrs, groups @ split_on (CHR '','') kubespray_groups))))))))))"

section \<open>AWS\<close>

definition aws_host :: "key_order \<Rightarrow> json \<Rightarrow> json \<Rightarrow> host res" where
  "aws_host order resource module_name =
     rbind (raw_attributes resource) (\<lambda>raw.
     rbind (attr raw ''tags.Name'') (\<lambda>name.
       let subnet = parse_dict raw ''subnet'' (CHR ''_'');
           tags = parse_dict raw ''tags'' (CHR ''.'');
           security_group_ids = parse_list raw ''vpc_security_group_ids'' (CHR ''.'')
       in rbind (make_attrs
            [(''ami'', attr raw ''ami''),
             (''availability_zone'', attr raw ''availability_zone''),
             (''ebs_block_device'', blocks (parse_attr_list order raw ''ebs_block_device'' (CHR ''.''))),
             (''ebs_optimized'', rbind (attr raw ''ebs_optimized'') (\<lambda>v. rmap JBool (parse_bool v))),
             (''ephemeral_block_device'', blocks (parse_attr_list order raw ''ephemeral_block_device'' (CHR ''.''))),
             (''id'', attr raw ''id''),
             (''key_name'', attr raw ''key_name''),
             (''private'', Inr (JDict (parse_dict raw ''private'' (CHR ''_'')))),
             (''public'', Inr (JDict (parse_dict raw ''public'' (CHR ''_'')))),
             (''root_block_device'', blocks (parse_attr_list order raw ''root_block_device'' (CHR ''.''))),
             (''security_groups'', Inr (JList (parse_list raw ''security_groups'' (CHR ''.'')))),
             (''subnet'', Inr (JDict subnet)),
             (''tags'', Inr (JDict tags)),
             (''tenancy'', attr raw ''tenancy''),
             (''vpc_security_group_ids'', Inr (JList security_group_ids)),
             (''ansible_ssh_port'', Inr (JInt 22)),
             (''ansible_ssh_host'', attr raw ''public_ip''),
             (''public_ipv4'', attr raw ''public_ip''),
             (''private_ipv4'', attr raw ''private_ip''),
             (''provider'', Inr (JStr ''aws''))]) (\<lambda>attrs.
          let attrs = (case dict_get raw ''tags.sshUser'' of
                         Some u \<Rightarrow> dict_set attrs ''ansible_ssh_user'' u | None \<Rightarrow> attrs)
          in rbind (if dict_has raw ''tags.sshPrivateIp''
                    then rmap (dict_set attrs ''ansible_ssh_host'') (attr raw ''private_ip'')
                    else Inr attrs) (\<lambda>attrs.
          rbind (update_attrs attrs
            [(''consul_dc'', rmap JStr (clean_dc (get_or tags ''dc'' module_name))),
             (''role'', Inr (get_or tags ''role'' (JStr ''none''))),
             (''ansible_python_interpreter'', Inr (get_or tags ''python_bin'' (JStr ''python'')))]) (\<lambda>attrs.
          rbind (collect
            ([rbind (attr attrs ''ami'') (prefixed ''aws_ami=''),
              rbind (attr attrs ''availability_zone'') (prefixed ''aws_az=''),
              rbind (attr attrs ''key_name'') (prefixed ''aws_key_name=''),
              rbind (attr attrs ''tenancy'') (prefixed ''aws_tenancy='')] @
             item_groups ''aws_tag_'' tags @
             map (prefixed ''aws_vpc_security_group='') security_group_ids @
             item_groups ''aws_subnet_'' subnet @
             [rbind (attr attrs ''role'') (prefixed ''role=''),
              rbind (attr attrs ''consul_dc'') (prefixed ''dc='')])) (\<lambda>groups.
          Inr (name, attrs, groups)))))))"

section \<open>Google Compute Engine\<close>

text \<open>An interface gets its access configurations as a list and loses the flat keys.\<close>

definition gce_interface :: "key_order \<Rightarrow> attrs \<Rightarrow> attrs res" where
  "gce_interface order interface =
     rmap (\<lambda>ac. filter (\<lambda>(key, v). CHR ''.'' \<notin> set key) (dict_set interface ''access_config'' ac))
       (blocks (parse_attr_list order interface ''access_config'' (CHR ''.'')))"

definition first_of :: "'a list \<Rightarrow> 'a res" where
  "first_of xs = (case xs of [] \<Rightarrow> Inl IndexError | x # _ \<Rightarrow> Inr x)"

text \<open>
  \<open>interfaces[0]['access_config'][0]['nat_ip'] or interfaces[0]['access_config'][0]['assigned_nat_ip']\<close>.
\<close>

definition nat_ip :: "attrs list \<Rightarrow> json res" where
  "nat_ip interfaces =
     rbind (first_of interfaces) (\<lambda>i.
     rbind (attr i ''access_config'') (\<lambda>acs.
     rbind (json_iter acs) (\<lambda>acs.
     rbind (first_of acs) (\<lambda>ac.
     rbind (json_index ac ''nat_ip'') (\<lambda>ip.
       if truthy ip then Inr ip else json_index ac ''assigned_nat_ip'')))))"

definition gce_host :: "key_order \<Rightarrow> json \<Rightarrow> json \<Rightarrow> host res" where
  "gce_host order resource module_name =
     rbind (rbind (json_index resource ''primary'') (\<lambda>p. json_index p ''id'')) (\<lambda>name.
     rbind (raw_attributes resource) (\<lambda>raw.
     rbind (parse_attr_list order raw ''network_interface'' (CHR ''.'')) (\<lambda>interfaces.
     rbind (rmapM (gce_interface order) interfaces) (\<lambda>interfaces.
       let metadata = parse_dict raw ''metadata'' (CHR ''.'');
           tags = parse_list raw ''tags'' (CHR ''.'')
       in rbind (make_attrs
            [(''can_ip_forward'', rmap (\<lambda>v. JBool (v = JStr ''true'')) (attr raw ''can_ip_forward'')),
             (''disks'', blocks (parse_attr_list order raw ''disk'' (CHR ''.''))),
             (''machine_type'', attr raw ''machine_type''),
             (''metadata'', Inr (JDict metadata)),
             (''network'', blocks (parse_attr_list order raw ''network'' (CHR ''.''))),
             (''network_interface'', Inr (JList (map JDict interfaces))),
             (''self_link'', attr raw ''self_link''),
             (''service_account'', blocks (parse_attr_list order raw ''service_account'' (CHR ''.''))),
             (''tags'', Inr (JList tags)),
             (''zone'', attr raw ''zone''),
             (''ansible_ssh_port'', Inr (JInt 22)),
             (''provider'', Inr (JStr ''gce''))]) (\<lambda>attrs.
          let attrs = (case dict_get raw ''metadata.ssh_user'' of
                         Some u \<Rightarrow> dict_set attrs ''ansible_ssh_user'' u | None \<Rightarrow> attrs)
          in rbind (update_attrs attrs
            [(''consul_dc'', rmap JStr (clean_dc (get_or metadata ''dc'' module_name))),
             (''role'', Inr (get_or metadata ''role'' (JStr ''none''))),
             (''ansible_python_interpreter'', Inr (get_or metadata ''python_bin'' (JStr ''python'')))]) (\<lambda>attrs.
          rbind (on_key_value_error
                  (update_attrs attrs
                    [(''ansible_ssh_host'', nat_ip interfaces),
                     (''public_ipv4'', nat_ip interfaces),
                     (''private_ipv4'', rbind (first_of interfaces) (\<lambda>i. attr i ''address'')),
                     (''publicly_routable'', Inr (JBool True))])
                  (update_attrs attrs
                    [(''ansible_ssh_host'', Inr (JStr [])), (''publicly_routable'', Inr (JBool False))]))
            (\<lambda>attrs.
          rbind (attr attrs ''disks'') (\<lambda>disks.
          rbind (json_iter disks) (\<lambda>disks.
          rbind (collect
            (map (\<lambda>disk. rbind (json_index disk ''image'') (prefixed ''gce_image='')) disks @
             [rbind (attr attrs ''machine_type'') (prefixed ''gce_machine_type='')] @
             item_groups ''gce_metadata_'' (filter (\<lambda>(key, v). key \<noteq> ''sshKeys'') metadata) @
             map (prefixed ''gce_tag='') tags @
             [rbind (attr attrs ''zone'') (prefixed ''gce_zone='')] @
             (if truthy (get_or attrs ''can_ip_forward'' JNull) then [Inr ''gce_ip_forward''] else []) @
             (if truthy (get_or attrs ''publicly_routable'' JNull) then [Inr ''gce_publicly_routable''] else []) @
             [prefixed ''role='' (get_or metadata ''role'' (JStr ''none'')),
              rbind (attr attrs ''consul_dc'') (prefixed ''dc='')])) (\<lambda>groups.
          Inr (name, attrs, groups)))))))))))"

section \<open>vSphere, Azure and CenturyLink\<close>

text \<open>The default of \<open>network.get('ipv4_address', network['ip_address'])\<close> is evaluated in any case.\<close>

definition vsphere_host :: "json \<Rightarrow> json \<Rightarrow> host res" where
  "vsphere_host resource module_name =
     rbind (raw_attributes resource) (\<lambda>raw.
       let network_attrs = parse_dict raw ''network_interface'' (CHR ''.'');
           network = parse_dict network_attrs ''0'' (CHR ''.'');
           metadata = parse_dict raw ''custom_configuration_parameters'' (CHR ''.'')
       in rbind (rmap (get_or network ''ipv4_address'') (attr network ''ip_address'')) (\<lambda>ip_address.
          rbind (attr raw ''name'') (\<lambda>name.
          rbind (make_attrs
            [(''id'', attr raw ''id''),
             (''ip_address'', Inr ip_address),
             (''private_ipv4'', Inr ip_address),
             (''public_ipv4'', Inr ip_address),
             (''metadata'', Inr (JDict metadata)),
             (''ansible_ssh_port'', Inr (JInt 22)),
             (''provider'', Inr (JStr ''vsphere''))]) (\<lambda>attrs.
          rbind (on_key_value_error
                  (update_attrs attrs [(''ansible_ssh_host'', Inr ip_address)])
                  (update_attrs attrs [(''ansible_ssh_host'', Inr (JStr []))])) (\<lambda>attrs.
          rbind (update_attrs attrs
            [(''consul_dc'', rmap JStr (clean_dc (get_or metadata ''consul_dc'' module_name))),
             (''role'', Inr (get_or metadata ''role'' (JStr ''none''))),
             (''ansible_python_interpreter'', Inr (get_or metadata ''python_bin'' (JStr ''python'')))]) (\<lambda>attrs.
          let attrs = (case dict_get metadata ''ssh_user'' of
                         Some u \<Rightarrow> dict_set attrs ''ansible_ssh_user'' u | None \<Rightarrow> attrs)
          in rbind (collect
            [rbind (attr attrs ''role'') (prefixed ''role=''),
             rbind (attr attrs ''consul_dc'') (prefixed ''dc='')]) (\<lambda>groups.
          Inr (name, attrs, groups))))))))"

text \<open>\<open>attrs['location'].lower().replace(" ", "-")\<close>.\<close>

definition azure_location :: "json \<Rightarrow> string res" where
  "azure_location v = rmap (\<lambda>s. replace_char (CHR '' '') ''-'' (str_lower s)) (method_str v)"

definition azure_host :: "key_order \<Rightarrow> json \<Rightarrow> json \<Rightarrow> host res" where
  "azure_host order resource module_name =
     rbind (raw_attributes resource) (\<lambda>raw.
     rbind (attr raw ''name'') (\<lambda>name.
     rbind (make_attrs
       [(''automatic_updates'', attr raw ''automatic_updates''),
        (''description'', attr raw ''description''),
        (''hosted_service_name'', attr raw ''hosted_service_name''),
        (''id'', attr raw ''id''),
        (''image'', attr raw ''image''),
        (''ip_address'', attr raw ''ip_address''),
        (''location'', attr raw ''location''),
        (''name'', attr raw ''name''),
        (''reverse_dns'', attr raw ''reverse_dns''),
        (''security_group'', attr raw ''security_group''),
        (''size'', attr raw ''size''),
        (''ssh_key_thumbprint'', attr raw ''ssh_key_thumbprint''),
        (''subnet'', attr raw ''subnet''),
        (''username'', attr raw ''username''),
        (''vip_address'', attr raw ''vip_address''),
        (''virtual_network'', attr raw ''virtual_network''),
        (''endpoint'', blocks (parse_attr_list order raw ''endpoint'' (CHR ''.''))),
        (''ansible_ssh_port'', Inr (JInt 22)),
        (''ansible_ssh_user'', attr raw ''username''),
        (''ansible_ssh_host'', attr raw ''vip_address'')]) (\<lambda>attrs.
     rbind (update_attrs attrs
       [(''consul_dc'', rbind (attr attrs ''location'') (\<lambda>v. rmap JStr (azure_location v))),
        (''role'', attr attrs ''description'')]) (\<lambda>attrs.
     rbind (collect
       [rbind (attr attrs ''image'') (prefixed ''azure_image=''),
        rbind (attr attrs ''location'') (\<lambda>v. rmap ((@) ''azure_location='') (azure_location v)),
        rbind (attr attrs ''username'') (prefixed ''azure_username=''),
        rbind (attr attrs ''security_group'') (prefixed ''azure_security_group=''),
        rbind (attr attrs ''role'') (prefixed ''role=''),
        rbind (attr attrs ''consul_dc'') (prefixed ''dc='')]) (\<lambda>groups.
     Inr (name, attrs, groups))))))"

definition clc_server :: "json \<Rightarrow> json \<Rightarrow> host res" where
  "clc_server resource module_name =
     rbind (raw_attributes resource) (\<lambda>raw.
       let name = get_or raw ''id'' JNull;
           md = parse_dict raw ''metadata'' (CHR ''.'')
       in rbind (make_attrs
            [(''metadata'', Inr (JDict md)),
             (''ansible_ssh_port'', Inr (get_or md ''ssh_port'' (JInt 22))),
             (''ansible_ssh_user'', Inr (get_or md ''ssh_user'' (JStr ''root''))),
             (''provider'', Inr (JStr ''clc'')),
             (''publicly_routable'', Inr (JBool False))]) (\<lambda>attrs.
          rbind (on_key_value_error
                  (update_attrs attrs
                    [(''public_ipv4'', attr raw ''public_ip_address''),
                     (''private_ipv4'', attr raw ''private_ip_address''),
                     (''ansible_ssh_host'', attr raw ''public_ip_address''),
                     (''publicly_routable'', Inr (JBool True))])
                  (update_attrs attrs
                    [(''ansible_ssh_host'', attr raw ''private_ip_address''),
                     (''private_ipv4'', attr raw ''private_ip_address'')])) (\<lambda>attrs.
          rbind (update_attrs attrs
            [(''consul_dc'', rmap JStr (clean_dc (get_or md ''dc'' module_name))),
             (''role'', Inr (get_or md ''role'' (JStr ''none'')))]) (\<lambda>attrs.
          rbind (collect
            [rbind (attr attrs ''role'') (prefixed ''role=''),
             rbind (attr attrs ''consul_dc'') (prefixed ''dc='')]) (\<lambda>groups.
          Inr (name, attrs, groups))))))"

section \<open>The registry\<close>

definition PARSERS :: "key_order \<Rightarrow> (string, json \<Rightarrow> json \<Rightarrow> host res) dict" where
  "PARSERS order =
     [(''triton_machine'', calculate_mantl_vars triton_machine),
      (''digitalocean_droplet'', calculate_mantl_vars digitalocean_host),
      (''softlayer_virtualserver'', calculate_mantl_vars softlayer_host),
      (''openstack_compute_instance_v2'', calculate_mantl_vars (openstack_host order)),
      (''aws_instance'', calculate_mantl_vars (aws_host order)),
      (''google_compute_instance'', calculate_mantl_vars (gce_host order)),
      (''vsphere_virtual_machine'', calculate_mantl_vars vsphere_host),
      (''azure_instance'', calculate_mantl_vars (azure_host order)),
      (''clc_server'', calculate_mantl_vars clc_server)]"

end
