(* ===== verification/Terraform_Contract.thy ===== *)
theory Terraform_Contract
  imports Terraform_Hosts
begin

text \<open>
  What a resource parser promises: a host with a role and a data centre that its groups name, and the
  address of its resource to connect to. The locale \<open>host_parser\<close> states it, every parser of the registry
  is an interpretation, and what the decorator adds is proved once in the locale.
\<close>

section \<open>Attributes that were built\<close>

lemma make_attrs_fold:
  "rfold (\<lambda>d (k, v). rmap (dict_set d k) v) d0 es = Inr d \<Longrightarrow> dict_ok d0 \<Longrightarrow>
     dict_ok d \<and> (\<forall>(k, r) \<in> set es. is_ok r) \<and>
     (\<forall>k. dict_get d k = (case map_of (rev es) k of None \<Rightarrow> dict_get d0 k | Some r \<Rightarrow> Some (projr r)))"
proof (induction es arbitrary: d0)
  case Nil
  then show ?case by simp
next
  case (Cons e es)
  obtain k r where e: "e = (k, r)" by force
  from Cons.prems(1) obtain v where v: "r = Inr v"
    and f: "rfold (\<lambda>d (k, v). rmap (dict_set d k) v) (dict_set d0 k v) es = Inr d"
    by (auto simp: e rbind_eq_Inr_iff rmap_eq_Inr_iff)
  from Cons.IH [OF f pd.ok_put [OF Cons.prems(2)]] show ?case
    by (auto simp: e v map_add_def split: option.splits)
qed

lemma make_attrs_get:
  assumes "make_attrs es = Inr d"
  shows "dict_ok d" "(k, r) \<in> set es \<Longrightarrow> is_ok r"
    "dict_get d k = map_option projr (map_of (rev es) k)"
  using make_attrs_fold [of "[]" es d] assms
  by (auto simp: make_attrs_def split: option.splits)

lemma update_attrs_get:
  assumes "update_attrs d es = Inr d'"
  shows "(k, r) \<in> set es \<Longrightarrow> is_ok r"
    "dict_get d' k = (case map_of (rev es) k of None \<Rightarrow> dict_get d k | Some r \<Rightarrow> Some (projr r))"
proof -
  obtain e where e: "make_attrs es = Inr e" "d' = dict_update d e"
    using assms by (auto simp: update_attrs_def rmap_eq_Inr_iff)
  then show "(k, r) \<in> set es \<Longrightarrow> is_ok r" using make_attrs_get(2) by blast
  have "map_of (rev e) k = dict_get e k"
    using make_attrs_get(1) [OF e(1)]
    by (simp add: dict_get_def dict_ok_def dict_keys_def)
       (metis distinct_rev map_of_inject_set rev_map set_rev)
  then show "dict_get d' k = (case map_of (rev es) k of None \<Rightarrow> dict_get d k | Some r \<Rightarrow> Some (projr r))"
    using make_attrs_get(3) [OF e(1), of k] pd.get_put_all [of d e k]
    by (auto simp: e(2) dict_update_def split: option.splits)
qed

lemma collect_mem: "collect gs = Inr groups \<Longrightarrow> r \<in> set gs \<Longrightarrow> \<exists>g \<in> set groups. r = Inr g"
  by (force simp: collect_def rmapM_eq_Inr_iff list_all2_conv_all_nth in_set_conv_nth)

lemma prefixed_Inr: "prefixed pre v = Inr g \<longleftrightarrow> (\<exists>s. v = JStr s \<and> g = pre @ s)"
  by (auto simp: prefixed_def rmap_eq_Inr_iff concat_str_def split: json.splits)

lemma attr_Inr: "attr d k = Inr v \<longleftrightarrow> dict_get d k = Some v"
  by (auto simp: attr_def json_index_def split: option.splits)

lemma rbind_attr: "dict_get d k = Some v \<Longrightarrow> rbind (attr d k) f = f v"
  by (simp add: attr_def json_index_def)

section \<open>The contract\<close>

definition names_group :: "attrs \<Rightarrow> string list \<Rightarrow> string \<Rightarrow> string \<Rightarrow> bool" where
  "names_group attrs groups key pre =
     (case dict_get attrs key of Some (JStr s) \<Rightarrow> pre @ s \<in> set groups | _ \<Rightarrow> False)"

definition host_ok :: "json option \<Rightarrow> host \<Rightarrow> bool" where
  "host_ok address h =
     (case h of (name, attrs, groups) \<Rightarrow>
        names_group attrs groups ''role'' ''role='' \<and>
        names_group attrs groups ''consul_dc'' ''dc='' \<and>
        address \<noteq> None \<and> dict_get attrs ''ansible_ssh_host'' = address)"

lemma names_groupI:
  assumes "collect gs = Inr groups" "dict_get attrs key = Some v" "prefixed pre v \<in> set gs"
  shows "names_group attrs groups key pre"
  using collect_mem [OF assms(1,3)] assms(2) by (auto simp: names_group_def prefixed_Inr)

text \<open>\<open>address\<close> is where in its attributes a resource of the provider has the address to connect to.\<close>

locale host_parser =
  fixes parse :: "json \<Rightarrow> json \<Rightarrow> host res"
    and address :: "attrs \<Rightarrow> json option"
  assumes parsed_ok: "parse resource module_name = Inr h \<Longrightarrow>
    \<exists>raw. raw_attributes resource = Inr raw \<and> host_ok (address raw) h"
begin

lemma decorated:
  assumes "calculate_mantl_vars parse resource module_name = Inr (name, attrs, groups)"
  shows "\<exists>raw. raw_attributes resource = Inr raw \<and> host_ok (address raw) (name, attrs, groups)"
    "dict_get attrs ''consul_is_server'' = Some (JBool (dict_get attrs ''role'' = Some (JStr ''control'')))"
    "(\<exists>v. dict_get attrs ''publicly_routable'' = Some v \<and> truthy v) \<Longrightarrow> ''publicly_routable'' \<in> set groups"
proof -
  obtain attrs0 groups0 where p: "parse resource module_name = Inr (name, attrs0, groups0)"
    and a: "attrs = dict_set attrs0 ''consul_is_server'' (JBool (get_or attrs0 ''role'' (JStr []) = JStr ''control''))"
    and gs: "groups = (if truthy (get_or attrs ''publicly_routable'' (JBool False))
                        then groups0 @ [''publicly_routable''] else groups0)"
    using assms by (auto simp: calculate_mantl_vars_def rbind_eq_Inr_iff Let_def)
  have g: "set groups0 \<subseteq> set groups" by (auto simp: gs)
  have pr: "truthy (get_or attrs ''publicly_routable'' (JBool False)) \<Longrightarrow> ''publicly_routable'' \<in> set groups"
    by (simp add: gs)
  have get: "dict_get attrs k = dict_get attrs0 k" if "k \<noteq> ''consul_is_server''" for k
    using that by (simp add: a)
  obtain raw where raw: "raw_attributes resource = Inr raw" "host_ok (address raw) (name, attrs0, groups0)"
    using parsed_ok [OF p] by blast
  then have "host_ok (address raw) (name, attrs, groups)"
    using g by (auto simp: host_ok_def names_group_def get split: option.splits json.splits)
  with raw(1) show "\<exists>raw. raw_attributes resource = Inr raw \<and> host_ok (address raw) (name, attrs, groups)"
    by blast
  show "dict_get attrs ''consul_is_server'' = Some (JBool (dict_get attrs ''role'' = Some (JStr ''control'')))"
    by (auto simp: a get_or_def split: option.splits)
  show "(\<exists>v. dict_get attrs ''publicly_routable'' = Some v \<and> truthy v) \<Longrightarrow> ''publicly_routable'' \<in> set groups"
    using pr by (auto simp: get_or_def)
qed

end

section \<open>The providers\<close>

lemma host_okI:
  assumes "collect gs = Inr groups" "dict_get attrs ''role'' = Some r" "dict_get attrs ''consul_dc'' = Some d"
    and "rbind (attr attrs ''role'') (prefixed ''role='') \<in> set gs \<or> prefixed ''role='' r \<in> set gs"
    and "rbind (attr attrs ''consul_dc'') (prefixed ''dc='') \<in> set gs"
    and "dict_get attrs ''ansible_ssh_host'' = address \<and> address \<noteq> None" "set groups \<subseteq> set groups'"
  shows "host_ok address (name, attrs, groups')"
proof -
  have "prefixed ''role='' r \<in> set gs" "prefixed ''dc='' d \<in> set gs"
    using assms(4,5) rbind_attr [OF assms(2)] rbind_attr [OF assms(3)] by metis+
  from names_groupI [OF assms(1,2) this(1)] names_groupI [OF assms(1,3) this(2)]
  have "names_group attrs groups' ''role'' ''role=''" "names_group attrs groups' ''consul_dc'' ''dc=''"
    using assms(7) by (auto simp: names_group_def split: option.splits json.splits)
  then show ?thesis using assms(6) by (simp add: host_ok_def)
qed

text \<open>The end of most parsers: the attributes are completed, then the groups are named.\<close>

lemma host_ok_finish:
  assumes up: "update_attrs a es = Inr attrs"
    and role: "map_of (rev es) ''role'' = Some r1" and dc: "map_of (rev es) ''consul_dc'' = Some r2"
    and no: "map_of (rev es) ''ansible_ssh_host'' = None"
    and gs: "collect gs = Inr groups"
    and named: "rbind (attr attrs ''role'') (prefixed ''role='') \<in> set gs \<or> prefixed ''role='' (projr r1) \<in> set gs"
      "rbind (attr attrs ''consul_dc'') (prefixed ''dc='') \<in> set gs"
    and ssh: "dict_get a ''ansible_ssh_host'' = address \<and> address \<noteq> None" and more: "set groups \<subseteq> set groups'"
  shows "host_ok address (name, attrs, groups')"
proof (rule host_okI [OF gs _ _ named _ more])
  show "dict_get attrs ''role'' = Some (projr r1)" "dict_get attrs ''consul_dc'' = Some (projr r2)"
    "dict_get attrs ''ansible_ssh_host'' = address \<and> address \<noteq> None"
    using update_attrs_get(2) [OF up] role dc no ssh by (auto split: option.splits)
qed

lemmas parser_simps = rbind_eq_Inr_iff Let_def

text \<open>An entry copied from the attributes of the resource.\<close>

lemma make_attrs_copy:
  assumes "make_attrs es = Inr d" "map_of (rev es) k = Some (attr raw j)"
  shows "dict_get d k = dict_get raw j \<and> dict_get raw j \<noteq> None"
proof -
  have "(k, attr raw j) \<in> set es" using map_of_SomeD [OF assms(2)] by simp
  then obtain v where v: "attr raw j = Inr v" using make_attrs_get(2) [OF assms(1)] by (auto simp: is_ok_iff)
  then have "dict_get raw j = Some v" by (simp add: attr_Inr)
  then show ?thesis using make_attrs_get(3) [OF assms(1), of k] assms(2) by (simp add: v)
qed

lemma update_attrs_copy:
  assumes "update_attrs a es = Inr d" "map_of (rev es) k = Some (attr raw j)"
  shows "dict_get d k = dict_get raw j \<and> dict_get raw j \<noteq> None"
proof -
  have "(k, attr raw j) \<in> set es" using map_of_SomeD [OF assms(2)] by simp
  then obtain v where v: "attr raw j = Inr v" using update_attrs_get(1) [OF assms(1)] by (auto simp: is_ok_iff)
  then have "dict_get raw j = Some v" by (simp add: attr_Inr)
  then show ?thesis using update_attrs_get(2) [OF assms(1), of k] assms(2) by (simp add: v)
qed

lemma on_key_value_error_Inr: "on_key_value_error r h = Inr x \<Longrightarrow> r = Inr x \<or> h = Inr x"
  by (auto simp: on_key_value_error_def split: sum.splits py_error.splits)

definition clc_address :: "attrs \<Rightarrow> json option" where
  "clc_address raw =
     (case dict_get raw ''public_ip_address'' of
        None \<Rightarrow> dict_get raw ''private_ip_address'' | Some ip \<Rightarrow> Some ip)"

lemma clc_guard:
  assumes "on_key_value_error
      (update_attrs a
        [(''public_ipv4'', attr raw ''public_ip_address''), (''private_ipv4'', attr raw ''private_ip_address''),
         (''ansible_ssh_host'', attr raw ''public_ip_address''), (''publicly_routable'', Inr (JBool True))])
      (update_attrs a
        [(''ansible_ssh_host'', attr raw ''private_ip_address''),
         (''private_ipv4'', attr raw ''private_ip_address'')]) = Inr d"
  shows "dict_get d ''ansible_ssh_host'' = clc_address raw \<and> clc_address raw \<noteq> None"
  using assms
  by (cases "dict_get raw ''public_ip_address''"; cases "dict_get raw ''private_ip_address''")
     (auto simp: on_key_value_error_def update_attrs_def make_attrs_def attr_def json_index_def
       clc_address_def dict_update_def)

interpretation clc: host_parser clc_server clc_address
proof
  fix r m h
  assume p: "clc_server r m = Inr h"
  show "\<exists>raw. raw_attributes r = Inr raw \<and> host_ok (clc_address raw) h"
    using p unfolding clc_server_def parser_simps
    by (elim exE conjE, clarsimp)
       (erule host_ok_finish, simp, simp, simp, assumption, simp, simp, erule clc_guard, simp)
qed

interpretation azure: host_parser "azure_host order" "\<lambda>raw. dict_get raw ''vip_address''"
proof
  fix r m h
  assume p: "azure_host order r m = Inr h"
  show "\<exists>raw. raw_attributes r = Inr raw \<and> host_ok (dict_get raw ''vip_address'') h"
    using p unfolding azure_host_def parser_simps
    by (elim exE conjE, clarsimp)
       (erule host_ok_finish, simp, simp, simp, assumption, simp, simp, erule make_attrs_copy, simp_all)
qed

interpretation softlayer: host_parser softlayer_host "\<lambda>raw. dict_get raw ''ipv4_address''"
proof
  fix r m h
  assume p: "softlayer_host r m = Inr h"
  show "\<exists>raw. raw_attributes r = Inr raw \<and> host_ok (dict_get raw ''ipv4_address'') h"
    using p unfolding softlayer_host_def parser_simps
    by (elim exE conjE, clarsimp)
       (erule host_ok_finish, simp, simp, simp, assumption, simp, simp, erule make_attrs_copy, simp_all)
qed

interpretation digitalocean: host_parser digitalocean_host "\<lambda>raw. dict_get raw ''ipv4_address''"
proof
  fix r m h
  assume p: "digitalocean_host r m = Inr h"
  show "\<exists>raw. raw_attributes r = Inr raw \<and> host_ok (dict_get raw ''ipv4_address'') h"
    using p unfolding digitalocean_host_def parser_simps
    by (elim exE conjE, clarsimp)
       (erule host_ok_finish, simp, simp, simp, assumption, simp, simp, erule make_attrs_copy, simp_all)
qed

interpretation triton: host_parser triton_machine "\<lambda>raw. dict_get raw ''primaryip''"
proof
  fix r m h
  assume p: "triton_machine r m = Inr h"
  show "\<exists>raw. raw_attributes r = Inr raw \<and> host_ok (dict_get raw ''primaryip'') h"
    using p unfolding triton_machine_def parser_simps
    by (elim exE conjE, clarsimp)
       (erule host_ok_finish, simp, simp, simp, assumption, simp, simp,
        drule make_attrs_copy [where k = "''ansible_ssh_host''" and j = "''primaryip''"], simp, simp, simp)
qed

text \<open>The devices of the volumes are stored under names of their own.\<close>

lemma volume_devices_ssh:
  "dict_get (volume_devices d raw) ''ansible_ssh_host'' = dict_get d ''ansible_ssh_host''"
proof -
  have "dict_get (fst (foldl (\<lambda>(attrs, device_index) (key, value).
         if is_volume_device key
         then (dict_set attrs (''disk_volume_device_'' @ nat_str device_index) value, device_index + 1)
         else (attrs, device_index)) st raw)) ''ansible_ssh_host'' = dict_get (fst st) ''ansible_ssh_host''" for st
    by (induction raw arbitrary: st) (auto split: prod.splits)
  then show ?thesis by (simp add: volume_devices_def)
qed

text \<open>The tag \<open>sshPrivateIp\<close> of an instance chooses its private address.\<close>

definition aws_address :: "attrs \<Rightarrow> json option" where
  "aws_address raw = dict_get raw (if dict_has raw ''tags.sshPrivateIp'' then ''private_ip'' else ''public_ip'')"

lemma aws_choice:
  assumes "make_attrs es = Inr a" "map_of (rev es) ''ansible_ssh_host'' = Some (attr raw ''public_ip'')"
    and "(if dict_has raw ''tags.sshPrivateIp''
          then rmap (dict_set a' ''ansible_ssh_host'') (attr raw ''private_ip'') else Inr a') = Inr d"
    and "dict_get a' ''ansible_ssh_host'' = dict_get a ''ansible_ssh_host''"
  shows "dict_get d ''ansible_ssh_host'' = aws_address raw \<and> aws_address raw \<noteq> None"
  using make_attrs_copy [OF assms(1,2)] assms(3,4)
  by (auto simp: aws_address_def rmap_eq_Inr_iff attr_Inr split: if_splits)

interpretation aws: host_parser "aws_host order" aws_address
proof
  fix r m h
  assume p: "aws_host order r m = Inr h"
  show "\<exists>raw. raw_attributes r = Inr raw \<and> host_ok (aws_address raw) h"
    using p unfolding aws_host_def parser_simps
    by (elim exE conjE, clarsimp simp del: if_split)
       (erule host_ok_finish, simp, simp, simp, assumption, simp, simp,
        erule aws_choice, simp, assumption, simp split: option.split, simp)
qed

text \<open>A guarded update whose first branch copies an attribute that is there.\<close>

lemma openstack_guard:
  assumes "on_key_value_error
      (update_attrs a [(''ansible_ssh_host'', attr raw ''access_ip_v4''), (''publicly_routable'', Inr (JBool True))])
      (update_attrs a [(''ansible_ssh_host'', Inr (JStr [])), (''publicly_routable'', Inr (JBool False))]) = Inr d"
    and "make_attrs es = Inr a0" "map_of (rev es) ''access_ip_v4'' = Some (attr raw ''access_ip_v4'')"
  shows "dict_get d ''ansible_ssh_host'' = dict_get raw ''access_ip_v4'' \<and> dict_get raw ''access_ip_v4'' \<noteq> None"
  using assms(1) make_attrs_copy [OF assms(2,3)]
  by (auto simp: on_key_value_error_def update_attrs_def make_attrs_def attr_def json_index_def dict_update_def)

interpretation openstack: host_parser "openstack_host order" "\<lambda>raw. dict_get raw ''access_ip_v4''"
proof
  fix r m h
  assume p: "openstack_host order r m = Inr h"
  show "\<exists>raw. raw_attributes r = Inr raw \<and> host_ok (dict_get raw ''access_ip_v4'') h"
    using p unfolding openstack_host_def parser_simps
    by (elim exE conjE, clarsimp)
       (erule host_ok_finish, simp, simp, simp, assumption, simp, simp,
        drule openstack_guard, assumption, simp,
        auto split: if_splits option.splits simp: rmap_eq_Inr_iff volume_devices_ssh)
qed

text \<open>A guarded update: the attributes neither branch names are kept.\<close>

lemma guarded_update:
  assumes "on_key_value_error (update_attrs a es1) (update_attrs a es2) = Inr attrs"
  shows "map_of (rev es1) k = None \<Longrightarrow> map_of (rev es2) k = None \<Longrightarrow> dict_get attrs k = dict_get a k"
  using on_key_value_error_Inr [OF assms] by (auto simp: update_attrs_get(2))

lemma update_role_dc:
  assumes "update_attrs a [(''consul_dc'', d), (''role'', r), (''ansible_python_interpreter'', p)] = Inr attrs"
  shows "dict_get attrs ''role'' = Some (projr r)" "dict_get attrs ''consul_dc'' = Some (projr d)"
    "dict_get attrs ''ansible_ssh_host'' = dict_get a ''ansible_ssh_host''"
  using update_attrs_get(2) [OF assms] by simp_all

text \<open>
  The address of a Compute Engine instance is that of the first access configuration of its first
  interface, first in the order of Python's dictionaries; it is empty when one of the entries the
  parser asks for next to it is missing.
\<close>

definition gce_interfaces :: "key_order \<Rightarrow> attrs \<Rightarrow> attrs list res" where
  "gce_interfaces order raw =
     rbind (parse_attr_list order raw ''network_interface'' (CHR ''.'')) (rmapM (gce_interface order))"

definition gce_address :: "key_order \<Rightarrow> attrs \<Rightarrow> json option" where
  "gce_address order raw =
     Some (case rbind (gce_interfaces order raw) (\<lambda>interfaces.
             rbind (nat_ip interfaces) (\<lambda>ip.
             rbind (rbind (first_of interfaces) (\<lambda>i. attr i ''address'')) (\<lambda>_. Inr ip))) of
           Inl e \<Rightarrow> JStr [] | Inr ip \<Rightarrow> ip)"

lemma gce_guard:
  assumes "on_key_value_error
      (update_attrs a
        [(''ansible_ssh_host'', nat_ip interfaces), (''public_ipv4'', nat_ip interfaces),
         (''private_ipv4'', rbind (first_of interfaces) (\<lambda>i. attr i ''address'')),
         (''publicly_routable'', Inr (JBool True))])
      (update_attrs a
        [(''ansible_ssh_host'', Inr (JStr [])), (''publicly_routable'', Inr (JBool False))]) = Inr d"
    and "gce_interfaces order raw = Inr interfaces"
  shows "dict_get d ''ansible_ssh_host'' = gce_address order raw"
  using assms
  by (cases "nat_ip interfaces"; cases "rbind (first_of interfaces) (\<lambda>i. attr i ''address'')")
     (auto simp: gce_address_def on_key_value_error_def update_attrs_def make_attrs_def dict_update_def
       split: py_error.splits)

interpretation gce: host_parser "gce_host order" "gce_address order"
proof
  fix r m h
  assume p: "gce_host order r m = Inr h"
  then obtain raw interfaces a1 a2 attrs disks groups where raw: "raw_attributes r = Inr raw"
    and i: "gce_interfaces order raw = Inr interfaces"
    and u: "update_attrs a1
      [(''consul_dc'', rmap JStr (clean_dc (get_or (parse_dict raw ''metadata'' (CHR ''.'')) ''dc'' m))),
       (''role'', Inr (get_or (parse_dict raw ''metadata'' (CHR ''.'')) ''role'' (JStr ''none''))),
       (''ansible_python_interpreter'',
        Inr (get_or (parse_dict raw ''metadata'' (CHR ''.'')) ''python_bin'' (JStr ''python'')))] = Inr a2"
    and g: "on_key_value_error
        (update_attrs a2
          [(''ansible_ssh_host'', nat_ip interfaces), (''public_ipv4'', nat_ip interfaces),
           (''private_ipv4'', rbind (first_of interfaces) (\<lambda>i. attr i ''address'')),
           (''publicly_routable'', Inr (JBool True))])
        (update_attrs a2
          [(''ansible_ssh_host'', Inr (JStr [])), (''publicly_routable'', Inr (JBool False))]) = Inr attrs"
    and gs: "\<exists>names. collect (names @
        [prefixed ''role='' (get_or (parse_dict raw ''metadata'' (CHR ''.'')) ''role'' (JStr ''none'')),
         rbind (attr attrs ''consul_dc'') (prefixed ''dc='')]) = Inr groups"
    and h: "\<exists>name. h = (name, attrs, groups)"
    unfolding gce_host_def gce_interfaces_def parser_simps append_assoc [symmetric] by (elim exE conjE) blast
  note k = guarded_update [OF g]
  obtain names where "collect (names @
      [prefixed ''role='' (get_or (parse_dict raw ''metadata'' (CHR ''.'')) ''role'' (JStr ''none'')),
       rbind (attr attrs ''consul_dc'') (prefixed ''dc='')]) = Inr groups"
    using gs by blast
  then have "host_ok (gce_address order raw) (name, attrs, groups)" for name
  proof (rule host_okI)
    show "dict_get attrs ''role'' = Some (get_or (parse_dict raw ''metadata'' (CHR ''.'')) ''role'' (JStr ''none''))"
      using update_role_dc(1) [OF u] k [of "''role''"] by simp
    show "dict_get attrs ''consul_dc'' =
        Some (projr (rmap JStr (clean_dc (get_or (parse_dict raw ''metadata'' (CHR ''.'')) ''dc'' m))))"
      using update_role_dc(2) [OF u] k [of "''consul_dc''"] by simp
    show "dict_get attrs ''ansible_ssh_host'' = gce_address order raw \<and> gce_address order raw \<noteq> None"
      using gce_guard [OF g i] by (simp add: gce_address_def)
  qed simp_all
  then show "\<exists>raw. raw_attributes r = Inr raw \<and> host_ok (gce_address order raw) h" using raw h by blast
qed

text \<open>The first interface of a vSphere machine, and the address it prefers.\<close>

definition vsphere_address :: "attrs \<Rightarrow> json option" where
  "vsphere_address raw =
     (let network = parse_dict (parse_dict raw ''network_interface'' (CHR ''.'')) ''0'' (CHR ''.'')
      in case dict_get network ''ipv4_address'' of None \<Rightarrow> dict_get network ''ip_address'' | Some ip \<Rightarrow> Some ip)"

lemma vsphere_guard:
  assumes "on_key_value_error (update_attrs a [(''ansible_ssh_host'', Inr ip)])
      (update_attrs a [(''ansible_ssh_host'', Inr (JStr []))]) = Inr d"
    and "rmap (get_or (parse_dict (parse_dict raw ''network_interface'' (CHR ''.'')) ''0'' (CHR ''.'')) ''ipv4_address'')
      (attr (parse_dict (parse_dict raw ''network_interface'' (CHR ''.'')) ''0'' (CHR ''.'')) ''ip_address'') = Inr ip"
  shows "dict_get d ''ansible_ssh_host'' = vsphere_address raw \<and> vsphere_address raw \<noteq> None"
proof -
  have "update_attrs a [(''ansible_ssh_host'', Inr ip)] = Inr (dict_set a ''ansible_ssh_host'' ip)"
    by (simp add: update_attrs_def make_attrs_def dict_update_def)
  with assms(1) have "dict_get d ''ansible_ssh_host'' = Some ip" by (auto simp: on_key_value_error_def)
  with assms(2) show ?thesis
    by (auto simp: vsphere_address_def Let_def rmap_eq_Inr_iff attr_Inr get_or_def split: option.splits)
qed

interpretation vsphere: host_parser vsphere_host vsphere_address
proof
  fix r m h
  assume p: "vsphere_host r m = Inr h"
  then obtain raw ip a1 a2 a3 attrs metadata groups d ro py where raw: "raw_attributes r = Inr raw"
    and ip: "rmap (get_or (parse_dict (parse_dict raw ''network_interface'' (CHR ''.'')) ''0'' (CHR ''.'')) ''ipv4_address'')
      (attr (parse_dict (parse_dict raw ''network_interface'' (CHR ''.'')) ''0'' (CHR ''.'')) ''ip_address'') = Inr ip"
    and g: "on_key_value_error (update_attrs a1 [(''ansible_ssh_host'', Inr ip)])
      (update_attrs a1 [(''ansible_ssh_host'', Inr (JStr []))]) = Inr a2"
    and u: "update_attrs a2 [(''consul_dc'', d), (''role'', ro), (''ansible_python_interpreter'', py)] = Inr a3"
    and a: "attrs = (case dict_get metadata ''ssh_user'' of
        Some u \<Rightarrow> dict_set a3 ''ansible_ssh_user'' u | None \<Rightarrow> a3)"
    and gs: "collect [rbind (attr attrs ''role'') (prefixed ''role=''),
        rbind (attr attrs ''consul_dc'') (prefixed ''dc='')] = Inr groups"
    and h: "\<exists>name. h = (name, attrs, groups)"
    unfolding vsphere_host_def parser_simps by (elim exE conjE) blast
  have get: "dict_get attrs k = dict_get a3 k" if "k \<noteq> ''ansible_ssh_user''" for k
    using that by (simp add: a split: option.split)
  have "host_ok (vsphere_address raw) (name, attrs, groups)" for name
    using gs update_role_dc [OF u] vsphere_guard [OF g ip] by (elim host_okI) (simp_all add: get)
  then show "\<exists>raw. raw_attributes r = Inr raw \<and> host_ok (vsphere_address raw) h" using raw h by blast
qed

section \<open>The address of a resource\<close>

text \<open>Where a resource has the address to connect to, by its type.\<close>

definition connect_address :: "key_order \<Rightarrow> string \<Rightarrow> attrs \<Rightarrow> json option" where
  "connect_address order resource_type raw =
     (if resource_type = ''triton_machine'' then dict_get raw ''primaryip''
      else if resource_type = ''digitalocean_droplet'' then dict_get raw ''ipv4_address''
      else if resource_type = ''softlayer_virtualserver'' then dict_get raw ''ipv4_address''
      else if resource_type = ''openstack_compute_instance_v2'' then dict_get raw ''access_ip_v4''
      else if resource_type = ''aws_instance'' then aws_address raw
      else if resource_type = ''google_compute_instance'' then gce_address order raw
      else if resource_type = ''vsphere_virtual_machine'' then vsphere_address raw
      else if resource_type = ''azure_instance'' then dict_get raw ''vip_address''
      else if resource_type = ''clc_server'' then clc_address raw
      else None)"

lemma registered:
  assumes "dict_get (PARSERS order) t = Some parser"
  shows "\<exists>f. parser = calculate_mantl_vars f \<and> host_parser f (connect_address order t)"
  using assms clc.host_parser_axioms azure.host_parser_axioms [of order] softlayer.host_parser_axioms
    digitalocean.host_parser_axioms triton.host_parser_axioms aws.host_parser_axioms [of order]
    openstack.host_parser_axioms [of order] gce.host_parser_axioms [of order] vsphere.host_parser_axioms
  by (auto simp: PARSERS_def connect_address_def [abs_def] split: if_splits)

end
