(* ===== verification/Terraform_Query.thy ===== *)
theory Terraform_Query
  imports Terraform_Contract
begin

text \<open>
  The inventory of \<open>contrib/terraform/terraform.py\<close>: the state files below a root, the resources in
  them, the hosts, and the three queries of the command line. The generators are streams, lists of
  results that a consumer reads up to the first exception; what comes after it is never looked at.
  The file system is an argument: what \<open>os.walk\<close> lists and what a file holds. A Python 2 dictionary
  is iterated in the order its entries were stored in, except for the lists of blocks, whose order is a
  parameter: elsewhere the order reaches the output only as the order of its keys and groups.
\<close>

section \<open>Streams\<close>

type_synonym 'a stream = "'a res list"

definition stream_bind :: "'a stream \<Rightarrow> ('a \<Rightarrow> 'b stream) \<Rightarrow> 'b stream" where
  "stream_bind s f = concat (map (\<lambda>r. case r of Inl e \<Rightarrow> [Inl e] | Inr x \<Rightarrow> f x) s)"

section \<open>State files and resources\<close>

text \<open>\<open>os.path.splitext(name)[-1]\<close> for a name without a slash: leading dots start no extension.\<close>

definition splitext_ext :: "string \<Rightarrow> string" where
  "splitext_ext name =
     (let d = dropWhile (\<lambda>c. c = CHR ''.'') name
      in if CHR ''.'' \<in> set d then CHR ''.'' # rev (takeWhile (\<lambda>c. c \<noteq> CHR ''.'') (rev d)) else [])"

definition tfstates :: "(string \<Rightarrow> (string \<times> string list) list) \<Rightarrow> string \<Rightarrow> string \<Rightarrow> string list" where
  "tfstates walk cwd root =
     concat (map (\<lambda>(dirpath, filenames).
         map (path_join dirpath) (filter (\<lambda>name. splitext_ext name = ''.tfstate'') filenames))
       (walk (if root = [] then cwd else root)))"

text \<open>\<open>v[-1]\<close>.\<close>

definition json_last :: "json \<Rightarrow> json res" where
  "json_last v =
     (case v of
        JList xs \<Rightarrow> if xs = [] then Inl IndexError else Inr (last xs)
      | JStr s \<Rightarrow> if s = [] then Inl IndexError else Inr (JStr [last s])
      | JDict d \<Rightarrow> Inl (KeyError ''-1'')
      | _ \<Rightarrow> Inl TypeError)"

definition module_resources :: "json \<Rightarrow> (json \<times> string \<times> json) stream" where
  "module_resources m =
     (case rbind (json_index m ''path'') json_last of
        Inl e \<Rightarrow> [Inl e]
      | Inr name \<Rightarrow>
          (case rbind (json_index m ''resources'') json_items of
             Inl e \<Rightarrow> [Inl e]
           | Inr items \<Rightarrow> map (\<lambda>(key, resource). Inr (name, key, resource)) items))"

definition file_resources :: "(string \<rightharpoonup> string) \<Rightarrow> string \<Rightarrow> (json \<times> string \<times> json) stream" where
  "file_resources files filename =
     (case files filename of
        None \<Rightarrow> [Inl (IOError filename)]
      | Some text \<Rightarrow>
          (case rbind (json_loads text) (\<lambda>state. rbind (json_index state ''modules'') json_iter) of
             Inl e \<Rightarrow> [Inl e]
           | Inr modules \<Rightarrow> concat (map module_resources modules)))"

definition iterresources :: "(string \<rightharpoonup> string) \<Rightarrow> string list \<Rightarrow> (json \<times> string \<times> json) stream" where
  "iterresources files filenames = concat (map (file_resources files) filenames)"

section \<open>Hosts\<close>

definition split_key :: "string \<Rightarrow> (string \<times> string) res" where
  "split_key key =
     (case split_once (CHR ''.'') key of
        None \<Rightarrow> Inl (ValueError ''need more than 1 value to unpack'')
      | Some p \<Rightarrow> Inr p)"

definition iterhosts :: "key_order \<Rightarrow> (json \<times> string \<times> json) stream \<Rightarrow> host stream" where
  "iterhosts order resources =
     stream_bind resources (\<lambda>(module_name, key, resource).
       case split_key key of
         Inl e \<Rightarrow> [Inl e]
       | Inr (resource_type, name) \<Rightarrow>
           (case dict_get (PARSERS order) resource_type of
              None \<Rightarrow> []
            | Some parser \<Rightarrow> [parser resource module_name]))"

definition iterips :: "(json \<times> string \<times> json) stream \<Rightarrow> (json \<times> json) stream" where
  "iterips resources =
     stream_bind resources (\<lambda>(module_name, key, resource).
       case split_key key of
         Inl e \<Rightarrow> [Inl e]
       | Inr (resource_type, name) \<Rightarrow>
           if resource_type = ''openstack_compute_floatingip_associate_v2''
           then [openstack_floating_ips resource] else [])"

text \<open>A dictionary key must be hashable: no list and no dictionary.\<close>

definition hashable :: "json \<Rightarrow> bool" where
  "hashable v = (case v of JList xs \<Rightarrow> False | JDict d \<Rightarrow> False | _ \<Rightarrow> True)"

definition ips_dict :: "(json \<times> json) stream \<Rightarrow> (json, json) dict res" where
  "ips_dict s =
     rfold (\<lambda>d r. rbind r (\<lambda>(k, v). if hashable k then Inr (dict_set d k v) else Inl TypeError)) [] s"

definition host_with_ip :: "(json, json) dict \<Rightarrow> host \<Rightarrow> host res" where
  "host_with_ip ips host =
     (case host of (name, attrs, groups) \<Rightarrow>
        rbind (attr attrs ''id'') (\<lambda>host_id.
          if \<not> hashable host_id then Inl TypeError
          else (case dict_get ips host_id of
                  None \<Rightarrow> Inr host
                | Some ip \<Rightarrow>
                    Inr (name, dict_update attrs
                      [(''access_ip_v4'', ip), (''public_ipv4'', ip), (''ansible_ssh_host'', ip)], groups))))"

definition iter_host_ips :: "host stream \<Rightarrow> (json, json) dict \<Rightarrow> host stream" where
  "iter_host_ips hosts ips = stream_bind hosts (\<lambda>host. [host_with_ip ips host])"

section \<open>Queries\<close>

fun query_host :: "host stream \<Rightarrow> string \<Rightarrow> attrs res" where
  "query_host [] target = Inr []"
| "query_host (Inl e # hosts) target = Inl e"
| "query_host (Inr (name, attrs, groups) # hosts) target =
     (if name = JStr target then Inr attrs else query_host hosts target)"

text \<open>\<open>set(hostgroups)\<close>: each group once.\<close>

fun dedup :: "string list \<Rightarrow> string list" where
  "dedup [] = []"
| "dedup (g # gs) = g # filter (\<lambda>h. h \<noteq> g) (dedup gs)"

type_synonym listing = "(string, json list) dict \<times> (json, attrs) dict"

definition join_group :: "json \<Rightarrow> (string, json list) dict \<Rightarrow> string \<Rightarrow> (string, json list) dict" where
  "join_group name groups grp =
     dict_set groups grp ((case dict_get groups grp of None \<Rightarrow> [] | Some hs \<Rightarrow> hs) @ [name])"

definition list_host :: "listing \<Rightarrow> host res \<Rightarrow> listing res" where
  "list_host st r =
     (case st of (groups, meta) \<Rightarrow>
        rbind r (\<lambda>(name, attrs, hostgroups).
          if \<not> hashable name then Inl TypeError
          else Inr (foldl (join_group name) groups (dedup hostgroups), dict_set meta name attrs)))"

definition query_list :: "host stream \<Rightarrow> listing res" where
  "query_list hosts = rfold list_host ([], []) hosts"

text \<open>A dictionary key in JSON output.\<close>

definition key_text :: "json \<Rightarrow> string" where
  "key_text v =
     (case v of JStr s \<Rightarrow> s | JNull \<Rightarrow> ''null'' | JBool b \<Rightarrow> (if b then ''true'' else ''false'')
      | JInt i \<Rightarrow> int_str i | JFloat t \<Rightarrow> t | _ \<Rightarrow> [])"

definition listing_json :: "listing \<Rightarrow> attrs" where
  "listing_json l =
     (case l of (groups, meta) \<Rightarrow>
        dict_set (map (\<lambda>(g, hs). (g, JDict [(''hosts'', JList hs)])) groups) ''_meta''
          (JDict [(''hostvars'', JDict (map (\<lambda>(n, a). (key_text n, JDict a)) meta))]))"

definition ljust :: "nat \<Rightarrow> string \<Rightarrow> string" where
  "ljust n s = s @ replicate (n - length s) (CHR '' '')"

definition hostfile_line :: "host res \<Rightarrow> string res" where
  "hostfile_line r =
     rbind r (\<lambda>(name, attrs, groups).
     rbind (attr attrs ''ansible_ssh_host'') (\<lambda>v.
     rbind (method_str v) (\<lambda>s. Inr (ljust 16 s @ [CHR 0x09] @ py_format ''u'' name))))"

definition query_hostfile :: "host stream \<Rightarrow> string res" where
  "query_hostfile hosts =
     rmap (\<lambda>lines. str_join [CHR 0x0A]
         ([''## begin hosts generated by terraform.py ##''] @ lines @
          [''## end hosts generated by terraform.py ##'']))
       (rmapM hostfile_line hosts)"

section \<open>The command line\<close>

record tf_args =
  a_list :: bool
  a_host :: "string option"
  a_version :: bool
  a_hostfile :: bool
  a_pretty :: bool
  a_nometa :: bool
  a_root :: string

definition tf_version :: string where
  "tf_version = ''0.3.0pre''"

text \<open>What \<open>main\<close> prints, on the parsed arguments; \<open>print\<close> ends the text with a newline.\<close>

definition tf_main :: "key_order \<Rightarrow> tf_args \<Rightarrow> string \<Rightarrow> (string \<Rightarrow> (string \<times> string list) list) \<Rightarrow> string
     \<Rightarrow> (string \<rightharpoonup> string) \<Rightarrow> string res" where
  "tf_main order args this_file walk cwd files =
     (if a_version args then Inr (this_file @ '' '' @ tf_version @ [CHR 0x0A])
      else
        let resources = iterresources files (tfstates walk cwd (a_root args));
            hosts = iterhosts order resources;
            indent = (if a_pretty args then Some 4 else None)
        in rbind (ips_dict (iterips resources)) (\<lambda>ips.
             let hosts = (if ips \<noteq> [] then iter_host_ips hosts ips else hosts)
             in if a_list args then
                  rmap (\<lambda>l. json_dumps indent
                       (JDict (if a_nometa args then dict_del (listing_json l) ''_meta'' else listing_json l)) @
                     [CHR 0x0A])
                    (query_list hosts)
                else (case a_host args of
                    Some target \<Rightarrow>
                      if target \<noteq> [] then
                        rmap (\<lambda>attrs. json_dumps indent (JDict attrs) @ [CHR 0x0A]) (query_host hosts target)
                      else if a_hostfile args then rmap (\<lambda>s. s @ [CHR 0x0A]) (query_hostfile hosts)
                      else Inr []
                  | None \<Rightarrow>
                      if a_hostfile args then rmap (\<lambda>s. s @ [CHR 0x0A]) (query_hostfile hosts)
                      else Inr [])))"

end
