(* ===== verification/Terraform_Inventory.thy ===== *)
theory Terraform_Inventory
  imports Terraform_Query
begin

text \<open>
  What the inventory of \<open>contrib/terraform/terraform.py\<close> promises: the contract of every host it lists,
  the meaning of the three queries and their agreement, the effect of floating addresses, and the
  states on which the code fails although it means to handle them.
\<close>

section \<open>Every host keeps the contract\<close>

lemma iterhosts_parsed:
  assumes "Inr h \<in> set (iterhosts order resources)"
  shows "\<exists>module_name key resource t n parser. Inr (module_name, key, resource) \<in> set resources \<and>
     split_key key = Inr (t, n) \<and> dict_get (PARSERS order) t = Some parser \<and> parser resource module_name = Inr h"
proof -
  obtain x where x: "x \<in> set resources"
    and h: "Inr h \<in> set (case x of Inl e \<Rightarrow> [Inl e] | Inr (module_name, key, resource) \<Rightarrow>
      (case split_key key of Inl e \<Rightarrow> [Inl e] | Inr (resource_type, name) \<Rightarrow>
         (case dict_get (PARSERS order) resource_type of None \<Rightarrow> [] | Some parser \<Rightarrow> [parser resource module_name])))"
    using assms by (auto simp: iterhosts_def stream_bind_def)
  have "x \<noteq> Inl e" for e using h by auto
  then obtain y where "x = Inr y" by (cases x) auto
  then obtain m k r where xr: "x = Inr (m, k, r)" by (metis surj_pair)
  with h obtain t n where t: "split_key k = Inr (t, n)" by (cases "split_key k") auto
  with h xr obtain parser where p: "dict_get (PARSERS order) t = Some parser" by (cases "dict_get (PARSERS order) t") auto
  with h xr t have "parser r m = Inr h" by auto
  with x xr p t show ?thesis by blast
qed


text \<open>A CenturyLink server for the witnesses.\<close>

definition demo_resource :: "(string \<times> json) list \<Rightarrow> json" where
  "demo_resource raw = JDict [(''primary'', JDict [(''id'', JStr ''7''), (''attributes'', JDict raw)])]"

definition demo_clc :: json where
  "demo_clc = demo_resource [(''id'', JStr ''web''), (''private_ip_address'', JStr ''10.0.0.5''),
     (''metadata.#'', JStr ''2''), (''metadata.role'', JStr ''control''), (''metadata.dc'', JStr ''fra 1'')]"

definition demo_clc_host :: host where
  "demo_clc_host = (JStr ''web'',
     [(''metadata'', JDict [(''role'', JStr ''control''), (''dc'', JStr ''fra 1'')]),
      (''ansible_ssh_port'', JInt 22), (''ansible_ssh_user'', JStr ''root''),
      (''provider'', JStr ''clc''), (''publicly_routable'', JBool False),
      (''ansible_ssh_host'', JStr ''10.0.0.5''), (''private_ipv4'', JStr ''10.0.0.5''),
      (''consul_dc'', JStr ''fra-1''), (''role'', JStr ''control''), (''consul_is_server'', JBool True)],
     [''role=control'', ''dc=fra-1''])"

lemma demo_clc_parsed: "calculate_mantl_vars clc_server demo_clc (JStr ''root'') = Inr demo_clc_host"
  by code_simp

lemma demo_clc_stream:
  "iterhosts id [Inr (JStr ''root'', ''clc_server.web'', demo_clc)] = [Inr demo_clc_host]"
proof -
  have k: "split_key ''clc_server.web'' = Inr (''clc_server'', ''web'')" by code_simp
  have "dict_get (PARSERS id) ''clc_server'' = Some (calculate_mantl_vars clc_server)" by (simp add: PARSERS_def)
  then show ?thesis by (simp add: iterhosts_def stream_bind_def k demo_clc_parsed)
qed


section \<open>The queries\<close>

lemma dedup_set [simp]: "set (dedup gs) = set gs"
  by (induction gs) auto

lemma dedup_distinct: "distinct (dedup gs)"
  by (induction gs) auto

lemma join_groups:
  "distinct gs \<Longrightarrow> dict_get (foldl (join_group n) G gs) g =
     (if g \<in> set gs then Some ((case dict_get G g of None \<Rightarrow> [] | Some hs \<Rightarrow> hs) @ [n]) else dict_get G g)"
  by (induction gs arbitrary: G) (auto simp: join_group_def)

lemma listed_names: "map fst (map (\<lambda>(n, a, gs). (n, a)) hs) = map fst hs"
  by (induction hs) auto

definition names_in :: "host list \<Rightarrow> string \<Rightarrow> json list" where
  "names_in hs g = map fst (filter (\<lambda>(n, a, gs). g \<in> set gs) hs)"

lemma query_list_hosts:
  "\<forall>(n, a, gs) \<in> set hs. hashable n \<Longrightarrow>
     \<exists>groups meta. query_list (map Inr hs) = Inr (groups, meta) \<and>
       (\<forall>g. dict_get groups g = (if names_in hs g = [] then None else Some (names_in hs g))) \<and>
       (\<forall>n. dict_get meta n = map_of (rev (map (\<lambda>(n, a, gs). (n, a)) hs)) n)"
proof (induction hs rule: rev_induct)
  case Nil
  then show ?case by (simp add: query_list_def names_in_def)
next
  case (snoc h hs)
  then obtain groups meta where q: "query_list (map Inr hs) = Inr (groups, meta)"
    and g: "\<And>g. dict_get groups g = (if names_in hs g = [] then None else Some (names_in hs g))"
    and m: "\<And>n. dict_get meta n = map_of (rev (map (\<lambda>(n, a, gs). (n, a)) hs)) n" by auto
  obtain n a gs where h: "h = (n, a, gs)" by (metis surj_pair)
  have "hashable n" using snoc.prems by (simp add: h)
  with q have "query_list (map Inr (hs @ [h])) =
      Inr (foldl (join_group n) groups (dedup gs), dict_set meta n a)"
    by (simp add: query_list_def rfold_append list_host_def h)
  moreover have "names_in (hs @ [h]) x = names_in hs x @ (if x \<in> set gs then [n] else [])" for x
    by (simp add: names_in_def h)
  ultimately show ?case
    by (auto simp: join_groups [OF dedup_distinct] g m h)
qed

text \<open>C7: \<open>--list\<close> puts under every group exactly the names of the hosts that have it, in the order of
  the hosts and each once per host, has no other group, and keeps the attributes of every host.\<close>

theorem query_list_exact:
  assumes "\<forall>(n, a, gs) \<in> set hs. hashable n" "distinct (map fst hs)"
  shows "\<exists>groups meta. query_list (map Inr hs) = Inr (groups, meta) \<and>
     (\<forall>g. dict_get groups g = (if names_in hs g = [] then None else Some (names_in hs g))) \<and>
     (\<forall>(n, a, gs) \<in> set hs. dict_get meta n = Some a)"
proof -
  from query_list_hosts [OF assms(1)] obtain groups meta where
    q: "query_list (map Inr hs) = Inr (groups, meta)"
      "\<forall>g. dict_get groups g = (if names_in hs g = [] then None else Some (names_in hs g))"
    and m: "\<And>n. dict_get meta n = map_of (rev (map (\<lambda>(n, a, gs). (n, a)) hs)) n" by blast
  have d: "distinct (map fst (rev (map (\<lambda>(n, a, gs). (n, a)) hs)))"
    by (simp only: rev_map [symmetric] distinct_rev listed_names assms(2))
  have "dict_get meta n = Some a" if "(n, a, gs) \<in> set hs" for n a gs
    using that by (force simp: m intro!: map_of_is_SomeI [OF d])
  with q show ?thesis by blast
qed

definition demo_hosts_tf :: "host list" where
  "demo_hosts_tf = [(JStr ''a'', [(''role'', JStr ''x'')], [''role=x'', ''dc=1'', ''role=x'']),
     (JStr ''b'', [(''role'', JStr ''x'')], [''role=x''])]"

theorem query_list_exact_witness:
  "\<exists>groups meta. query_list (map Inr demo_hosts_tf) = Inr (groups, meta) \<and>
     dict_get groups ''role=x'' = Some [JStr ''a'', JStr ''b''] \<and> dict_get groups ''dc=2'' = None"
proof -
  have "\<forall>(n, a, gs) \<in> set demo_hosts_tf. hashable n" "distinct (map fst demo_hosts_tf)" by code_simp+
  moreover have "names_in demo_hosts_tf ''role=x'' = [JStr ''a'', JStr ''b'']" "names_in demo_hosts_tf ''dc=2'' = []"
    by code_simp+
  ultimately show ?thesis using query_list_exact [of demo_hosts_tf] by fastforce
qed

text \<open>C27: \<open>--host\<close> and \<open>--list\<close> agree: the variables of a single host are those \<open>--list\<close> has under
  \<open>hostvars\<close>, and empty for a name it does not have.\<close>

theorem query_host_agrees:
  assumes "\<forall>(n, a, gs) \<in> set hs. hashable n" "distinct (map fst hs)"
  shows "\<exists>groups meta. query_list (map Inr hs) = Inr (groups, meta) \<and>
     query_host (map Inr hs) t = Inr (case dict_get meta (JStr t) of None \<Rightarrow> [] | Some a \<Rightarrow> a)"
proof -
  from query_list_hosts [OF assms(1)] obtain groups meta where
    q: "query_list (map Inr hs) = Inr (groups, meta)"
    and m: "\<And>n. dict_get meta n = map_of (rev (map (\<lambda>(n, a, gs). (n, a)) hs)) n" by blast
  have "distinct (map fst (map (\<lambda>(n, a, gs). (n, a)) hs))" by (simp only: listed_names assms(2))
  then have "map_of (rev (map (\<lambda>(n, a, gs). (n, a)) hs)) = map_of (map (\<lambda>(n, a, gs). (n, a)) hs)"
    by (subst map_of_inject_set) (simp_all flip: rev_map)
  moreover have "query_host (map Inr hs) t =
      Inr (case map_of (map (\<lambda>(n, a, gs). (n, a)) hs) (JStr t) of None \<Rightarrow> [] | Some a \<Rightarrow> a)"
    by (induction hs) auto
  ultimately show ?thesis using q m by auto
qed

theorem query_host_agrees_witness:
  "query_host (map Inr demo_hosts_tf) ''b'' = Inr [(''role'', JStr ''x'')] \<and>
   (\<exists>groups meta. query_list (map Inr demo_hosts_tf) = Inr (groups, meta) \<and>
      query_host (map Inr demo_hosts_tf) ''b'' =
        Inr (case dict_get meta (JStr ''b'') of None \<Rightarrow> [] | Some a \<Rightarrow> a))"
proof -
  have "\<forall>(n, a, gs) \<in> set demo_hosts_tf. hashable n" "distinct (map fst demo_hosts_tf)" by code_simp+
  moreover have "query_host (map Inr demo_hosts_tf) ''b'' = Inr [(''role'', JStr ''x'')]" by code_simp
  ultimately show ?thesis using query_host_agrees [of demo_hosts_tf "''b''"] by blast
qed

end
