(* ===== verification/Terraform_Floating.thy ===== *)
theory Terraform_Floating
  imports Terraform_Inventory
begin

text \<open>
  The second pass of \<open>contrib/terraform/terraform.py\<close>: floating addresses and the hosts they reach, the
  text \<open>--list\<close> prints, and the states on which a parser or a query fails although the code has a
  branch that means to handle them.
\<close>

section \<open>Floating addresses\<close>

definition address_keys :: "string list" where
  "address_keys = [''access_ip_v4'', ''public_ipv4'', ''ansible_ssh_host'']"

text \<open>A floating address changes the three address attributes of the host whose id it names and
  nothing else; a host no floating address names is passed on as it is; names, groups and the order of
  the hosts never change.\<close>

lemma floating_ip_applied:
  assumes "host_with_ip ips (name, attrs, groups) = Inr (name', attrs', groups')"
  shows "name' = name \<and> groups' = groups \<and>
     (case rbind (attr attrs ''id'') (\<lambda>i. Inr (dict_get ips i)) of
        Inl e \<Rightarrow> False
      | Inr None \<Rightarrow> attrs' = attrs
      | Inr (Some ip) \<Rightarrow> \<forall>k. dict_get attrs' k = (if k \<in> set address_keys then Some ip else dict_get attrs k))"
  using assms
  by (auto simp: host_with_ip_def address_keys_def dict_update_def rbind_eq_Inr_iff split: if_splits option.splits)

section \<open>Hosts without an id\<close>

lemma make_attrs_none: "make_attrs es = Inr d \<Longrightarrow> map_of (rev es) k = None \<Longrightarrow> dict_get d k = None"
  by (simp add: make_attrs_get(3))

lemma update_attrs_none:
  "update_attrs d es = Inr d' \<Longrightarrow> map_of (rev es) k = None \<Longrightarrow> dict_get d k = None \<Longrightarrow> dict_get d' k = None"
  by (simp add: update_attrs_get(2))

lemma clc_no_id: "clc_server r m = Inr (name, attrs, groups) \<Longrightarrow> dict_get attrs ''id'' = None"
  unfolding clc_server_def parser_simps
  by (elim exE conjE, clarsimp)
     (auto dest!: on_key_value_error_Inr make_attrs_none [where k = "''id''"]
        update_attrs_none [where k = "''id''"])

lemma gce_no_id: "gce_host order r m = Inr (name, attrs, groups) \<Longrightarrow> dict_get attrs ''id'' = None"
  unfolding gce_host_def parser_simps
  by (elim exE conjE, clarsimp)
     (auto dest!: on_key_value_error_Inr make_attrs_none [where k = "''id''"]
        update_attrs_none [where k = "''id''"] split: option.splits)

lemma no_id_raises:
  assumes "parser = clc_server \<or> parser = gce_host order"
    and "calculate_mantl_vars parser resource module_name = Inr h"
  shows "host_with_ip ips h = Inl (KeyError ''id'')"
proof -
  obtain name attrs0 groups0 where p: "parser resource module_name = Inr (name, attrs0, groups0)"
    and h: "\<exists>groups. h = (name, dict_set attrs0 ''consul_is_server''
        (JBool (get_or attrs0 ''role'' (JStr []) = JStr ''control'')), groups)"
    using assms(2) by (auto simp: calculate_mantl_vars_def rbind_eq_Inr_iff Let_def)
  have "dict_get attrs0 ''id'' = None" using assms(1) p clc_no_id gce_no_id by blast
  with h show ?thesis by (auto simp: host_with_ip_def attr_def json_index_def)
qed

lemma ips_dict_not_empty:
  assumes "ips_dict s = Inr ips" "s \<noteq> []"
  shows "ips \<noteq> []"
proof -
  have ne: "dict_set d k v \<noteq> []" for d :: "(json, json) dict" and k v
    by (cases d) (auto split: if_splits)
  let ?f = "\<lambda>d r. rbind r (\<lambda>(k, v). if hashable k then Inr (dict_set d k v) else Inl TypeError)"
  have step: "d' \<noteq> []" if "?f d r = Inr d'" for d d' :: "(json, json) dict" and r
    using that by (auto simp: rbind_eq_Inr_iff ne split: if_splits)
  obtain r s' d where "s = r # s'" "?f [] r = Inr d" "rfold ?f d s' = Inr ips"
    using assms by (cases s) (auto simp: ips_dict_def rbind_eq_Inr_iff)
  then show ?thesis using rfold_invariant [of ?f d s' ips "\<lambda>d. d \<noteq> []"] step by blast
qed

text \<open>A host whose address is looked up without an exception keeps its name.\<close>

lemma with_ip_name: "host_with_ip ips h = Inr h' \<Longrightarrow> fst h' = fst h"
  by (auto simp: host_with_ip_def rbind_eq_Inr_iff split: prod.splits if_splits option.splits)

lemma iter_host_ips_append: "iter_host_ips (s @ t) ips = iter_host_ips s ips @ iter_host_ips t ips"
  by (simp add: iter_host_ips_def stream_bind_def)

lemma iter_host_ips_Inr: "iter_host_ips (Inr h # s) ips = host_with_ip ips h # iter_host_ips s ips"
  by (simp add: iter_host_ips_def stream_bind_def)

lemma list_stops_at_error:
  assumes "\<forall>h \<in> set hs. hashable (fst h) \<and> is_ok (host_with_ip ips h)"
  shows "query_list (iter_host_ips (map Inr hs) ips @ Inl e # rest) = Inl e"
proof -
  have "rfold list_host st (iter_host_ips (map Inr hs) ips @ Inl e # rest) = Inl e" for st
    using assms
  proof (induction hs arbitrary: st)
    case Nil
    then show ?case by (simp add: iter_host_ips_def stream_bind_def list_host_def split: prod.split)
  next
    case (Cons h hs)
    then obtain h' where h': "host_with_ip ips h = Inr h'" by (auto simp: is_ok_iff)
    then have "hashable (fst h')" using Cons.prems with_ip_name by (metis list.set_intros(1))
    then have "is_ok (list_host st (Inr h'))" by (auto simp: list_host_def split: prod.splits)
    then show ?case using Cons h' by (auto simp: iter_host_ips_Inr is_ok_iff)
  qed
  then show ?thesis by (simp add: query_list_def)
qed

lemma host_stops_at_error:
  assumes "\<forall>h \<in> set hs. fst h \<noteq> JStr t \<and> is_ok (host_with_ip ips h)"
  shows "query_host (iter_host_ips (map Inr hs) ips @ Inl e # rest) t = Inl e"
  using assms
proof (induction hs)
  case Nil
  then show ?case by (simp add: iter_host_ips_def stream_bind_def)
next
  case (Cons h hs)
  then obtain h' where h': "host_with_ip ips h = Inr h'" by (auto simp: is_ok_iff)
  then have "fst h' \<noteq> JStr t" using Cons.prems with_ip_name by (metis list.set_intros(1))
  then show ?case using Cons h' by (cases h') (simp add: iter_host_ips_Inr)
qed

text \<open>C28: A CenturyLink server or a Compute Engine instance has no attribute \<open>id\<close>. So when the state associates
  any floating address, the second pass over the hosts ends at the first such host with \<open>KeyError 'id'\<close>,
  whatever the addresses are: \<open>--list\<close> prints nothing for any host, and \<open>--host\<close> nothing for that host
  or a later one.\<close>

theorem second_pass_needs_id:
  assumes "parser = clc_server \<or> parser = gce_host order" "calculate_mantl_vars parser resource module_name = Inr h"
    and "resources = iterresources files (tfstates walk cwd (a_root args))"
    and "iterhosts order resources = map Inr hs @ Inr h # rest"
    and "iterips resources \<noteq> []" "ips_dict (iterips resources) = Inr ips"
    and "\<forall>x \<in> set hs. hashable (fst x) \<and> is_ok (host_with_ip ips x)"
    and "\<not> a_version args"
    and "a_list args \<or> (\<exists>t. a_host args = Some t \<and> t \<noteq> [] \<and> (\<forall>x \<in> set hs. fst x \<noteq> JStr t))"
  shows "tf_main order args this_file walk cwd files = Inl (KeyError ''id'')"
proof -
  have ips: "ips \<noteq> []" using ips_dict_not_empty assms(5,6) by blast
  have s: "iter_host_ips (map Inr hs @ Inr h # rest) ips =
      iter_host_ips (map Inr hs) ips @ Inl (KeyError ''id'') # iter_host_ips rest ips"
    using no_id_raises [OF assms(1,2)] by (simp add: iter_host_ips_append iter_host_ips_Inr)
  have l: "query_list (iter_host_ips (map Inr hs @ Inr h # rest) ips) = Inl (KeyError ''id'')"
    unfolding s using assms(7) by (rule list_stops_at_error)
  show ?thesis
  proof (cases "a_list args")
    case True
    then show ?thesis
      using assms(8) ips l by (simp add: tf_main_def Let_def assms(3) [symmetric] assms(4,6))
  next
    case False
    then obtain t where t: "a_host args = Some t" "t \<noteq> []" "\<forall>x \<in> set hs. fst x \<noteq> JStr t" using assms(9) by blast
    then have "query_host (iter_host_ips (map Inr hs @ Inr h # rest) ips) t = Inl (KeyError ''id'')"
      unfolding s using assms(7) by (intro host_stops_at_error) blast
    then show ?thesis
      using False t assms(8) ips by (simp add: tf_main_def Let_def assms(3) [symmetric] assms(4,6))
  qed
qed

section \<open>Branches that cannot be reached\<close>

text \<open>A Compute Engine instance that is listed has a network interface, and its first interface has
  an access configuration: the empty address of the code is not reached by an instance without
  them, whose \<open>IndexError\<close> the guard does not name.\<close>

lemma gce_needs_access_config:
  assumes "gce_host order resource module_name = Inr h"
  shows "\<exists>raw i interfaces. raw_attributes resource = Inr raw \<and>
     rbind (parse_attr_list order raw ''network_interface'' (CHR ''.'')) (rmapM (gce_interface order)) = Inr (i # interfaces) \<and>
     rbind (attr i ''access_config'') json_iter \<noteq> Inr []"
proof -
  from assms obtain raw interfaces a2 attrs where r: "raw_attributes resource = Inr raw"
    and i: "rbind (parse_attr_list order raw ''network_interface'' (CHR ''.'')) (rmapM (gce_interface order)) = Inr interfaces"
    and g: "on_key_value_error
        (update_attrs a2
          [(''ansible_ssh_host'', nat_ip interfaces), (''public_ipv4'', nat_ip interfaces),
           (''private_ipv4'', rbind (first_of interfaces) (\<lambda>i. attr i ''address'')),
           (''publicly_routable'', Inr (JBool True))])
        (update_attrs a2
          [(''ansible_ssh_host'', Inr (JStr [])), (''publicly_routable'', Inr (JBool False))]) = Inr attrs"
    unfolding gce_host_def parser_simps by (elim exE conjE) (auto simp: rbind_eq_Inr_iff)
  have n: "nat_ip interfaces \<noteq> Inl IndexError"
    using g by (auto simp: update_attrs_def make_attrs_def on_key_value_error_def)
  then obtain j js where c: "interfaces = j # js" by (cases interfaces) (auto simp: nat_ip_def first_of_def)
  moreover have "rbind (attr j ''access_config'') json_iter \<noteq> Inr []"
    using n by (auto simp: c nat_ip_def first_of_def rbind_eq_Inr_iff)
  ultimately show ?thesis using r i by blast
qed

text \<open>A vSphere machine is listed only when its first interface has an \<open>ip_address\<close>, although the code
  prefers \<open>ipv4_address\<close> and means the other as its default.\<close>

lemma vsphere_needs_ip_address:
  assumes "vsphere_host resource module_name = Inr h"
  shows "\<exists>raw. raw_attributes resource = Inr raw \<and>
     dict_get (parse_dict (parse_dict raw ''network_interface'' (CHR ''.'')) ''0'' (CHR ''.'')) ''ip_address'' \<noteq> None"
  using assms unfolding vsphere_host_def parser_simps
  by (elim exE conjE) (auto simp: rmap_eq_Inr_iff attr_Inr)

text \<open>An OpenStack instance whose metadata name no Kubespray groups is put into the group with the
  empty name.\<close>

lemma openstack_empty_group:
  assumes "openstack_host order resource module_name = Inr (name, attrs, groups)" "raw_attributes resource = Inr raw"
    and "dict_get (parse_dict raw ''metadata'' (CHR ''.'')) ''kubespray_groups'' = None"
  shows "[] \<in> set groups"
  using assms unfolding openstack_host_def parser_simps
  by (elim exE conjE, clarsimp) (auto simp: get_or_def method_str_def)

section \<open>What \<open>--list\<close> prints\<close>

definition str_host :: "host \<Rightarrow> bool" where
  "str_host h = (case h of (name, attrs, groups) \<Rightarrow> (case name of JStr s \<Rightarrow> json_ok (JDict attrs) | _ \<Rightarrow> False))"

definition groups_ok :: "(string, json list) dict \<Rightarrow> bool" where
  "groups_ok G = (dict_ok G \<and> (\<forall>(g, hs) \<in> set G. \<forall>h \<in> set hs. json_ok h))"

definition vars_ok :: "json \<times> attrs \<Rightarrow> bool" where
  "vars_ok na = (case na of (n, a) \<Rightarrow> (\<exists>s. n = JStr s) \<and> json_ok (JDict a))"

definition listing_ok :: "listing \<Rightarrow> bool" where
  "listing_ok l = (case l of (groups, meta) \<Rightarrow> groups_ok groups \<and> dict_ok meta \<and> (\<forall>na \<in> set meta. vars_ok na))"

lemma join_group_ok: "groups_ok G \<Longrightarrow> json_ok n \<Longrightarrow> groups_ok (join_group n G g)"
  using dict_set_entries [of G g]
  by (fastforce simp: groups_ok_def join_group_def split: option.splits dest: dict_get_Some_in)

lemma join_groups_ok: "groups_ok G \<Longrightarrow> json_ok n \<Longrightarrow> groups_ok (foldl (join_group n) G gs)"
  by (induction gs arbitrary: G) (simp_all add: join_group_ok)

lemma list_host_ok:
  assumes "listing_ok l" "str_host h" "list_host l (Inr h) = Inr l'"
  shows "listing_ok l'"
proof -
  obtain G M n a gs where l: "l = (G, M)" and h: "h = (n, a, gs)" by (metis surj_pair)
  from assms(2) obtain s where n: "n = JStr s" and a: "json_ok (JDict a)"
    by (auto simp: str_host_def h split: json.splits)
  have l': "l' = (foldl (join_group n) G (dedup gs), dict_set M n a)"
    using assms(3) by (simp add: list_host_def l h n hashable_def)
  have "vars_ok (n, a)" using n a by (simp add: vars_ok_def)
  then have "\<forall>na \<in> set (dict_set M n a). vars_ok na"
    using assms(1) dict_set_entries [of M n a] by (auto simp: listing_ok_def l)
  then show ?thesis
    using join_groups_ok [of G n "dedup gs"] assms(1) by (simp add: listing_ok_def l l' n pd.ok_put)
qed

lemma query_list_ok:
  assumes "\<forall>h \<in> set hs. str_host h" "query_list (map Inr hs) = Inr l"
  shows "listing_ok l"
proof -
  have "listing_ok l0 \<Longrightarrow> \<forall>h \<in> set hs. str_host h \<Longrightarrow> rfold list_host l0 (map Inr hs) = Inr l \<Longrightarrow> listing_ok l" for l0
    by (induction hs arbitrary: l0) (auto simp: rbind_eq_Inr_iff dest: list_host_ok)
  moreover have "listing_ok ([], [])" by (simp add: listing_ok_def groups_ok_def)
  ultimately show ?thesis using assms by (simp add: query_list_def)
qed

lemma json_ok_dict_set: "json_ok (JDict d) \<Longrightarrow> json_ok v \<Longrightarrow> json_ok (JDict (dict_set d k v))"
  using dict_set_entries [of d k v] by auto

lemma json_ok_dict_del: "json_ok (JDict d) \<Longrightarrow> json_ok (JDict (dict_del d k))"
  by (auto simp: dict_del_entries)

lemma key_text_str: "key_text (JStr s) = s"
  by (simp add: key_text_def)

lemma listing_json_ok:
  assumes "listing_ok l"
  shows "json_ok (JDict (listing_json l))"
proof -
  obtain G M where l: "l = (G, M)" by force
  have G: "groups_ok G" and M: "dict_ok M" "\<And>na. na \<in> set M \<Longrightarrow> vars_ok na"
    using assms by (simp_all add: listing_ok_def l)
  have "dict_keys (map (\<lambda>(g, hs). (g, JDict [(''hosts'', JList hs)])) G) = dict_keys G"
    by (induction G) auto
  then have g: "json_ok (JDict (map (\<lambda>(g, hs). (g, JDict [(''hosts'', JList hs)])) G))"
    using G by (auto simp: groups_ok_def dict_ok_def)
  have k: "dict_keys (map (\<lambda>(n, a). (key_text n, JDict a)) M) = map key_text (dict_keys M)"
    by (induction M) auto
  have "\<exists>s. n = JStr s" if "n \<in> set (dict_keys M)" for n
    using that M(2) by (auto simp: dict_keys_def vars_ok_def)
  then have "inj_on key_text (set (dict_keys M))"
    by (intro inj_onI) (metis key_text_str)
  with M(1) have "dict_ok (map (\<lambda>(n, a). (key_text n, JDict a)) M)"
    by (simp add: dict_ok_def k distinct_map)
  moreover have "json_ok (snd kv)" if "kv \<in> set (map (\<lambda>(n, a). (key_text n, JDict a)) M)" for kv
    using that M(2) by (force simp: vars_ok_def)
  ultimately have m: "json_ok (JDict (map (\<lambda>(n, a). (key_text n, JDict a)) M))" by simp
  have "json_ok (JDict [(''hostvars'', JDict (map (\<lambda>(n, a). (key_text n, JDict a)) M))])"
    using m by (simp add: dict_ok_def)
  from json_ok_dict_set [OF g this] show ?thesis by (simp add: listing_json_def l)
qed

text \<open>What \<open>--list\<close> prints, pretty or not, is a JSON text that reads back as the listing the query
  computed, without \<open>_meta\<close> under \<open>--nometa\<close>, for any state files without floating addresses whose
  hosts have text names and attributes JSON can hold.\<close>

lemma list_output_reads_back:
  assumes "\<not> a_version args" "a_list args" "resources = iterresources files (tfstates walk cwd (a_root args))"
    and "iterhosts order resources = map Inr hs" "\<forall>h \<in> set hs. str_host h" "ips_dict (iterips resources) = Inr []"
  shows "\<exists>out l. tf_main order args this_file walk cwd files = Inr out \<and> query_list (map Inr hs) = Inr l \<and>
     json_loads out = Inr (JDict (if a_nometa args then dict_del (listing_json l) ''_meta'' else listing_json l))"
proof -
  have "\<forall>(n, a, gs) \<in> set hs. hashable n"
    using assms(5) by (auto simp: str_host_def hashable_def split: json.splits)
  from query_list_hosts [OF this] obtain l where l: "query_list (map Inr hs) = Inr l" by blast
  let ?j = "JDict (if a_nometa args then dict_del (listing_json l) ''_meta'' else listing_json l)"
  have "json_ok ?j"
    using listing_json_ok [OF query_list_ok [OF assms(5) l]] json_ok_dict_del by auto
  then have "json_loads (json_dumps ind ?j @ [CHR 0x0A]) = Inr ?j" for ind
    by (rule json_loads_dumps_ws) (simp add: is_ws_def)
  moreover have "tf_main order args this_file walk cwd files =
      Inr (json_dumps (if a_pretty args then Some 4 else None) ?j @ [CHR 0x0A])"
    using assms(1,2,4,6) by (simp add: tf_main_def Let_def assms(3) [symmetric] l)
  ultimately show ?thesis using l by blast
qed

definition demo_tf_files :: "string \<rightharpoonup> string" where
  "demo_tf_files = [''/r/a.tfstate'' \<mapsto> json_dumps None
     (JDict [(''modules'', JList [JDict [(''path'', JList [JStr ''root'']),
        (''resources'', JDict [(''clc_server.web'', demo_clc)])]])])]"

definition demo_tf_args :: tf_args where
  "demo_tf_args = \<lparr> a_list = True, a_host = None, a_version = False, a_hostfile = False, a_pretty = True,
     a_nometa = False, a_root = ''/r'' \<rparr>"

definition demo_walk :: "string \<Rightarrow> (string \<times> string list) list" where
  "demo_walk root = [(root, [''a.tfstate'', ''notes.txt''])]"

lemma demo_tf_resources:
  "iterresources demo_tf_files (tfstates demo_walk ''/'' (a_root demo_tf_args)) =
     [Inr (JStr ''root'', ''clc_server.web'', demo_clc)]"
proof -
  have "tfstates demo_walk ''/'' (a_root demo_tf_args) = [''/r/a.tfstate'']" by code_simp
  moreover have "json_ok (JDict [(''modules'', JList [JDict [(''path'', JList [JStr ''root'']),
        (''resources'', JDict [(''clc_server.web'', demo_clc)])]])])" by code_simp
  from json_loads_dumps [OF this]
  have "file_resources demo_tf_files ''/r/a.tfstate'' = [Inr (JStr ''root'', ''clc_server.web'', demo_clc)]"
    by (simp add: file_resources_def demo_tf_files_def json_index_def json_iter_def json_items_def
        module_resources_def json_last_def)
  ultimately show ?thesis by (simp add: iterresources_def)
qed

lemma demo_tf_listing:
  "iterhosts id (iterresources demo_tf_files (tfstates demo_walk ''/'' ''/r'')) = map Inr [demo_clc_host]"
  "ips_dict (iterips (iterresources demo_tf_files (tfstates demo_walk ''/'' ''/r''))) = Inr []"
proof -
  note r = demo_tf_resources [unfolded demo_tf_args_def tf_args.simps]
  have k: "split_key ''clc_server.web'' = Inr (''clc_server'', ''web'')" by code_simp
  show "iterhosts id (iterresources demo_tf_files (tfstates demo_walk ''/'' ''/r'')) = map Inr [demo_clc_host]"
    by (simp add: r demo_clc_stream)
  show "ips_dict (iterips (iterresources demo_tf_files (tfstates demo_walk ''/'' ''/r''))) = Inr []"
    by (simp add: r iterips_def stream_bind_def k ips_dict_def)
qed

text \<open>A state with a CenturyLink server and a floating address.\<close>

definition floating_files :: "string \<rightharpoonup> string" where
  "floating_files = [''/r/a.tfstate'' \<mapsto> json_dumps None
     (JDict [(''modules'', JList [JDict [(''path'', JList [JStr ''root'']),
        (''resources'', JDict
           [(''clc_server.web'', demo_clc),
            (''openstack_compute_floatingip_associate_v2.f'',
             demo_resource [(''instance_id'', JStr ''9''), (''floating_ip'', JStr ''192.0.2.1'')])])]])])]"

lemma floating_resources:
  "iterresources floating_files (tfstates demo_walk ''/'' (a_root demo_tf_args)) =
     [Inr (JStr ''root'', ''clc_server.web'', demo_clc),
      Inr (JStr ''root'', ''openstack_compute_floatingip_associate_v2.f'',
        demo_resource [(''instance_id'', JStr ''9''), (''floating_ip'', JStr ''192.0.2.1'')])]"
proof -
  have "tfstates demo_walk ''/'' (a_root demo_tf_args) = [''/r/a.tfstate'']" by code_simp
  moreover have "json_ok (JDict [(''modules'', JList [JDict [(''path'', JList [JStr ''root'']),
        (''resources'', JDict
           [(''clc_server.web'', demo_clc),
            (''openstack_compute_floatingip_associate_v2.f'',
             demo_resource [(''instance_id'', JStr ''9''), (''floating_ip'', JStr ''192.0.2.1'')])])]])])" by code_simp
  from json_loads_dumps [OF this] have "file_resources floating_files ''/r/a.tfstate'' =
     [Inr (JStr ''root'', ''clc_server.web'', demo_clc),
      Inr (JStr ''root'', ''openstack_compute_floatingip_associate_v2.f'',
        demo_resource [(''instance_id'', JStr ''9''), (''floating_ip'', JStr ''192.0.2.1'')])]"
    by (simp add: file_resources_def floating_files_def json_index_def json_iter_def json_items_def
        module_resources_def json_last_def)
  ultimately show ?thesis by (simp add: iterresources_def)
qed

theorem second_pass_needs_id_witness:
  "tf_main id demo_tf_args ''terraform.py'' demo_walk ''/'' floating_files = Inl (KeyError ''id'') \<and>
   is_ok (tf_main id demo_tf_args ''terraform.py'' demo_walk ''/'' demo_tf_files)"
proof -
  have k: "split_key ''clc_server.web'' = Inr (''clc_server'', ''web'')"
    "split_key ''openstack_compute_floatingip_associate_v2.f'' = Inr (''openstack_compute_floatingip_associate_v2'', ''f'')"
    by code_simp+
  have p: "dict_get (PARSERS id) ''clc_server'' = Some (calculate_mantl_vars clc_server)"
    "dict_get (PARSERS id) ''openstack_compute_floatingip_associate_v2'' = None"
    by (simp_all add: PARSERS_def)
  have h: "iterhosts id (iterresources floating_files (tfstates demo_walk ''/'' (a_root demo_tf_args))) =
      map Inr [] @ Inr demo_clc_host # []"
    by (simp add: floating_resources iterhosts_def stream_bind_def k p demo_clc_parsed)
  have "openstack_floating_ips (demo_resource [(''instance_id'', JStr ''9''), (''floating_ip'', JStr ''192.0.2.1'')]) =
      Inr (JStr ''9'', JStr ''192.0.2.1'')" by code_simp
  then have i: "iterips (iterresources floating_files (tfstates demo_walk ''/'' (a_root demo_tf_args))) =
      [Inr (JStr ''9'', JStr ''192.0.2.1'')]"
    by (simp add: floating_resources iterips_def stream_bind_def k)
  then have d: "ips_dict (iterips (iterresources floating_files (tfstates demo_walk ''/'' (a_root demo_tf_args)))) =
      Inr [(JStr ''9'', JStr ''192.0.2.1'')]"
    by (simp add: ips_dict_def hashable_def)
  have "tf_main id demo_tf_args ''terraform.py'' demo_walk ''/'' floating_files = Inl (KeyError ''id'')"
    by (rule second_pass_needs_id [OF _ demo_clc_parsed refl h _ d])
       (simp, simp add: i, simp_all add: demo_tf_args_def)
  moreover have "str_host demo_clc_host" by code_simp
  with list_output_reads_back [of demo_tf_args _ demo_tf_files demo_walk "''/''" id "[demo_clc_host]" "''terraform.py''"]
  have "is_ok (tf_main id demo_tf_args ''terraform.py'' demo_walk ''/'' demo_tf_files)"
    using demo_tf_listing by (auto simp: demo_tf_args_def is_ok_iff)
  ultimately show ?thesis by blast
qed

end
