(* ===== verification/Base85.thy ===== *)
theory Base85
  imports Py_Strings
begin

text \<open>
  The base 85 decoder of \<open>roles/bootstrap-os/files/get-pip.py\<close>, with every error it raises. An encoder
  that is not part of the repository states what the text is meant to hold; the decoder inverts it.
  Positional notation is stated once, in a locale, and used at base 85 for the text and at base 256 for
  the bytes.
\<close>

section \<open>Positional notation\<close>

fun radix_value :: "int \<Rightarrow> (char \<Rightarrow> int option) \<Rightarrow> int \<Rightarrow> string \<Rightarrow> int option" where
  "radix_value base val acc [] = Some acc"
| "radix_value base val acc (c # cs) =
     (case val c of None \<Rightarrow> None | Some v \<Rightarrow> radix_value base val (acc * base + v) cs)"

fun radix_digits :: "int \<Rightarrow> (int \<Rightarrow> char) \<Rightarrow> nat \<Rightarrow> int \<Rightarrow> string" where
  "radix_digits base digit 0 x = []"
| "radix_digits base digit (Suc n) x = radix_digits base digit n (x div base) @ [digit (x mod base)]"

lemma radix_digits_length [simp]: "length (radix_digits base digit n x) = n"
  by (induction n arbitrary: x) auto

lemma radix_value_append:
  "radix_value base val acc (xs @ ys) =
     (case radix_value base val acc xs of None \<Rightarrow> None | Some a \<Rightarrow> radix_value base val a ys)"
  by (induction xs arbitrary: acc) (auto split: option.split)

locale radix =
  fixes base :: int and val :: "char \<Rightarrow> int option" and digit :: "int \<Rightarrow> char"
  assumes base: "base > 1"
    and val_range: "val c = Some v \<Longrightarrow> 0 \<le> v \<and> v < base"
    and val_digit: "0 \<le> v \<Longrightarrow> v < base \<Longrightarrow> val (digit v) = Some v"
    and digit_val: "val c = Some v \<Longrightarrow> digit v = c"
begin

lemma pow_pos: "base ^ n > 0"
  using base by simp

lemma value_digits:
  "0 \<le> x \<Longrightarrow> radix_value base val acc (radix_digits base digit n x) = Some (acc * base ^ n + x mod base ^ n)"
proof (induction n arbitrary: x)
  case 0
  then show ?case by simp
next
  case (Suc n)
  have "x div base mod base ^ n * base + x mod base = x mod base ^ Suc n"
    using base by (simp add: zmod_zmult2_eq mult.commute)
  moreover have "0 \<le> x mod base" "x mod base < base" using base by simp_all
  moreover have "0 \<le> x div base" using Suc.prems base by (simp add: pos_imp_zdiv_nonneg_iff)
  ultimately show ?case
    using Suc.IH [of "x div base"] by (simp add: radix_value_append val_digit algebra_simps)
qed

lemma value_bounds:
  "radix_value base val acc xs = Some v \<Longrightarrow> acc * base ^ length xs \<le> v \<and> v < (acc + 1) * base ^ length xs"
proof (induction xs arbitrary: acc)
  case (Cons c cs)
  then obtain d where d: "val c = Some d" and v: "radix_value base val (acc * base + d) cs = Some v"
    by (auto split: option.splits)
  have "acc * base \<le> acc * base + d" "acc * base + d + 1 \<le> (acc + 1) * base"
    using val_range [OF d] by (simp_all add: algebra_simps)
  then have "acc * base * base ^ length cs \<le> (acc * base + d) * base ^ length cs"
    "(acc * base + d + 1) * base ^ length cs \<le> (acc + 1) * base * base ^ length cs"
    using pow_pos [of "length cs"] by (simp_all add: mult_right_mono)
  then show ?case using Cons.IH [OF v] by (simp add: mult.assoc)
qed simp

lemma value_range: "radix_value base val 0 xs = Some v \<Longrightarrow> 0 \<le> v \<and> v < base ^ length xs"
  using value_bounds [of 0 xs v] by simp

lemma digits_value: "radix_value base val 0 xs = Some v \<Longrightarrow> radix_digits base digit (length xs) v = xs"
proof (induction xs arbitrary: v rule: rev_induct)
  case (snoc c cs)
  then obtain a d where a: "radix_value base val 0 cs = Some a" and d: "val c = Some d" and v: "v = a * base + d"
    by (auto simp: radix_value_append split: option.splits)
  have "v div base = a" "v mod base = d" using val_range [OF d] base by (simp_all add: v)
  then show ?case using snoc.IH [OF a] digit_val [OF d] by simp
qed simp

lemma take_digits: "p \<le> n \<Longrightarrow> take (n - p) (radix_digits base digit n x) = radix_digits base digit (n - p) (x div base ^ p)"
proof (induction n arbitrary: p x)
  case (Suc n)
  show ?case
  proof (cases p)
    case (Suc q)
    then have "q \<le> n" using Suc.prems by simp
    moreover have "x div base div base ^ q = x div base ^ p"
      using base by (simp add: Suc zdiv_zmult2_eq)
    ultimately show ?thesis using Suc.IH [of q "x div base"] by (simp add: Suc)
  qed simp
qed simp

lemma value_total: "(\<forall>c \<in> set xs. val c \<noteq> None) \<longleftrightarrow> radix_value base val acc xs \<noteq> None"
  by (induction xs arbitrary: acc) (auto split: option.splits)

end

section \<open>The decoder\<close>

definition b85alphabet :: string where
  "b85alphabet = ''0123456789ABCDEFGHIJKLMNOPQRSTUVWXYZ'' @
     ''abcdefghijklmnopqrstuvwxyz!#$%&()*+-;<=>?@^_`{|}~''"

definition b85dec :: "int option list" where
  "b85dec = foldl (\<lambda>dec (i, c). dec[of_char c := Some (int i)]) (replicate 256 None) (enumerate 0 b85alphabet)"

definition b85val :: "char \<Rightarrow> int option" where
  "b85val c = b85dec ! of_char c"

text \<open>\<open>struct.Struct('!I').pack\<close>: four bytes, the highest first; \<open>None\<close> is \<open>struct.error\<close>.\<close>

definition packI :: "int \<Rightarrow> string option" where
  "packI acc =
     (if 0 \<le> acc \<and> acc < 2 ^ 32
      then Some (map (\<lambda>i. char_of (nat i)) [acc div 2 ^ 24, acc div 2 ^ 16 mod 256, acc div 2 ^ 8 mod 256, acc mod 256])
      else None)"

text \<open>The loop over a hunk; \<open>None\<close> is the \<open>TypeError\<close> of adding what the table does not have.\<close>

fun b85_acc :: "int \<Rightarrow> string \<Rightarrow> int option" where
  "b85_acc acc [] = Some acc"
| "b85_acc acc (c # cs) = (case b85val c of None \<Rightarrow> None | Some v \<Rightarrow> b85_acc (acc * 85 + v) cs)"

fun first_bad :: "nat \<Rightarrow> string \<Rightarrow> nat option" where
  "first_bad j [] = None"
| "first_bad j (c # cs) = (if b85val c = None then Some j else first_bad (j + 1) cs)"

definition bad_character :: "nat \<Rightarrow> py_error" where
  "bad_character n = ValueError (''bad base85 character at position '' @ nat_str n)"

definition hunk_overflow :: "nat \<Rightarrow> py_error" where
  "hunk_overflow i = ValueError (''base85 overflow in hunk starting at byte '' @ nat_str i)"

definition b85_hunk :: "nat \<Rightarrow> string \<Rightarrow> string res" where
  "b85_hunk i chunk =
     (case b85_acc 0 chunk of
        None \<Rightarrow> (case first_bad 0 chunk of Some j \<Rightarrow> Inl (bad_character (i + j)) | None \<Rightarrow> Inl TypeError)
      | Some acc \<Rightarrow> (case packI acc of None \<Rightarrow> Inl (hunk_overflow i) | Some s \<Rightarrow> Inr s))"

function b85_hunks :: "nat \<Rightarrow> string \<Rightarrow> string list res" where
  "b85_hunks i b =
     (if b = [] then Inr []
      else rbind (b85_hunk i (take 5 b)) (\<lambda>s. rmap ((#) s) (b85_hunks (i + 5) (drop 5 b))))"
  by pat_completeness auto

termination
  by (relation "measure (\<lambda>(i, b). length b)") auto

declare b85_hunks.simps [simp del]

definition b85decode :: "string \<Rightarrow> string res" where
  "b85decode b =
     (let padding = nat (- int (length b) mod 5)
      in rmap (\<lambda>out. let result = concat out
                     in if padding \<noteq> 0 then take (length result - padding) result else result)
           (b85_hunks 0 (b @ replicate padding (CHR ''~''))))"

section \<open>The table\<close>

lemma alphabet_length: "length b85alphabet = 85"
  by (simp add: b85alphabet_def)

lemma alphabet_distinct: "distinct b85alphabet"
  by (simp add: b85alphabet_def)

lemma of_char_less: "(of_char c :: nat) < 256"
  using nat_of_char_less_256 [of c] by simp

lemma table_fold:
  "length dec = 256 \<Longrightarrow> distinct cs \<Longrightarrow>
     foldl (\<lambda>dec (i, c). dec[of_char c := Some (int i)]) dec (enumerate n cs) ! of_char c =
       (case map_of (zip cs [n..<n + length cs]) c of None \<Rightarrow> dec ! of_char c | Some i \<Rightarrow> Some (int i))"
proof (induction cs arbitrary: dec n)
  case (Cons x cs)
  have z: "zip (x # cs) [n..<n + length (x # cs)] = (x, n) # zip cs [Suc n..<Suc n + length cs]"
    by (simp add: upt_rec)
  have fresh: "map_of (zip cs [Suc n..<Suc n + length cs]) x = None"
    using Cons.prems(2) by (simp add: map_of_zip_is_None)
  have l: "foldl (\<lambda>dec (i, c). dec[of_char c := Some (int i)]) dec (enumerate n (x # cs)) ! of_char c =
      (case map_of (zip cs [Suc n..<Suc n + length cs]) c of
         None \<Rightarrow> dec[of_char x := Some (int n)] ! of_char c | Some i \<Rightarrow> Some (int i))"
    using Cons.IH [of "dec[of_char x := Some (int n)]" "Suc n"] Cons.prems by simp
  show ?case
  proof (cases "c = x")
    case True
    then show ?thesis
      unfolding l z using Cons.prems(1) by (simp only: fresh) (simp add: of_char_less)
  next
    case False
    then have "dec[of_char x := Some (int n)] ! of_char c = dec ! of_char c" by simp
    then show ?thesis
      unfolding l z by (simp only: map_of.simps fst_conv snd_conv fun_upd_apply False if_False)
  qed
qed simp

lemma b85val_map [code]: "b85val c = map_option int (map_of (zip b85alphabet [0..<85]) c)"
proof -
  have "(replicate 256 None :: int option list) ! of_char c = None"
    using of_char_less by (intro nth_replicate)
  then show ?thesis
    using table_fold [OF _ alphabet_distinct, of "replicate 256 None" 0 c]
    by (simp add: b85val_def b85dec_def alphabet_length split: option.split)
qed

lemma b85val_Some: "b85val c = Some v \<longleftrightarrow> (\<exists>i < 85. b85alphabet ! i = c \<and> v = int i)"
proof -
  have "map_of (zip b85alphabet [0..<85]) c = Some i \<longleftrightarrow> i < 85 \<and> b85alphabet ! i = c" for i
    by (subst map_of_eq_Some_iff)
       (auto simp: alphabet_length alphabet_distinct map_fst_zip in_set_zip)
  then show ?thesis by (auto simp: b85val_map)
qed

lemma b85val_None: "b85val c = None \<longleftrightarrow> c \<notin> set b85alphabet"
proof -
  have "b85val c \<noteq> None \<longleftrightarrow> c \<in> set b85alphabet"
    by (auto simp: b85val_Some in_set_conv_nth alphabet_length)
  then show ?thesis by blast
qed

definition b85digit :: "int \<Rightarrow> char" where
  "b85digit i = b85alphabet ! nat i"

definition byte :: "int \<Rightarrow> char" where
  "byte i = char_of (nat i)"

definition byte_val :: "char \<Rightarrow> int option" where
  "byte_val c = Some (int (of_char c))"

interpretation b85: radix 85 b85val b85digit
proof
  show "b85val c = Some v \<Longrightarrow> 0 \<le> v \<and> v < 85" for c v by (auto simp: b85val_Some)
  show "0 \<le> v \<Longrightarrow> v < 85 \<Longrightarrow> b85val (b85digit v) = Some v" for v
    by (auto simp: b85val_Some b85digit_def intro!: exI [of _ "nat v"])
  show "b85val c = Some v \<Longrightarrow> b85digit v = c" for c v by (auto simp: b85val_Some b85digit_def)
qed simp

interpretation bytes: radix 256 byte_val byte
proof
  show "byte_val c = Some v \<Longrightarrow> 0 \<le> v \<and> v < 256" for c v
    using of_char_less by (auto simp: byte_val_def)
  show "0 \<le> v \<Longrightarrow> v < 256 \<Longrightarrow> byte_val (byte v) = Some v" for v
    by (simp add: byte_val_def byte_def of_char_of nat_mod_as_int)
  show "byte_val c = Some v \<Longrightarrow> byte v = c" for c v by (auto simp: byte_val_def byte_def)
qed simp

lemma b85_acc_radix: "b85_acc acc cs = radix_value 85 b85val acc cs"
  by (induction cs arbitrary: acc) (auto split: option.split)

lemma packI_radix: "packI acc = (if 0 \<le> acc \<and> acc < 2 ^ 32 then Some (radix_digits 256 byte 4 acc) else None)"
proof -
  have four: "(4 :: nat) = Suc (Suc (Suc (Suc 0)))" by simp
  have "acc div 256 div 256 div 256 = acc div 2 ^ 24" "acc div 256 div 256 = acc div 2 ^ 16"
    "(2 :: int) ^ 8 = 256"
    by (simp_all add: zdiv_zmult2_eq [symmetric])
  moreover have "acc div 2 ^ 24 mod 256 = acc div 2 ^ 24" if "0 \<le> acc" "acc < 2 ^ 32"
    using that by (intro mod_pos_pos_trivial) auto
  moreover have "radix_digits 256 byte 4 acc =
      [byte (acc div 256 div 256 div 256 mod 256), byte (acc div 256 div 256 mod 256),
       byte (acc div 256 mod 256), byte (acc mod 256)]"
    by (simp only: four radix_digits.simps append.simps)
  ultimately show ?thesis
    by (cases "0 \<le> acc \<and> acc < 2 ^ 32") (simp_all only: packI_def byte_def if_True if_False list.map simp_thms)
qed

section \<open>Hunks\<close>

lemma first_bad_None: "first_bad j cs = None \<longleftrightarrow> b85_acc acc cs \<noteq> None"
  by (induction cs arbitrary: j acc) (auto split: option.splits)

lemma first_bad_Some:
  "first_bad j cs = Some k \<Longrightarrow> \<exists>m < length cs. k = j + m \<and> cs ! m \<notin> set b85alphabet \<and> (\<forall>l < m. cs ! l \<in> set b85alphabet)"
proof (induction cs arbitrary: j)
  case (Cons c cs)
  show ?case
  proof (cases "b85val c = None")
    case True
    then have "k = j" using Cons.prems by simp
    with True show ?thesis by (intro exI [of _ 0]) (simp add: b85val_None [symmetric])
  next
    case False
    then obtain m where "m < length cs" "k = j + 1 + m" "cs ! m \<notin> set b85alphabet" "\<forall>l < m. cs ! l \<in> set b85alphabet"
      using Cons.prems Cons.IH [of "j + 1"] by auto
    with False show ?thesis
      by (intro exI [of _ "Suc m"]) (auto simp: b85val_None less_Suc_eq_0_disj)
  qed
qed simp

lemma hunk_Inr:
  "b85_hunk i chunk = Inr s \<longleftrightarrow>
     (\<exists>v. radix_value 85 b85val 0 chunk = Some v \<and> v < 2 ^ 32 \<and> s = radix_digits 256 byte 4 v)"
  using b85.value_range [of chunk] first_bad_None [of 0 chunk 0]
  by (auto simp: b85_hunk_def b85_acc_radix packI_radix split: option.splits if_splits)

lemma hunk_error:
  assumes "b85_hunk i chunk = Inl e"
  shows "(\<exists>m < length chunk. e = bad_character (i + m) \<and> chunk ! m \<notin> set b85alphabet \<and>
       (\<forall>l < m. chunk ! l \<in> set b85alphabet)) \<or>
     (e = hunk_overflow i \<and> (\<exists>v \<ge> 2 ^ 32. radix_value 85 b85val 0 chunk = Some v))"
proof (cases "b85_acc 0 chunk")
  case None
  then obtain j where j: "first_bad 0 chunk = Some j" using first_bad_None [of 0 chunk 0] by auto
  with None assms have "e = bad_character (i + j)" by (simp add: b85_hunk_def)
  with first_bad_Some [OF j] show ?thesis by auto
next
  case (Some v)
  then have "radix_value 85 b85val 0 chunk = Some v" by (simp add: b85_acc_radix)
  moreover have "e = hunk_overflow i \<and> v \<ge> 2 ^ 32"
    using assms Some b85.value_range [OF calculation]
    by (auto simp: b85_hunk_def packI_radix split: if_splits)
  ultimately show ?thesis by blast
qed

lemma hunk_length: "b85_hunk i chunk = Inr s \<Longrightarrow> length s = 4"
  by (auto simp: hunk_Inr)

lemma hunks_Nil [simp]: "b85_hunks i [] = Inr []"
  by (simp add: b85_hunks.simps)

lemma hunks_step:
  "length h = 5 \<Longrightarrow> b85_hunks i (h @ b) = rbind (b85_hunk i h) (\<lambda>s. rmap ((#) s) (b85_hunks (i + 5) b))"
  by (subst b85_hunks.simps) auto

lemma rmap_rbind: "rmap f (rbind m g) = rbind m (\<lambda>x. rmap f (g x))"
  by (cases m) auto

lemma rbind_rmap: "rbind (rmap f m) g = rbind m (\<lambda>x. g (f x))"
  by (cases m) auto

lemma split_hunk:
  assumes "5 dvd length a" "a \<noteq> []"
  obtains h r where "a = h @ r" "length h = 5" "5 dvd length r" "length r < length a"
proof
  show "a = take 5 a @ drop 5 a" by simp
  have "length a \<ge> 5" using assms by (auto dest: dvd_imp_le)
  then show "length (take 5 a) = 5" "5 dvd length (drop 5 a)" "length (drop 5 a) < length a"
    using assms by (auto simp: dvd_minus_self)
qed

lemma hunks_append:
  "5 dvd length a \<Longrightarrow> b85_hunks i (a @ b) =
     rbind (b85_hunks i a) (\<lambda>xs. rmap ((@) xs) (b85_hunks (i + length a) b))"
proof (induction a arbitrary: i rule: length_induct)
  case (1 a)
  show ?case
  proof (cases "a = []")
    case True
    have "rmap ((@) []) m = m" for m :: "string list res" by (cases m) auto
    then show ?thesis by (simp add: True)
  next
    case False
    then obtain h r where a: "a = h @ r" "length h = 5" "5 dvd length r" "length r < length a"
      using split_hunk [OF "1.prems" [rule_format] False] by blast
    have "rmap ((#) s) (rmap ((@) xs) m) = rmap ((@) (s # xs)) m" for s xs and m :: "string list res"
      by (cases m) auto
    then have "rmap ((#) s) (b85_hunks (i + 5) (r @ b)) =
        rbind (rmap ((#) s) (b85_hunks (i + 5) r)) (\<lambda>xs. rmap ((@) xs) (b85_hunks (i + length a) b))" for s
      using "1.IH" a(3,4) by (simp add: rmap_rbind rbind_rmap a(1,2) ac_simps)
    then show ?thesis
      by (cases "b85_hunk i h") (simp_all add: a(1) hunks_step [OF a(2)])
  qed
qed

lemma five_steps: "0 < n \<Longrightarrow> (n - 5 + 4) div 5 + 1 = (n + 4) div (5 :: nat)"
proof (cases "n \<ge> 5")
  case True
  then show ?thesis using le_div_geq [of 5 "n + 4"] by simp
next
  case False
  assume "0 < n"
  with False have "(n + 4) div 5 = 1" by (intro div_nat_eqI) auto
  then show ?thesis using False by simp
qed

lemma pad_length: "0 < k \<Longrightarrow> nat (- int n mod int k) = (if n mod k = 0 then 0 else k - n mod k)"
  by (simp add: zmod_zminus1_eq_if nat_diff_distrib flip: zmod_int)

lemmas pad4 = pad_length [of 4, simplified] and pad5 = pad_length [of 5, simplified]

lemma hunks_length: "b85_hunks i b = Inr xs \<Longrightarrow> length (concat xs) = 4 * ((length b + 4) div 5)"
proof (induction i b arbitrary: xs rule: b85_hunks.induct)
  case (1 i b)
  show ?case
  proof (cases "b = []")
    case False
    then obtain s ys where s: "b85_hunk i (take 5 b) = Inr s" and ys: "b85_hunks (i + 5) (drop 5 b) = Inr ys"
      and xs: "xs = s # ys"
      using "1.prems" by (subst (asm) b85_hunks.simps) (auto simp: rbind_eq_Inr_iff rmap_eq_Inr_iff)
    have "length (concat ys) = 4 * ((length b - 5 + 4) div 5)" using "1.IH" [OF False ys] by simp
    moreover have "(length b - 5 + 4) div 5 + 1 = (length b + 4) div 5"
      using False by (intro five_steps) simp
    ultimately show ?thesis using hunk_length [OF s] by (simp add: xs)
  qed (use "1.prems" in simp)
qed

text \<open>A hunk of good characters whose value fits in 32 bits.\<close>

definition hunk_fits :: "string \<Rightarrow> bool" where
  "hunk_fits h = (case b85_acc 0 h of None \<Rightarrow> False | Some v \<Rightarrow> v < 2 ^ 32)"

text \<open>All hunks of \<open>b\<close> that end at \<open>n\<close> or before fit.\<close>

definition hunks_fit :: "string \<Rightarrow> nat \<Rightarrow> bool" where
  "hunks_fit b n = (\<forall>k. 5 dvd k \<and> k + 5 \<le> n \<longrightarrow> hunk_fits (take 5 (drop k b)))"

lemma hunk_Inr_fits: "b85_hunk i h = Inr s \<Longrightarrow> hunk_fits h"
  by (auto simp: hunk_Inr hunk_fits_def b85_acc_radix)

lemma hunks_fit_step:
  assumes "hunk_fits (take 5 b)" "hunks_fit (drop 5 b) n"
  shows "hunks_fit b (n + 5)"
  unfolding hunks_fit_def
proof (intro allI impI)
  fix k
  assume k: "5 dvd k \<and> k + 5 \<le> n + 5"
  show "hunk_fits (take 5 (drop k b))"
  proof (cases "k = 0")
    case True
    with assms(1) show ?thesis by simp
  next
    case False
    with k have "k \<ge> 5" by (auto dest: dvd_imp_le)
    then have "5 dvd k - 5" "k - 5 + 5 \<le> n" "k = k - 5 + 5" using k by (auto intro: dvd_diff_nat)
    then have "hunk_fits (take 5 (drop (k - 5) (drop 5 b)))" using assms(2) by (simp only: hunks_fit_def)
    moreover have "drop (k - 5) (drop 5 b) = drop k b" using \<open>k \<ge> 5\<close> by simp
    ultimately show ?thesis by simp
  qed
qed

lemma hunks_error:
  "b85_hunks i b = Inl e \<Longrightarrow>
     (\<exists>m < length b. e = bad_character (i + m) \<and> b ! m \<notin> set b85alphabet \<and>
        (\<forall>l < m. b ! l \<in> set b85alphabet) \<and> hunks_fit b m) \<or>
     (\<exists>m < length b. 5 dvd m \<and> e = hunk_overflow (i + m) \<and>
        (\<exists>v \<ge> 2 ^ 32. radix_value 85 b85val 0 (take 5 (drop m b)) = Some v) \<and> hunks_fit b m)"
proof (induction i b rule: b85_hunks.induct)
  case (1 i b)
  have ne: "b \<noteq> []" using "1.prems" by auto
  show ?case
  proof (cases "b85_hunk i (take 5 b)")
    case (Inl e')
    then have e: "e' = e" using "1.prems" ne by (subst (asm) b85_hunks.simps) simp
    have f: "hunks_fit b m" if "m < 5" for m using that by (simp add: hunks_fit_def)
    from hunk_error [OF Inl] show ?thesis
    proof (elim disjE exE conjE)
      fix m
      assume m: "m < length (take 5 b)" "e' = bad_character (i + m)" "take 5 b ! m \<notin> set b85alphabet"
        "\<forall>l < m. take 5 b ! l \<in> set b85alphabet"
      then show ?thesis using f [of m] e by (intro disjI1 exI [of _ m]) simp
    next
      fix v
      assume "e' = hunk_overflow i" "2 ^ 32 \<le> v" "radix_value 85 b85val 0 (take 5 b) = Some v"
      then show ?thesis using f [of 0] e ne by (intro disjI2 exI [of _ 0]) auto
    qed
  next
    case (Inr s)
    then have "b85_hunks (i + 5) (drop 5 b) = Inl e"
      using "1.prems" ne by (subst (asm) b85_hunks.simps) (cases "b85_hunks (i + 5) (drop 5 b)"; simp)
    note fits = hunks_fit_step [OF hunk_Inr_fits [OF Inr]]
    from "1.IH" [OF ne \<open>b85_hunks (i + 5) (drop 5 b) = Inl e\<close>] show ?thesis
    proof (elim disjE exE conjE)
      fix m
      assume m: "m < length (drop 5 b)" "e = bad_character (i + 5 + m)" "drop 5 b ! m \<notin> set b85alphabet"
        "\<forall>l < m. drop 5 b ! l \<in> set b85alphabet" and f: "hunks_fit (drop 5 b) m"
      have "b ! l \<in> set b85alphabet" if "l < m + 5" for l
      proof (cases "l < 5")
        case True
        obtain v where "radix_value 85 b85val 0 (take 5 b) = Some v" using Inr by (auto simp: hunk_Inr)
        then have "\<forall>c \<in> set (take 5 b). b85val c \<noteq> None" using b85.value_total by blast
        moreover have "b ! l \<in> set (take 5 b)" using True that m(1) by (auto simp: in_set_conv_nth intro!: exI [of _ l])
        ultimately show ?thesis by (auto simp: b85val_None)
      next
        case False
        then show ?thesis using m(1,4) that by (auto dest: spec [of _ "l - 5"])
      qed
      then show ?thesis using m fits [OF f] by (intro disjI1 exI [of _ "m + 5"]) (auto simp: ac_simps)
    next
      fix m v
      assume "m < length (drop 5 b)" "5 dvd m" "e = hunk_overflow (i + 5 + m)" "2 ^ 32 \<le> v"
        "radix_value 85 b85val 0 (take 5 (drop m (drop 5 b))) = Some v" "hunks_fit (drop 5 b) m"
      then show ?thesis using fits by (intro disjI2 exI [of _ "m + 5"]) (auto simp: ac_simps)
    qed
  qed
qed

lemma b85decode_padded:
  assumes "nat (- int (length b) mod 5) = p" "b85_hunks 0 (b @ replicate p (CHR ''~'')) = Inr out"
  shows "b85decode b = Inr (take (length (concat out) - p) (concat out))"
  unfolding b85decode_def Let_def assms(1) assms(2) by simp

lemma b85decode_padded_error:
  assumes "nat (- int (length b) mod 5) = p" "b85_hunks 0 (b @ replicate p (CHR ''~'')) = Inl e"
  shows "b85decode b = Inl e"
  unfolding b85decode_def Let_def assms(1) assms(2) by simp

text \<open>The result of a text does not depend on where its first hunk starts; only the messages do.\<close>

lemma hunks_shift: "b85_hunks i b = Inr xs \<Longrightarrow> b85_hunks j b = Inr xs"
proof (induction i b arbitrary: xs j rule: b85_hunks.induct)
  case (1 i b)
  show ?case
  proof (cases "b = []")
    case False
    then obtain s ys where s: "b85_hunk i (take 5 b) = Inr s" and ys: "b85_hunks (i + 5) (drop 5 b) = Inr ys"
      and xs: "xs = s # ys"
      using "1.prems" by (subst (asm) b85_hunks.simps) (auto simp: rbind_eq_Inr_iff rmap_eq_Inr_iff)
    have "b85_hunk j (take 5 b) = Inr s" using s by (simp add: hunk_Inr)
    then show ?thesis using "1.IH" [OF False ys, of "j + 5"] False xs by (subst b85_hunks.simps) simp
  qed (use "1.prems" in simp)
qed

text \<open>A text of whole hunks decodes on its own, whatever follows it.\<close>

lemma b85decode_append:
  assumes "5 dvd length a" "b85_hunks 0 a = Inr xs"
  shows "case b85decode b of Inl e \<Rightarrow> \<not> is_ok (b85decode (a @ b)) | Inr r \<Rightarrow> b85decode (a @ b) = Inr (concat xs @ r)"
proof -
  define p where "p = nat (- int (length b) mod 5)"
  let ?b = "b @ replicate p (CHR ''~'')"
  have p: "nat (- int (length (a @ b)) mod 5) = p"
  proof -
    have "length (a @ b) mod 5 = length b mod 5" using assms(1) by (auto elim!: dvdE)
    then show ?thesis unfolding p_def pad5 by simp
  qed
  have ab: "b85_hunks 0 ((a @ b) @ replicate p (CHR ''~'')) = rmap ((@) xs) (b85_hunks (length a) ?b)"
    using hunks_append [OF assms(1), of 0 ?b] by (simp add: assms(2))
  show ?thesis
  proof (cases "b85_hunks 0 ?b")
    case (Inl e)
    then have "\<not> is_ok (b85_hunks (length a) ?b)" using hunks_shift [of "length a" ?b _ 0] by (auto simp: is_ok_iff)
    then show ?thesis
      using ab b85decode_padded_error [OF p] b85decode_padded_error [OF p_def [symmetric] Inl]
      by (cases "b85_hunks (length a) ?b") simp_all
  next
    case (Inr ys)
    have "p \<le> length (concat ys)"
      using hunks_length [OF Inr] by (cases "b = []") (auto simp: p_def pad5 Suc_le_eq)
    then show ?thesis
      using ab hunks_shift [OF Inr, of "length a"] b85decode_padded [OF p] b85decode_padded [OF p_def [symmetric] Inr]
      by simp
  qed
qed

section \<open>The encoder the text is meant for\<close>

text \<open>
  \<open>base64.b85encode\<close> of the standard library, which wrote the text: four bytes to five digits, the last
  group filled with zero bytes whose digits are dropped again.
\<close>

definition enc_hunk :: "string \<Rightarrow> string" where
  "enc_hunk bs = radix_digits 85 b85digit 5 (the (radix_value 256 byte_val 0 bs))"

function enc_hunks :: "string \<Rightarrow> string" where
  "enc_hunks bs = (if bs = [] then [] else enc_hunk (take 4 bs) @ enc_hunks (drop 4 bs))"
  by pat_completeness auto

termination
  by (relation "measure length") auto

declare enc_hunks.simps [simp del]

definition b85encode :: "string \<Rightarrow> string" where
  "b85encode bs =
     (let padding = nat (- int (length bs) mod 4);
          out = enc_hunks (bs @ replicate padding (CHR 0x00))
      in take (length out - padding) out)"

lemma bytes_total: "\<exists>v. radix_value 256 byte_val acc bs = Some v"
  by (induction bs arbitrary: acc) (auto simp: byte_val_def)

lemma value_top: "radix_value 85 b85val acc (replicate p (CHR ''~'')) = Some (acc * 85 ^ p + 85 ^ p - 1)"
proof (induction p arbitrary: acc)
  case (Suc p)
  have "b85val (CHR ''~'') = Some 84"
    by (simp add: b85val_Some b85alphabet_def exI [of _ 84])
  then show ?case using Suc by (simp add: algebra_simps)
qed simp

lemma value_zeros: "radix_value 256 byte_val acc (replicate p (CHR 0x00)) = Some (acc * 256 ^ p)"
  by (induction p arbitrary: acc) (simp_all add: byte_val_def algebra_simps)

text \<open>The last hunk: what was dropped reads as the highest digits, which does not reach the bytes kept.\<close>

lemma last_hunk:
  assumes "length rest = 4 - p" "p < 4"
  shows "\<exists>s. b85_hunk i (take (5 - p) (enc_hunk (rest @ replicate p (CHR 0x00))) @ replicate p (CHR ''~'')) = Inr s \<and>
     take (4 - p) s = rest"
proof -
  obtain a where a: "radix_value 256 byte_val 0 rest = Some a" using bytes_total by blast
  then have ar: "0 \<le> a" "a < 256 ^ (4 - p)" using bytes.value_range [OF a] by (simp_all add: assms(1))
  define x where "x = a * 256 ^ p"
  have p4: "(256 :: int) ^ (4 - p) * 256 ^ p = 2 ^ 32" using assms(2) by (simp flip: power_add)
  have x: "enc_hunk (rest @ replicate p (CHR 0x00)) = radix_digits 85 b85digit 5 x"
    by (simp add: enc_hunk_def radix_value_append a value_zeros x_def)
  have "(a + 1) * 256 ^ p \<le> 2 ^ 32" unfolding p4 [symmetric] using ar(2) by (intro mult_right_mono) auto
  then have xr: "0 \<le> x" "x + 256 ^ p \<le> 2 ^ 32" using ar(1) by (simp_all add: x_def algebra_simps)
  let ?q = "x div 85 ^ p"
  have "x < 85 ^ (5 - p) * 85 ^ p" using xr assms(2) by (simp flip: power_add) (smt (verit) zero_less_power)
  moreover have "0 \<le> x mod 85 ^ p" by (rule pos_mod_sign) simp
  then have "?q * 85 ^ p \<le> x" using div_mult_mod_eq [of x "85 ^ p"] by linarith
  ultimately have "?q * 85 ^ p < 85 ^ (5 - p) * 85 ^ p" by linarith
  then have "?q < 85 ^ (5 - p)" by (rule mult_right_less_imp_less) simp
  moreover have "0 \<le> ?q" using xr(1) by (simp add: pos_imp_zdiv_nonneg_iff)
  ultimately have q: "0 \<le> ?q" "?q < 85 ^ (5 - p)" by simp_all
  define y where "y = ?q * 85 ^ p + 85 ^ p - 1"
  have "radix_value 85 b85val 0 (take (5 - p) (radix_digits 85 b85digit 5 x) @ replicate p (CHR ''~'')) = Some y"
    using assms(2) q by (simp add: b85.take_digits radix_value_append b85.value_digits value_top y_def)
  moreover have "x mod 85 ^ p < 85 ^ p" by (rule pos_mod_bound) simp
  then have yr: "x \<le> y" "y < x + 85 ^ p"
    using div_mult_mod_eq [of x "85 ^ p"] \<open>?q * 85 ^ p \<le> x\<close> unfolding y_def by linarith+
  moreover have "(85 :: int) ^ p \<le> 256 ^ p" by (simp add: power_mono)
  moreover have "y div 256 ^ p = a"
  proof (rule int_div_pos_eq)
    show "y = 256 ^ p * a + (y - x)" by (simp add: x_def)
    show "0 \<le> y - x" "y - x < 256 ^ p" using yr calculation(4) by simp_all
  qed
  then have "take (4 - p) (radix_digits 256 byte 4 y) = rest"
    using bytes.digits_value [OF a] assms by (simp add: bytes.take_digits)
  ultimately show ?thesis using xr(2) by (auto simp: x hunk_Inr)
qed

lemma enc_hunk_length [simp]: "length (enc_hunk bs) = 5"
  by (simp add: enc_hunk_def)

lemma enc_hunks_Nil [simp]: "enc_hunks [] = []"
  by (simp add: enc_hunks.simps)

lemma enc_hunks_append: "4 dvd length a \<Longrightarrow> enc_hunks (a @ b) = enc_hunks a @ enc_hunks b"
proof (induction a rule: enc_hunks.induct)
  case (1 a)
  show ?case
  proof (cases "a = []")
    case False
    then have "length a \<ge> 4" using "1.prems" by (auto dest: dvd_imp_le)
    moreover have "4 dvd length (drop 4 a)" using "1.prems" \<open>length a \<ge> 4\<close> by (simp add: dvd_minus_self)
    ultimately show ?thesis
      using "1.IH" [OF False] False
      by (subst enc_hunks.simps, subst (2) enc_hunks.simps) simp
  qed simp
qed

lemma enc_hunks_one: "length h = 4 \<Longrightarrow> enc_hunks h = enc_hunk h"
  by (subst enc_hunks.simps) auto

lemma enc_hunks_length: "4 dvd length bs \<Longrightarrow> length (enc_hunks bs) = 5 * (length bs div 4)"
proof (induction bs rule: enc_hunks.induct)
  case (1 a)
  show ?case
  proof (cases "a = []")
    case False
    then have l: "length a \<ge> 4" using "1.prems" by (auto dest: dvd_imp_le)
    moreover have "4 dvd length (drop 4 a)" using "1.prems" l by (simp add: dvd_minus_self)
    moreover have "Suc ((length a - 4) div 4) = length a div 4" using l by (simp add: le_div_geq)
    ultimately show ?thesis using "1.IH" [OF False] False by (subst enc_hunks.simps) simp
  qed simp
qed

text \<open>Whole groups; the last hunk without padding is the case \<open>p = 0\<close> of the lemma above.\<close>

lemma full_hunks: "4 dvd length bs \<Longrightarrow> \<exists>xs. b85_hunks i (enc_hunks bs) = Inr xs \<and> concat xs = bs"
proof (induction bs arbitrary: i rule: enc_hunks.induct)
  case (1 a)
  show ?case
  proof (cases "a = []")
    case False
    then have l: "length a \<ge> 4" using "1.prems" by (auto dest: dvd_imp_le)
    then obtain xs where xs: "b85_hunks (i + 5) (enc_hunks (drop 4 a)) = Inr xs" "concat xs = drop 4 a"
      using "1.IH" [OF False] "1.prems" by (auto simp: dvd_minus_self)
    obtain s where s: "b85_hunk i (enc_hunk (take 4 a)) = Inr s" "s = take 4 a"
      using last_hunk [of "take 4 a" 0 i] l hunk_length by fastforce
    have "enc_hunks a = enc_hunk (take 4 a) @ enc_hunks (drop 4 a)" using False by (subst enc_hunks.simps) simp
    then show ?thesis using xs s by (simp add: hunks_step)
  qed simp
qed

text \<open>Whole groups and one that is not.\<close>

lemma decode_partial:
  assumes "4 dvd length full" "length rest = 4 - p" "0 < p" "p < 4"
  shows "b85decode (enc_hunks full @ take (5 - p) (enc_hunk (rest @ replicate p (CHR 0x00)))) = Inr (full @ rest)"
    (is "b85decode ?e = _")
proof -
  let ?h = "take (5 - p) (enc_hunk (rest @ replicate p (CHR 0x00))) @ replicate p (CHR ''~'')"
  obtain xs where xs: "b85_hunks 0 (enc_hunks full) = Inr xs" "concat xs = full" using full_hunks [OF assms(1)] by blast
  obtain s where s: "b85_hunk (length (enc_hunks full)) ?h = Inr s" "take (4 - p) s = rest"
    using last_hunk [OF assms(2,4)] by blast
  have fl: "length (enc_hunks full) = 5 * (length full div 4)" by (rule enc_hunks_length [OF assms(1)])
  have "length ?h = 5" using assms(4) by simp
  from hunks_step [OF this, of "length (enc_hunks full)" "[]"] s(1)
  have hunks: "b85_hunks 0 (?e @ replicate p (CHR ''~'')) = Inr (xs @ [s])"
    using hunks_append [of "enc_hunks full" 0 ?h] xs(1) by (simp add: fl)
  have "length ?e = 5 * (length full div 4) + (5 - p)" using assms(4) by (simp add: fl)
  moreover have "(5 * k + (5 - p)) mod 5 = 5 - p" for k
    unfolding mod_mult_self4 using assms(3,4) by simp
  ultimately have "length ?e mod 5 = 5 - p" by (simp only:)
  then have pad: "nat (- int (length ?e) mod 5) = p" using assms(3,4) by (simp only: pad5) simp
  show ?thesis
    using b85decode_padded [OF pad hunks] s(2) hunk_length [OF s(1)] assms(4) by (simp add: xs(2))
qed

text \<open>C10: Decoding inverts the encoder: every byte string that \<open>base64.b85encode\<close> writes is read back by
  the decoder of the script, whatever its length modulo four.\<close>

theorem b85_round_trip: "b85decode (b85encode bs) = Inr bs"
proof -
  define p where "p = nat (- int (length bs) mod 4)"
  define rest where "rest = drop (4 * (length bs div 4)) bs"
  define full where "full = take (4 * (length bs div 4)) bs"
  have bs: "bs = full @ rest" "length full = 4 * (length bs div 4)" "length rest = length bs mod 4"
    by (simp_all add: full_def rest_def minus_div_mult_eq_mod [symmetric] minus_mult_div_eq_mod)
  show ?thesis
  proof (cases "p = 0")
    case True
    then have d: "4 dvd length bs" by (auto simp: p_def pad4 mod_eq_0_iff_dvd split: if_splits)
    obtain xs where "b85_hunks 0 (enc_hunks bs) = Inr xs" "concat xs = bs" using full_hunks [OF d] by blast
    moreover have "nat (- int (length (enc_hunks bs)) mod 5) = 0" by (simp add: enc_hunks_length [OF d])
    ultimately show ?thesis
      using True by (simp add: b85encode_def p_def [symmetric] b85decode_def)
  next
    case False
    have p4: "p < 4" by (simp add: p_def pad4)
    have r: "length rest = 4 - p" unfolding bs(3) using False by (simp add: p_def pad4 split: if_splits)
    have "enc_hunks (bs @ replicate p (CHR 0x00)) = enc_hunks full @ enc_hunk (rest @ replicate p (CHR 0x00))"
      using p4 r by (subst bs(1)) (simp add: enc_hunks_append bs(2) enc_hunks_one)
    then have "b85encode bs = enc_hunks full @ take (5 - p) (enc_hunk (rest @ replicate p (CHR 0x00)))"
      using p4 by (simp add: b85encode_def p_def [symmetric] Let_def)
    moreover have "4 dvd length full" by (simp add: bs(2))
    from decode_partial [OF this r _ p4] False
    have "b85decode (enc_hunks full @ take (5 - p) (enc_hunk (rest @ replicate p (CHR 0x00)))) = Inr bs"
      by (simp add: bs(1) [symmetric])
    ultimately show ?thesis by (simp only:)
  qed
qed

lemma hunks_fit_append: "hunks_fit (b @ t) n \<Longrightarrow> n \<le> length b \<Longrightarrow> hunks_fit b n"
  by (simp add: hunks_fit_def)

text \<open>C14: Text that cannot be decoded is reported at its first bad character, when every whole hunk before it
  fits in 32 bits, or else at the first hunk that does not fit, when all characters up to its end are
  good; no other error leaves the decoder, so the bare \<open>raise\<close> in its handler is never reached.\<close>

theorem b85decode_errors:
  assumes "b85decode b = Inl e"
  shows "(\<exists>n < length b. e = bad_character n \<and> b ! n \<notin> set b85alphabet \<and>
       (\<forall>m < n. b ! m \<in> set b85alphabet) \<and> hunks_fit b n) \<or>
     (\<exists>n < length b. 5 dvd n \<and> e = hunk_overflow n \<and>
        (\<exists>v \<ge> 2 ^ 32. b85_acc 0 (take 5 (drop n b @ replicate 4 (CHR ''~''))) = Some v) \<and> hunks_fit b n)"
proof -
  define p where "p = nat (- int (length b) mod 5)"
  let ?b = "b @ replicate p (CHR ''~'')"
  have top: "CHR ''~'' \<in> set b85alphabet" by (simp add: b85alphabet_def)
  have p: "p < 5" "5 dvd length ?b" by (auto simp: p_def pad5 mod_eq_0_iff_dvd) presburger+
  have "b85_hunks 0 ?b = Inl e"
    using assms by (simp add: b85decode_def p_def Let_def) (cases "b85_hunks 0 ?b"; simp add: p_def)
  from hunks_error [OF this] show ?thesis
  proof (elim disjE exE conjE)
    fix m
    assume m: "m < length ?b" "e = bad_character (0 + m)" "?b ! m \<notin> set b85alphabet" "\<forall>l < m. ?b ! l \<in> set b85alphabet"
      and f: "hunks_fit ?b m"
    then have "m < length b" using top by (auto simp: nth_append split: if_splits)
    then show ?thesis using m(2-) hunks_fit_append [OF f] by (auto simp: nth_append intro!: exI [of _ m])
  next
    fix m v
    assume m: "m < length ?b" "5 dvd m" "e = hunk_overflow (0 + m)" "2 ^ 32 \<le> v"
      "radix_value 85 b85val 0 (take 5 (drop m ?b)) = Some v" and f: "hunks_fit ?b m"
    have mb: "m < length b" using m(1,2) p by (auto simp: dvd_def)
    have "5 dvd length (drop m ?b)" unfolding length_drop using m(2) p(2) by (intro dvd_diff_nat)
    then have "length (drop m ?b) \<ge> 5" by (rule dvd_imp_le) (use m(1) in simp)
    then have "take 5 (drop m ?b) = take 5 (drop m b @ replicate 4 (CHR ''~''))"
      using mb p(1) by (auto simp: min_def take_replicate)
    then show ?thesis using m mb hunks_fit_append [OF f] by (auto simp: b85_acc_radix)
  qed
qed

theorem b85decode_errors_witness:
  "b85decode ''P)h>@6a AK'' = Inl (bad_character 7) \<and> b85decode ''P)h>@~~'' = Inl (hunk_overflow 5) \<and>
   (\<exists>v \<ge> 2 ^ 32. b85_acc 0 (take 5 (drop 5 ''P)h>@~~'' @ replicate 4 (CHR ''~''))) = Some v)"
proof -
  have "b85decode ''P)h>@6a AK'' = Inl (bad_character 7)" by code_simp
  moreover have o: "b85decode ''P)h>@~~'' = Inl (hunk_overflow 5)" by code_simp
  moreover have "\<exists>v \<ge> 2 ^ 32. b85_acc 0 (take 5 (drop 5 ''P)h>@~~'' @ replicate 4 (CHR ''~''))) = Some v"
    using b85decode_errors [OF o]
  proof (elim disjE exE conjE)
    fix n
    assume "hunk_overflow 5 = bad_character n"
    then show ?thesis by (simp add: hunk_overflow_def bad_character_def)
  next
    fix n v
    assume "hunk_overflow 5 = hunk_overflow n" "2 ^ 32 \<le> v"
      and v: "b85_acc 0 (take 5 (drop n ''P)h>@~~'' @ replicate 4 (CHR ''~''))) = Some v"
    moreover have "n = 5" using calculation(1) by (simp add: hunk_overflow_def nat_str_inject)
    ultimately show ?thesis by blast
  qed
  ultimately show ?thesis by blast
qed

text \<open>The length of the result is determined by the length of the text: four bytes per hunk of five
  characters, and one byte less than the characters of the last hunk when it is not full.\<close>

lemma b85decode_length:
  assumes "b85decode b = Inr bs"
  shows "length bs = 4 * (length b div 5) + (length b mod 5 - 1)"
proof -
  define p where "p = nat (- int (length b) mod 5)"
  obtain xs where xs: "b85_hunks 0 (b @ replicate p (CHR ''~'')) = Inr xs" "bs = take (length (concat xs) - p) (concat xs)"
    using assms by (auto simp: b85decode_def p_def Let_def rmap_eq_Inr_iff)
  have "length (concat xs) = 4 * ((length b + p + 4) div 5)" using hunks_length [OF xs(1)] by (simp add: ac_simps)
  moreover have "4 * ((n + nat (- int n mod 5) + 4) div 5) - nat (- int n mod 5) = 4 * (n div 5) + (n mod 5 - 1)" for n
  proof -
    obtain q r where n: "n = 5 * q + r" "r < 5" by (metis mod_less_divisor mult_div_mod_eq zero_less_numeral)
    then have "n div 5 = q" and r: "n mod 5 = r" by simp_all
    moreover have "(5 * q + 4) div 5 = q" "(5 * (q + 1) + 4) div 5 = q + 1" by (intro div_nat_eqI; simp)+
    ultimately show ?thesis using n(2) unfolding pad5 r n(1) by (cases "r = 0") (simp_all add: algebra_simps)
  qed
  ultimately show ?thesis unfolding xs(2) p_def length_take by (metis diff_le_self min_absorb2)
qed

end
