(* ===== verification/Get_Pip.thy ===== *)
theory Get_Pip
  imports Base85
begin

text \<open>
  \<open>roles/bootstrap-os/files/get-pip.py\<close>: the requirements \<open>bootstrap\<close> asks pip
  for, and the run of \<open>main\<close> in a temporary directory. The archive the script carries is an argument, \<open>data\<close>;
  its text is in the theories \<open>Get_Pip_Data_1\<close> and following. The parts of pip the script calls (the parser of
  a requirement, the certificate bundle, \<open>pip.main\<close>), the choice of a fresh directory name and the
  errors of the file system are the record \<open>gp_os\<close> and the function \<open>req_name\<close>, arguments of every
  definition.
\<close>

section \<open>The requirements\<close>

record pip_env =
  argv :: "string list"
  environ :: "(string, string) dict"
  has_setuptools :: bool
  has_wheel :: bool
  req_name :: "string \<Rightarrow> string option option"

text \<open>\<open>os.environ.get(k)\<close> as a condition.\<close>

definition env_set :: "pip_env \<Rightarrow> string \<Rightarrow> bool" where
  "env_set env k = (case dict_get (environ env) k of None \<Rightarrow> False | Some v \<Rightarrow> v \<noteq> [])"

text \<open>
  The loop that looks for requirements of the user: \<open>None\<close> is an argument that is not a requirement,
  \<open>Some None\<close> a requirement without a name.
\<close>

fun named :: "(string \<Rightarrow> string option option) \<Rightarrow> string list \<Rightarrow> bool \<times> bool \<times> bool \<Rightarrow> bool \<times> bool \<times> bool" where
  "named from_line [] st = st"
| "named from_line (arg # args) (implicit_pip, implicit_setuptools, implicit_wheel) =
     named from_line args
       (case from_line arg of
          None \<Rightarrow> (implicit_pip, implicit_setuptools, implicit_wheel)
        | Some name \<Rightarrow>
            if implicit_pip \<and> name = Some ''pip'' then (False, implicit_setuptools, implicit_wheel)
            else if implicit_setuptools \<and> name = Some ''setuptools'' then (implicit_pip, False, implicit_wheel)
            else if implicit_wheel \<and> name = Some ''wheel'' then (implicit_pip, implicit_setuptools, False)
            else (implicit_pip, implicit_setuptools, implicit_wheel))"

definition bootstrap_args :: "pip_env \<Rightarrow> string list" where
  "bootstrap_args env =
     (let no_setuptools = (''--no-setuptools'' \<in> set (argv env) \<or> env_set env ''PIP_NO_SETUPTOOLS'');
          args = (if no_setuptools then filter (\<lambda>x. x \<noteq> ''--no-setuptools'') (tl (argv env)) else tl (argv env));
          no_wheel = (''--no-wheel'' \<in> set args \<or> env_set env ''PIP_NO_WHEEL'');
          args = (if no_wheel then filter (\<lambda>x. x \<noteq> ''--no-wheel'') args else args)
      in case named (req_name env) args
                (True, \<not> no_setuptools \<and> \<not> has_setuptools env, \<not> no_wheel \<and> \<not> has_wheel env) of
           (implicit_pip, implicit_setuptools, implicit_wheel) \<Rightarrow>
             args @ (if implicit_pip then [''pip''] else []) @
             (if implicit_setuptools then [''setuptools''] else []) @ (if implicit_wheel then [''wheel''] else []))"

text \<open>Documented behaviour of \<open>InstallRequirement.from_line\<close>: a bare name is a requirement of that name.\<close>

definition bare_names :: "pip_env \<Rightarrow> bool" where
  "bare_names env = (\<forall>n \<in> {''pip'', ''setuptools'', ''wheel''}. req_name env n = Some (Some n))"

definition requires :: "pip_env \<Rightarrow> string \<Rightarrow> string \<Rightarrow> bool" where
  "requires env package arg = (req_name env arg = Some (Some package))"

lemma named_exact:
  "named f args (p, s, w) =
     (p \<and> (\<forall>a \<in> set args. f a \<noteq> Some (Some ''pip'')), s \<and> (\<forall>a \<in> set args. f a \<noteq> Some (Some ''setuptools'')),
      w \<and> (\<forall>a \<in> set args. f a \<noteq> Some (Some ''wheel'')))"
  by (induction args arbitrary: p s w) (auto split: option.split)

text \<open>What the user asked for: the arguments less the two flags of the script.\<close>

definition user_args :: "pip_env \<Rightarrow> string list" where
  "user_args env = filter (\<lambda>x. x \<noteq> ''--no-setuptools'' \<and> x \<noteq> ''--no-wheel'') (tl (argv env))"

definition unwanted :: "pip_env \<Rightarrow> string \<Rightarrow> string \<Rightarrow> bool" where
  "unwanted env flag var = (flag \<in> set (argv env) \<or> env_set env var)"

lemma filter_absent: "x \<notin> set xs \<Longrightarrow> filter (\<lambda>y. y \<noteq> x) xs = xs"
  by (rule filter_True) auto

lemma bootstrap_args_exact:
  assumes "argv env = script # rest" "script \<notin> {''--no-setuptools'', ''--no-wheel''}"
  shows "bootstrap_args env = user_args env @
     (if \<exists>a \<in> set (user_args env). requires env ''pip'' a then [] else [''pip'']) @
     (if unwanted env ''--no-setuptools'' ''PIP_NO_SETUPTOOLS'' \<or> has_setuptools env \<or>
         (\<exists>a \<in> set (user_args env). requires env ''setuptools'' a) then [] else [''setuptools'']) @
     (if unwanted env ''--no-wheel'' ''PIP_NO_WHEEL'' \<or> has_wheel env \<or>
         (\<exists>a \<in> set (user_args env). requires env ''wheel'' a) then [] else [''wheel''])"
proof -
  define ns where "ns = unwanted env ''--no-setuptools'' ''PIP_NO_SETUPTOOLS''"
  define nw where "nw = unwanted env ''--no-wheel'' ''PIP_NO_WHEEL''"
  let ?A = "filter (\<lambda>x. x \<noteq> ''--no-setuptools'') rest"
  have n: "(''--no-setuptools'' \<in> set (script # rest) \<or> env_set env ''PIP_NO_SETUPTOOLS'') = ns"
    by (simp add: ns_def unwanted_def assms(1))
  have 1: "(if ns then ?A else rest) = ?A"
    using assms by (auto simp: ns_def unwanted_def filter_absent)
  have w: "(''--no-wheel'' \<in> set ?A \<or> env_set env ''PIP_NO_WHEEL'') = nw"
    using assms by (auto simp: nw_def unwanted_def)
  have 2: "(if nw then filter (\<lambda>x. x \<noteq> ''--no-wheel'') ?A else ?A) = user_args env"
  proof (cases nw)
    case False
    then have "''--no-wheel'' \<notin> set ?A" using w by blast
    then have "?A = filter (\<lambda>x. x \<noteq> ''--no-wheel'') ?A" by (rule filter_absent [symmetric])
    with False show ?thesis by (simp add: user_args_def assms(1) conj_commute)
  qed (simp add: user_args_def assms(1) conj_commute)
  have "bootstrap_args env =
      (case named (req_name env) (user_args env) (True, \<not> ns \<and> \<not> has_setuptools env, \<not> nw \<and> \<not> has_wheel env) of
         (p, s, v) \<Rightarrow> user_args env @ (if p then [''pip''] else []) @ (if s then [''setuptools''] else []) @
           (if v then [''wheel''] else []))"
    unfolding bootstrap_args_def Let_def assms(1) list.sel n 1 w 2 by (rule refl)
  then show ?thesis
    unfolding named_exact requires_def ns_def [symmetric] nw_def [symmetric] by auto
qed

text \<open>C19: Whatever the user asks for, the arguments for pip name pip itself; setuptools and wheel are
  named when the user did not ask to leave them out and they are not there yet; the two flags of the
  script are never passed on; and the arguments of the user come first, in their order.\<close>

theorem bootstrap_args_complete:
  assumes "argv env = script # rest" "script \<notin> {''--no-setuptools'', ''--no-wheel''}" "bare_names env"
  shows "(\<exists>a \<in> set (bootstrap_args env). requires env ''pip'' a) \<and>
     (\<not> unwanted env ''--no-setuptools'' ''PIP_NO_SETUPTOOLS'' \<and> \<not> has_setuptools env \<longrightarrow>
        (\<exists>a \<in> set (bootstrap_args env). requires env ''setuptools'' a)) \<and>
     (\<not> unwanted env ''--no-wheel'' ''PIP_NO_WHEEL'' \<and> \<not> has_wheel env \<longrightarrow>
        (\<exists>a \<in> set (bootstrap_args env). requires env ''wheel'' a)) \<and>
     ''--no-setuptools'' \<notin> set (bootstrap_args env) \<and> ''--no-wheel'' \<notin> set (bootstrap_args env) \<and>
     (\<exists>implicit. bootstrap_args env = user_args env @ implicit \<and> set implicit \<subseteq> {''pip'', ''setuptools'', ''wheel''})"
  using assms(3) unfolding bootstrap_args_exact [OF assms(1,2)] bare_names_def requires_def
  by (auto simp: user_args_def)

definition demo_pip_env :: pip_env where
  "demo_pip_env = \<lparr> argv = [''get-pip.py'', ''pip<8'', ''--no-wheel'', ''--user''], environ = [],
     has_setuptools = False, has_wheel = False,
     req_name = (\<lambda>arg. if starts_with arg ''-'' then None else Some (Some (takeWhile (\<lambda>c. c \<noteq> CHR ''<'') arg))) \<rparr>"

lemma demo_pip_args: "bootstrap_args demo_pip_env = [''pip<8'', ''--user'', ''setuptools'']"
  by code_simp

lemma demo_bare: "bare_names demo_pip_env"
  by code_simp

lemma demo_argv: "argv demo_pip_env = ''get-pip.py'' # [''pip<8'', ''--no-wheel'', ''--user'']"
  by (simp add: demo_pip_env_def)

theorem bootstrap_args_complete_witness:
  "bootstrap_args demo_pip_env = [''pip<8'', ''--user'', ''setuptools''] \<and>
   (\<exists>a \<in> set [''pip<8'', ''--user'', ''setuptools'']. requires demo_pip_env ''pip'' a)"
  using bootstrap_args_complete [OF demo_argv _ demo_bare] demo_pip_args by simp

text \<open>No package is required twice because of the script: a package that the user's arguments name
  at most once is named at most once in the arguments for pip, which is what the loop over the
  arguments is there to ensure.\<close>

lemma no_double_requirement:
  assumes "argv env = script # rest" "script \<notin> {''--no-setuptools'', ''--no-wheel''}" "bare_names env"
    and "package \<in> {''pip'', ''setuptools'', ''wheel''}" "length (filter (requires env package) (user_args env)) \<le> 1"
  shows "length (filter (requires env package) (bootstrap_args env)) \<le> 1"
proof -
  have "filter (requires env package) (user_args env) = []" if "\<not> (\<exists>a \<in> set (user_args env). requires env package a)"
    using that by (auto simp: filter_empty_conv)
  moreover have "requires env ''pip'' ''pip''" "requires env ''setuptools'' ''setuptools''" "requires env ''wheel'' ''wheel''"
    "\<not> requires env ''pip'' ''setuptools''" "\<not> requires env ''pip'' ''wheel''" "\<not> requires env ''setuptools'' ''pip''"
    "\<not> requires env ''setuptools'' ''wheel''" "\<not> requires env ''wheel'' ''pip''" "\<not> requires env ''wheel'' ''setuptools''"
    using assms(3) by (auto simp: bare_names_def requires_def)
  ultimately show ?thesis
    using assms(4,5) unfolding bootstrap_args_exact [OF assms(1,2)] by auto
qed

section \<open>The run\<close>

record gp_world =
  gp_files :: "string \<rightharpoonup> string"
  gp_dirs :: "string list"
  sys_path :: "string list"

text \<open>
  \<open>fresh_name\<close> is the name \<open>tempfile.mkdtemp\<close> chooses, \<open>open_wb\<close> the error of opening a file for writing,
  \<open>import_pip\<close> the error of the three imports, \<open>get_data\<close> the certificates in the archive, which a loader
  without data answers with \<open>None\<close>, \<open>pip_main\<close> the run of pip with what its install command does to
  the defaults of its parser, and \<open>rm_fails\<close> tells the paths the system refuses to remove.
\<close>

type_synonym defaults = "(string, string) dict"

record gp_os =
  fresh_name :: "gp_world \<Rightarrow> string res"
  open_wb :: "gp_world \<Rightarrow> string \<Rightarrow> py_error option"
  import_pip :: "gp_world \<Rightarrow> py_error option"
  get_data :: "gp_world \<Rightarrow> string option res"
  pip_main :: "(string option \<Rightarrow> defaults \<Rightarrow> defaults) \<Rightarrow> string list \<Rightarrow> gp_world \<Rightarrow> int res \<times> gp_world"
  rm_fails :: "string \<Rightarrow> bool"

type_synonym 'a run = "gp_world \<Rightarrow> 'a res \<times> gp_world"

definition seq :: "'a run \<Rightarrow> ('a \<Rightarrow> 'b run) \<Rightarrow> 'b run" where
  "seq m f w = (case m w of (Inl e, w') \<Rightarrow> (Inl e, w') | (Inr x, w') \<Rightarrow> f x w')"

text \<open>\<open>try: ... finally: ...\<close> with a clean-up that does not raise.\<close>

definition try_finally :: "'a run \<Rightarrow> (gp_world \<Rightarrow> gp_world) \<Rightarrow> 'a run" where
  "try_finally m cleanup w = (case m w of (r, w') \<Rightarrow> (r, cleanup w'))"

definition raise :: "py_error \<Rightarrow> 'a run" where
  "raise e w = (Inl e, w)"

definition mkdtemp :: "gp_os \<Rightarrow> string run" where
  "mkdtemp os w =
     (case fresh_name os w of
        Inl e \<Rightarrow> (Inl e, w)
      | Inr d \<Rightarrow> (Inr d, w\<lparr>gp_dirs := d # gp_dirs w\<rparr>))"

definition in_dir :: "string \<Rightarrow> string \<Rightarrow> bool" where
  "in_dir d path = (path = d \<or> starts_with path (d @ ''/''))"

text \<open>\<open>shutil.rmtree(d, ignore_errors=True)\<close>: what cannot be removed stays, without an error.\<close>

definition rmtree :: "gp_os \<Rightarrow> string \<Rightarrow> gp_world \<Rightarrow> gp_world" where
  "rmtree os d w =
     w\<lparr>gp_files := (\<lambda>path. if in_dir d path \<and> \<not> rm_fails os path then None else gp_files w path),
       gp_dirs := filter (\<lambda>path. \<not> in_dir d path \<or> rm_fails os path) (gp_dirs w)\<rparr>"

text \<open>\<open>with open(path, "wb") as fp: fp.write(content)\<close>; the content is computed with the file open.\<close>

definition write_file :: "gp_os \<Rightarrow> string \<Rightarrow> (gp_world \<Rightarrow> string res) \<Rightarrow> unit run" where
  "write_file os path content w =
     (case open_wb os w path of
        Some e \<Rightarrow> (Inl e, w)
      | None \<Rightarrow>
          let w = w\<lparr>gp_files := (gp_files w)(path \<mapsto> [])\<rparr>
          in (case content w of
                Inl e \<Rightarrow> (Inl e, w)
              | Inr s \<Rightarrow> (Inr (), w\<lparr>gp_files := (gp_files w)(path \<mapsto> s)\<rparr>)))"

text \<open>\<open>CertInstallCommand.parse_args\<close>, before it goes on as the class it extends.\<close>

definition cert_parse_args :: "string \<Rightarrow> string option \<Rightarrow> defaults \<Rightarrow> defaults" where
  "cert_parse_args cert_path cert defaults =
     (case cert of
        None \<Rightarrow> dict_set defaults ''cert'' cert_path
      | Some c \<Rightarrow> if c = [] then dict_set defaults ''cert'' cert_path else defaults)"

definition cert_data :: "gp_os \<Rightarrow> gp_world \<Rightarrow> string res" where
  "cert_data os w = rbind (get_data os w) (\<lambda>d. case d of None \<Rightarrow> Inl TypeError | Some s \<Rightarrow> Inr s)"

text \<open>The body of the \<open>try\<close> of \<open>bootstrap\<close>; \<open>sys.exit\<close> raises.\<close>

definition install :: "gp_os \<Rightarrow> string list \<Rightarrow> string \<Rightarrow> unit run" where
  "install os args tmpdir =
     (let cert_path = path_join tmpdir ''cacert.pem''
      in seq (write_file os cert_path (cert_data os)) (\<lambda>_.
         seq (pip_main os (cert_parse_args cert_path) ([''install'', ''--upgrade''] @ args)) (\<lambda>code.
         raise (SystemExit (int_str code)))))"

definition bootstrap :: "gp_os \<Rightarrow> pip_env \<Rightarrow> string option \<Rightarrow> unit run" where
  "bootstrap os env tmpdir w =
     (case import_pip os w of
        Some e \<Rightarrow> (Inl e, w)
      | None \<Rightarrow>
          let args = bootstrap_args env
          in (case tmpdir of
                Some d \<Rightarrow> install os args d w
              | None \<Rightarrow>
                  seq (mkdtemp os) (\<lambda>d. try_finally (install os args d) (if d \<noteq> [] then rmtree os d else id)) w))"

definition main_body :: "gp_os \<Rightarrow> pip_env \<Rightarrow> string \<Rightarrow> string \<Rightarrow> unit run" where
  "main_body os env data tmpdir =
     (let pip_zip = path_join tmpdir ''pip.zip''
      in seq (write_file os pip_zip (\<lambda>_. b85decode (filter (\<lambda>c. c \<noteq> CHR 0x0A) data))) (\<lambda>_.
         seq (\<lambda>w. (Inr (), w\<lparr>sys_path := pip_zip # sys_path w\<rparr>)) (\<lambda>_.
         bootstrap os env (Some tmpdir))))"

definition main :: "gp_os \<Rightarrow> pip_env \<Rightarrow> string \<Rightarrow> unit run" where
  "main os env data =
     seq (mkdtemp os) (\<lambda>tmpdir. try_finally (main_body os env data tmpdir) (if tmpdir \<noteq> [] then rmtree os tmpdir else id))"

section \<open>What the run promises\<close>

lemma rmtree_empty:
  "in_dir d path \<Longrightarrow> \<not> rm_fails os path \<Longrightarrow> gp_files (rmtree os d w) path = None"
  "\<not> rm_fails os d \<Longrightarrow> d \<notin> set (gp_dirs (rmtree os d w))"
  by (simp_all add: rmtree_def in_dir_def)

lemma temporary_dir:
  assumes "fresh_name os w = Inr d" "d \<noteq> []"
    and "seq (mkdtemp os) (\<lambda>d. try_finally (m d) (if d \<noteq> [] then rmtree os d else id)) w = (r, w')"
  shows "\<exists>v. m d (w\<lparr>gp_dirs := d # gp_dirs w\<rparr>) = (r, v) \<and> w' = rmtree os d v"
  using assms by (auto simp: seq_def mkdtemp_def try_finally_def split: prod.splits)

text \<open>C17: The temporary directory is gone when the script ends, with all that was written to it, whether
  it succeeds or fails at any step, and likewise the one \<open>bootstrap\<close> makes when it is given none; only
  what the system refuses to remove can stay.\<close>

theorem temporary_files_removed:
  assumes "fresh_name os w = Inr d" "d \<noteq> []"
    and "run = main os env data \<or> run = bootstrap os env None \<and> import_pip os w = None" "run w = (r, w')"
  shows "(\<forall>path. in_dir d path \<and> \<not> rm_fails os path \<longrightarrow> gp_files w' path = None) \<and>
     (\<not> rm_fails os d \<longrightarrow> d \<notin> set (gp_dirs w'))"
proof -
  obtain m where "seq (mkdtemp os) (\<lambda>d. try_finally (m d) (if d \<noteq> [] then rmtree os d else id)) w = (r, w')"
    using assms(3,4) by (auto simp: main_def bootstrap_def)
  from temporary_dir [OF assms(1,2) this] obtain v where "w' = rmtree os d v" by blast
  then show ?thesis by (simp add: rmtree_empty)
qed

definition demo_gp_os :: gp_os where
  "demo_gp_os = \<lparr> fresh_name = (\<lambda>w. Inr ''/tmp/x''), open_wb = (\<lambda>w path. None), import_pip = (\<lambda>w. None),
     get_data = (\<lambda>w. Inr (Some ''PEM'')), pip_main = (\<lambda>hook args w. (Inr 0, w)),
     rm_fails = (\<lambda>path. path = ''/tmp/x/cacert.pem'') \<rparr>"

definition demo_gp_world :: gp_world where
  "demo_gp_world = \<lparr> gp_files = Map.empty, gp_dirs = [''/tmp''], sys_path = [] \<rparr>"

theorem temporary_files_removed_witness:
  "fst (main demo_gp_os demo_pip_env ''bad text!'' demo_gp_world) = Inl (bad_character 3) \<and>
   gp_files (snd (main demo_gp_os demo_pip_env ''bad text!'' demo_gp_world)) ''/tmp/x/pip.zip'' = None"
proof -
  have d: "in_dir ''/tmp/x'' ''/tmp/x/pip.zip''" "\<not> rm_fails demo_gp_os ''/tmp/x/pip.zip''" by code_simp+
  have "b85decode ''bad text!'' = Inl (bad_character 3)" by code_simp
  then have "fst (main demo_gp_os demo_pip_env ''bad text!'' demo_gp_world) = Inl (bad_character 3)"
    by (simp add: main_def main_body_def seq_def mkdtemp_def try_finally_def write_file_def demo_gp_os_def Let_def)
  moreover have "fresh_name demo_gp_os demo_gp_world = Inr ''/tmp/x''" by (simp add: demo_gp_os_def)
  ultimately show ?thesis
    using temporary_files_removed [of demo_gp_os demo_gp_world "''/tmp/x''" "main demo_gp_os demo_pip_env ''bad text!''"
        demo_pip_env "''bad text!''"] d
    by (metis list.distinct(1) prod.collapse)
qed

lemma write_file_ok:
  "open_wb os w path = None \<Longrightarrow> content (w\<lparr>gp_files := (gp_files w)(path \<mapsto> [])\<rparr>) = Inr s \<Longrightarrow>
     write_file os path content w = (Inr (), w\<lparr>gp_files := (gp_files w)(path \<mapsto> s)\<rparr>)"
  by (simp add: write_file_def Let_def)

text \<open>C18: When no step fails, pip is run with the archive unpacked, first on the search path and beside
  the certificates, on \<open>install --upgrade\<close> and the computed arguments, with the certificates as the
  default of \<open>--cert\<close>; the status it returns is the exit status of the script, and all that is left is
  what pip has done outside the temporary directory.\<close>

theorem main_runs_pip:
  assumes "fresh_name os w = Inr d" "d \<noteq> []"
    and "\<And>v path. open_wb os v path = None" "\<And>v. import_pip os v = None" "\<And>v. get_data os v = Inr (Some pem)"
    and "b85decode (filter (\<lambda>c. c \<noteq> CHR 0x0A) data) = Inr archive"
    and "pip_main os (cert_parse_args (path_join d ''cacert.pem'')) (''install'' # ''--upgrade'' # bootstrap_args env)
      \<lparr> gp_files = (gp_files w)(path_join d ''pip.zip'' \<mapsto> archive, path_join d ''cacert.pem'' \<mapsto> pem),
        gp_dirs = d # gp_dirs w, sys_path = path_join d ''pip.zip'' # sys_path w \<rparr> = (Inr code, w')"
  shows "main os env data w = (Inl (SystemExit (int_str code)), rmtree os d w')"
proof -
  let ?w1 = "w\<lparr>gp_dirs := d # gp_dirs w\<rparr>"
  let ?w2 = "?w1\<lparr>gp_files := (gp_files w)(path_join d ''pip.zip'' \<mapsto> archive)\<rparr>"
  let ?w3 = "?w2\<lparr>sys_path := path_join d ''pip.zip'' # sys_path w\<rparr>"
  let ?w4 = "?w3\<lparr>gp_files := (gp_files w)(path_join d ''pip.zip'' \<mapsto> archive, path_join d ''cacert.pem'' \<mapsto> pem)\<rparr>"
  have zip: "write_file os (path_join d ''pip.zip'') (\<lambda>_. b85decode (filter (\<lambda>c. c \<noteq> CHR 0x0A) data)) ?w1 = (Inr (), ?w2)"
    using assms(3,6) by (simp add: write_file_ok)
  have cert: "write_file os (path_join d ''cacert.pem'') (cert_data os) ?w3 = (Inr (), ?w4)"
    using assms(3,5) by (subst write_file_ok [of os]) (simp_all add: cert_data_def)
  have "pip_main os (cert_parse_args (path_join d ''cacert.pem'')) (''install'' # ''--upgrade'' # bootstrap_args env) ?w4 =
      (Inr code, w')"
    using assms(7) by (cases w) simp
  then have "install os (bootstrap_args env) d ?w3 = (Inl (SystemExit (int_str code)), w')"
    unfolding install_def Let_def seq_def cert by (simp add: raise_def)
  then have "main_body os env data d ?w1 = (Inl (SystemExit (int_str code)), w')"
    unfolding main_body_def Let_def seq_def zip by (simp add: bootstrap_def assms(4))
  then show ?thesis by (simp add: main_def seq_def mkdtemp_def try_finally_def assms(1,2))
qed

theorem main_runs_pip_witness:
  "main demo_gp_os demo_pip_env (''P)h>@'' @ [CHR 0x0A] @ ''6a'' @ [CHR 0x0A]) demo_gp_world =
     (Inl (SystemExit ''0''), rmtree demo_gp_os ''/tmp/x'' \<lparr> gp_files = [''/tmp/x/pip.zip'' \<mapsto> ''PK'' @ [CHR 0x03, CHR 0x04, CHR 0x14],
        ''/tmp/x/cacert.pem'' \<mapsto> ''PEM''], gp_dirs = [''/tmp/x'', ''/tmp''], sys_path = [''/tmp/x/pip.zip''] \<rparr>)"
proof -
  have d: "b85decode (filter (\<lambda>c. c \<noteq> CHR 0x0A) (''P)h>@'' @ [CHR 0x0A] @ ''6a'' @ [CHR 0x0A])) =
      Inr (''PK'' @ [CHR 0x03, CHR 0x04, CHR 0x14])" by code_simp
  have p: "path_join ''/tmp/x'' ''pip.zip'' = ''/tmp/x/pip.zip''" "path_join ''/tmp/x'' ''cacert.pem'' = ''/tmp/x/cacert.pem''"
    by code_simp+
  have z: "nat_str 0 = ''0''" by code_simp
  show ?thesis
    using main_runs_pip [of demo_gp_os demo_gp_world "''/tmp/x''" "''PEM''", OF _ _ _ _ _ d]
    by (simp add: demo_gp_os_def demo_gp_world_def p int_str_def z)
qed

text \<open>The certificates of the script have the lowest priority: they become the default of \<open>--cert\<close>
  exactly when configuration and environment give none, and no other default changes.\<close>

lemma cert_lowest_priority:
  "dict_get (cert_parse_args cert_path cert defaults) k =
     (if k = ''cert'' \<and> (cert = None \<or> cert = Some []) then Some cert_path else dict_get defaults k)"
  by (auto simp: cert_parse_args_def split: option.splits)

end
