(* ===== verification/Get_Pip_Scan.thy ===== *)
theory Get_Pip_Scan
  imports Base85
begin

text \<open>
  A finite automaton that decides, one character at a time, that a text of whole hunks decodes: every
  character is a digit and no hunk reaches \<open>2 ^ 32\<close>, whose digits are \<open>|NsC0\<close>. It lets the kernel check the
  long constant of \<open>roles/bootstrap-os/files/get-pip.py\<close> line by line.
\<close>

section \<open>Digits below a bound\<close>

definition below :: "nat \<Rightarrow> char \<Rightarrow> bool" where
  "below n c = (c \<in> set (take n b85alphabet))"

lemma below_val: "below n c \<Longrightarrow> n \<le> 85 \<Longrightarrow> \<exists>v. b85val c = Some v \<and> 0 \<le> v \<and> v < int n"
proof -
  assume "below n c" and n: "n \<le> 85"
  then obtain i where i: "i < n" "b85alphabet ! i = c"
    by (auto simp: below_def in_set_conv_nth alphabet_length)
  then have "b85val c = Some (int i)" using n by (auto simp: b85val_Some intro!: exI [of _ i])
  with i(1) show ?thesis by simp
qed

lemma below_table:
  "list_all (below 85) b85alphabet" "list_all (below 82) (take 82 b85alphabet)"
  "list_all (below 23) (take 23 b85alphabet)" "list_all (below 54) (take 54 b85alphabet)"
  by (simp_all add: list_all_iff below_def alphabet_length [symmetric])

lemma below_not: "\<not> below 82 (CHR ''|'')" "\<not> below 23 (CHR ''N'')"
  by (simp_all add: below_def b85alphabet_def)

lemmas below_facts = below_table [unfolded b85alphabet_def, simplified] below_not

section \<open>The automaton\<close>

text \<open>
  States 0 to 4 count the characters a hunk still needs, 0 between hunks; state 5 is after \<open>|\<close> and
  state 6 after \<open>|N\<close>.
\<close>

fun scan :: "nat \<Rightarrow> string \<Rightarrow> nat option" where
  "scan p [] = Some p"
| "scan p (c # cs) =
     (if p = 0 then (if below 82 c then scan 4 cs else if c = CHR ''|'' then scan 5 cs else None)
      else if p = 5 then (if below 23 c then scan 3 cs else if c = CHR ''N'' then scan 6 cs else None)
      else if p = 6 then (if below 54 c then scan 2 cs else None)
      else if below 85 c then scan (p - 1) cs else None)"

lemma scan_Cons:
  "scan 0 (c # cs) = (if below 82 c then scan 4 cs else if c = CHR ''|'' then scan 5 cs else None)"
  "scan 1 (c # cs) = (if below 85 c then scan 0 cs else None)"
  "scan 2 (c # cs) = (if below 85 c then scan 1 cs else None)"
  "scan 3 (c # cs) = (if below 85 c then scan 2 cs else None)"
  "scan 4 (c # cs) = (if below 85 c then scan 3 cs else None)"
  "scan 5 (c # cs) = (if below 23 c then scan 3 cs else if c = CHR ''N'' then scan 6 cs else None)"
  "scan 6 (c # cs) = (if below 54 c then scan 2 cs else None)"
  by simp_all

fun scans :: "nat \<Rightarrow> string list \<Rightarrow> nat option" where
  "scans p [] = Some p"
| "scans p (l # ls) = (case scan p l of None \<Rightarrow> None | Some q \<Rightarrow> scans q ls)"

lemmas scan_rules = scans.simps scan.simps(1) scan_Cons below_facts if_True if_False option.case append.simps
  refl

lemma scan_append: "scan p (a @ b) = (case scan p a of None \<Rightarrow> None | Some q \<Rightarrow> scan q b)"
  by (induction a arbitrary: p) simp_all

lemma scans_concat: "scans p ls = scan p (concat ls)"
  by (induction ls arbitrary: p) (auto simp: scan_append split: option.split)

section \<open>What it accepts decodes\<close>

lemma hunk_bound:
  assumes "radix_value 85 b85val 0 pre = Some a" "(a + 1) * 85 ^ length post \<le> 2 ^ 32"
    and "\<forall>c \<in> set post. below 85 c"
  shows "is_ok (b85_hunk i (pre @ post))"
proof -
  have "\<forall>c \<in> set post. b85val c \<noteq> None" using assms(3) below_val [of 85] by fastforce
  then obtain v where v: "radix_value 85 b85val a post = Some v" using b85.value_total by blast
  with b85.value_bounds [OF v] assms(1,2) have "b85_hunk i (pre @ post) = Inr (radix_digits 256 byte 4 v)"
    by (simp add: hunk_Inr radix_value_append)
  then show ?thesis by simp
qed

lemma scan_hunk:
  assumes "scan 0 (a # b # c # d # e # r) = Some q"
  shows "is_ok (b85_hunk i [a, b, c, d, e])" "scan 0 r = Some q"
proof -
  consider (low) "below 82 a" "below 85 b" "below 85 c" "below 85 d" "below 85 e" "scan 0 r = Some q"
    | (bar) "a = CHR ''|''" "below 23 b" "below 85 c" "below 85 d" "below 85 e" "scan 0 r = Some q"
    | (barN) "a = CHR ''|''" "b = CHR ''N''" "below 54 c" "below 85 d" "below 85 e" "scan 0 r = Some q"
    using assms by (auto split: if_splits)
  then have "is_ok (b85_hunk i [a, b, c, d, e]) \<and> scan 0 r = Some q"
  proof cases
    case low
    obtain v where "b85val a = Some v" "v < 82" using below_val [OF low(1)] by auto
    with low hunk_bound [of "[a]" v "[b, c, d, e]" i] show ?thesis by simp
  next
    case bar
    obtain v where "b85val b = Some v" "v < 23" using below_val [OF bar(2)] by auto
    moreover have "b85val (CHR ''|'') = Some 82" by (simp add: b85val_Some b85alphabet_def exI [of _ 82])
    ultimately show ?thesis using bar hunk_bound [of "[a, b]" "82 * 85 + v" "[c, d, e]" i] by simp
  next
    case barN
    obtain v where "b85val c = Some v" "v < 54" using below_val [OF barN(3)] by auto
    moreover have "b85val (CHR ''|'') = Some 82" "b85val (CHR ''N'') = Some 23"
      by (simp_all add: b85val_Some b85alphabet_def exI [of _ 82] exI [of _ 23])
    ultimately show ?thesis using barN hunk_bound [of "[a, b, c]" "(82 * 85 + 23) * 85 + v" "[d, e]" i] by simp
  qed
  then show "is_ok (b85_hunk i [a, b, c, d, e])" "scan 0 r = Some q" by simp_all
qed

lemma scan_short: "scan 0 cs = Some 0 \<Longrightarrow> length cs < 5 \<Longrightarrow> cs = []"
  by (cases cs; cases "tl cs"; cases "tl (tl cs)"; cases "tl (tl (tl cs))"; cases "tl (tl (tl (tl cs)))")
     (auto split: if_splits)

lemma scan_decodes: "scan 0 cs = Some 0 \<Longrightarrow> 5 dvd length cs \<and> is_ok (b85_hunks i cs)"
proof (induction cs arbitrary: i rule: length_induct)
  case (1 cs)
  show ?case
  proof (cases "length cs < 5")
    case True
    then show ?thesis using scan_short [OF "1.prems"] by simp
  next
    case False
    then obtain a b c d e r where cs: "cs = [a, b, c, d, e] @ r"
      by (auto simp: not_less numeral_eq_Suc Suc_le_length_iff)
    from "1.prems" have p: "scan 0 (a # b # c # d # e # r) = Some 0" by (simp only: cs append.simps)
    note h = scan_hunk [OF p]
    with "1.IH" have "5 dvd length r \<and> is_ok (b85_hunks (i + 5) r)" by (simp add: cs)
    moreover have "5 dvd length cs \<longleftrightarrow> 5 dvd length r" by (simp add: cs) presburger
    ultimately show ?thesis using h(1) [of i] unfolding cs by (subst hunks_step) (auto simp: is_ok_iff)
  qed
qed

lemma scan_alphabet: "scan p cs = Some q \<Longrightarrow> c \<in> set cs \<Longrightarrow> c \<in> set b85alphabet"
proof (induction cs arbitrary: p)
  case (Cons x xs)
  have "CHR ''|'' \<in> set b85alphabet" "CHR ''N'' \<in> set b85alphabet" by (simp_all add: b85alphabet_def)
  moreover have "below n y \<Longrightarrow> y \<in> set b85alphabet" for n y by (auto simp: below_def dest: in_set_takeD)
  ultimately show ?case using Cons by (auto split: if_splits)
qed simp

lemma scan_no_newline: "scan p cs = Some q \<Longrightarrow> filter (\<lambda>c. c \<noteq> CHR 0x0A) cs = cs"
proof (rule filter_True)
  assume "scan p cs = Some q"
  moreover have "CHR 0x0A \<notin> set b85alphabet" by (simp add: b85alphabet_def)
  ultimately show "\<forall>c \<in> set cs. c \<noteq> CHR 0x0A" using scan_alphabet by blast
qed

end
