(* ===== verification/Get_Pip_Data_1.thy ===== *)
theory Get_Pip_Data_1
  imports Get_Pip_Scan
begin

text \<open>
  Lines 202 to 501 of \<open>roles/bootstrap-os/files/get-pip.py\<close>: the lines of its constant \<open>DATA\<close> as they
  stand there, and that each part of it is a text of whole hunks that decode.
\<close>

definition DATA_1 :: "string list" where
  "DATA_1 =
     [''P)h>@6aWAK2mmXVHAu`kGfJ8b006%z000jF003}la4%n9X>MtBUtcb8d7WDSZ`-yK|J{ED>nxD8+S;<'',
      ''=;SJvNupv#c0$m%V?dt<lLy#@n<|0cPDLHYs{qOJYNQ#stXW2BYmPFnc9`8Q9JLT-zSB;WiEk*GaFZQ'',
      ''fD)Z4Nct!24mNwRM0M)D+KVpo;2X6aIuc~kR5KaWP{eO_)hqS)BSQnhzgU8PcS`+T3u0w$`KQXSg4l8'',
      ''?09N>nj_Sn;YBWudI>SB0w6JWuiEm6WBNu*-6{ON-1rU5kqD9FwLNc}u_Hbs{tmo+X)3wG_*SL`-O~l'',
      ''I7+EZN@9fS0sAEkTel0;hCt@WzHSVe&wWzdct;Gt{N%Qe8N<-+;gdj!7}}vrjoHUR+PV`j(nLaPS%o^'',
      ''%Vk-t#pW#;;+jS#>_e4-BE{wfU#Cr8tDkvZy)5M}t!wVBeWh*FS-xuEofO<GSc#p;Q<>PQr-|(|m~B<'',
      ''NX~~`!St(=5e`~m^Ra~X3yL7`<+{io^%Wns^F&r_tU^6+GhTmw)kJ>FJqi8f5ov~CYu_<=EsM)%dY@M'',
      ''ff{5w{cY{}U+t*Qe~dcPHlt;GXZEM*mN%LS~hKCt^OFN`$c$@U@zPu9=i$y4CY?m0`r-OiXOL=F2R6w'',
      ''a)-9GAs*W!B_;!p3%?tr>P%saG>*AY9@Sl-MI9unq&wIBXK^YK_X?m-3E*Q&n8%2ap8(Q*d}uH{?jM^'',
      ''?NdS%X#E(+5C8nmd%;*BwR_Oc&2%Crg+^{adjYN@I_XFL$1Jw;N>Vu3>g?<&c@%xU&r5!!Q2?T;Bj*s'',
      ''#4)(WYkC(ZNs;a#{38_nv&cAcJ>I*YXzv&q%k2Be#(BIJIk=^L49BpqrR3uYgJ|NLQXb~Ru7Hk^@ij}'',
      ''Ex&-g5a$fT=nvwI2$72)uv{G#xW@h0nIt^;NOTjW`*aTMSC{#q;@P()qMriByomugS=3NyS>}+{ps%+'',
      ''#6ms}Q{m1`2^NmpB*=S;1nsDNz<QN3lL&}X#;Rz`pNJ!3D*BB(7bXJU=}DZ$4Tz9%`by~rW)mnU+rIR'',
      ''Qa%{pvdT>BIZC$>rN$u3ulhzY53!apfuoNEfm!wB7KM;3Kl2#}znehEC?@-3G`c`S|wc#k*h;t11_D7'',
      ''~NjX7LEc4L{W!5qD!O-7TTz_JUE%KyAor0ZbaT{K2vs~*=mpgzsmRnA@~q!5a@02w`tC9AvkEe;TJ&`'',
      ''@r`1w19xGh1-ZDoU6>tk?D~4UF^U5uyC-4yD8ZNywtyZzy%x7$|K-B^yx)K~=_MLh1#?LbQIen=C;DX'',
      ''=_4Kx@vJP>?*@*-qfJs0*h&{z;EC4^P0-qE39r#X%;V@G+pBr+=o>p}LuXq5Txrk1R1+c}0VFl+f?vy'',
      ''!@=~Pu@-KH>anZGlSDAE!H6wK)T#&2SHEo*fz>TMWIgQ%;m6W%(6z48^B-!RF``_}UILPb$!>uV=6i;'',
      ''xzYltq4+zn2X^(!eYVN#Z+x@YT&%5v|6K*`PKd1R>dH)mc=G$5D}mmO)qlGn5O!CFvx@UDq4Xl26zgw'',
      ''_ph;Iv!>{knLJ>?Fjp7`L=pw8eWw|Y{AJ<Z`^mTfjGhq^V5{uBUf2?J7|I6Ic$6g4|wJ!@SEV)6`L@c'',
      '';FP#X<wo@tv1@`U-N=u1kj9#Qf}WnhVu$x>O(HOe*t2<?D97(UTwmW@y?dAZeD(TzG4jGlAEm5pAZ3t'',
      ''zFUm$i1W|CU1#fXcAH?ZCh1?Dgtm9}#T3jo^;Df>VU>-z(TC}W(j+;5GUi8d|)_a(+eMEHTwmotQ8y~'',
      ''FSwqh3pOEUA}Y_)(dimIsx1>Us+@$N|6ogYGmSL7s`T|-ZHbX`wGF95^woXyPyi{?&k9a#*F=0XFK%B'',
      ''@&!8Ro)*qH3d#W5n>g7zkY_7JL#IcP8klXs2k8<hkmC`?kE-8IL(XtX>E{Iw>yriYo;tq>rd4pb}G-!'',
      ''J!_ET3-^r-;=2YYqhas8(B7$TJ#uLwCYDtG$br6wSd~}qdqxGLYUfv2fX}@;W_Df9PLh7WHlJBp25V^'',
      ''gH~@`z=HVKQWW9sg9|WUD~yvt$Bp#jJIF_A@la+k^OA?;?jEf4d#gy$D5%Q<IP^ai=UC{n{}|~%uv_C'',
      ''Oi(umBr&*TZG7~)rlrK|oIB&+<)|@c*XiW-e>ZlNjQH@PrF4NqXh+4sjt;8+WpGP@Sza$R7{IXqi<V}'',
      ''v@7(oPtvl+AioP?KIf^iud4}t0`sqQv#Tu7Y;S82TkGKpG-r=HWL!e6M4FcF99DC$VH#TkS#mX7BJkl'',
      ''{Df%@w$f0(NdHVZ6N3Y~m|5p`ABlx3g~-MsGl%OjmdtUT_Jil@Idp&f>c(9pfF;(1{;}p*LvQ=z)n@N'',
      ''oQ5)4;^YNCGz(tCj6N*Omzs8O45?zrS%tfSCse4u0(sXJ-R77q-qj#2Cj=Jn{C+Byv^%D(ovpI^E^7l'',
      ''r65?a=kRkr{pQ~aj8C=~6ZWf#d$^+$@0k0d<4YZ$5Je`Wz4yivy23JaCS2(Otrb#6G3&bYV482t^QNp'',
      ''JXEswYXIAVHx1LywORgXeb#W?`H8m!5LgAT3r#{Uz9S}ONu&^tK{E96(n2O5(e*J;}b8u2{ZrnLMmtr'',
      ''#uFaV066m!Ozc}0R|upQHBEp{BTnfbqh2@7lr54Y1PR>64p>dmY7WtpqMmTOkA#Gc(9M!;#|i%IB=ge'',
      ''gy9e#Cj=IA9+}djb7uTkF)&NSjVgklG^bh?$LHul|F;R&@qi$M;gyJnW)Jbb2DdP%a9tc-5Um2Slq8L'',
      ''eC$6&<{o5^ap(y5vZFu0X;D}bL+$;u6@FEur2dwlXG6U;RpvWyi~xN=vd0Ie$=mWK7;_PV|>>Z#J(mY'',
      ''t8hDR%OOAIcgk!UNOUYb9JM(^%frhPc4|XV(G&<yEn7A|S7XErOX3n2++-Be&4qxE&18aIdRTIHC>yr'',
      ''pDWtTP7m<0gWh%h-elHs`hN;aNfMeuf9|9OHN5P7z0u}>ZQ?^#5IogW1wtr(@$CB^LJwG;tK`#4t($2'',
      ''R@$Cj_|5~0c*;41T>%)SG8lqR&>HJ(oG*ci8qg5TNDk>QEa(ZY@y*$9p#agKcwD|T&QOHud4F*a*Qw}'',
      ''aa~HL#2cO&hOlBzxhy`s}0qFoCo5;nNN#rhSPE@LtC+t{~~V{OSFxw{PA#*=_3+{0?wWmpI`#)2Y#TG'',
      ''Q_#vV4dAGQY+}qY}uMNxWXc--ojD5*)rY2Rp#(>3L4n6QW8DS24T0gIvVKP^&G(>p*za_K9~IfgMDdu'',
      '')dM>&rNOZA)y>V@n;9I&V+aVC+rv9I_ffpFt$<TKfHrPJ>re9|FSbiFNt}%VQ_z#!wNvQh#MwW;keYp'',
      ''jRq1{?=bt$>b0NT1c?y8_QkI{2aidE}{QeP^%U}7b27fo3yT)%BaAYS*sCd4fFug%gbxxT5AT=TNfm+'',
      ''SO$U|r(hz+>5fZGlL3wRIzc3)ejFxGzX>P)b*jP3DOE1O`&FF7&ASrx1_l)+SnpR(uC7lAf-l40&MFf'',
      ''IJ%>ra{cj|hn3N3zw91NvpHRWQe<)?2vBmHtLYkp@W2i`4-t$>L6Vw!preN#<-`UqFJ2Ey`Y^PaQN%5'',
      ''IHaOR_?VAhrR~Ft@-38SBZ4n>z^japA~f%j1FEPr<xU;aon`C!d9W~3FPe;VX8mYiEex8eIHOR)JAOO'',
      ''bj8@#_R&Y#UhF%ABlg4wio)JFUSrLIdKI86eUmFuHRh>B==|TycL)MC$HHpD#>4EegNaOR6SFB=>*#6'',
      ''(&={2M5%*hu+DO!*_g}-d;YjcN`8$gaF3Tp@UF!^xSndGqfNNDMQJ3=IJQb38C|=x#JV9;ip*ANOR^a'',
      ''T6J$uHUs7CN)Yf;#ws^e1qxt_o3)S(^d^tT?J`gdevzf@_Ui|M{I3c$kg?-?M|r9qwLQV`NJq@tJ?Ln'',
      ''3fHp3lL3;NSUpF=3y23k$9ufC96d3!<fb4cUSF0@3%aCg<{d-5$qVOc49Lv@#mjy329hhE~6e#qkU%E'',
      ''$h`50XkQ)f#q27RIavRui(Hd)AguFWKjB1Du@Or3{$9<OFuHyzOZlxB8~tq3}86u`wD*ladg995O9JA'',
      ''?%w<`A{lmYI2dU4h<m3;j}DdLnS;t>aQXTTuiz=5fmdL1))^G`1+rcXbklv|AOoS2Fax}O_&dgv5Q3x'',
      ''uO1ymazhACET#FQ~#1A*GO?KR|4eO&t%TIr#2k10^G%_2WJAfEHVE6}%u_qTE4|rr*Xu;kH*iNkvoip'',
      ''cL%^)&Q^7FH%$Cby+kCWkrXr6nF3_CH_ZMTbImZxpvSOveIt3MH6TwMMI(??PX#~NWbI9ETOt24gY%u'',
      ''Rpoq%OYypAIt6`1BwG5{S}i(D1iHyxd!x)aOd)a+NGGt4<!xoo%)WZc>ZYQM%a`?<{Y!Ym(B=af(<-b'',
      ''wCP<ZgqhCHvW`-5$J5*O&4o6;3QrKe>>CLNZ$@Z??abaF=hE)<)CV53I|VTy@j?0@P&5@fUXi|->2L('',
      ''RDDV#+%-wDsT+2Rg$O&cpiPLtw7@5v4fT~kHT7Q|QTHj)ZPCR1p+Q^tQDFwT`2PV=O9KQH0000804tU'',
      ''?NJ~kiWitT)07wD=01p5F0B~t=FJE76VQFq(UoLQYU6D^u!!QiR@BI{(c4&u2#~En{j$9G<D748MktQ'',
      ''K_Rrc+%vy=^T%Afb1?O$w;Gbm*jTC!0J+?--2&>tB6LPlNBO;hh9ZachS)9m2Y!fHTg19=I-g)>-5)U'',
      ''Zy*_yg#11e(nC2o%NFCruN3-zSHly^kvv&4T)DAYEvR0g_9P5B)m%Bk#ZkBv#&T8)v!gq=!%TaNnmBw'',
      ''C!^Pymm5=^JN<Rn{!lZ)-EX3r%TmZmyuv}Iq2EIAVrX}O9;_Idv9nDfM$qcya`0Xv2D$IGq`vX2r{8m'',
      ''m$6DPhuttZLgQ^Uy%a*4?%@DN!8+)$eF#@6`to|>e<-@X_TBwIZv^)H;@Wb1=4di?Plpn;|NU2C%)Ny'',
      ''8rJE~SiK$#S29>XbnQuoOn|gWaxXKSuO9KQH0000804tU?NJuW^#I+0n0HrJd01^NI0B~t=FJfVHWn*'',
      ''t`ZDDR?E^v9x8f$OkHuAfF1>s_0x#!h(x43>VVDxtLXpL^2Adj|(ARuIkw$+tIm86{biv905!-qt@lH'',
      ''Eferw@rt%?yY09+Knn_+2C!IpO<#lqV$4A}MDCUj@q|#o#|LRhlz79*;*G!S{sHO{q%3C?)B>;6jmTE'',
      ''qPWdM$PZh$c|@xyG`@0`^lwylgH|n7pjPaWbXGvByzx!BQsf%7H*b!p8#;mb6I@~(>!614&XA1KSW!0'',
      ''j)S6x$#@)TGzTZj9H*cq!qG!2R2gL~Kh!7*f5<Z)B^BkgxMorUks5|Q#;j=24c<kG737R8bE%>%(=(q'',
      ''5!NrW+!mRDV5qaXV#4P%yV26~K@?Du`$!RL|@U)gw81sD*Dbf@^P10DM@O+bQYsfX|TuWUzXajMf7j&'',
      ''t=0KY{7oaWn8wu#D2$?sWKoO7{{l=9^(*l&)CUGx?EtxN^mvs}%Ho`;Hh$WtFct5VXKC#;sD7RmMP$;'',
      ''sLE^^BZdU0qxOFRLF`7eBA4{rS`K>gM+C`?J+gbain<&o6FQr$&~SS7$#hFK(~tyW8daQ+m3*vN)q@J'',
      ''ug^vR!x|&LNH?@GqPoh7J_eQB*&Fz>3<jnq3&9^p_OjE@B~%{13mIF2;fDD_9u%0U+94ev?&_zSo~o$'',
      ''8c_<u1Gid`yNT8P<Q~RxGEmjR=`;i`-|Mk}(mdLOD}o)2wDUTn3HbU~7OUx8O9g=df5mgAf0q&*#UI$'',
      ''E39JA{&ZA74A()IxC0MkVFdmHAqnf{Z1+EKfOJF(U8EK9&A;!Q5;wEeZaU#uAMQI>ewwaL>Vgw3cp=Y'',
      ''ps;bRPuet3XcesB20M6)@W6QmI8A5DjupsL{e<b@<J<b=E+fm2{Gof$M-`m}|%aasc0C#^haV@63rcK'',
      ''|_6C<1)FoE8+$>Db2i)@QKxSfq}ChN3j#F{Ld)Co_O@uQkNSQT3`xSchKp_;T>&mz9*KHQE=>SR|1<U'',
      ''S<h_<q;cXiQ+`<QfYsaEhK`XLWMy+K&@q=2F#3F4b{rSI4V-5{V13=`Gt6nQbgl&Ngy;NzC+4^x2Rcj'',
      ''zQz*X0?TU0z;kmZqRg>hLBP11rp_SYKKj6{4yh&_G$ijqTDk_RsUM%i>cg~8D<RrVV>-u{?=WkO>{Oa'',
      ''eW8KEGF@t=pM9Sm>U3NxPx@X{n`j_WR78ll9r>xe>B8WDNpp$o+;V$4Z#Q)*1Jk0|q3XKa11@tlADOH'',
      ''T8(+-_<LptDufs53!rjk@snr?yiKT@h*CGe*-1w+eCVF8+iAj`5C3zQv~N-i9%5~TzOGNZn}JY)JEoF'',
      ''QW*21tnBarAOs;(#PNnxmPOpv?-wUn~=9-m(rY{t%*kx;YvvuRwbyy}o`A^;Zgcgdjw^Ng*k*-nlds9'',
      ''i9@u_!HLfJ@Z;ql6^DTZ-fg6)<2<xTad10xo<$WdL7cI1!$T{pMrFV105#>g8d_yKp*$`>DbS(#p<LS'',
      ''e2i_+n`F9`ng)|k!+rF5KV^_n_E1YBj}NejC`a!1g{mxzKxQIQ2|uBlFf|Fv9)#6)@erXxgN}vBLQB-'',
      ''Kl5<GDMd_&<Jf#%5!>)slDbFIYl{Vnus~1teAe$&w93_pKL;e(lx^10isXBJa*CEfNtZCMB?xQsCpRI'',
      ''~^I1X#7>2(OTbPeStYZ+(zD_Jba>v>0y89T5H<{JO}_G-0UeK&rV$eSmK=wh=;0xkRrjFYS7&GO{!`x'',
      ''=R5-mDNl*1S!iLOwlvcl(`>IS9F2onMS=(RJH{py>%?Tb+V|zit}!I7wx+&KPBnsYK(Wra(ns=&6Rrn'',
      ''>17AYmcu%8<mv_qpt7kh0>706uyl+C3yH_^!OeZd9J4!_qSAIEe9aru&lDX&>veK++K_;4F}ef>Q3O9'',
      ''Rdm~h0j|w#xb7Fh9$XhH;Hm6c;xkO|bkrPT8G<Pkmu#5lN_O~vfK%Ok^egCuXIwyKkzDI;!i4ZaMVXd'',
      ''kZ0lmL3Ay{~en?7{f!%fOX%NYY9+|dUdseW%yePv4{0W0~Vygnn-zU1)f4mehU7_QD!um~+`ux?uW60'',
      ''SRSGqw1|7On!01Sa)gWx4)poJN9{3>CGS9zIbL%0dcq9Y*Qh?4!0!fN}X;JiOPJm+S<7iSQ717r4qX$'',
      ''bBHq-%Y9Ncc@t9)PM;?Po(2Y*p8H5$~tdC*=U;kjWw>%8xE8lQokm?gd$oA!QE5x5Q#;7abVUhGgW^B'',
      ''IXEy`hjK=lA9fqx~3v)u6BAOh8|d+V11RFj&U6crguhUi<mBQc37YR`ooR^nB-8HLgiNGt|Q>305z;d'',
      ''gbhg8)N!2;F}-$6;_e7O-JJsW^gEcD${I~S$qKBuwrM}0T~jWkIYd%jFw9&<bN?i!HiULD(tf7>i|Yw'',
      ''4-L?`{qPH3}Yo0cdL#Rg-r~+ScpApJaiSMPzVD#%2>mC;$o24XfW4SH4G~e*M`I~zz_kuSw^3AkaR=M'',
      '';N;!9Wd<IAJkLGAt~{KhmpV4ykf;mNYV?LVld*GFw*7BGei8w%@a4}5p26&XWQEQ_s(5=M?_dj>HiZ;'',
      ''9ECCzf@>H+t9nA<eQrT8ZF=V?&FzX0^xvz0J|k0KWO=v>yA}h+(*2ySX^Mm=h(AxSh0Ry3>J`6cF>#U'',
      ''2&tm?yY098}+S+Z-kw~#L#>QCV^?h17ci;EI*_ISchLbo+XBM*xMeshN!8<n#SGaa(PKt7j(J0yuF#+'',
      ''<CfOzNiQi~^-2m|5&V3b-q|n9>zix(_T*-Hu`)!-q`9Zkpw{2o*u8T!_`|#vs+JoP5&VE=W&snTH<Xb'',
      ''?s&tnLML?DvA-aOXA$+wP9PAv24n=}#PwS$?TNsNJo7Aj7^h{3ljv~_DK(2(SOK_0~y$N2^CxPR78cs'',
      ''eT5TKKS%v8{K1mMXJOs>`W>$3*eQ^InCMzc9>3HE&X%a3Ps0&;U^S#6TqUKbXGj99`gbj&f3IdaqhXe'',
      ''QA)I+gkWD36)j0m&Il7|Q0jhXBylOAQ~GNq|JIdKBWi?<ObagsT7Ch(r><w|d2vUZHvn0I0RgXQ2|dF'',
      ''1Nwt%pHRf44GITp;t_1NL@$K1r}7EVmy9_&T85#2tM&JjnoHl)BlSF_O8Z1)%zqaCz{M0PdN0fe<`;='',
      ''u;ZFXB3b58Yl^Z^&+vLtFk$wsVl><=GpP<s$jM*H_;Vt4(|zI;jq}F}00J8Z)^<=napCuYO#~L9I%Pq'',
      ''E!xJ2-+L<~!L}`X)Yuo<=e@oA8x^xZ>b*%As2>l0AE_5uSj&)<52^01R6_PoL>xn0raP7HN^Gsr}wsZ'',
      ''6c0o?BXSHmFgOk)q}@t?Eyp72z=v}L5rGCm#A1QvYS*$1`f%hjo=cVz7jP+cUM8{~gsbWP(ugIdI7P`'',
      ''!Q1ixRc!A8>=TRM7ful8kqpv(dK{o<9HAk6psdv<H|}SVr~Hil;cdoZ;SojD*}p8J=N5g91H^-b;nV!'',
      ''J$;}*aFHb?4^KJp=+hF;I7UQ;Exg!kdjRWAcDRIkoO$-_Zy9)-!FlBChe0>Tnj5T$I;?Rv$K+0R1)-L'',
      ''x9FFnds^Dl$9LWsYS*(VZ}}+e`RH><b>{9~q6o1<rl`w)SpvD4X~XMNcBeBpK=(Wu5cYsro+-xq*I$*'',
      ''jNvbeh{aM0r^oIq~`ynxh{PYml=Yrl?KhobMQ>esIHV~~TI!ohjhJon!Qs4LfWH)`rD?1+eIil+E%08'',
      ''K3c=+Gk*8%G$>g7xO{pBu_&_+UoFCkp&_=#@qlayL2GicYd%%kGj=rzMjar&gwD@58{xxUWMxac%|=0'',
      ''l?=#EL+lg5joS$JubOBczrf?Oll9-6a+L_px1hILfG53_KrXR~vhYr;fqo-@GLI63UuwdVpl32yRwD-'',
      ''2#&Hvkj!5ZhvQ=$%{bW>yRYaN5{3^;UIe!0UGZ0km~bO6f~PtIsSG!AuopD^nM(QU`90jqSKJqOP;p+'',
      ''g8p;7&lJP(3P3=$7$jq6>3G?w8Xx1*h`Bc6<J$7pZb}8fQukU(VQxoK<E-u5C9Y8FFDXt0gLnsCV2N1'',
      ''ACs9!dUWgPwy6ZyzVr}Q#UuEbjl$IhxbG)l!s~f#1|M0e4pctSv!r%@M0Q46ASltJc<u>O+-`Yb!$W5'',
      ''lDn#`;T)DyHc-(>Z^Q%yE*o;Cw%ZBC1>h0WUG8QLBSwT}`!tHB$??W-=1u|@sb1ZiA*dG0a{K9FwtgT'',
      ''9Ga2qu``daMy)tO*Vl5QFj1gcS^rMB-y>xkCW$yHo?IVmkUSP)h>@6aWAK2mmXVHAvbp#66}A007}A0'',
      ''00pH003}la4%wEb7gR0a&u*JE^v9BT5WIKxDo#DUqP%9NJ`i0C5L`7>O<4K+!-h?!J+9F#}&8|cbBy!'',
      ''3M94by`ulUGklRqNozZ21kSEB9L@~q<(Z*ZtJUABVnlSBi<Wd$Dkh0yy6;x2)x}ndh7`rN*S%y#L3q;'',
      ''%sR`XEQTLh^_WQ+!d#+B(e*}hx+3<aMBZp_2J?f*Ro!zG5O81)AD#zb`E2X6t8zJfoOV#l%FAl7&gv='',
      ''Fx49Ix9EA**jYLPH+#DOVKUW#_hcUIexycQ)zGYn+u1%aQM?Pz%_?3!ZBYqoX_iVfJVr42lgecPf0eO'',
      ''obE9Jtgytyz0m8y1R#u>uC_A{)0gN)M*(x{6D+COf7J&1Az{S{I7{&Mq!43Sh{kXp2s=Eq^Q|BR62ry'',
      ''cA6bTvNIF_m|r*#cGWYZ!=g?)>J9-MKY~Vzp%RdBxFN1@J;;z<+mVlt63Gj&aREz-~;bShpRc0e+Ib~'',
      ''IWV~q;4yn3CtFXCpN2Ef(RIxFifzGtc*}KBq>9zsHF-_t4%B=7`r(M5+(!6wX?b=6tcA|l^h%QrBedq'',
      ''bmR01)^?u-%o1I`sl~+uak{bsecv<FmNkbnC<XU*H$vv3t#~)^d+*kpamy$K`$<V!-ksW!Z_vYQ~eA4'',
      ''XhhkJ5G-VTeNHgW!pVMYsDD;G9K3+w92t+EdTE5c#*vL*O7FP2x@uWOQ!zrIpGCGY|M1^b;@7H+sE&4'',
      ''J2oqi+T#cowX?F}y}`&=vgW->hg9qNi!-6;M-2!7QYP&?jQ+vyj`6(6%BC(-d}6`NhEI8kaSW_?i&NR'',
      ''W-xqsoJ~LvnI7@claq=6PE9;Nt#@3QM9Wos~qS%;pY^(_FFo$J89rx*@4!*k(Vk@O<sBO1@S;Z5YMS8'',
      ''<f2WG47};?e$<b9L*#`~2+u){7WJ!gNEMLY(m5^oVYb8#ZSq291L>3(<TNBw8TpC4S>VH4NU1t~<NYC'',
      ''9(o53^rV2DCL`}@Z8~?`B`Uf_@;1h^<4Y~RVNh~|7$n1Rlia;P2DoK+6M{uXsEb8`*R&f5#``x!dXwb'',
      ''?%BsVuC`D|oVNvzed({yjY^iL$Y{?;b5-FroM%<XMHp9!sxt%3?o^q#?Qu83&s6Z~SNWyhMs{~M-{jJ'',
      ''1}Di7cQcTPQW!3lXX`Flq$}@@u}hd80sgl6-5wBJ*qVN`We1d6R=&VnrcT>MK5+AwEs5N^7zLhS}6Mz'',
      '';<SjKo)0};7L?VYDN#BU|-i*thE$10R$jJdZGo`BUC$h86O~?GF6bbrP<b29|`%Sp}b8dK8!y#-LM+1'',
      ''@*Z<tTd5=>VYOmUEc!6Y5wE)>N;HgAq8zg19`(dZ!fEY~8|sLoYZDzY2-Uxdj<!aIT?)sTWG~uti=}V'',
      ''a(fE|=X!(aWmv-~%#@0>N=#DM8h4rN;SU&G@p}S1|Zq6@xr64T5Kd0t=VwYPA^CdtsKkzXpOr4wom=i'',
      ''wZ*e@?~ZA&`$YWsX~cl+x5q>Suqg+wc_-HSj}@C{3b70$keOlR^D;zjd;w`O&&x|(b2efQH$u=>`nY>'',
      ''pl{j^OrdR{?5ocOTf6_O(_q%w2%KBes1H2opf~0+j8Qk?g&J>^7%=F(L18$Upax8{uD%n}dFsOe-e<<'',
      ''XT|C2z%@xCNR6h+hz?o7D|xMv-k*43aa)IxWGY5$x01b8x68|_!@x`tjN8<;~`k)h1>HS7=*(Q(v{8U'',
      ''n*0idAwK1RC@-u|p0x@SUhW^xlJzrK_bG9QleEVXT6^qL!lzC_>x&3CJW}0B(RYqHuO6RjHo%y-W-a6'',
      ''`VwwMps|g@JN_HGN$DtF+!(wOl@TrDYRlN5yh#yQG(yF`@Va8h^aA3-)Vjj)Gi+OCH{;iXu1Nzfo9mf'',
      ''s5r~vOXmWgffGedPf{stPiMqxCUb?@9)*l=+8+({Q&MVc57RY0D1*JCJSRB>c7*K?Y26u65<5XVDibK'',
      ''QY*^qpCxrgL|iMSeW?IPQ75A3~Z#B#$9|BITZy4=$Pw8{5zK(##BqY3of9bWJ*Tkx(B2dUCpfcSHDcC'',
      ''2G?~+>lQc67C;pm5mMU{=g-iX5_!oqqT*z!o<OFS^-NeN8^DBK1wEJfs6s^%0FJMt>}|g)&|ZGut5$-'',
      ''9%(j9OXm4PCbG+N3Ai*J3CHzt;261sLi3J0O4%=Nv}Ynu0_M_zX4KO9AXo@oLt{07K4UL%N&!K%Vb-T'',
      ''A6E(6z=fdfQcOA>jqHoI%Jsg=a^f0XEl2?#Okvm#kIx>tO4NgX76)*}9oNTGuhsYyP2)il>F6*CoKxu'',
      '';WqW7PF{dD_t@#*#-ACuX^!dXQe42y~#T7VymP$6t(FEO2>&2Uggj?4l_+Mdir?CQuX7KhQ8E}Sc&UD'',
      ''Db3EDN`QoOjiu=5au_kVHZ)u<}K|Jwy1Ro*2lWXh-!PvJnWO(%|(1;5Tyl?lUBP0q(yX@C4e*&KsRH#'',
      ''LgR!#!iZ(CvlCy0S9Bm^t21?I?09P8a<O*I03-Pup)lQnLn+;eCQe2d|7VX;w3`w`ELJ0shug1-81se'',
      ''-r|oxKm#2YDe%XQTyyjxuP{7FR~_$G+4}6d=?r+0Fq=J%eAo0)0Q$y(@vN+1j?l7iI+Gc&F^|Cgxxw>'',
      ''vumXVQP|R|{6XsDTcx~p)bIqPqJ)6eWB#x$%JQqwe`WX<gBlRJTn@YWiHP_^Uoz_s3>tItYPm77njhi'',
      ''etJFFU3j~&xv$vQnPJpV%Kk5U5Wp$ci@4ZzW%6<xi9{>#vavg`r=SETCAtTA!{oTsdy`vfkrW$}Q(q&'',
      ''odEoZT*=_w@i|V)XYl=w2-39RQChS4L??%uNN-1kr7v&S*k->B|cFAn+|@Zmq%1RL4r3Oh8CiH7bWdu'',
      ''!QnWvC+Z%8bF?50XG*gDdv5ZMHmya4T!iCCOOwaJQ!ZMw+RcPL@!IjZ(_koEd<y9@Bad}Z}Ld92(l_@'']"

lemma DATA_1_scan: "scans 0 DATA_1 = Some 0"
  unfolding DATA_1_def by (simp only: scan_rules cong: option.case_cong_weak if_weak_cong)

definition DATA_2 :: "string list" where
  "DATA_2 =
     [''$}kQ=*fiPIVnb`FkpuFW_^tyk_6!z6$}GdCsOG=30=&s}R{`*F8>a66EISihm*j1J4r+c!*^4E9Qb2$'',
      ''CgyZ-$%R*7!fde-^vd7teSF=a&NeEYTkh~2y=T|pl*qDHEd(C@HWL)6*-C#?dW>cSlht?0A`#7+LZHw'',
      ''J2I#VCTc&JW)02qy$rp!yicdhB<n+~edgi~N&cr(voIGW*Y&*HKvqEQu^)jq-0GM#?i+TFcUxDzB~g;'',
      ''NwWB!If>KtK7I?{Xk$udIv0i(XH40cd95-Xp5SYKM^z0PRRyJq#ou=|Vli4}fFw3op^9Cd^7V)y${na'',
      ''QcC0^C`o5tBh9zGzd3n(IhLN_A$J<vER0cPVs9g`c^MZUY(oxd*d`p*Z9Ng*>*U&x78*&#}IzI8P&X`'',
      ''TZ%i|yF|q&E<2fVzXNIqOYUDHRSCziq2<GZTtigg7{cG&;N{3%KzNDQc;l^#b3AvqcUC1|0!4ekF^es'',
      ''NZr!91`kzbk$&?HFzzVC!j0C%`fVtDKFpt4L3)0w5ZDEaj0jq+H9%vmB4~G#dU~~CGQy8Dk5^DGP=$S'',
      '')DBSmX{e!B~f?B06V#WYW$s|@FSz03y4+=cXbKVfr~5g|L1doezzK+5wR@x($gSQC>iV<-{a?V3tjad'',
      ''Y-mo@_E6_*5tpw$D50Va;C@1m*v@XQq;4E;nRHyoNFmV#{qe9hAJW;GqKy$vo~MLj(~B5kY`yQ84<&*'',
      ''2c5A!QZ)LT}?}tCWX0APG)cy^E47d<&#>W_Gxl;wUnwXQ+WAG;r#-Bh4?XdcZj^f5dIoFE<2+h{_xRv'',
      ''CTBSkEe<$FoPj4g!7{^S(8C`b4#uD=w5y-zxMI4eYGA(rlES}Gh{~^_ovPu-310jNh0F(<)(;VX?pVv'',
      ''ry}NZlEN3&g<dA}GbBOudnLw?nTLiO{MZ5rJnE!=Nt{9c&-qiQG2b?&oE0QiP>o@6YWh2<%U5DAk+rx'',
      ''#d&CN>|`Rs;CW^^e?1BuzrINdCB#Qb!NgC^eMgh_Mi4n6|;@xZhbO7RW0`m?qpBbD&?BG8jU77+3wpE'',
      ''%8cO*<(7xT}dWQ#AIuuGV-~SJ-4d0BrvY*|0r5aKQcfl8Ze9FNY<A1zb8`z5?;zz-hY^0ALfVy^OJ?$'',
      ''3OlraPWx0^&HBZxr|52H-ijjEO)k;gVDIMCj=?TtyxEZ{<h#{-(UXE)u@G@c&Mgs&H1Y#cM6jOFt=IQ'',
      ''2D?<$sNHnZZTe;Zw-C_vDqX>fNntas@Y^+6;dL!G%*g2C|4>T<1QY-O00;mpmNiJ#%D*AJ5dZ)MJ^%m'',
      ''_0001RX>c!NZDen7bZKvHb1ras%{%>X+sKu_>#rCv2q?7@)9qpJP@_JaYkQO6b~i@sT`Zag#E2Y8Q&S'',
      ''|%A?@gj{_pobX2=;zmYif;)WB|}`FQib=e;*iQ4~$gMm8!JRo&{UG(wiSST|Kyo5|#EqeR{4GShXT#6'',
      ''~qrXd~K6<Z7i$)$ggwOwGlzYsGKMs{M`7rD<i^YS}8$Zq#<NE~=$0id`b!!L~+8Q<Y+=bh(Ck+4g`Qb'',
      ''-NKV!!PHttZP-~vB+cz|254{0Mu4Zma2VJsuZ<sj53L+b!|V3wJKF3iymJ4s58L1Y*ka@`Ew%AY^tuv'',
      ''%ebA?(jfK>I1zUhASE)`sZFcO7M2%<ha7xaRYg%f0@lEYTp7JClgT6kHm;g#E7Ek;wOymqROoG8HLZ|'',
      ''KQx#pSQvN>Sb*rw-+NvsyTL$<8y9%C#1Bo6t`Hm2HjY64=+n;W3-e2F|rf;slznR;)iCy_9n-Z96>@m'',
      ''QZM3=ex<RDEa0{*_MnyqXvtFmpXVlGzOHqF{1-2iV2m2QCoS)}SyR&==<rpqc_>QXklIRWv8JEPLajZ'',
      ''(#IICfj*Y9Q}sck_0bE2>N~OYQVex7Y8}%Ztl5*Xh;U_j6&IEUg>Ru}{OMuGNJ}HqvZVzwh?${ktDur'',
      ''*AH9-(25LCKFIgv6c5KWs#+%$I~@4j#%2v&Io&y82<ZSfw)T03ZKcMTK-jKEiItULM#>nRHfU3p|qqV'',
      ''xz1Wv*SM5h6_aAcR#jqguXcv^^QpAI90YqqqX8y9%HrHdXUZ_<jLQc;@8gW6P&IZZXt`V9u=vQdj-e+'',
      ''q&n<_h_MaI;YnU7UV$0P=ff_$pF*}*FI#?LSa#pVd_yA`#Nv|6NE*UEx5a|}JNFh@@(JwrtVpF?lW)a'',
      ''IaD!Wg~;S@!>>~xW*>}?!gbGycVJ^!&P)u07e+Q=n1Hv(=D`&u;%1B|GXdIx^Ta{%Bc1<ZiK<K{CEi`'',
      ''=@&Gl9;MrN+`7oKPjYI!6cN?+cLP-QEV8ojYcluC5CWx(5`?u4r+|NVFyiv`MeR1JG|H;hq$N>0TC08'',
      ''*+B7TGX^@IU6=v1%WBqw#_tvF&E{W&R|`_y$JV1#6q#FqPd7zKK_W4pBwt<h>+!Ox|LwVjLe+D&Sqby'',
      ''O;&MxRdP$5`%Lh|v>(R5m=y(YEK~{5M^UYu*5sW+p}|$>CKd~#dg1sRhrnLJ0_H-$0*5Rc+*lIN@n*{'',
      ''I3-zFi^WUS+zZm`|FM5r65sXhZs;E=oh`m*q64p(2-tl4su;ax7SH^QIbJL#3-hjJ@y&?Q~9^Y=@2E>'',
      ''m^3@B;v44~Y3iZ1`yp%D;h*GArvQ2-zc&W=o5!EM?$o$9xc1)P5;3!^-w25Cj_yOLr8O@7@$7YH3JYF'',
      ''$<hN>P;$x~a-7T=U{VHX6MEM?W1JZ#2LIHCgF(*U+7n@WgCB0n!`ww@w3o0159*0C|l57XmS>%3_C_4'',
      ''YJn2FDZu25JE{^Sffv@pceL!#juV=*N@YPC&C`9VZw=WU}t=sok5fVls>3tS(&5ajTaU%yEecn9CPSo'',
      ''RadqnOn&EU+H3uwKycu9tFEoPHnAt7JA+$Hw=mB!9R`U@GCvStjn?=dqSfFll6b=S8{Bsk|DSvOaqSp'',
      ''?Z|q5SdiLQ?MC8;b-IA?<U{re?iN7%tv@$@!ANf26f?^xTK*XY`)+g)~R-jv^4~vy9l=}wvAy0btJAB'',
      ''{5y#Tg!9@VnlL>?Z|4Gf@Aq;Q(V(LGus><6m?yudT-5|BJ@L{}gNh^x&#1wXXGnMzqL=zG972ldx7g}'',
      ''SLe?T*WEL2Cjm{E>E7D@33fogDjG6y4S;)2kh@j86o2h8GOpZsG&_s58u79`pbCNb?DdJm4S%#z{oZs'',
      ''cke}!N)MQt40pQA7gCwo}PW{Bm0B=q_^Exl-+iTp$|rke7us`1~2JS5#w$0B_MuK+q(7qtca!-w0P-0'',
      ''kOj|(9Q;@v*9{=Yu3{UqP=>)kNn@k3fb4J?lf5b`IVSv@Zv$fogGRZSD!W&VF`~Io3mjLKIZ%TpXb01'',
      ''W?5KcVP+aIBIG5r=9<zfibxUTTz!%aDHWw;cCn7cvW$c*Z_yC6m1baw)j%JPx!rbdRwU-WFrv|>PA?G'',
      ''|w*M;CkoK2D2hK~qJ_@EpKII-|27PLJe=LtN%hBQhsz<V12#*SlZLr)tCGf_kE@xonD5E){H0?Qdiqh'',
      ''!8gF#STHiQz67uEk=YCOFlbWjeA=r8DIX^ME=35F1o}jsJVZ|1IN>K4>QTgEuxRw+s`#q3q$nHh*Q+l'',
      ''Bbzsd4OifZoFt}YG#l&XPdd0>KO)OaDh)BXS&9JmotcVA@f3mpJb{zW$w5n&;f5?EbyKj#4zx*{pD0p'',
      ''ov2mf@<J>-tcDOK8RT9iBoEKPhgKdyYk+V<9WjA=F21+7-wTE;5VBtB43LL-NEo<RA*scio4ke8CD+<'',
      ''i;Bf0kKOnjHYDaMj&U=vX%DK7zL2yDvte|RA+BL;-Mrd}xw0Z%n`D?waHGlJ1(?cAK>8JPKk9dPsq{Q'',
      ''fLT`1h(d*MGx2q|C(-aI$Eb_4o&1F9s~O1z~4*q%RTKWq)WZDiUba>B&Pa$$o{-Jb0R0L>wz8pu0pgo'',
      ''iAaNxsHIkY<BK*Opp3RB_S4kOVnS28O_pCz6D(2jl@oNcnM(?V_uE<aFKMFO9C^x8wst{Kb^Aq@t?sD'',
      ''dBDb@fFN0ApgEMOf%-n;A1>7;);}3oRr{-6>@;NC&B^PmrALZbf_V0!f#h#rD#TQch}DSlw#9v3$ofd'',
      ''+M+FS(*@6z!z#~y$%bW<Z6L@ui6EF1qBBU?g`mz}y`qz_&>lnDByzYPGmy`2K88hSBG>6i2iZlQ{XRg'',
      ''(v>+IE)5v;>Me!8Wp6cu;*bj*WtzWqH(TMp`2rk+aK*R!wo+p6l=Hl{yFJ50qBO!#9^xhiyaI8i-1Wq'',
      ''JNObpg-Mi~3V`0&28#xX+JF&}msET3#D)1GF%UA@57dyMx%ndk7m=kc3&w|75Y{BV6jCN5iO?)eD?4}'',
      ''x6I(E!owgF<bqy7flrR^%1vAC^Ej5)#=5S?GMv0#H@Uop^J1cXOLWgCJjs_i9_gHn{@6i~mY~hn_Cft'',
      ''rMaJmv>NAKTEPJ6yxWMwnyJ-7<fFDb&XHYV0&F@<Vro)^12do3Ap945;u&x1D>!)f78FxB9F<D$$qXB'',
      ''M+A<gIGX-SDNgoL|0eks%Lfprn>1I*FjZzdzGhC)V7D!XZG3SBq&x-tOC3&hUDD%7OYgu08}DNXH-;1'',
      ''VW<tB`pJXbyni~i?+tU|u#uxFhW$z;PpndgCjMw4#DvmGR0WQBb5IMPMd9BeOc{tFOnt1j6_zwM;eS`'',
      ''C>kXt~5-py?pa@Iek4H@c5{xm_Y7x(Nj$cOjO;m})tmJsw7J8;E6`0Lr?Di|kOqL?La{eJN6N+Dm(42'',
      ''+^)9f;nhJx8cEhi}CgBe{d=r2(?r1Q<dOiTu(ZJ^=wGQI5|#RZZ)o8MC*K;4EAh$w~3^<*lH&eb#$M('',
      ''_|-Nc38peGF8`P%KyB8cy9ci<GZk`(qt*E470Og$gyyEwD-gNt3GISubNni9(ZNx#2~Y+oC3vu)eBP?'',
      ''?~w#c|Ir`uZG(98->=}@=-@_-Vfm3w*oQU4o59C7m^1?oc6-du`j=mRIYZY5C`*b)8us3R!XMz)=^vp'',
      ''_Fdfz{XkEa_e)n@zr8^ip8X}xT*nc=bo!os1+H@-($9o!IRTRQ~2PqYm8Bj~$He|H=EQ9JtM$vchzAl'',
      ''laz6#HDVlNTw8%Yvzbq&n9ytuo*LgH8Q0d$%lVu3P#?<LD|?j~KUHVt2jrx0FtSV3j4HS`F)RuH3#aI'',
      ''x(XN!)|`=w&<vl^`qolWm{P@D9z3XmJYn%v{j!QO63E(vUId{UJP`96SrR9Bu3wT&g|I9gqx-KEoL1<'',
      ''92jRhd1@_Mu~^oA^IF8gCtId&%H81+{`gos1`8nqAYA3S<39*3v%7i`JN8UxgZFkS#uzU4jQ(maHmXX'',
      ''b3y;i_KLD>YgqeX$gZ*iHgd_=aNkW5Ud8;5I!><W`3C2)j$~YyLoY(&cp@&cOx57Tm4?|yoB^F@hl&-'',
      ''s?Y6<YbA;YpoR!$1g4^(AXveQAs-5HYS7Endvj=bMmyWpOgnF{FYP*H3(sc@A4`L#Itf(DPw!&0fwFk'',
      ''=~LTx^6qqBRyv#M>4WmII&R_?&H=mN*>mBMaozmPHnKiY8MQ&~LvqKR)fClwDD|Ej7N*v7A~d>m8!+b'',
      ''Z7(y??&)-8k*SB^UvXp;>bPBtiF<o!@eLNaIEtHiovZaT)MZVI+4V(WG@43kI2Gzk8H1jygAk7%>`_+'',
      ''ZSyN8TgR_!HHb95^w82Vj$MH0Px(&jQ)9eKApo`jkP+_BV`j=zyrdnQ;+9>2Cm{Ln!j*XJbqE9t|OHm'',
      ''nE&j8dBpt>P8pp3`JhSQ+;w+C-tl6|$kS@?<B%NmUk~I4{TWYZ2M4l%u0*7J+oQ;z%%8x)R}RNVJ%J}'',
      ''g5w^~aUYG(vBgO|QVNXD~))qtP!9_Ofj#FNKy6zpC^-g{3sFRTY;6|<iD4n8<EcCtFYx+C?OEe6btkK'',
      ''}v&R=z=c}02QD<2xTjK4&)MEnH6dUrYo=y#P;yL-RV2jwjq6F?6OyQ-smkt-w8LA4G00jS}b0Q0js^Q'',
      ''ckoManhA(=2If*baI^&Oz5?Am$LvS4!FDjUHQ$i8>H5#Wrf?T%A(`D|(_By<DN>iFP#da=7d(T?HT2)'',
      ''z-e8e4L|zZ0uw=)3|Z(`6#?CDMrVfZ_y~g#BeBOYaiTxY3pu@_|wionuib7y5`17O#Tcu#iG;h_aPbf'',
      ''c28kxY9~^zHypo8?7ju;bDe(++85j_PeT9V(kjcQR*kN5jY_k#<q>@4=HJ+~s@dYtY~aGD$VQ4%4UL6'',
      ''?`L4L*6@u3Xh!%)DSpLYX$Fito4mP}H)g^-+-g1d`FT|BsLa-HUY?^H*vUrp`lXm6*>H4^q{F$!{-ms'',
      (''tzfqD9np4CSA#A{c&Rn1zZ_(PEArJI<*Q@v91v@o?Q3SdPfi*<FDYq*1244%nF*q2Tm<9@}$b?wv@'' @ ''{*''),
      ''EZ;NQ|CQvsNrQQbb4;0w!JqK8C_UVrzfBGW4z=nguTZ{U5ZVZFa*_JYnt-JGY^)0hzYb_zYP8&CKT37'',
      ''z>M^ar(Mxs%Gyng`?B>!oS8|;;jI1m)MVtXb>%X6-)aU^KYPl70aDt>fGICxcl5}<nO=z&ojBqa+M@W'',
      ''EM6XlWaTz<9Ah?CRPzgd+w&w977@Z3cQ>HkTSL14k~6uN=IQgNz2czqCVvG9PlI!3_J=Wt1eJjMx7Iy'',
      ''n>3sM&OIVAhEGX1jLhZPJ#U)nrUx+ujo)4nOP^@%-Z$Q=TsHff5p5G7Ecc(f0GXx7KO;JJ96fT~6#|1'',
      ''U_hJ%knYC20i>tqPy?qZuW+TkIE988dB`er6LC%8<1#s|Y4C*Aaj#4#VXA#m9bQtCEC+$o>&TpD5I?o'',
      ''oS(V(~^?f0Eb$baqJBR;X;qbk_pko7C|ZSZ<^bco4SIA7sz-dt9unoN@J)aLRAJXA~jV5^0^20(<5Mh'',
      ''}25*t><dliMR`MK<!*SHR6?hX@%WY2yOIogLuIjW~nQ`#o_Nw;F{pyg$BPif$)ugbJ_oL?eEN2`jy(5'',
      ''h+o^EWWEbxtv>WR6CZ*iLORqGg5QM<!}~wF80Ktqc`#slS>qpd(GOpXYCU{$o#Mj?byoXFQ&00SV7q<'',
      ''yiYC}nI}AS2m^v&7dObbpUN?qU$x)5}ZRjlYi#;|A4rrrM57nna8eZ~o@(&DD%XD~NupMnr2s-Sydxp'',
      ''6C{y3izLF3#=G`Y{Sp+PGU*TMI1kD|{fK}<Epu;@bvUbxg?wol>HO!I!4DSqp5BJ4?-kH-B5lYk?~w{'',
      ''dI4feroy^5p*kP)h>@6aWAK2mmXVHAtMILjD~i0085A000jF003}la4%$UcW!KNVPr0FdF?%GbK5qy-'',
      ''~B7F%49^fGUKG(omqF>y=j_myf;lUar)Tt`qGpLNvtVSOOUqJH21gP^8i2qq+}<1A2WMb(`h6UI5;@K'',
      ''c^|-wx>}1QS+q@C%Onx`dQ;VnNN1`l+D0b)``|!7pD%OsRj$*#h}$MFlzFt2%_dd$=P#-%&G({OF7t9'',
      ''}ey;PiY_=O|+gA45rbwGbRj<wOTAFWag`?SDTid0P>&+rB<iSBxZ;uZId`u%%2=PFa)!$Qk{Nm|Z^6u'',
      ''rCI1%saRvyUPx!g43lo~&;>#9BunthiR3g9k~Oq+ZYC)cvfsybHrZM?3orHb3SDDs&ZaFf<bic|@HoY'',
      ''3$4cdzB&Td5icfPP|E0H8SN@C5RzR0hInshYF^8p1=G(Nw%h)$03Pt<z?{>bkD0Ocu7=o9&y^?j5bFc'',
      ''@?QmkvH<TnTmSd)KX3bu20$|D*qLJWH~fQw=mUaH6`*5d}itVs@)`64)~<%iW(>KHdl?BiniRq>jal@'',
      ''CxEAKpS?K!@p<z6=XcLvot?gZbv6}qn0LDd6y`AFM76U`UCpIZlVBz>LWcbU`@~FYzLIl|MRilkI_#n'',
      ''Mt7)E>nJk+Go`wyTY}!pzRfS4sZC+%i$Jz6DKfHPO`t{4R<m|=i_hGj-Hx0jq@rx?W-qh8y2IRj<fkf'',
      ''fMvrS%lSQgbh_168ShBZoHNhSQVPU|aK6G6K!*K^w#zV`NHumxdRV3YQDu6Z4&S-NRtZDD?sD*2S3!I'',
      ''pdX?v4Jj4@BFnO!ueo9YJtk_?FM{(VpJ^27W8m2FNkMYqo=G>UNHD&UShR0|LXyQsqs4Ex*m@&7S_aN'',
      ''z-N5n>qB0evf&I+p8*@x+=P%;Mp^Nwv#e$NB&_4`wrHUVDx*zUbw=gHcel`Z({vDa>um2T^IFcp3I9J'',
      ''_V>ZTL6RUVB_R3E#~{vW3nhpVydHbZInGrA6c|s%82(9`ins}X5?8@*dK-30>-h>uO@OH{^FHjzq{z#'',
      ''wpo1eB%wPZm8+X6DmqT4wO|!9h@+16p0dqwjmo-dPGkXjZeo4=wBq`H1=)(y#%j80|3fKwOzHFiitBB'',
      ''EPME|}8{;x}s3fNsJFlxDh4F(PIN3)XDRZ!R1>zJiY3S+;wNRM(B-Lf7Xi}xc$0KSZ1`9@PQx&~GQeu'',
      ''pQto{9dQBp<qIk2c$8#ci|_jroab9Zj6ZumcLY2E0g+;FzB5H3)>D{BABpjmd`t*1!vz;(0jE#W_R15'',
      ''GN;M{Ok=u9UogLyE+*HK)>D7BPg=C-`Jq@w$8xN33LR2+-xm%^Kwyv04O8~ib7t?f;ukpGA*2*_~~^6'',
      ''GzY<*AAfOSdx8Lyp9trp2sVmG@h??gM&4NGuxF#&3955(3p%bpc!%l7k@hd)sy-0UD(uim@n?{x>i=N'',
      ''5PwT4e?Y93RybK4>%9&Qc-F2gG@@5r{K-RUlqlvTa!4#@-u`^IY5y&)95dLZv>3Wu>;`UhFo<F|u4W('',
      ''c6O{6F5$O`zHXQPX0hbRr3&{+AbWd?RQcrvkHL9@;OF>C;Wi;R!PY>w30H8@ZXoA{i;6e75DB0qj{yK'',
      ''sY`6D=dZp-%ku?gh%y`X(<&6Ooo#hxj_xc%L6#gd)osq?6vS&&1Dx_#T4Q$;=KJvR9*tKMdNNppeqGX'',
      ''rd7}0r2lXOuDV!2hj(vMcPL|*FF3JESUZXFuPS=_C`1#%{Q$N#I|H04+Jx*coP3XWR+CqxDl)LTB0)-'',
      ''zkUPO|Jlpr$LDX+35d<O#$&_P!Zr0J?vo4gwTPZf#UFa;R2#7VRFSxRJundCR<p7ny{EobUtgRf?Jqt'',
      ''&>OI#`FFuI(=na1u#q2so9u_C~zm5^G<q7^T&f4`xMf6rE3BF|7RJA&ZMpN8V$D;{61}iSPl3R6x9<6'',
      ''34G+X8cxZ>h_Sjzm{3Vij_+SHM;wSgFHihzZa0IBjONg_~m3t&~S95-mgFxZZ2_&T<4aUIR~pb3nAQ`'',
      ''MP5cKG0qL(ZBR2aIb6IC;w%^l-grbdl*x1dZ{B-YC3T{wy0Zvr5^39W0P}s}>ySax3I|CbJCS&1;G7T'',
      ''MoXw?Wx<J=rLpd9oOXSMx%cN0zaOdA3nZt2RqY)0TQBG&{yNJH<f+k;xII{p2om5(LlwCGEV2mk1xdM'',
      ''B4X606Zo!QJUPDbi0}i(9AGpB+rytPAeDl1D4By$(KoAH>DgNdXrtm5hIQA=hFst+BO1pB6A`_tN@$G'',
      ''#pLmEozisMt-gp?;WdH-ikO(-|;8X$-jkqh!4N3yA#c_PGz7JubP~waqc?;}d>ka~RF@XGmV9gOVYsp'',
      ''h<QVF`b*V-r9IS+{vCF&#WU}82GfW>iU$f$yxW86x-VkQpc_JL;r+w+$rcS@s?Lm&D*K_2o}>}k`0{0'',
      ''0AIRaIBGi&ro^@Fl-IdJOQ{r}npQEtjC_z#qaM(a1C!O?mp<KY{+vI9hN*_f8UY4XrFto2mHhv#Xo5U'',
      ''aE;}r2Pc*DGOky6xJf0A$NHQPI3DKoj@X?NsXK9CM}68e`y`6JrIH@0yM3wcDW*Y!-j3s!UA(Q2tGrz'',
      ''plKC&!I>1lJHdgEgJsZ@Q=0=HXT-LwFq{e$1zcEGc5b1ngd!8uz+j2e#{+@*lJ_1c+$l|AZlO4R6JUr'',
      ''EBL#7BbI0ztZ%;%Q+sw;N3$pYF1L&awi%2{a0Y`TDT2|JP<XHb3joujU6eADcjyreah=hk1gaOC7ZH('',
      ''*VWI@2)-Yo8Ba`ZGPTq$%og^<)16wRQj^Cfzg*r1eiw9XNCP?yz>sM;E*=<Q@j_tdi0P!!Ffl(EBnu+'',
      ''Vx?|6!fp7#j|QJl1pJ0iI@=8Fn{i9UbUOiBFJAhz|quR~W^jK_eUqo+a25hBLF&lmk<?%uw1n5~bHI2'',
      ''FVH=Xd9=S4L4VtzSJ_UJJHowGAzOLj`m^-U`n9o<5ztxrd|AD^W*5kYmd;537YBY!*g&p4Pp)Om;esR'',
      ''4AYX;c{uk@(OZ-9Wd#=8cV{|?898xZ*PbNuTN@7-ZHgf>nXXS5W|OZa$Z`D(4CQ>W)j#I4*3bRvf$+P'',
      ''{rJ`4!)!3}G>~SKIksdY>aeB9yaB(#8Il`6oC*sM`k^h>_HV1MC*ruM$2SK6rTPcDX88o{Qb^7V`8AW'',
      ''R`=>tzf!QMma%cC#*O@Nc(6?ESdT3T0GzQ{=<ILSNhk${sSBSIO5OV+qLQ`{TNb;B-z2TDtm1ao)*&Z'',
      ''hI?B?eLGaW`Ms#>C~ALwW>mAGp>139MwAVK(7pC@3Gj@9p!^Ge+U?9gGETwTn?diDX;9l;yHnL3=w@N'',
      ''@Ddpyi8Sd_`RkWv^T`_n|=taIA<-;v9vS*Z>^q<LjFU6Ra8nE>4oB$9t;>xuK1xg#9SU1C}nx{EL}*O'',
      ''F^KH9Aa?y!P}%_OO>`Qtfw)=aU=4!3sQ`k}obp<h@J6zI(ts=lKPby<khCB?#X8**I5bjbXii}cE=Q9'',
      ''GRvq(FX#RA;?_DnEXDFiw?LXCSK+t$|Vq<d>TNq()Pw`^14<`eAswHzFWfP~H18yJKm}o$vu3=)>*A6'',
      ''To4JHgTG23=l(!8x})ade7&Rg<}F-R{?7b0&chC#HUbf*Ifjnup-I2TF4K(8Q}4y_i{OMwj+IcmXD<4'',
      ''zz6T<pN(;c_0VkEDkjJ}xZ=S*~!699Y<kiGT{fsFq*_0%4Ir-H_Ta4Rfiqp0S<8#Fs*xb%`~wsLy%ty'',
      ''oDJ*RAbynImpr;dBVAl`p{@1dU-e%qrEJi-3o;6Oadu139?wcVT)`4ma|Z@Ugt_t0u}+%yg4M0ItbDh'',
      ''7y#ri1vz=D%|Hcjs}|XbofmvGR^sr5SQP0p9`&V^PiX)BfPdN0-tNc;9Px_wRAr`5ljAhw?r}g|u|a^'',
      ''ZkdZMoa2F5L_JsYGRW_cNcBo8wKX&V)R#jVMBu-$7537y0>jHcRLj){2_vmLWTK5PSoL5h-nC@D6M>g'',
      ''9!HHv&HPG8fPNf=82moO(i1RDp;`YrfMg)HZiU3|%%IW{s+kxnd2JGun$3=>0R@^gi{g8ek7fa;P>b*'',
      ''_l;LRGNk^F;v3^tnkX-YQFG2Co%s7_;c=pLEgHzZQM>qH}%8KjpgXsr_r|gQeFNC0gX5N2OEQ6FJ{q*'',
      ''ALydgdIA)Q_wA+qH|^(J@)Y&dSQ#0Is(?{1&p6PfBP<Z_4?KGanLADu${76NF(?r-<(NO$&szt(GLuA'',
      ''+U4x&uX`J!u#0MNKmh>1iZ|5;BcSvYJnW-xyYSBT8`86pj+=K|TvIk#RjLVL`!AvIxf}WC?cB}$qpV^'',
      ''b`9+g}B6Lr&MrBt>heNyUqn%Sk?~vM4zRazT*)amffRGQkYE8#}YcrZ+^!?E&0Ddx@!Sc=fT7vUR!|0'',
      ''N%_$@5SR!|}i*^Rv#GIcqc)+!u&4lGoy!T)oBt>7)CCMXK7mo^^Q0p3tiz+NU%)KpDch_YSJ*gQ1d$x'',
      ''KYqpaqh&MOs^C1=bE=q4@L}lc1hxSkutXdn$f^^aTqSK?Pt~+bO^=&gUe9)-o+s=L3BQjxIbs{93%G_'',
      ''+uz2x>)40YDk>bEpR-gb5ym)Ks(sE?x64j_JXX_B7g-luR{ZiH*?rd04W7|4LIfGLJ<g6!6J-dxt5hk'',
      ''aoeGA3!v4!#*I%K9V=N>^;{O<Af228Vi$cPWjL%_r?@5775G`WJXoa)|H2p9+@M#mNI_s{HeM`x<f-b'',
      ''6xACS%FBz5HdM#^H`~{40ozH{i!%<+6WRapqJ2{G<{NAa82vP_pjgesfBhg~T<~_hA6f7Wsq6^u;%S^'',
      ''|SRgB%U$^l1OXC~)q%PA7pIoD~CWAw*MJ|Hzf$r$m|L3hCMI8)L)R@t-X0{cQc7O2!s_M^&GRr;=_0}'',
      ''hD{S|0qL64Nmf2uItF_Hfq;04?%cZ{0zI(z`HRPl8j|sZwC6SAyAhKMBx@A3vG1od8tB0_FtkE!}Lp`'',
      ''&p;AiDt}>LEQ$9LD37)^)Pmo?EqwNue=8FXOy(t(YSVs9-f)y#t^wU?V=M7B+x2cBdu)&P>YmwyOxuV'']"

lemma DATA_2_scan: "scans 0 DATA_2 = Some 0"
  unfolding DATA_2_def by (simp only: scan_rules cong: option.case_cong_weak if_weak_cong)

end
