(* ===== verification/Get_Pip_Data_2.thy ===== *)
theory Get_Pip_Data_2
  imports Get_Pip_Scan
begin

text \<open>
  Lines 502 to 801 of \<open>roles/bootstrap-os/files/get-pip.py\<close>: the lines of its constant \<open>DATA\<close> as they
  stand there, and that each part of it is a text of whole hunks that decode.
\<close>

definition DATA_3 :: "string list" where
  "DATA_3 =
     [''F>wp!4d;j8Cze?rKYAp7c>5AOV&y=)k;r0-^3&K#VKdZbCN(|2#x<|6P!IrzEz6472dg<q7`VV-IA__'',
      ''*9>IpJl>LMwRYL+G8X5E`mFYsB>}<}hLrnafIN4SdYQw36-cW<!bOQhvMA#?0WCE@MTFm94SyZ$FH8E'',
      ''&qfaX?qu@X#cSKDP$u1S<L{vB<xH!V_L1_sJNPAnkb`=bw!Y@rMGne3zxT3;GLZG5d|v#K&}Ebj9#o{'',
      ''}O5Z;fXybls9Q@+vCI4GaryTDfITy1hwX>z^LUzs=PK4^Q~n;xOmsI2e74%uI6c^mMUtSa%&!<2lGw&'',
      ''}$$Jb(TcW&CQ04Mx#H=M*9ys%ZP%UHs4psuNYh+KMS95WSaIJGVT;4I)R~$jZb1z->gJrP8>`P<O#gh'',
      ''VRh8(ZJA?&A~wNg^4ti+zROmpIc!~w+>_trOW{#({u4pLHdyAzMoVPkN^U8C2$XBFLi1RR^?2hh;-;6'',
      ''8j=q3+NE8V2wFGehTL3H3BT5cwbg7jSb*8qM-N5JZvaZ@q^mr1(wnL_LwNGT)QgLu0$D|Xx73*0q_~~'',
      ''A|g@<D#{&*6&l1#AP*`B`o8oy=wAVn01_a9>M$N~&4u!I$^Dm<BXfqq=qV%!7tP(&Sqv|s)D%y7m*6?'',
      ''00qJM_{C$no)*GMbMshT7pjz#^L>oy%zax4&Vr{-d#<F0pHfIX(q0-zv#!JV^kHN$)7x;`iw<YA~?Bw'',
      ''BmCCcv6`a;G+@$Z6D%(Wkvb-wrb=s9t_f1XPDnkwBV(|qQFw!P1GX?XCkr59)se6`0n)Q@1GxoDo5gx'',
      ''xgO|L{OFvhW*-WBTE1}G#Iz03wocg0j)EXF?u-03e)HEab|$7x8kNg^V$2D8P5YDB-Px^a@FG4GQKtk'',
      ''P&I8Sgg%8sR#}l!DeV1mYlw6+&d_A0yy%!gbpHVQ2@)Cf75m+5V9t%uqJj85x1mHU|^EZ>0XPM6vJUH'',
      ''ki7bOc}>gx@_it6!yL?|(SBjx)W!k-|kL6g(T!2qv>-5-4xou`MtUQGV>o9)JGh|l*#l)|;@#i)Y@%w'',
      ''Jq?s=UG6dr?(aAWZTrR4yQ795sMERg&*WO}%gmPL<DC;sYykv0WfJjxIdOYxFJm0MO?wIYDv|De#LqW'',
      ''3+(hSV?(3S23Lwq)y75?Qv=baJ%?9QqXYM5>Lc-dXkEAm^;0usZx@Ug?Wrl{l;Jeb^B!W*Q%u;9u>9G'',
      ''L>M|6hv;KhRzHL0McO^ACs;Yv)iNZe+GI+YOz}Z7Q0v7+?D{=$YcFA?UOm(O!GXmZ7<!^sx^j&+xmm}'',
      ''sgvFN7g2V=y4FuL@rPRWgkWR_O6O$Cz<)m8DdCN+2jhDwcO~#US*ZR<av@~|5z(RRPY1KwYe`e@vWYV'',
      ''5*COwU$AXp^6Gj5Kd8Rf69o>7G-0b%XIPg&EZF%JMJ{U$7VI>TkYbP`AJi)lz9L!Bpf!l7K~_|rX1H^'',
      ''``T%o*4265n2;zE8c#3;Jb3gCV+E`wav$>I8lEm!X3e^q3F;V>95s{_)%%o70Kw9@}dk^iKgs_`j(zC'',
      ''a0bizQx!H?ozM=&`bmmC`+8@)NvBFjv2f)VU2{_1A<3HFUX7tlSKKUe>!du9abr?;!YHqVYQs`RgXUl'',
      ''chGo1=@O-!F5TMeLy#`Iy7{cCifGT=90706P7XjZ7?}khl4%_vjEe+tx=nbq0<Q;C@74)^3C%DbggTK'',
      ''}wo93_^til4NSBvljcE>)fGn`Up{)p(ruGaxJq<J#&oC0<&WfqI$ZIT=@OT-aC!L703c$=d(M9}V{-#'',
      ''UR-5wJfj?Wd~9a&g*Uv2cU?IbTV40(f%09;gK9AKAIt09|a22!REg41-kK$>~O)H~6kc`RdCNdw9=g('',
      ''y~>6jb&Ea|Mb=ZoSp{SOYrbCgTgw5{iCIi&p9^*T2iH{$@S5$<Bd}nBEjR%S??X?8&qNvxg@#Lf0ZON'',
      ''f8nU-9aK<CIUU4FBTYpzLqcX046wtU)uw_r?0+y?Ko_!>c*1Z-rYd6DNKlvQMq>?Z&F{2=*uJVnRtA3'',
      ''bTruw!pb><fLqsva<6`_2|SG9fqlg)h9!{x?Z#HrCLsfNzG`8YVzHaMW?`E2fjHa9d5$&6sV<o|c@D1'',
      ''~z95Jw?riNE*LU`vQrZZ1{NXDeD6oYAtxRGV!TA0sG+hB4FWtyB#hQ1(q3D>#8imUm>81}-NP)$9vuy'',
      '')*6@Y==wF8I^I%5PM_Mu5=OSGJ6C2~@tqFU^LU@_=&wzwBK|H%;=EGJU!dItbAUAL*VV)W@FgN^Km7x'',
      ''X+(rGpWKfqz&WyuW~9kmXs;=WVUc_#FUv{vypXG#yMC<?|922?H`LMszq~2Z)ReOUhMXcCDi-W}i`zE'',
      ''%Idx)=1y&<Nk-@3>{bQqZoZ4Wj=Q*`S|_=%4MfJzz9pN+{9x!b%F2-iR#5dN(;9ZI)uZ$U_*iJB-fi}'',
      ''+oQ`rK9k*p7s$_BXX$s%Vh;#R&e&cl<-)=#9E;_z`DP~!Uif>?lQKhkqV}K;W<YWDfzX&4gwSi!D-*C'',
      ''JDvgz;0afnZ$pgYf<22*KxXTpe7M&I4MD5O=!&KQj`yH^p+1g+=AHgHVpv4`Y_NvxtqjRG-yAWDc8_I'',
      ''xzYFXzcChb5oz;0eU5>DX_A{hzrco58xgdK=QZF5;<EVsK56PpE38$LfSoja2{B+nY4Y+7fuWQP<IsA'',
      ''j)_4)@UkkpU};TCYDg>lUXhI@Dpk9<~-0nhXmPl7D+=Y1JkcEdy;5daQU{H~ZkJKYlwHUn1))rmJ}vh'',
      ''>v$~?7rQIj!yq+XC<N9H-7jDW%}dLO=kna+6J_Yo`vC95JQ%4cUIoDM2@w}=BzKive=`bXJc#N1YuxQ'',
      ''4b}$Zag=Ce?m$A0d8kD6P)$ZUapK%R6}iwRK79wtIdI<+rU*|wI5FDcdjhL_5M>-c0TF%2Q{)W3+ivv'',
      ''`_<?dGn&dtPKI->C`@m_J$yvLM#%@Ehi#UfcW>>^y@^mA>lo<kM7_iZRSJc_3UmpGO4+Hu1`+o?44NI'',
      ''^?)XkiK$6TsT;$JleuO8|{q|<ke4K>!T+PvCqITF+5*1Dvb;}~N@*WR~2o@wm_nJ84`Lx~M|J6Y41?^'',
      ''BC<@Vp8(UEgsMUc(kdvELa}<e@%kpkfi_6U@%TyrP>)zQKQI6S~+<jKxE*zk4a%07B4noMUMA2LCr3`'',
      ''?;kK$rAz1LeWap>l`&+tFYV6c#vbwv4ioqSnkPNe>}YlU7wqQ+_l6Lt^+OiU^ELb%A{fip~FCYJ>EW;'',
      ''1M}!H%=jAsh4X?%c}T$(oM5lnUF&m42ZQ=#S8)q|_`b$?m{QYj{&pYZ(z=c>b;pMeN9`exE8WItU<qg'',
      ''UTwE^(X)X*4Vvx?ruu4Ox6Aju<THXX^+#LO<=fy(=|KYSa-kXWDfemP`(2Unt8Get(hddlz=$3B|$2N'',
      ''a(iUkFR7#O&t<6;;#p!0E5<=6R9Y^Zlq6W`VHPXtT9O&po3Lvr>gDqid3(7hwo?!E~NdAA#{<tHi^7t'',
      ''p7|(D6BIO6|bju`n?-rYE$cv8$TyJdA1K*+a#?dV2uABYIYLT`4NttT(v8eXOS8pdGn={`oX|=^gutz'',
      ''0J1%#O~f&J<wu-OMi5pL{}~IeV@nxMo7fYQArB0WS!}x!D$$Z4nb@=s?BARJdh;P^EI*@IFaQ%*9Nq6'',
      ''9b)9HMXxl6Pr<t8*@JyN`;}gNQmx)ZkynTKkbGyl+2XE^?3zU##vV_(cxpH9POzYZ+mcd6-Oi?$d_`?'',
      ''!_CO%qy?n=h;XWX`N2AdXyc@7P=V|TIGybOmoq)_>_Fm_i4$~B2;)CP&YmRXstq6<`?@?<G2ywL0h3z'',
      ''LNKOv#f$@83oD&z<fQdAQZ9DmJs<$3hWASco{J)PC*>uyKca|<&acahX~jn7qZAbqEfAiB6l0i~TN2k'',
      ''IO~vK6N;5U1M4JzGT7Iy}_c_K>#-oe5qnrs9%+Q<_!gl%}Ha;M9hg9?&|C&80}VE3gk%-ihy7nZF<yU'',
      ''+JT~R<Ade2EZjtJMjQA-SEXT3aF;&y#H*AQ8(Qm+hW+lB1-@%v_*v*hkP8Isz*gdmrL^_-5=QDE8tN+'',
      ''2~f)BP*rU`*AubvX=ea?N87!8GP`L_M$MA_qm2%dUc_}&9{Vqw<G;z~@GS?omt8lV{QGFb<o}P(4K=7'',
      ''^BLA-`TqkaUmse7$XX0hFdo>uKZl0l);9en0T&IZTZO2Qb=%wj=X|!W`T_Lq;vFJ3utxj($q3=!X>z`'',
      ''OWkC*YWbF)>xv9065r~mmVlh==yc>^+XQ>jOML+c@5pLK}$wO{2;R}!Gt>s8grW6qYrfBM=0*it_}fB'',
      ''RQ)_VV>lxGZ=^Usq2R71dYMRnC07od)En7n8;Vc@C7u!(XspYn=n3p#5c_{ItY;Ab!G}P~MpHv9Rz3?'',
      ''QcYm839DJ!lj_?VdjoW5(DB)N_*-8sIh8iSo;U$*rbnuUXMWM0R105dHl!UTS0NBChuu+J(!OZJ*4aL'',
      ''6N=c3>3h7{a<MVBNw5L}FB``@JNZ@wtbVu%TA2Hp#)osQnEUU73-__WQjfi>$Cw`V0E*A?^7F$(d~k@'',
      ''SK*t0ZZgiAQinnb^w}zO>>Gk02&UA>>Rb{l|-JcV1??(;(ib2$&1VZK}J8`&@Lh-7}@B$^baKegC#)2'',
      ''%=jtjeq?v60RV>~wJtvpEPNq^>S3e(&P<U?J#NYkcAj`Zk>(x8DaMzsZw6K4C{J>~l|U0MGQPYmKQrO'',
      ''3O&KDN(0f%S$BaNyTVZd>HDuHB{ZFL@T%d5TTDGaO7eH-%;IaPJ=;#-+VYC`)0ySUxzGHWJU4^wMoR('',
      ''2oPSE)4hVFpfsGiaYQ5vls=Zm=arU>p;;pYhg<ru(CDcyH4-mX`iV%-D_|DN@i8IrK8`oO7$sV(2rcS'',
      ''da$~i$if5EciyGiILG*VB`@8@Q}4&_ol@gtF{T@<V1dRTd@rU8qI>j-LDT5dI&`hCH~o*W;xtMp`d@o'',
      ''-TK^s{gUL{3zT1w_)bt0e^|t^N7gTqbs2bprGs;cxLIiu*9?#tEzQ|0Aj(MF^l6&CZAMCG>|2|YYJG|'',
      ''5xbIecmdcYX5Ma{V*jgy3X0@Fk+KQQoV0be?kYnt)Cp57S%_M-^ad^ug{r~<mDKR!F7Uk(jXF}uS}Vg'',
      ''CAW(_k4vXe*LeEA4C?%;|zuttPw>hG~Pki;FDDT1N{fz~yjne|#U9uhTBJq{A5j&OzT`rg%Km4nz3SZ'',
      ''5>t+9ply5YvW*wr-GemEwiU|aTd(tW`*0|-bbvxW~wkHC%9W*7{UFkN!G2Uos*IGjdOWn{ci2&gI`P?'',
      '';Guia(s=QFR=O>5WIh#b2<)8_iKu1*_W&TS!s4nMG6t&}9GtYy!64+U0pjvQsn71pY(g;ry6wQ+>tVF'',
      ''k13EG)GrpJ&tBbossrjzjV*K1urEN?QT44*35@9<^jUAx(ip*Jd3SzWq;kqNb{^`Da3w}D?=G-9SoNE'',
      ''fRF1}Rj`S=!b@9A!TelXPS&C<T<^1Uv1IH#U={0XRj-TRJUeP^-Q5V~Jk3_Hja1F*27yS$N?Z7Qjygp'',
      ''`eWYKUg*@!f%L&8l-m@WI%<^wd+-11Hoxf^~3xLfWd*r*l+RP8nBDSGP7>zqGV>F)#zshlM$0OOUAGq'',
      ''N~8ObuMnL<-m0jskjE7l`t%dqjaluyn*f=?3G96ZgpfFfcn^~NU!=afF<rx4cV`H>;c(Z1^H1Jn=nUj'',
      ''h`XyE2df+JM0Iyv-$z$7c2$eLQSVj7I9#pRht*Xte$;HjIz+lWn(v<B(`W$CGKVyEzCX!v9nNP}Z3v2'',
      ''6j!2i@tnymdABq>%MlRZ-FwxlFbrTGVDop6SKGy~FeLWZ@TILwt(}Z)k48_Mo_8P8@rQNly+OfHgU6I'',
      ''>LHzWiQoSr^QP#L#d{*8B?F3`kM%)bF38}?b4<>o6)@BpbUn!}BAg}IlapqLQ!34nk<!Ntm0#*Qf>TC'',
      ''tm|zVfAkaTwl@0y&3&g2pW7=tH1+I;Ub9=otL$I`E6{?r-|<HT&;0`S+OkzUFn%X4@XW2H|J-*b8Y8d'',
      ''-MexV4cI*oEPF^6QiQ+Z?tWI$+1{R8y+uA9I(0)sn3geX+(ur7^7ULQT1i|GngR!SlT}~W$?_L9{bRB'',
      ''+KrvsnH~`5oCk%b$w)>=cfQQEi^uSzfzBO8tq#4stm@0l;j<Y2og}3gk%kyy=B0Hn9I@vrEKvz7=i-r'',
      ''$_>3>l-8>#o&^9-}^k(!9D%$Eeb7Wtql;K@R5bhHuB;YCDIt})pyLG%oqX)&q_j9~{y9q|LIbXUt{C6'',
      ''kz1bc{ziN@J!*uT!;-aK$$1jv{Uj;m6fue0m?BEs&#yzPp`d9yJco_DL6okYXOolQGnp<)j^57d#^jK'',
      ''q#)+MqAcnWp-lXU`Qzmcy&L@~TyZSBIn(3e0<6)flZOcy@M_a5Qg>RkEmB`kM{<sGi~@!Q@ce?4gYf8'',
      ''Z?I1p`VVqe^sY*2%357bTN=bnzE`zBq=dVZt0&wxy+H=?}!ws8Y<V~3Oa9WcRPkTU6M9ohz&oxlf65D'',
      ''GjEWdab58~<hv>&@iTs7_rPJe2OcWE1v=%3KrH%~p%93-^3X{w#sfu_y=CvU=$~8Y3R(8h0YA<kWH<<'',
      (''(^~ZD@'' @ ''{})h80|XQR000O8E0#4#@aRT=HVOa$Jsto65dZ)HaA|NaWq4y{aCB*JZgVbhdDU6ljvKiVeV?''),
      ''x&#xNuS8g15lc~Ibov90kKi7y$Corm3pKy_0Rce=?A*{!ki^*L2!OYGLg6XYoZJXT9&Rq<5SsVeI7@^'',
      ''bbqQ&p|4@uKl67xmiNX0^6WEh?Ek$d$Uhyu4UCTZ;L7+0>0w^SRJvWnC@g!rP*$)jT|3gmt=BuC})D?'',
      ''XqkwwHb>QBv*^=SU6QF*{-g1HJNXe$*r4s{jJ?YLh!Hj7Z(><A-xx$bTxC%y5Y{`(ey&#1p{A6uSk+m'',
      ''?RR8#yYrp#wJZurp9c}Gti6P{$|xs`y#SFnPMej`$>vn(7o-0dv5h$;_>K0p(~E{a|6uDI+n9WKaD=^'',
      ''zJE_TWk85Rw6nU~+WYQR0i-i(Pk|Js=JVf~A7Au|lSEHROm8nzpcl(e1jV{zD>AVWZd$JL$_SCdU*eq'',
      ''+DM>si8C+}$XVhJ6h&_+#CD_$vIe^uCE&2{0F%(qdw%8#I&YOmKyl-Adxsjg~!mCIU*O^_t)653-}3+'',
      '';srqFIb?<#+9n`D<I2(tJ<tM!UL^g)$p~BTJEmU8IFv!1$+vqtsJz(>sw1=9-A8Hm&?CLQY7xY8cH_!'',
      ''zZUU+BW`Gql^5Fc28C{@Pty_4Mk>I=&UB!El3nX%&DxlZrjbVjVyHj&$Utog^iJ=Iu|f;J*ia%2LbJv'',
      ''bTiC16_J4oV$X?7)&`LsNw?Ckd4oSE<9$=qx<WMWmWQA)nexI}iVb{#9I}QI$`Ox2BY<IDBqdi%(4;o'',
      ''Hp3jF~70W1{Ui3I&|9SCJ{PxFwhpZ~_AFm$=4<Fw)i3`J$R3mc!P$7jzRCP?4hwZ}$wS8I0a*<1+rb1'',
      ''1u%N0bo>*<tP;iFZ4ZkO|nc-^#QK1?KzMJj1NXYA+m#G;*5?MWbPvPKGyjx15%YCh~_Ve{>9#I`6>-L'',
      ''YlAQ!m5Dt~#esvWyt~ZU&P-tu{km(*e&|^Ka$sA%Jo30<|nXXJ<2gd2%OjN)?O_L-Jfi^8eRjDRqImO'',
      ''Y{vU)6Cv2i^-LwAQcbBKANkQwYgYBwDQ5oX||DIVDjozTpNmC;X}~!x}-3%T?m-P78$-=>I~_y1!X3O'',
      ''$}IG6#jvoC%Au?TDI79mh-L0Y7vV&1l{W)a9!rcOmcWBl?nKE2H5iSlv@yu4co-i@2tr^Q@I{+|6!gA'',
      ''P6kGa1iLb9e?_}hPLP(iR)7QWzS137;x?WGjbpdN0Aizh)45`YID-#K5GD>8tuXPqcnk1-EU;;FFF=K'',
      ''$}nNCcBh%#Fha!Uu<p!2W@)mp=gTLD(y?lh=<cZJ$huR-Du+T=lrCMBqaQ*n<Y$1q6BFV;)^aeB1^E9'',
      ''YT5A7_Fcc(46VQ6)W5AFPy19Ev@$cP*`DCWDPwHiqjm2}hyJ8gPBu$*H%M&iEX1gQ$}W(4ms9&;(5<E'',
      ''MYjf<pa2o9|;^h4+i_>;Joc62GyI88&dcNCCpKXiBfe?MXiiyh?qy+^x~64yhM0Xvsf@zoIS$R^A@#B'',
      ''Q)hu@Ncqg^fC1yL_6H5Hl0TDnB+)ZPzaq=;`=@etV;?&18FLhNXsEJPgA`YD(9Z+NY%Mq33xx&*{!rA'',
      ''dQHi-ovFa1bfZjj%1Mxg^OJe(+OYZl}LM!UI|J?*pf!qk{aS$6AHx+fD=Zs$uQBNW6M>UH6)0`XZ_M)'',
      ''%=?zoN~@Z1}jrd*)?I}0mt3K&4fhzd#jAXI@Y88n9JwdJY7j>W%bo`^i@K88DD-_!VYpxQ@}8byoFaq'',
      ''J~`iLo)gLX%aa!?^NWq;Yw*kkpYSpdn+Mkfe_a<Vw_v2m<>9zIttgI8s7Eg%5n}q-Y288dCEwX`T)*U'',
      ''rUk_>q#gXECo<{)osyRw%F;u?8NqEH02SQ3mWFLwjFmo81t{!Xc|G*)5}pZ?8IL3i!1(bko@t#L6TbA'',
      ''=?^~~M-)r8eKadeMVjha#HI%s!SWte5e9w-BBRtEpfm*m0nZZ)Pn>sfz89VI4Q|7cq}zoB^}*umDn4D'',
      ''sGnY133~x9VtsiubHYkJHf(L(Z%Wj-a#BDq1Aa&8xaAI43Af^MQWImw04+SIGg14I5kVjKkNgzm<t@Q'',
      ''@q^km75#<qeSm!ogU^Vl|XyAeDHS8Q$L4#!qcU-jhC+{7#=%Zkg(L=4|8NdWwr^DKx-hsx>!etoc{Va'',
      ''vv}Nd?-}5X>Y<g}$k632F@GI!xYXyK4-4(x{`7jLu{<7@e3_#$sh_v@&yA*Jby9T}&2+`p8iisd$KF_'',
      ''j<wI5N1c3BS)<Vkar!+{%qjsy`zrmWI9eXA}o`q^Bu?TlBuaRO&bC0c*}Hi{q^JByZhPv_WJX!5YNOL'',
      ''n*+N{J9NM3&cd>!Kt*)922yggg@TJkS~#T1JI734&(KVu+9R|m2Y8x9rh0y=*J+=8xRa1V?OdacubWE'',
      ''Koz7W3{ibEW6FmxEL)0=oxp$>dc9XI==Cm7(x#Jt1+;+TP?$>ww7~}x?<K=Tdjh#q}@A#ya{;T80r*G'',
      ''?rRhMJG#OdTX$)<D)>WH}|e5EqI)F2$<K_+2jd>nJY7P4KDv8Y(J4k`GjE(O0kNw@HBmzYY*CoXA$1A'',
      ''9CWHTu>jCeD{HX`&#m%Pko^9UPP!Fio~T1_l40-dTnlz0d{70<&8zvn(N|QkZ>GX9p7Dw2CCs64}8N6'',
      ''ol`NRYv0`;)bu1oMOs;r0ZjP!+rUQsmRgYSDHddct;bRuG`76RNljk-t^P@>F2JW?r&$GXX4ZK>%U#U'',
      ''oqZN>K8g<?@5TG;``5Pu-wBFOe13EH@jXA^&HnM_-QDc{?8E)%zNc>9{e3nOv39USn~H8T^A0+#KgR;'',
      ''iGEquc)EBldjT7;aX7WcId<-yTNlkJpkvb@jqzn~&*`T=mwJ)uutx|4dsByJx!wJ&L$(bU9n6-~Ih9d'',
      ''X;`7#ri(iooWj9UU(tk4tH>yo1dflU1pcWaj01|JsjzK+>z^$kK+3QLYuGyhZ_G5vaFY}ZGu=(d+?4q'',
      ''+O)gfPzf##dAe&FK;stwt#I?Qf~dhtlWI*Ss#vPP=p7k(u%Plo@u?(dU^h0h;#KbVtPgmxmML?)`35+'',
      ''%IR;8AB?a2u#o<#d^XcNg19YZV~U(=|$i2S-a7%<%?f_MUR{1>ZyOu!T>J#@x@O+|MJv7M}@sbbi@}a'',
      ''Tt4;B@$r>#XV?*IW^Ub(AIPV@OV?-O2IiwChk`+&nX4?+E{<l-;$N?_HE5Ybp6~N8B4yH0FVK@FY1ZR'',
      ''hr|UlqU3@X-K_T>8PE9}l_{p(*SpF$+_}k9TKiXddhl7Cepp7Yd9l617$FtBO?BaxP_IAG+4%2MvL4g'',
      ''K+slP$!3E)oOL<bY;wF@$|Ffp|Z77c^!5zHE$Zjq9U?AG{WO5+XrptCgzAG*GQ=F@6+l#!r40S5*O9Q'',
      ''G{S!P5HSfK2)~=>GvwO9KQH0000804tU?NK^{&=4~ec0H}`u01N;C0B~t=FKKRMWq2-ddBr_zciTpG-'',
      ''}NgdbX|gL61KEWyH%rPUB_vB>h=0qcG4b2<pGHyi4_Pi0BDKX$8Ya_%narQN^ZQT+&vBi4DQU_xpUuh'',
      ''F&d5D)%&ifWGfn3W}VDMSBtlYx38w6sB(EH+tFxrvTEwBn9o=HZr{lHTol_~-E<;bv~{`f<edLLIZ^k'',
      ''^dc7{Hwf=LtE*QeHE=#%Win?kwh$`F4yxZ?esaqGFY`VHGTYaNFn9JH+HKzTx*vjs(ljhN`Zi~BJ)@}'',
      ''5S+pMWzIPD3KVpr_a`A1phb(2ENbX$LvZMtvDvRLS0?XsqoB5MWTp3~nCf4z}E?`7Lr0Ms382+Mj4gV'',
      ''b*nyDZNe*|vQHSeMe^DLE1FTV~6R%;&qN-T{&hQ_=29z}H<j6;<7Av$FU_&T;BfYX1D)i|=3k@N)k0z'',
      ''uv!mbNT9zZ!V|e^26J=e|-1;<+sk=WmeTyv19<aCKGQQX)bq-TxPg<dQ9&m&OLusy)AbC`XeLRe@&5s'',
      ''nI_Ow)y?5<-%#Ey<<21rp6s_p+cm{vkB{Ee-FNlA%BSMr0gFG#riGi&%SLAT;Z@ak84wmcd{upfDdaz'',
      ''Hq%6NHN{KUJRD7t~{SJXkemXs|W|-HvRas}b?*IGem-F|p0WC#4hxMBZMCrV%`49L9uZhA8h+71z-{&'',
      ''3#-J8Se^v!m1_fKbEcG=p@)eLKncLNgB%{JY({1OOhs%fi*#V_tclH6s>n+#E&eq<~KBuy7{^)v*a;Y'',
      ''Zfx^78e|rm35glau)zP!62nLR^i%L(=PB)K%Bi<#;N_t8F)5cIAANRe34rTVNX*B4SzYbBPV!(jet`N'',
      ''Dj^T8sJ^NeDUGk%lRMQz50(=Z!QrmE!!gjwBFUgIHqD#w;e60AZEjl-)A?n5;Tby8~9g_TTuexh<YVj'',
      ''xde74>ZSmEv?95b@*EJ^?arS*T@+nf9-f~5+#D|d^TmXqB_n*;j;3Pt8~$f9RS)RzvW5+Uqli5`J^Pp'',
      ''R8UF9-?_!V7&rhG8p81bfK%=_5H+3b|gGZumH$Z$MD{r$yt0t1Fm*AN@M8qHNGuZ&%)P_sfvU^SUk~w'',
      ''YY`FsM+mSxtqLhTsZ%r9V#iX1q9QZN1l%z1KtLjB}&1suPqif%qnT3N29xD?o8DirNZ1!4q&z)M2?ux'',
      ''YAV!f@1;`&d)vg-eTx`tQVTtvjK~@uk~fej^X?FtNLyIz3HYNE3UC4KOw}MQa+31W{Ls(N}R?{rTA!&'',
      ''0nYD&!_yKGx*Qs>ruL*osbwPK0=O;YHD6{#<$7Z&EWX(VPcTryjS)MS9crPgfH`ZB!?PUeryCwnr#<('',
      ''CV;)v=b{x~iQ0uKKMT|g53Kz8bAY|@!LC2cXul4?eiqbz?Ln<R%V59o2CG|JfTsd9rcIq&9TY22AV55'',
      ''~1(JKUG|;2uZ@p-Z4rKJJEhutZknl1;@dwX+_Qa|NqX}2BCPy;#ED7O&BKm#<OmPLzP>NB*Hsy}!3H*'',
      ''O6v#LWK7WUzCBV^Vd<^|6IBts{co2mf$CSa!mH>qz>H-T${p+Qc?;vi79z=u1$BVgusbCK;(2WtvI28'',
      ''f&LrcLz_2e~H>drobYYK__iT*JufTau=rV1W`2LzeBucUjrWse@+vb<Ms-WdX%ddx0{8`0^4o$2q8I6'',
      ''7{R)f%_Q*0v#a#QLi)80zx7AO*gFthAF)OT);dtcX85wh0lS)vaJW`Ts#+!W*~SqK^~K=OT~wl%?<T}'',
      ''Gfp54BzLwJNSN3AW+}}YiKk*wR9SQA?|`~hA*^;^cBqN^;0WowlKqP5RkJpN!VXdsj?<&{tN<<QJ=hz'',
      ''h2_*q?M=k|Vz&-(RKsKkOxfKn}87Tg?ZgP<|>pkw4b1@3xjMX^C?z2gc_DAC1_eGgol$DBCE101HEP('',
      ''Kv4p38c8}T=wJ202BgIGulMn+P#6sU`^5m<bbxGWiHTw5t}81k~Kn?outYoNb_F*R%?KSJ1uTR<RO$-'',
      ''9D7)IA^zac``XTq_T$^{U>yxdaVYHb89UfmTvBA9*-48hWwbbTD|FuoQoSjR3>6z$^d<dD)K-NVYn38'',
      ''$>?g0WSy>nfP0p_5&c6)FTm<&ujCL7zNx0^05%@5(Uf|@1~4x>>?TeZR~ML{8jRn-iIz+do97clb}5S'']"

lemma DATA_3_scan: "scans 0 DATA_3 = Some 0"
  unfolding DATA_3_def by (simp only: scan_rules cong: option.case_cong_weak if_weak_cong)

definition DATA_4 :: "string list" where
  "DATA_4 =
     [''uG<tFq>Rx-Lx=#!p9Zd4g^GwpE5O5mU8tU2Wc2(Afc1a4jeK^)cypFjqQwC!_yTlrKt4C?HemK{GFa7'',
      (''&4LDd**tw*^=CIGVa#P=W3MD@@'' @ ''{j{=6{4u-S2O4=dU>zNHln{_9!*X`jxAitdgMkKmE5$8rLLljF(Yq''),
      ''3eEQsNt*xb_w|Ni~^x0mjiSaF|g3q)Hr`p32bvT|1Corl;1K0?Av9JY^S;ogwI=K=XWfNOU?Gz%pdN!'',
      ''|z&I3PLXOpBav+@VLs63ifaKkQA(B+(NIufEsIkmzE|A^OOpFmb8a^{pJ2B{Lk9{x{NC%Kn<P%J@)MH'',
      ''b7vXF!-DnoJjQj>q{Z4Y(egY4j25#=kMO&3IK1}l^KX6=om;`X$KZ8Ku!TDgRTHb&ux^drF;zM!J2Dk'',
      ''WBg$0as%X;cpG!-@8<|dAnPiJnc7|~bXC#CFwf!l(ssE4We&A!Wf%|e95ORgwKYPCsDGnfu|qBo8*){'',
      ''w_b3R78*BSVZ8#+*BO=iN0=zxFynKyY=T?F|VQrx;#kS7(B}#hn78pOva76YISlP#{C~<w$c%u+O_*('',
      ''$uy6IKDEYAZvRcfEVHjm(c-@W>;KfFALQN!@sO}#I3q&E<3>#|;eC?*F6J|&6GEr5>7g98QlHwZf*c7'',
      ''-t%_${hRhz+F`F-qH=Tox-NMtJ1F2=?8_tlZ1kU_q6vr?@%PaJmM1fVJGpc24e>q)27T692VBSfo-N+'',
      ''3PM<X%0*D6j86f?HS5z8nFV492l%&mL=L*2_%L($!!6gVG$##QNun=B$-UGe_JT7mX1QzIp*?oTe<WS'',
      ''6_g;$J1u!zC3$`ix<gki*+}Y5h_-IfTdFolVy>p3VeMdQbI{IM&39FHbA8GFc)i1l3h0I0PVGn}S+m@'',
      ''LcGXS@OCw|}Adm2xZ8ifX19~bNq%9=PRwM*riZ4u}-O_Vcky6@(t0L_79T6oyCGLmUYZz0-`Y5VCJZO'',
      ''C2T3v1LRYF`5sz{f@e>`r8;4f@9E;sVEI1@`q*Lx&YyiUmJi>~Npr%-+M>>9b^7(MS#(K9;^IU`P2t5'',
      ''|UDc7^gfe1(wayyIx0IESL@7xVnY9ezuMQW6eevYz4?i~-tXhjT^^{OhQ%_~?8*Iq@;%_JaQD9!xkR|'',
      ''An{!Q3D1D!Q(ih+?TX7KAfT&g2qJA!fuICht;;<R`DiQ*BUH{g0iQ(!MAV;L8fnU4dGR!-+P9me?4XE'',
      ''F8@@6LO^jI0y&BI3i`+D`1<JIQDQZqdORY;V<Y$W;wLQYgO!O7K(^z@?HEOTu?A~O=I1CaQR2%2Jxj>'',
      ''Yk%t@+{uR1%EDLu;(H(!UG8U0(;KOj-kHjBAHlq?idz6%#C5Vtlum<%xc*8^R62nO<UJ*_VN~*e=5lc'',
      ''XU8Ar`X?`=?TLBM8Oe^{#d7&Q4VK9&kJJ=+7R-G(g9Zsb9!M$3pl(H0`#?JIWw?3JTvEi3X4u#Sw-(3'',
      ''R3_%@jwr96M+ptjT%Bf<+CJbR5#=L1AprR*@^&pgv0U)4%_URdv*{$#;P9yjGb3Ed}k+Q>ddEsGvFTM'',
      ''&Bb<m15aVE|Gm&Ah?OW_@}8bi>2I{t@ZdURlpe<dRK~!!;h&7EY8_v*aE|_>Fl?u_NZwkz&w0YcapZ!'',
      ''ZAQv^TQF!?0J&Y@1?sIpkU$VdG{5$}4MMQzxo8nJJ6yNALD%ZOV?^Y|3b0O2svPxQHtt*yw3P^B85kl'',
      ''4OShzfl6?l<gJNfm5_I9LjFOW^NVVT$C`p1z<-}ecjn&Ym3C{rAn-j9#&G`tMDz{)P{Ol^X6eYgk6-p'',
      ''v~tkhe9W`cBhYp<)!lL#x~arnXR0e11Y)%H==hoRLNSr>!HVB>b^Ng+luz%O7TY`^fPNJrwa8tf{D1^'',
      ''l@a1f34BGD~iUD7SA;?2$sGxvc@(P^^WX_$<mox*;cc&yJYT8WOv*y*JvNBR(9Bd_EH2O5ikGbWWm&2'',
      ''C;|ofVfwtqtReDRV^p3NHFZHqTLz@_t@*8gBlCK!U&HK1E7xGKGkNt6*uP_*!#qHqv$w0?kMF%X{DNo'',
      ''^_0RYHjhPz53c^Q-dCOCvY3H`@>HPytWpj-W0@*Yz+x&3%98v`?S8qz7e?!%d%}TkWUDkH3Vf#`c|~?'',
      ''6iCkF1Vg-_SjsCjMf`%QH8E_RPv3hKonOrEufij;qlt+_{pNyyCbaFL2b^T}dvI5i87%$p>S=BAz<vL'',
      ''8%ZJK(&-rx%stWDPB%Q~0&K$gN3XMZcfUd=G-L|R3G3!asL35!cVvi&G^#pLG19)ynN^^1kO+M#N4E_'',
      ''%5aPh!5yN#OA|i2UNhg^AV?+K|CbXgK;!#EFC++M?P^*VyQqLrm5BQG$NQ(kQQa*11HCiX7)kQVQ5#B'',
      ''aQo(UCj|t`>LQ9IW7ezHJY8Z@g1F|cWLkzW@({MT&HWL#cr-H<6Krv|MWWg6!18#<J!?!4TZ9PQZzit'',
      ''IGu>P8GPToq(fPs;NT*UvH_4Xij&d4Tm5bnz7gK3WOrLPH$JM=?f9Hsf*Hn`g%|%7A3ei!^WXfmDROR'',
      ''<_yILZ3Iq<2s^v*u)D(Fl=^_+L1lb>aOQ8m4P)A^~cN>`5@`j0C?O(<EOmb8kk}NVULkYoVJ&kSF)8W'',
      ''mEKeJ(dtPWs-cc3?Q?A4mHEp2ovWC)Di#~sXBd5;U$s1=~-<Y~)Nc0;Ax-7_su!F$12cLgG+)R8dsIi'',
      ''udKXAyLt5xO5h{%3j#9^PIlb6x=dzS&X8V+;$luDcExAef2L*eX4tDZx*Zhkj9U_W-$)ko>O3TdcIN_'',
      ''l-w1_WhILF?EX5?`kkOEJMl&V%%k_f9}`<M&4i2a+kDe3(CvY<Y=<XXnoNbN|9vgB^6$<V1fDvZz?O?'',
      ''NEi%plD$o4TGvzIF{^#_-qn?8AgC#J!dA>xpidad%|StO*t+o0l$10AWBMyC)anIw79H^*W09hkh?5X'',
      ''n0~~R?Mb~w%wL;YzIF8J6mBDk1CdZ-PQ))qr3jfk~x{PQT8f`dsjzUt-z=3ic$<!OqW@^4On&snm?0e'',
      ''yTrS@SDLth1XaxJZYEw#ac?hDK3?&LmlZnWdBct`MfWAu*p6=o|Fg1xw1KM-Oo#`{f>S&@?h<Im`1Z#'',
      ''eu*pg~=n^f@fOTb(j2*wkPcuv9SGe2=z05V0APV-!2C^X(13ygTfQ0WTN8K=-*$tY`nDPKNF+m7n)@C'',
      ''lec0VA<Yc7L4bie1xHRnB`ru-EY}Z&=rdUbnpWcf}OWD?G-u>2za0*rh`%Z25c*Uf$1Kg`@=pK&r8tc'',
      ''Pzmoi!vxuc!YBH)JU|H&CZ2sDlb(~8$q!N>6gF-M@`SP!nEH81JV=GkgHzO?GFLEYs07G?!^5PyyGd#'',
      ''usD%XSS=3GHOBrMjur4W1pMCaEV<{)RbolQR0WD(O7aj)N<0?WEb`-*+>g#?dQA8T^1B|78{~khvg^0'',
      ''E1P0_?d8i5U_A2;O?EqP1XQF1G<2bVX9#Tfw4p?l>L(Azg_w9gRvG6EPF7H&=}AMO(L1Oh)-Vc59^xP'',
      ''dW%0#j0E!0o00gO{Ua*c*!|nLB&cEILiA=P?&5A#{*+ISBW_P*4DxTFHoWrWFS2MIODrduXfD0tJ8E1'',
      ''IM91FN47eYNARovAERE>IVP1r=Mux)efjBU<Q@$$k3e`(7d0K5h|M=W*ywvQ<%gA6RFB1{?HNyS&iM2'',
      ''ia{cx1zv*zZjO%bDc_M95PNFrz6DH>^qI|QP&0%DGnvg0-80wMN*x30%VJq{<pJ$#WG*}uD`#to(uHF'',
      ''EK~9bXN@p6uY|-<MtP?#MoQcO2pVyKV9Az3fx?{g5)gqfka?_{C=YK3^CRm^(zOMELn1n(9_**@#Kll'',
      ''}kZYRgG26V>6kSo$SA)P!6%V(wZ&Rj0`>ty`6*K(6~(kr?&G{c$d6{uV1<4C$NL6ju$Ee_!Eb2nCPv}'',
      ''%~O^O~<$*yH>S>U)-JwFhaAr?G}}5uR5Y;B}k>h@_*>B&j<|Bxi8y^<$qyA$(l`XU7YtGyg4}P;K)_!'',
      ''{T~Dp!t?BAzY#jcml^NOU|Z4sl?G6H#^k<VMuWb>h)?IN^vWNZ0fORgdSs6J4dDk`Lg)ffG6=pS@bRe'',
      ''4eA3SVLY$0^6*QaLCR;=uoEH}yh?*OD(R8^dBa$=#F>W9${Db=qiaPyE7`@^iaCyKDW=)xC(=QjpTvd'',
      ''SG+a1+1&k#!h9jsCW-|^l#z<8<r<Dj>1I@9qa1}+X&ILE|FP#Qt&MsE50SB<ICmuI-<^27~cGZD!F^i'',
      ''Q8$xGX`AEl^?Bn@uYR(fj81MvIWB;)@&)Y^$Lkw9ZK%Y)_u*f;H&tyq)$1kCqo{TZ$!>@5|>*fn6zpr'',
      ''uDKYddFF$LNNU3r0+gnLhD2(h~>5F$$V^hKrR;sjL>b17_}S-DJ6EwY+Z*tmdGpKq@19$&gXOTRkdX-'',
      ''hr{%wG65^BHs0Vk!_+nfhJ-BT8zwkbxu1OR5wVDbR4>GfPvpOdS)8+z9XlmdnZoR=x{ALy@O&#9?UNF'',
      ''Q~|K_9UahD0nr}kgIX9?(`l-`!%cez{5|X)vBaLu%PFg!;nreViUfxGw8`4wLrIj#kYSo1IY7beUS{Z'',
      ''836ax-qx^r){>I&m?t+~18(@I@9Vw#hbC~Lo5_uI{83Pua+fLPbMg70f{$>rt$~heE@agX!O50~#M8I'',
      ''*@BX8N;>|kZnGg8Q7ita!F1<Re$j&3l3y^hU>RiISm)3;r{Q->tThhq;NwSbQWx){Ud@8MC10@D)}7>'',
      ''dH)R+Ny8&YHY|9>_JF(WxLDb216T0ati`sgc9NbV<%5hnBBHerq4jJE9}Rk4MCsYb8H^(1K!A(U{$!<'',
      ''<MVYW;p1hxNV%R>q?48;yDJ7rWhFjgiwwVV~&EWGE=E+infucocEVQ*rTbrcrL2gUXGbA7_f;A-<7xv'',
      '';Aj0qnA$eGOQP=$*faL;MjkHI(b^zY%}YEvJ_uSbdnUw~VA3s+bv|Dl>=2C?P}l5OBPTc<@53_4Ju<='',
      ''=)L@WdBNZ;DUFS_QdMHw<G)s``Xa+^JnimuW(#dofd{JHT`2;nsR^^ZMV)1b+#v!zX3;?5xL90nbLqc'',
      ''hLL~V-iVa}`?q!|=F4`U$_r-1$;y*X<eZ+c%0+Dp#n)UTKV5Lu5mb+4-A)+@^KiF3j{(#NF740KAAVT'',
      ''cDPi$f~<ag?%<qQc?CX)Ko7;I=e{B)+-``<g^Ht36sb=BOO%N(JMStg(GDuzOb?{J{j?0kxkN<)xSD*'',
      ''&mh_36MA)Z^x+EemCpt8KDZt8Ez1Q)^93nLk+lhf~khhJ|Ri@*UT|G>Y*tnK02(0it~gAP8NT0Qo9c^'',
      ''rWS(7WRH=Dl_OF0>AogCk!VpJlR+^0$){MAuO3WM$u8@=0Nxs5zj4$)0IfaqReUz06HG()IEiLCjVi$'',
      ''L=$IRoIpPu1XTV|V02zO1t<^w*glDiN=k6U7K@Xvy|1&}&N}r-UuUk_w$C$a6KTfB#-sh3C?ZN*pWSO'',
      ''^uTwm;Zo3mRAMRI?7%l4(*6uX^m=6eS|iSi{TQ4Q2&Xz@s&KJ=|``d;P%4>KOkw^|{nBdIa=O>CNGd7'',
      ''ec4(fA|(<Avwrv>JP(V4rAAdvZqLJUJk)=}o>r-x&`E7*No8BdLrWp2lg$v)v)NIz9XC^-t+HSI=hud'',
      ''i~AhAI5fKGl$5IoK3Znu00O2><^Z*!w=6dq334GXGzw^D~st0Q(<mc>j%@zu^t*8$B|{REvk%oT)rob'',
      ''y_0Qp3;?RdUgmf~Zsw`&Y96Kw6%QIN)u8ji;`Goj{m=<%D)#`Rny;E{O(i^{G6cu%)>#Nz44#Bi(~iH'',
      ''cHoHd66Y9xY>cGKiEx7S++VzF7Xv%Qm3p>P0^b<RA{?Y7)Xy}{XiMz=Gp&y5ptA2nQ7as#e@N)|Rz|i'',
      ''N!cvRI03jyfT%UVZ445-2@IdLpFajDoFLwMZ&n~GxDJ$a19gKm+UHGwD&?O6n?Xp)hJ6BShL9VY|GGY'',
      ''vhQ9HDZ2QdFxN^Gp1eZo|9Iw7Kgag|x3BPVHB8jmsn;8eA@T5Zk~+hCU52-o~6*hkoU8xFNlh&#EUJj'',
      ''v|g&0nG=GAiC4lu=f3_9TV1LKiau6#$Xf=9q@>&BaM2Jrqo6q4@I4lP<+u>sr)RH0K<}cMh$+4rzSd_'',
      ''PH#`Dao|ib{prEe*=EbSy*qt2(tMqcqT2Hqr@s`t$U*Gmw4mYQ;fhb9hU1uv9$vtodjgCm5<l~WKb2)'',
      ''3J61Mu?)K<h3x=alcqvGcSr5!y%|491^RX?O17|$b8k=^XG}b|{iJHW1Q)5*&RbZ0R0TQHfRKOoXU&r'',
      ''V6z+-m5V*Kiea@|=DQGL!4Pw-Hn;P{#Z&w38dW7h_vX{cgxDj9nr!QjKAN?c@(5LVyJRXsJzp_{5W2C'',
      (''A&>UW&7SdG^dHVKZX){eAr9i@'' @ ''{y;Q1tbD#RLpKm96+_Q|qj-<S8)*m0A|fRpxur3n#BPKM|)`*^Y=%q''),
      ''4~tA{~C(-r_RAP69%`<iIf3_MOd*e2EI0gD0OvpPOZ3#L^5$t@AN&9uO8d2n|i-XPD4YfZ;HI+(59w?'',
      ''-(G(f8Kr`8)*2PnvTiW3=6(_2Dt{bcRhpkEjC*dYfCitw&Kj>Q8_-r?Y}eBejm_CBg<;9i@8AF7^;^t'',
      ''R=`B>HJaP$0yCfD?;Y7#*<=Y0CvjtSb6M;01=H~rIUN{zNa+S?~0n2orUO$=4`oF$-GJ_jqRF~6NlfK'',
      '';N+kII&!CF2?x+mWY#U&{yMa@+WO5OK49ctwklo3w}>f&X(PJwOIv$OQne$AQ=zscG7ek~<BVo}yu0I'',
      ''sW3_EK9V2%%$DX@GLy=_I|*;Kc0YtRf#XJX{p(eZ6nXgDT6-1MRKgvbd2v&e@rYm-p2VYrsF=2ku8r;'',
      ''IGu43@!)Hf~z9*h%gzPQ{_M5;_T@6&x+F2nASG9<`(vfYBr&7@rF?>)#DTHUg={%JZHVA<T>Ion{5*q'',
      ''c*ZoLu&G(Bkio8iX6Aa}Hm7+O!0ek|^_QH~o{VSX$vN{dm2&99(gz!;1&CK&a2An0YO@teMmmgvtM3N'',
      ''9msF8L*^~-6(Muz#pj<MZqhD|~*1#RskCIhmZi{(=c<f%{!mDx=naH!2lfUpNGA2BV3ma#8=;DbO%|>'',
      ''SV@QGCcNWUAh6c-U!m>JqPW|X;>o#PW%b$&Hp3QGLG!_r+Xdz>mM*v**Xo>Lip@ZiI{*T*XDqBBk6IW'',
      ''bCl+{i2keED^4y<^?xoN#pz5~M-SF$&gal=Bdi4ivPWBkH!H^{krmQLPs|rWsa_B^yRPbp@IlIh|dl<'',
      ''NDba{a(v;k+K7r-%8ZWS1#D=uw2t<xxx23>XPAwBGj4#H@O<C*Tz<0o+O1DAdZQz+{dPXf&N?p--%@X'',
      ''>oq!w4dg;!xR2?4D==e;#Pd@5CH*4DUh#NS-O9bK*XF`3s6|Y`EC&m&YoMxX8xgZtw9QD`C7wS~;`Rp'',
      ''5iK|L0loZ&DV2?0=eFb7OfCm;IzQ58iW09;?8<ke+Fs`5Qi0dajbIK?1@mXX;KfJh91sRm<U!62iwif'',
      ''X#uuP}|!h$PrTeS=HhblfU%?BxdShkn^uH&{;g)4#N`v$5iM(7U4;VX`4^FMCRmGPhnu{m|`8X=FLoJ'',
      ''X7up2TB;kJD1eI)QVskkd6f;$Gos6fy8AAf?!J6|X3#B#h%~2pa;{7FmvF8cr_!aLi!AG!3#pho;~hD'',
      ''Qaf3Ib<be%Mld&{;(m9Kd#AVbl7${jEleFqHO5SusV$qf>q`3o;qz@6m;n6u%}=D?hl{azuxhzGU5B2'',
      ''#g(w-!axFX(7U6=5B(eob+q*`((xB_Ww@K?KV;Wgvm5(0$MA>We_7t}0iG0>2y_NMcqGrCKE>Up7!4g'',
      ''9r?fUz>#gvz@)ErvE7{R;Ev~M|@^C7C-pl3yO0)8APk?HF3g#ED+7lLDT<PA(ZApIU!9)IT?LzlsQrO'',
      ''2CKIH>2SZQw(El-D)>D;riT47hZ7S>+?U>J!udAVRQY$LE%1?F(KGW7DRxsizjJoTP)sS07@$whE1RX'',
      ''+;rAob^t$Nic|Y<8EDm>!7tVzn4u?Qe>bnn-Mbx&Sx3zDzV)(BZDc!2~z8%K7K$tVhr3kmu-Jj0|gul'',
      ''$xccFYtq3GgYx1-`Hk%GuRLp|NQJ(<ek4BO^1N#q@+Edsy@epv->s)cNAvP8j-DKi^vxBN6E#Qu!2Ub'',
      ''3t`|w(Ftr^YY&v5bJCpjP1_J9VavuXeWie4r{a54#yK<I(JX*vCj`~>nFAy<@u4cQoXD+qRc7M*m(Ra'',
      ''7pJ2oD)p&9$07s=7r8dfMs`^%BxNv0k7h67SOy|x~&YF1?Y`X;DYN|2P&qXCBGbXcDN4Kz~h5pzWl^g'',
      ''UjYF)WV3#Mp^sBdhu^)ZEvaNNGTSZ%`l1e-;D(R1VX=5l=o0W>UhjtiPWH=T<Jtc*kYMMAhVh9Uh$e8'',
      ''k4Fl}XEi7xO7JEPFxPHtMGE(6ic5e^K8$LqCdgu|YepoTvh;Kcf}}#t~yYkc<UF8cAn+GxPy0z~bSeU'',
      ''ud<iP0{lu=5DVjjUx6T5&n%Hw<C%mE+-EeJC8zH&`A0hiXM8GPYh46>J@*o<&&{BTAFt`83?IH4LOcR'',
      '')9ZWKt@XZpSU0$}bMztlwO&L0Oljd%T8_=Vc#-ahpf5D?@OIq7qbC>64zxV@61T3EPc6~y#C8RuOw3H'',
      ''e)yU66I5vqu|F%_ZH^~4rGa^2Fk85A4I-O3XLCErS*|C$>71g*rO)H`Vu&wE=9dc;as8l#A8RHiVkVV'',
      ''p$3w#B{RJEr%9=a|K@_Wtazwz3GnUC8{6X!QELK%;3AHSnJActX$@^KF^#7PZly#s>x%IH4d#T5;%Ck'',
      ''W_#q?g<KW~f>5Mb=X4p6}>bs1JR(hehs49NwAi7*%Npv-x30$tZpL6ki+#lIV_yw`t^RG_jL>Ov7t?8'',
      ''M${lcz{<}oY8tex<6wL@88v)BPT#lpC{)Mzsi54$~rn7j)Mei=~Tc+_E#-8SoM1tXPG}I`mhMTH9T$n'',
      '';eGrVOVD&ck!GJ89w|H$9*b(*^rohjDRumi`hT3d*dIM7M5-)C9!HqKc=bOV5c-FId@_A{{%;rG{62m'',
      ''3c>dE*f0<qD*ii4LvnIn{U$<%zEX5zP8>%RZWmQxrTT4EF<>AE&S)lEb$~h&(i!uDK-PE@&2FR`Qq@9'',
      ''YTOt~Boe@&v1w@snTlRZ9rCK66?L;?q0xtU=(Bs=f*F>)9#8ifAUY}ujGk=j(_e&|o(DQ)))cg55<|2'',
      ''W(t#*ZIAKD!$e{5)~p^Al~@D8D<c$h}|sq$TUW?V+WY<<vv6Lj87u$o=r<1z@Gh5pgZd%yEPJUl#ZYe'',
      ''m*}AKhNM=W5-;%)+b0VtTEr~(ADSf`d6ZSVvHHz1YO136Fr!z|NcX`PS=?CAO026@mH@o!u&M{{L9q?'',
      ''znwYwS;yB!@CmW_R~%!6NegkIKHq3q=)E7Y{QC{&i-Ex$`2_0UZ!ljCjOG6WF<%WJ=Ew(3|9*q{dSER'',
      ''7ABg#S05K2z*lxdjL&ZTm#C;%hU(<yf^Fj5t??%6`{P=wlJ`~Ev^OrUl;@^?8Z9>in>dSxI?X2R0eQx'',
      ''q0Yr29nJCZS37LBebh&D%`IjESCJ5HUNZmP3|C}LfG0L%B_!vvQ?usr4eBiPeHuv9|hAwU&6@9XL8+T'',
      ''#2sxp^Sms2@j`UFnqG+7Hs@kxnQF$Yfa`K?N2SQPmJlrne9D*O_&L^yD|+SNy_&<6iYgii_4e?fmqJ`'',
      ''uPZ+UnE!m^N-iRnT&_gXaVu3?q=6{-RZ=caE9^Z8Efv2xfIF5IMp*G_T|s4e{-CGc6Ry~_~-2GpYT7w'',
      ''{T==1?8|?~|9p9R_Lpt`<>Uf0vsQS5=*fgV^MlwhEO8JEYDh<CKRk1LmS^##pd%xj$N2EyYj~%hG(5C'',
      ''2V%E2Mb!fZCV(t3IH~PllYUwYS9ODCiZu=2f_(|OrSTPYR*<70>o7Q|2gJN+leTuXa@cKS0g$5-Oi5Y'',
      ''sC0E1xxMly-AV%4uk=e|D57A<~>up6oJf*e~A`U^%G<s6u*N6{h15)0tc$rol8Y0?VdG1l#vM{^3o0>'',
      ''jo_K6QTLei)nczjFF~5$2Ry&&G6KMdxN?_(fd<hteNJS0!w)IAnK=;u$>@bZ$<)hVB&W)%4^9KNHOj$'',
      ''tZ@Q9;W>DBd(;)rCT^x{m<ibnCtoYulCm{c^AR`6Z8FT<(38M&~imo{;VR^=_aF>`b+uC9hlq2{VOXH'',
      ''`aFR(HJxF?L`H#_RB)y2)_g*Q!ZY#?=|$&el76G|RZp;zDi2_)KKNW6lxI@6r$82NLL?e8_N^iHU7t{'',
      ''%8D+)l0)oohyWJz<!VX!M`&=gan^IY`mYu7~R`M3Jq_KhCs#6uQVTXa5GS{cKzI@CYDt$@JI{U<34Bf'',
      ''_~WD1^LJ+(y0SLg7L&Tmw0#1nDqIN-+Tc&-{oV=Cs~y5#*x{HW?7)5pZ*)c&||UbM@s$vNc4I})gp`U'',
      ''2Y=^A>@IBD;ldq05YuI=yaHdLo6()$rUg4d4WS!P(xy3X-lG%*a>s@t#?@Rt2vd3ehDd)!#u`Nglg7b'',
      ''BX6yuk?AXsX1A3Z8B@U>X%rPjUlJjruGkWnxT&wo+1bOn%yu!!!w4#8TMnqS@ioW2Nr?!sUy<4y-od#'',
      ''tPr)_+Fv6BR<Dv;mE*hI3_%Ta8V++B!$G9?eJhnPjt?LlAajiP=W)lgSyj&f=8O+_(N}Sz-@vs#c#Eu'',
      ''*KY5#4Wgf=jE!Ci+;$H+-NfF+~s`h^hbN^QL0FpKM6fW57%bOC|KzVV7v%l08RBcJeH&Mjt;|@J(>ME'',
      '')%=U!wx`ZO<o?k{V(njW74;Nub}C+AtmRcxftz&Hn<3MU)*ivOo}`~ILBCqI}W*uuqmLye8wn=?-s*-'',
      ''@vGSkX~^iA!_tDkC{Z3rXKQP^62hirx-*P2Y;4g2pU?{ufY70|XQR000O8E0#4#bW!e_lL!C+02TlM5'',
      ''C8xGaA|NaY;R*>bZKvHb1rasy;$Fm+qe;a*I&VUA0($<xxoQ_aIq*BiPJ7Fn;hajB*k_i&=PI)Ru*+6'',
      ''wO%*K{q6S+N&WI>leQ@87fa;KaQMwP!=WaV$y=3kD^+FKVJEa;2f<3E?%76ZmaA$bw`Rs<Wh^gCW^A+'',
      ''B%$TtGWHO01TJ2euZ5rEXk!4KoYo#sYYop4>ip;-9Q5aXIe@bg^ckQc@R&>ut6M4gh#A;TShV@h4p_B'',
      ''PESNlD$inR4I$cNV%TfO@G@_L#5xctY8u`^bwUwK%gmNjX^nO5oJ)w|d4Kd!LH#~L;pBXlo1a);M-Av'',
      ''L^>&e&yLm(t_NUP~=<tF#m*`gyhdkiELZ`q}HN5A32<O37}P^L!^VyeAV_pG;xu_44iVW|>`Ie)tiZ*'',
      ''UQ!F@^4G%#c}-4=w>Gk+sINd{MRMVMZsLm)<<%WS%p0p<cDB(Czw%<&Jj@#>BdF_(KL$QS2;<MC7$2&'',
      ''tutzxJQv1nnzB5$_+b$z7Odr}fJq6M*CHxJDJ%q%rYfPwj;di=?A1dsP0mi!2;N6OUHz1eclYM%?eg8'',
      ''_wc8$iI`_uTN%6c0ARbfuXk!3Vhz&bv5GC_s*`DirU`Q(@o%D1OG5m;}^#73*925kPS7cr>;8+1O=V`'',
      ''y-$O1_bRpDbGZTgFnRlnklJ-@N3GjWhmSGA~;*4T{2hj_{mmUa`h_nUs*Q0lgue3cQ?fQW9YN><yfsS'',
      ''4;kNNpQlis~Ub0pf!|idO7KH`p_P6fvj}lqt><G3Bh+pRqT*G=eE$rw`Hy5N2o(Hg?=_YjuLG#D28kW'',
      ''mapkk&p4T-;D0pbz`E0CNxqn%KmV{w!-#yCTng)urrwrB%iSv4F;UY0hfL!S*5aVsn)#w4kof91fao?'',
      ''_NWoGxD|U>oZ1vIV{)8%>g=V~N*l+sQf*~Uwt5fJ`sj*j=?X3IhFnmu)VcTVoK`vSRsrW7^PCt>WqVa'',
      ''np%~B*Zx!E*q<u%#rT>J))6C^XmQ6hcI}F_LDVK)}Ae7&5DxS8{f1Y>_zSh1pE<eZXKNrjBn|8gD(Rr'',
      ''Z9lU;ON!5$z6Uj+!U2vEPd`gFZquzMkDGD0EB4}}X%r4B5Smg--nP}dp4jtb8;#jS)Ne%DqXd&i&m12'',
      ''3R7Y$wys5l8*UT-27mUoD9(y`?jD1y?|O$Dh2>T2z)Dl)fjfbajUE4HZ{Zz>MM!jCH7JMeh|b5RcL(-'',
      ''H4;>4GjC8xB|_Q`{GgLjbkHKMt8vFydv6{s@g(uO)7{&I_Ydp>7;XkVb?szPS_{*#{toYi5;-4H42}`'']"

lemma DATA_4_scan: "scans 0 DATA_4 = Some 0"
  unfolding DATA_4_def by (simp only: scan_rules cong: option.case_cong_weak if_weak_cong)

end
