(* ===== verification/Get_Pip_Data_3.thy ===== *)
theory Get_Pip_Data_3
  imports Get_Pip_Scan
begin

text \<open>
  Lines 802 to 1101 of \<open>roles/bootstrap-os/files/get-pip.py\<close>: the lines of its constant \<open>DATA\<close> as they
  stand there, and that each part of it is a text of whole hunks that decode.
\<close>

definition DATA_5 :: "string list" where
  "DATA_5 =
     [''S)v7cf(N*I#yrwS?FF(24wUj<usH!Zw`yJ=?M_wmwXEi83h8&siUn&7Nm7w<#kfGqQsLg$1dw4kb>FW'',
      ''(!Do^($9*ZQdlP*%MqQe8lWtp%9;{HpR52)!=h(Y->~JN44AMEMnCCGYrA8FF6l!0wTGy%&7c#%6td#'',
      ''3y8o86-6_pETC3QW*>gs0cr+k+8-A5At1_mKDLTBQc1AJiin>nz`wXCfP^dki_cdF94^F-r}ts7Yus<'',
      ''D6{yNY2VCa6E6$xsK>JEi{G)&mN5YZnYO)+FA=L9+iFKGPD@k;3<U_8LybBc9O_LKza;3Uq}s_5!8Y^'',
      ''8A<?<P+j_Qcru!z6?S&xDwQY`L9*b&f}*m%(}S~_x!}LNc~6n{BN+K;r|Al^#6rUTfLRe-O;Iti)`K)'',
      ''J*V@uq(b4+6s>Aia9#AJX`^9>>S)`@nqcg*G*srCwcqA%<(f+U{H@xWxidv8xTcK?@+;hoR4Gz4?oQ`'',
      ''HiUY0$f%YyqCAU!9-!A@q$1VUY+&ECG&_UQo?{@Jr%+FV@v*=cizmg*Hc#Cl;F$0vT%-lM~5!k-JJVD'',
      ''b(iuUHpC$&1^9x}8_14-chU1+4bOIBuZSJ_jmZEWTuL^$aS*LBU<4(0sfovQGtm9qYEbP9Dp2|RH_DO'',
      ''yzzkJI>ihsK9j!S*8RycxIZ<4YkuwO6&*c-C^=(EZF)%IgEd&tIZ8n5|=dIK-pXJab#-dP|6Zo)}jo-'',
      ''TP$0ZYSsGXqX6!^L(?N+<ggsZkyE4nDJtxp_ovO7pz10L?&(O0`4Uz)<TXHFfrU_G7xa{;D|P31|^}L'',
      ''gKFUps&J9c)cThs4p7Hn6AoT0E~raukA`>eZ_rH{VO<a53K7^vEO3pAyM5wPaV|C+^e;?pyphoUdO`3'',
      ''lSo2ATri0obqG?z=e3&R2O^O>?@lyUvWU6-KN$U(2f-tUPxYrbpPq4+?80RH7<Pq-p<QjGMy=S4LhlB'',
      ''u6=oE8h&gE`s4{$4SO#l3+FD+L;zx*;uDd)L$;w^~-o@pq|Ei8VZr5Qc<+>mM4qO^Cbek43N6aG0!IQ'',
      ''%X=jBb{m!W`uv=G>o~qo*+U41@&vy`UTa@LS2C+jU6ZLIf48yRk_e1R+paj7|{KUBPb0(ep4<i(GCb`'',
      ''X|^2Wg4728}w;A)s#h-(J#b<&_~x2zUYj&+c|x<NMtHfY8@@VN9h9?xhMpE!cY%H99&dc-DpAUA$Gw4'',
      ''m1c}gQ|9`}84wschBovCFAw}^UXWjmZ>(r3`4p+Y(5Ep~p_x5!^oDSamezE2b}k~cMC~rrXO3=Y<Vu-'',
      ''K>w4f{8)4{k3HGsb&TkbFdyU4C`K^Y^-Et)!xEm9EK2N<*r~$d{^K^O|ueM+~u>j7+2!UCP(0F({?P}'',
      ''up?qdUX#5=(uWa7JL8vrNW_cNn$>?1FmLc}M-bV8ku`G%S}N7fJp12}FMKirMw`m<_yhv_nJ<8vfjRp'',
      ''|U#jMQlZ^!cFB@?qH27(~>%!ST-M_vD)4v6%#HCU?{6?aR9{Ag3bVgpYpY_S3_4<nHau#R(YG(Z`Z-e'',
      ''*O+nO9KQH0000804tU?NC6rDfm#Uw07x7F01*HH0B~t=FK}gWG%_`GVP|tLaCxm+`)}Mf68?Sv3f>xl'',
      ''Bt({9xin{-ad2HXHIT$c;<V|dhRT(=YdU%zN!eZm{ogx7iWDWSod-^a?G?p&eH_kw)XwMgm#kufDn@9'',
      ''Ple=1cB6nO}lZ(>}@@)T~<fJYes`!EzT&>9^UCCrVpU;+}E=ig$Th$7dri7PGEfk>(Sr@Hhskxucx^c'',
      ''nmC%KmP;~f<huU789DX3c3qO|u#y;{NZ*-VM`;f%o5>&WVA$yYOWpRq=fGd+GPL@f>p*&>agtCEtc&g'',
      ''xqxwCEPOSgY&0BL61)$q&A^oJ-XzUdY7hB~*GwCiC#`Y&Jvxm>@^i(PYKcD?JvbX+=xGC4y;bE$>q*v'',
      ''g;IpgxP{68Gy<Q7K$KDo<?c-N8bO1fdIvFwj`i1HBO|rRD|#w86X@YcnJoJQ1uQc8^rWvi`KbD3WH=C'',
      ''t}`iHMz;2Le|YAU+QmumLpcAu``0|d#i1%>QB2;pmEtA)&CH6%zPza`=EXo43xO$7gq{D8LT}AXe8g@'',
      ''!Bw&sUQm~R$3K9-h3L(_VrWb2TuBoI-i4X#fNzkmDbqcF1VQR{&WgSF4B+VLi0oXy)1Sa+ZG=OAcvn-'',
      ''K{3MDbw!{CPA(#`TW>j&h?5j@Qb9&D20&Z=aao@d?j4leV+0}O95xG7#Ej5+{%m^wi)GRlIv2Uk_+wV'',
      ''Fp3*s4~&ASA|U$#kTEV;_iTB?yw6npa^-n@}nd58QWa6Gl<w2W%&72-%Yv$Byv(Gqwx<i4oNTA_SI%w'',
      ''2~2Ck(^~hLj;*g)HNd|uWC~TCU8yia~kXxZj=Usy;iD`hdVnfNSStln|KG3knS|R+2Oc_<j($!7yIMA'',
      ''5RTpcxO)|wR2rvnQqr4R#7={~9+-?_MH})=Y=+C(9SrVWjTb@Dm506lZx%pmG@%D*wAD3-D%r4%FL^e'',
      ''~%VZ$k`GZB|^Il&^M##sb%=e4nvH+hTi(|5+MX{jSrx>ak*oLxkbSYXE>w={}_O8E&e4tK(lnfd`u6@'',
      ''s$Vgm5P40(5c{Noux3lj4IL#!Cfp&oVhUndR~1j21A$rNspwt|Ym3%V%!5_L<9>9%vl7gXZ}P=dwL+e'',
      ''=IB`r%;FO>0SVwrE%3{KPaRP{q+837*Knc@x{lhEc%Mk&>>-e3C-$nlEsZWVH~0-aIDGL2sojWZ_`b>'',
      ''iCWv?t}WyM_JSDSOnAhwV)C(1xF3wAq4I)j1W^+wgnOq{ah;wPrBIlG0KZ|<gk`C*qovrXxSigwXmDw'',
      ''rI}y!j20w5dM?zC5KD8cD?p?l44Y0#@7s!Jb<X^5k?T6>Zp-0qJG|vyMh6$`^rzDw-@go|dtRpjEf+a'',
      ''G9615vs#dfRY?;;2hl6OdwB8Y+LBaH#C>o}jc07N;x8Ke#e@QQXe|`Mw)%nR69Q2KRuQM99@?oIfzd1'',
      ''WO|LHV+clO`YFSvt6u3suNxO>01yM$}AoGT^IzSeonjfeNxq{;&83=d**0Bw-`F_FVOdr)Esl1`?!2g'',
      ''&RLC<yi^AWw+)bX-njlE<WsNozX>@)?)^`qO|CWsTl?+kT>V)-e93R-}Q0K^VX^>?A|YV?iS!7*ME;g'',
      ''+YQFEe)c6WV;*L(9?_t%`5R%SoX-hGGwXQv<}s+aK{VHD@kz2tAl;CSMaL6Pw!tmPoF;vJYp~*dpQ*#'',
      ''G++k9GeI(RqI1%8O~DEV1+cGzI0zNBWuCfvNnRhHoWJ`3RpH{*`R}h!-(04b$8TSrUZTj|HP5bXxxWK'',
      ''evS@h$4Zw^;-S<>Mm6v=4g)yU*D%PYfa)v#d8p}YHL?B7lLK~<Q$Y$5PVu{xXw7W4$WBU-`cib6<Ojb'',
      ''Dood+E!?1XJ@B*CP?Kq1ZWSOkn91xk>9-v2AGw7_XHe8t`ET{%~x?nw9H!w1k<!Xd9;3Fz$&t8!LlYd'',
      ''=#SU8%3i$v)3y+u(_i<zcsD<q;-k3_S(Uc}G7}NZsj4hZNuguCbHHz9=;zVGx*Qr<PRViKx;_{<L=fO'',
      ''lErEu%UvMRzM#5%9TJ?V;{vhhAXbq_~ZQG0DAuXV1ItqmpZVI{wL%T=WzjwtSfiCC@_~O@Y@m{uC4ca'',
      ''PeHRCQoTO3Bl7WT)~(a8oin6tK{u#d@mp4z7Y%}8xC%9+n+<d|2058A$C|A0ggUt=+SX{)RMDe{&K7;'',
      ''QM#>HI2Bi3Kd+*BIOz*moffk{Ix4dqpIaS!*XkF=d5U#430<=QVYQ@5ViEYg1?LGV*)p)0iHkirb<cM'',
      ''Wleo8{EKaTKl^%&!sbp=#<i_+64N8T*p<H{{R?jG)5p)B0=;s>Y>2x#co7D5F7W;T4;E|>fs<A>42>>'',
      ''M0nGK>ZU*bKvdA9SDuj07WWwB3Z}dFaX5G82=1>_T3^3A<Map)}hS_eiK!ILP!Y3v>nP6<90{MKoL5!'',
      ''vpR*;QIP8h~<lI!{n6RMy3*O@9iefw|S*lft9`={MWYWOhc+fmG)xrYAMm9A>KxV+2E9ZH1q&3?1Wu9'',
      ''#U@!}LNnFUBJJYTg2_tMZ6m{IqQINXbar_ISCiS8Tb_1JxB0<~=Z0`+<F(#s#I4nms$lBSV<x&5|4ml'',
      ''(ihQLV2m#c8ry&RjMZOuc?>7hR=ezKOPX?9V0~7f-IRM-o>m1z#t}-vlEID|>Q{c6h9(XysAs<~LPP0'',
      ''!JWL=CIT8469sxky)3TXr-b#Hts@uewB55n0zxA(+`ixB}Y2l`E;q1Qu}Yp*R+XJA(=rpZfQ1*+Tj;e'',
      ''Y<|Sm490H&s8L>9x6&jtzDVD0cMl_yW%BnrylkKF|u+8Wf}frU`n;X|$lja81!iFzJU~c0B~6;}I6YF'',
      ''c_U~Y?p)%0B0Mp5^H6)uA7K{L6XcXDmVisl-CeA7Il14h-AaQIk`CNJ=kEmS$CE_o5rl^7(>fjz*2PZ'',
      ''J9;<<mX2S5{IBIebu?VVcV&mJUvd`}Lc=OxT=>n5GaEhX<z{?5Cj(logJ{sKxIP<?Thk?7t$@J|mKuR'',
      ''%NGvl^OSx_R%(}0K3O3RaYI1jjd{4iE)s$sIaEFQfO^ZHU02|xp6<FbSTs-U6`~QUZI4k0Bhx#kDJ`$'',
      ''#V&1;p+X6|FE4;DwG(@Hd&kQ#C`nb#d-^vhKJ6`q%^DCo0l!yNwxP)h>@6aWAK2mmXVHAvg6clLb%00'',
      ''5i-000vJ003}la4&OoVRUtKUt@1%WpgfYc|D6k3c@fDMfY=x96?*RE@~4oSZ5^3#O0vSf?$cn<o*`K?'',
      ''%sc&H{~=dk*SuNM-la$-zgV$e|*xbmQj8iz;oXl@6}#yz&J;4p)D|;k!~n|(?GN?a5or?f)wOPjCwg*'',
      ''xH=Opv6lneL5sF-t#*JUmoD@t<JY2T;R{ep0|XQR000O8E0#4#f!ntVY$gBz9(@1+3;+NCaA|NacW7m'',
      ''0Y%Xwly?twU+sKjVcl`>4S|0*q3bH+uxjEWsydIC7=&WDIvXj{(>mnf0BoToCgNGzelK;N->K6dgp6u'',
      ''R>b8HbncXf4jb#+yBbzw4@99?zWZB@6yvZ{l;Y}&La@^TfVWfsi4yvXpTU8`VnzgDW41oOO1>s_!-7q'',
      ''{t3VYN-##zzwXwXCa6kR;2l?P`@ILB1i#>Ab0mu2l)&A05f_MYY-Hg@OjnljctURCQfe`exaci?*tYM'',
      ''n71m&AQ0v`nIT6E5K9VR*n4?Z_{?IZ)>H0HS4a;O}o(R*8JX?+O67bmw=(ZzfbEDnrV)>r}MN?-+!lj'',
      ''+0{jpE>$xB{ySAJs!VYqwMp{=kf<9~>!R=JPM~b_ZJgYxGOOyi$scr?tG0%wF5ekyK{;CiNtd>|ta{k'',
      ''OaCHdNl*p?4vZ&Hbmq9WlZIu9;v!E++`0%%_pdJ=#+vZi-=qlk+0M{k+M2fF2>bk0D@aQfr^6byZ5U+'',
      ''qfWx7$b;8WQ!D=B^xS=dFjNIlS5-n2LXP0}pZ3TwZ=e4qSu@%rN9Me^pwhyT3zki5Eleew3in+pTRbV'',
      ''Y5yd-mHlg@G_F5HKI{1z?>t-F#bD3)M8UKmmflmst*7SfpEI(kyA(tm@iXP;c5=DSS~@We#=oUsOUJB'',
      ''Ve^kvt+UE%G)ODwHkN1Zn)a2GHJGXS-L~PrG!Uy(Y(x5*(UI`U$9Yaw<T^*XaX9JxcK<#{l|CjUSB0w'',
      ''f4qD%<Q^m{Op3T!)cLkG)VQMCH|ed5lhiRJy<H`>YO1aVQjPLuys7S#fw`#4Wxm=9A0LruNYq0coCnk'',
      ''ReqBtDj{bD<;p+0;+vMfDH}7A3y!`R?1-uNO&VnZq)Ie&$ggDnzH(sgsH9ZRxB72fxu|<(KO+f7QG6h'',
      ''ZvtNCBmqK(dIP(bFqfB}Q&LA4ABiH77DOCT-Iniz!>)yUKm1XNz;ZIXnIDwZ>@&rHFxEP>9obyY|s($'',
      ''GubfK~-5H^a5!BU9oGXpwF#u(RMJU{zODi>RUelp4JXev@ax3!*zR$3y&z-o4~k0rxy;tDwj?d20aSM'',
      ''KU>u;h8IBF=W<&263ceq=o*C6o?apGz^CoC82p71^LqUEC3>_;B8f^9vHtX0Ly=12Y^6j2@z5T0hXNG'',
      ''nO;+9{2l7oFd^#FujX~X*9{GB46R-xz+%J_To;NaST*c{vg}5GKQKNiNU<7*q=MBDMx}utLhMZQVqOw'',
      ''EA`Ib`AJrlS>f*pa=@kCGaTzx)cL7i~XmBpif_oK!^t#J4<+etEphf0<fV6>zX0&3%O^K7U=?Y+#b=o'',
      ''>O-s8KXs&0`*x~<4a1hLNBM)3PHOr^5e;nY#M0<LkrgF9%>@Dj2E-0WZ#z5@gc=ukc{RB)&2282ApDZ'',
      ''9-aZeb8A#sj*NRppdKN1JYdVO!;ZywBUUZcWMqZOV%Iyesp+bt(=n;#C~Pr&{;e<g0bdSY*{NAl`AV='',
      ''}C{xDb{LQtIZI&RHKUJpTtk%IK~3dEx;0saRnJmnesRq(+n1o42Ty%mqFj4fdK3q;3W|Z3Ph$5C}4St'',
      ''$_h+Oc&xG<7Du7<xWus2jHfd23Shn?so+*amf{-tOUoEy8|w4@I$sb$8z5~_Xetw@#fF>d$1x82eOi)'',
      ''iSt(e$NYIt2(cmLwSLgxsMWEcO-OP@suKCxlX$4-bPK3vUPaj@GPnhRn9GnrWa0<XPwV`=}g_m`@+Q6'',
      ''zv)W25(P1pwKN;-$N8j4np2sA(?0fN9{cOG2RGy|j)WF{z>Xm~eN76ye%pzcVsKLFwYhmkC!Ce3U2jg'',
      ''>>Du{hnrLZ5|`^GW>IDlfxpAMngVx``r#DAMyhm>f$b11{3za6x(_Q5s$n{b^n_>-5>P?}!0mD4Dc*<'',
      ''I)vbtbt{rNNa)Bs6|)j?G6RV7N#<;4k)Dn)Nj9^0hhN7JB3H6v(@kx<_$F7ZsA?X(xhtyTmc#s!&Ffm'',
      ''{IR+RKCfxevV6IOxmtqaAVakQRRiD_y!P4m$e02SyNIYSK!pxa6!LH)#em<>wSFIS&qJYJ%!+jwMe$l'',
      ''aWcf-pZ5WMkaS1O3IhKCd`=){+hnL$L=O}R@89MNc1VLMEp__NA(0u3Ay(e*fuSHJXl}IS81q!BD5@1'',
      ''n7udcXDhC8`$*JsaeX422=XJ_BpoA1uPw>RIP-Q4JYfdY;TfJ|{TIs&av(^U7CoSCfPL}6|l?~vgH9I'',
      ''Y21AfdmYb3wo2BWIBngNZrRSq9nqYbLYc8_lyvgSC9H0v}v^&-ARsnP$acf7wS!Zb_1ShYHc$%Nxe&t'',
      ''H5Dt=v2N;7ws1-xP91P*q9M4Y0igsMd&LcSc%Dn++vl$<p${27NW*9VV|UaLy^XG!e;t}P-Zm*tM5mc'',
      ''RMqn@YC^o^)jJD_b$@Ie5eNP$U=4x_AwuNxY+45IuE>7G#l)c;Agf}s_7TsJe#IAW-(9@@I19|($Db}'',
      ''gI4a>-59nE%H%bpcmS?b%(d4_)^mWk1<{acLaIbr&ivWh~kkHnNOeyK%m|^UL!g0&XPPyI3AtIo$F`&'',
      ''a<Uyp+yNi88A(TG%F#vQD5<!M?k)~Bjn9B#^zL@!{W*K9%@mw;{-Ml**rQRL554do#B>y{b-97ZAvVZ'',
      ''Ax`MGP{@%qf5U<mUS6P2`FsI~QIfM>>uS`W<OeR4Wvo^bC~YVpW|_d9|Cuat9Lgwt=a4{xtag?}KMgt'',
      ''V%E1e2A5S$yK=mm_%s8mlQp-9+m1oM9`781=h}DWnR)7h6Jyl&@C;t=pPUSr}caq;Z#^!GGe2IDYB;H'',
      ''aR|XeBIHdsdh8)>JwC@@A(e`}0_(WjB7NO=yndp^&SW~D29JkcENf}4W3%GoZ4_sU3QW;AR6d<Xaox0'',
      ''az7416Q*Qu6u4jlV<3-LA6f}$GE@ZW71Muv+(CnI66m?+DWd*zu{66^BcD=+&`S*XCdysk9o%xid4%n'',
      ''&vvQro%;8Ha`3#QXS#i_Rv;#gU<fHrfqvcCDIEOZZ+`9s3a7Uo2Ur@$%#h3EJ;JVAN%kAHKD#ZKGmlp'',
      ''nj+<j1-r!wUV4pvN@9Vx5*Nuog6@9S1-E{B!W(;^n&!Ke3u1s(q<o^#{FXt^yw9OcPMgw7fy6E{+E|l'',
      ''Dp({*fOutxm4m(#_wZfP<#^ltR`Z@REWVG1BC%w3+Gc!k!g>E9m2m#i$-}b)q|2%6j=i97G0Zy#i{i{'',
      ''d<wb@b`pMqMM2MD-iA@Mw-<;Da=ZrqnAa{)9o1F?o}|qp&nG^RnrDqe1&0CyqTU}Ms(`o$Jza$cw`hM'',
      ''EY}&rAE$09~!m3NNB&o4?pizr^J*<I){%`pF{qM1xFrR+Vzki4yKaau_yv4_#GrW(UM}vXsU!Td<c!I'',
      ''6{8vvhSYk#`<@FOhnMi_%!Pe85Og24c?Q6>_tDd<reb*ShmfNHLKXlu~Mv|el0YP5{OVCjl1SXJzokS'',
      ''1aeB)JfmRgsZ7fp;)cG%3T$31B=)CPwEXBNSV3l$Rc+c!B=3KzZ&`I;Mvq0<dI*E^t}Yyy;iGs;dqJB'',
      ''jN$<aDMLM*V8o&19|JD#%D&z0$=_4j~5rOrxEd1Pt!Hr&aNk`=nRYCCG&yiY5|5_9U4hK&I+t!E9}Mu'',
      ''$N400PGk_yKzZuaWV|7~T%L9AdCoKIz)Vg+x2bnq=s0S;qDc7$gQkvpfZ-SvazOw6pEFz|M23Du!#Nk'',
      ''{kT#%qRfj4FEcjsLf<a7MFDOz8jfC+C?rYSV>V|zQ0&k<zQao1V65FJ^0LYGi5KEBBq!9*}Z!bx-H!('',
      ''SF(iZoYS~7hRowm|uJJKB%$~4oPa4-*Y+L421K|$K$x`Mn~XJoUpwM|ByX-Qyldp+&L5Q=n<ttA(%94'',
      ''WAY-gk1w-sK~=hOQ;TNrXM|O|-Aj<a6nWQ+m-TbsIhrGk&o}Tglm7h(DzFFX^6l%>=K-Hm+#5>H#eqW'',
      ''Z!f%&(eS&p2=Tb6ovG18)9?1ovLiALRtM`)#dgE{oPyi-y{tf_5diHN(EW(8+ZM(u(Ev7hES8dS|fF$'',
      ''ebAxxG02Qm52{zzQ?#VL8P=1@gu6Cu2`9u3B8Y4CH!F>2=!&V&X%5bUb+u9F==hqE5a*xc^Le|IHRc@'',
      ''WGw7(amnW5TKn0Z%4R>2B(3j|?75}oisC}%)Cn=Mh0a|+Sy~tp9|IptL;675P@IUDj{wIB6tHWTZfB4'',
      ''-Lg!zws6&Vb_YK_ASUdr|gV|zW7D$|=0O?9L+V8^AoX<U1_gc!ES*!aY;b;b95Zt&4ET?<Z7b0SuH^s'',
      ''SbWA3(3KvmjG#ikqt9cp~;8e#)d=pndJM#`60`wat~Y`NXTY>>gyGzM$h@&rAd%YOVz!_aN;G<pv~#d'',
      ''Rz1OH!O|X-4^{G#V#_ywD;PALw$eeJkPpX2Q&z54cN$cnWRqFL@HQR8>Ouvx5aDYvU|zXg4}FEKA0<l'',
      ''l5B5GLGrIES!m{NS2cf`>DANOdwbU*>zDL<M3>M(3-JOqkwoA2Jq%P{7X?IHRhy#Id{tJpnhw<g8^WR'',
      ''0O=QE6nUDN`3oRV}*5#_D-xdt-0)rtr?^YrA02O&y$U5}$+ATw99s?fMVN)+alnhsS&BidT+;T?gbJ!'',
      ''e|r_-qeyC!x|%z$HE9H|-cEB^uuFkj|cnE5-yZ_;gm4w(E-Y4Z%5B6oZ41W$M`V|N=C)Ijl#xc%gojX'',
      ''1HEth(=)wup-GaFkKqt!ruJ1}icMPh*uH_S{usgr-?$8gWRsD608f+40WE%m<N(Ug{az#~^}vIbfD@#'',
      ''Xnv)B!j?5IC+4PHsadGi8Ia1MbTwyN`$jJ?)aV-ucn)$=$py(Vm<yoEp7#^9-|{_EIi@=YxI}sVmEOy'',
      ''6p_9nqsThwJF&Ri0(f8z3pscXlFP)+w#ZwbDW68yPj0~Q%-B?(#wgUs%;bSzPg8^XF4P!SLnQg-LG*#'',
      ''1!)ZR=3p4<xQ+i^7e@zbv9lc~}U*t%$dwYu)te?vubkN#sb2J`K+Hys+{6M8+RLd!X0Cc5zTUQu;!G2'',
      ''@fv;wsNR14fedVZi`ZBIEqkb~BBzbzxbrYBR7Tgf!iAfr8W1rr80?%D0ndID5@(-m#Lg%!#6-`%yEj@'',
      ''x-sUyqO-<Y>TqOEL~{0uIqS4z6y&sOd`Fo<rpTi;eLZ%Lrm9{uwU!^l~p(h};~oIED8NIZVs6FHDJ%n'',
      ''#WFL#R6l4P{ISt6zMNJ>Os0}Wrvg+;0}>dHwPVR1RmL&C=Tu3x>ixpR@`BO&A&Up(Po{ZjX46WD~;ff'',
      ''hf~Lwx-_68F#fD~kG9(Gs0$%76)J!;dNxBt7k@m9M1>)zO@Oe+x+hT}DaUmnAf$%3cZz$;p=obP>Zjf'',
      ''`9w$CjV;6`*E243T*l!QPYURp@Ma^R5%?31HGJ~~a;9j<rHx$~V1F^99JwP7;WguX~i?&1clv<`*!;#'',
      ''=H)L3_UsCtYJ%u5ZB*vqu3S4@Vm=xW>|g7zs`0Hb<FK*{3TP(@(k4NLe9{u)8I<%xpvvKrUX)dGy$v~'',
      ''6ox;by_4Ltv9VGZ~=Kdq;->O%Pg02pd?A=!OuAMyYYRq|I((8R)2W56?IpiX0?Z!ZAOn^aw1+w>;J@K'',
      ''sH@qFsU6Vc=U7f?mzeR?&}DK7g!#fylE&%_B`0XN(eb{N8%q8w;W$3mp^~H`rzLF;lq3P_T9%nj=~$q'',
      ''1khcqp#f(^9OOoZz}iJa*S!#qG{HTh+%W*5kfUbyOMZ=_F3_}>r>CEac03E%452czVA{oU@~9bGCfT9'',
      ''4thzFr1dni~*4Ex1lmwfoCD^4Idkq8j8nS)AO~w`(-6ZIJutdAQ#<+cG#oBUxIsl;W92L-xP7WH8Es%'',
      ''&&8}@vo$HB$>8T`Y|6q@iC?@wf>0YnRmOl@sj1J@PA$8IN~GKQ$xxMkO_AT36#L5>~<4fj<;a+S+Q5B'',
      ''|A6JNfR$nhM2!XcqUcfcf;vR{@;>w6rg^zJy|<4wrWbcu6+3L$wo2Y9W5#$PF#H+<5!g-RwLEMiF)(6'',
      ''A4xZ)YajIQMsKRXPk0?n-|V2YFPg%S{Q6U_**4=_9>*{zMeYTqVS3~PjE|G9GoM&8Uny>zK#@;4vfwP'',
      ''uefoO9qxs;GKc1%b<=T)8?VH;fh-<THjn9lV;}P$89!XPup3SUf5_If_6%w=-8eCXr2T-gZ>BI#XVez'',
      ''Z1K+ALmXcRW1?#rmHfN`&E8zHUjy{~z?QWZ%Zu9La2>ebpr%!+P<cY;5mL36Cyzl6>Y7|!|jC2>=rFE'',
      ''X-4hpf5AT>9E(7Yj&7Mschkd{j8SQJb*ud*E}V$B%t^SqsRi(A#kRlQ>L<s<}m;q=?zo;n>c*svQfoP'',
      ''uE$Mg9FD5bqrb{><P>;i~s}qXGfWTEA*ck4WK6ov7uZI`L}}f94_%*z&sXlm05-Y(a|cH~^SknQTElu'',
      ''r`=3TC+igD@2O1;Zm@<hn2Lt*HNBGb`a#CCWBmoRd#WU+fR#s5&Q2>|D|f*o|?5R!R3xoO<J%nLYmEv'',
      ''M8V)Od=xj`5<3hd=f~{gML}W1b4)`WYa;PmnmW!JcNRQi{sqRM-zUKfI$?x^8%&0vEJB)<;^5`dkb#5'',
      ''$@Zbx_Ll8Aoc{&0Kw<emFs8r{3P?n+6y4@7VvH+ZD21NA8QW*h)x&}r7Lg!;tUzn1#5#-CXL3n{MpB{'',
      ''t_Zbm48@OQ7;1UR!R)Z|RYqrYpyNYLRSa%`A_Oeb-OP2vf9!Ftv3^k1*ME%8rBRK|UN!GOlzBX>ge`g'',
      ''D%o+~eTno0EXUN6vz-U7q|7pNyO!-05?Gk3#NzWR6EY3Z1S-P%g(~M|`Y_mbWC?q<NVnvc6#eOIok)F'',
      ''v5vqH()IZ>uD%M`x%(z{vV%FXNsQx8#;pEpHn9?K-2?J@ll8riyHKxJ5l~uTeZm3LflvRmZXGLKfLIF'',
      ''3A@657}*tJAVx}}snvA6cdf;AAfBrREI4dy$=frtk;WqQEC?`)c}LGBzD4yDkGAk>tBJv5;%U_|`vB&'',
      ''%`2S$I^?MsjbsWGmYVX_lTl+46yIG*xMI8J{=LZx}z=MZkdk##IQAmlvvin!Y#D<>onLM^lsZ*7XS&>'',
      ''MU#@RbUO;Vtx!8ayu^Bea7ir`35FD_0L+%*TVbp<mXX>JHsqe(&%o^5_!v&i=W_Rm83egSsQkf4H}pn'',
      ''?EX%{8#5TdbYob}`^n0_;bjReep4K<GOl_C`a07C(W;btmuAyl~gM%TjQGC6`EMc!UEh$6MyUtDKIA;'',
      ''As(omY2Hk`!Hq~$W9{TI0D1;TuV?5Zqk)G0!oXCK7<wKv5IFd3}uf1p&hJ;OAv@+Z(``<UCy*Z9-#?<'']"

lemma DATA_5_scan: "scans 0 DATA_5 = Some 0"
  unfolding DATA_5_def by (simp only: scan_rules cong: option.case_cong_weak if_weak_cong)

definition DATA_6 :: "string list" where
  "DATA_6 =
     [''EC$A-W{V(UN0pu&cX^HeB30ha1Q=*jI<^mC8f5h`p5UsQq0b8=R;ukPMHefKjW;widyWQGz#2~y;DGF'',
      ''*yBx&f-Xc~;BD4ecgW43$k~cDi8xF<V=`$rKpvi7<=t(#9a6{Dem^K5h(Nd-g(u~fu@wp6~EbEk`V~O'',
      ''V_d;*^%1~V@%MuM8PW@BjG8iZ+l@j#p$y$k;Gmy5SopFUjRS>$)`KVH6jd-a#UKvfu;s>Fjt0*q8hWG'',
      ''X&o#Rsg!JIIgp^tM)X8}uBqx|f3{&(ornvQi`fdG`)a<pKUb$NxnG1618<SI7xI)Z)Tgk#wd_H@dgAV'',
      ''N=`+iP4{Dzq+9qG%z#6@Dkk<eUMx2C2tkjtGqm*^c-Ntn=h=$8sUN$PU!)Ce!6(|;?wJoP8U8ps_tCj'',
      ''NgoXJbGKx%ce;zZ!){ldHpj><hkNp^=oTEcgz8wlt+wG5-oP47yPZ@LxARS5Pk)^ZI&ThbRJe0R%-4$'',
      ''>h1C_~m64s{Pw?1*?G-db1d2h6TR5!v;QzElyAD-$Z%TW(3m=YPHUkwY3Vs8ck{yJ}UgRF3k@cvVqQ2'',
      ''<_b6=l5y_q>ENB=U;U(?pNd)oSnc63qTFjXkAX8GKrm7h2W1CO6(4uu1B%>w4ub=qL~kd7X$5&!UW7J'',
      ''iODXVG(3@oppQNiek;WG@0w6&mXGt;7>K%({m^-6DNP9jX4m#j!4EVcn6|{>S{_&DMjQG1B_~K8tw09'',
      ''_1Ae4Q3jT2w&tN7eILOIb&90Mlz5_II7q1LDn+vZmSX)Y*0r2;nStBO^6jhTD8?HG@D`Qg;bA%AA%=m'',
      ''`{~~Esp>&UHnOc9UQeA-zP;oA-8tlv;K}I5QX_H^L8s~e6p4Y=y&o%R&R{eQuKYX3cuvpA&GS$1t&6='',
      ''3heYd<8riskZQ|)PcZathF5g~#eDV7A#Ru7UK&v?UwRK}$_PD-{IQAhqM<UEK+QM)|jQ3muhvz6HKbH'',
      ''bs_Dyj!dH~=2>_zD5Fb3znPeLc)5htn+Cvp`i-hw(z4G!~i$@ulP#t3N6NHG{ZsKfL#`(YzzdQ2q;0V'',
      ''Mrnuj(LT5Cf%Yw4rLuH=$|9U#DqUbWy$uE!bg%NL}6QV{Kzwf$*BWA6AjXg^C}~<n`!Yv(&`7&YOSZ`'',
      '';1uZsX%(hZWcN(xDPUSNqSb@W4S$HFNVX04daPI+tf%HNxv05>W7v32bXkPhB_nBn|)9=^ly2?KBK7)'',
      ''7$3|Z%_02P<VE4c8{x7PpX+~^Ok6QKh8lchytPvJo3vgvcu?;4-tp8nm;l3#oYmdZhi{hUo|-buR8G_'',
      ''k1U4i9KBY)S|2U4mcDcf2O7KpmGPySyY3MK5o9}*lcgB{=s*;2OeDHs+@Cbh6dW6X1ck~}Zp(E+P<6}'',
      ''-J&ND=(L+`lLe-R>d1b?l1wIp<ugBzQcLy!U!JbEIjEl%R?ZgJ#5GZCj6tO<q`!4kXzkSYb+6kTi_ET'',
      ''Lb{(9ULY1vL@0Ua%>#iP-^{%q5>R#_yrgE7cOsqo9Swu;Dx%67!rS0E!NfCj`|$qBWko>lHx3qtoPR$'',
      ''m>N{q&iC#51TKXbaA3HS}loodnI(1FErvfvgf_DD6%Xxb~KqF>P!nm3A8hGcXeYvlVrEKhda_4z*?40'',
      ''W9<5-!<k+|ifcTFve#!P-}>8%qv)0#um&nMHoNFWYdh%j+~z|eqNK_OWwQ5d9u6lRYd`su^<1W9|D4{'',
      ''8Xiznj5J=eNo!&W{d8fT3-Od8f@}YB)j{5|s8X`<opIy9D`7}2`NzQntkZt6qFpHOY3F{C~LcM2dyLb'',
      ''a5X{`pPgq(jG@KLCb+Krdjr;<3uU(?Fb!NfUhgqL;*ojbL!ryfP8H*x>eovqb&s9|o>ElBltre6r}Ok'',
      ''=~|j%0JwF>!u^LDal^><*^s;x^&Lg84iLxVun5%mOET#4rZ#sx_FQp{g77yW(+yhEs(Z-#4-dI&B$f('',
      ''c>XukoTav%9+kuEooEOx@poL+o3mUiayUx`d8deRu}?EVA3_FJ)=Z$m>LmFISmswp^8`Ju>K)<8b6Kx'',
      ''of8cK-jp26RhKz4jPcT=^KFxtm9griH3IlFekK5=LsI4pAUr#vk%Nv=z%WLwt_FPy-(X*6!5eIW$B{B'',
      ''e(Eld2T|g-bIP(<{h<7zj)<({aB&nrp9-Dqf#xu?Vc5qD4OSa1Igc^FV<vf<|nB^lvqTh~h31K`HZHi'',
      ''D%DO)t4grmISD!D};`9U(qLenNYsChpG!^DE{{8ytiZTf@osEKsmr#|11PM}BL-(8(l<k_P=RXzX)vy'',
      ''mk-&Q_SwX12O>R1%{UwsWIBb54cvQ5iXt<9BCzX_=N*)f7*7fO0<U;ncS_58&#Zcykjmj^tou{zRq1*'',
      ''>7ZZYLo8filT<SLszotM+d{uACKU<qCKoQILU6u_~4Ot_eA?Q&mE$NeAu0K@bt^)^k}=o@}_b+&+QFv'',
      ''4%3~1^BGfI{=+#1AJH**N4o0c@JB*F{4<h!a^%#qdoD=N<I%J-JeReqr}LTV3B`$GtiPoXnyE|yj^}*'',
      ''L!K1tQl?;Baieu8%Q1$Upiy^)v(H1Nh$fF-PV!-r=0u}Vl9ybV~ZU}HbEKUXFrN!DmkZ(^}Bxod^IBW'',
      ''f}BwYjc>;T3jnaGjv$;l+hI+DbUb%{w0R}z`!)DOQV#_H*BpY;0FR~THZ;oU)`2>`LQjwc?%pw|G!Y7'',
      ''l;Pm;&P!;l+V!I9c{I2ygs~4v}7n)zYRb6uxr_({A)ZQozNF*fztSU>abtD?JtoA7;UB7W~4gd>+_p^'',
      ''vE(Wuy>{qbsiu6V(VeY`rbF3(!=CQJhu_C{&6>V20Ds0#-28u68M3)%P>1Z<wO-sx&KL@J_Z_CS-HAX'',
      ''W(U`-eoP>Y)eID7&*WGI$vyfzTaNIxB8*bVStQ6_BuF$8HDSxRQ=(D|v=^oFNvu0((W4ZLxoben%s1_'',
      ''iC#XeirB#aSqO=AS=Cru=#!uM5riPAv3OLS1ATlQfqhfR)E|^UgX1FbHp+ZZYg&S*y>EI~x;}Jy4lB='',
      ''QH9Jzfy!Lap1{BhYx)=r|5qb%t?Z%T0U{QoVHq<8bG!UVl-h%X}`RSQ!`QWp4Bih4Q%W-CMUyss+IbC'',
      ''d9vRh17MABX$v=u9}2tGTvC6Tk}>P#}0c<Di^`_m`V}DGOFbHBSq#l;@!0vwm&^q<(l$`Vy$jBp4Zg_'',
      ''%9`uo+Q@m!HFd)11D#;xr=)s#8{*=n|%oKPV&4DD|<A-gh$>z@W=IyU%{sj9yahFa1}c?0<ctebY_x2'',
      ''luuG{Xd^Pn2%|GApj_Z2bWSd9W<O4EYu0w1|B~|HiL(JPV##9PWpr$8pFBZdCpzMFX8(9|o8fQTus<Q'',
      ''F?m{}q1c*WEG%!x*soMnD>#_YgayDoHSYJ+hLNA#j!N=Ih1GUDyLhf*kB`$O?*D34)k<K~wXHJvjz{F'',
      ''lb4IrFeVQy^l(imSN2GLGkb{PjFlE}6;DAjjuxECh$@m`o?7Yvuu81pI0tir8Z%0SK1yKB_4EBs?%GO'',
      ''r8J0QJ!KbAu7Oz2g)m#<}zqW%}HJ468e*(nci|J(i#|+|I0F$^(Cg*w2hM1O2p{pjx=-S$w^(2=GZJ{'',
      ''^mfkwI>8`g2%M9ha-}~vu8$yz;HJ7=09~4JE*OXLC1--Rz7X>GTEr6LFdPLF#XV#C289_W^_(jxx{_|'',
      ''u^{{X*f+AuM>4eO4>g1?aL%Q{FM2r^-CPyZpPaLVeV&#<bt^OfN{4Od9|zY{2XoTnGY#P;_&i|h$0MT'',
      ''ss4t-`*~jx(k0A9J)S=1A3D-P<niF^QZu}-jg;(!u8=(b03l{g;IdPfs!0t&X<Xp|Vx|akeI)ji5%en'',
      ''j=J0R#M7t_~15g~wZ8PA(_I3Zu=WC&M=o?eI3SG2y^kK=euM-w0(m$AOn6`%082aGrwo9w@Krg(C9Fi'',
      ''ohfL%1?Bql`+gh(%8@XvnTa1Agf9f(1It3&XJ<6{_B_jt%MPFj3n`16B@DmHNU^jSmx5mk~<4w$j5tm'',
      ''J!C)a);jt;g9c};kjkbj3b7;lfmD7hJaLLaY6b#&54aXZ3s6(02VZ2a)Y~Di_W)4jDjT@7xkv0DCP`R'',
      '';(UwUxGE**X8U?7G#a|}k-&dnA9npKOb+fiM@wVKPFr^vBn~4K47BdPBFvpulHkly%$;cgby%Mth2Y#'',
      ''bF=ZcWLZ>qIg{xotF;s{j1vMb_fvSl7#hpp<2+>exj%Bfsdcy?fP66_nIYi!**wGOMd*$sEb8~EQpdP'',
      ''{O6pvO~;P&cHzCpqI`QG_LPHcRIpSM8e<NqJZ!&TpOfl=2eP4_Q22Rb$2V=PPG+rS&_k$y0qL0(@2HF'',
      ''O-h253d&SApuEImW98esAK>Ted4>FNwN)aUv%^N<|$d{~aF1+nXEI=Id6g6(>q1Z!*j&hQ`~mlumy9z'',
      ''@B>@2R~J+K@FWE^^2UoEur_pPUO6)>FmJiJ%neId!S>NzC}`2!F@^xkFb$$OTw^L^c9^ZE!9Zs41Mj*'',
      ''L?hJbC*t3q+5ezQ<Vdx+_X&W5^@g7vF#NtJWd&YeH4X8aeAQIcU#A+LOY~szlm$3AV>1a3iYJFuD$~t'',
      ''<qo75%4*v6%C6P<I(CGIC>{(m9I1zv5td@3l+)K6TkDji`uH{8l6pA7zgqa&QAN-oQoyeb<(L`|99gX'',
      '';nw_B%wk=|gxGuO}f$3{fcE%@tre2dPLj`rQIZ)Walhu28UBNED5A0wyyh3a1xP97M?V~MAoX`$vID|'',
      ''j|q-TD=R;YTg{>d4H<z;O=S>#f1dNv8BAXU4(rVDv9%!#AA#IA&~!rwiF;@@0bxFJle|2j-H;2;RKeS'',
      ''K~mAwz0(tFK>K$I^-ThRZ^&k5oFvBd)!98EAk60<~ZwyMMr~9ElT74^Cs69iTG7B0x$Xqz?sQXuz~Vm'',
      ''1!Ns8${441C-DlNM!cUjj_H6W1w0fL9f_^F)tbJM)D`q8C{hM>LI6(8cmUc)0ToB`joA|Pi8I{#pR1y'',
      ''}mtEC{{2f(|pOuw-9F*Sd<NzT35vLqIceMVbnS4KPfBT}RTK&qXUA=7Lp7-;MGpldT?*EkOp*5Ev(f0'',
      ''WZvaI%}Dd=Al?7Jl#C`FX435c>u>svME(a@JUw&HxQ&KRF|vkuMBg9<d*PMB!gjAO#E_9%(mawBPzjA'',
      ''1TmmeLhiOV9}&(r{Z=_vK*}<g9j8-}<Z%P!F(Uj~7@I=83DrKEFaK>)VnHVDB2h=zgLPb;t&4d25bwA'',
      ''4XOb_TC3^4x;FOEyv2NXg_XZ*1LwymlSFpvFU8?>hDF4NppSKj}U)3CnkSRtUuA%kYMlN7Y2%wmz|Fe'',
      ''n7ka4WdG{5e~EMyMUX3)mPOWpQz`B0p57uc>dP9}z^7MSW!V+R2Q*L}so<BjN8P-uLgEz-5tSbN8brk'',
      ''jheiO+@_!jiX?s7G$NjH}pihgnRQ{G|V`%0$h4`~o_{}7@75YNQlcWCzP)h>@6aWAK2mmXVHAv3roNg'',
      ''rr0093F000*N003}la4%nWWo~3|axY(BX>MtBUtcb8d97DnZ`(E$eb=ub)Q8!dtF#-s0Rj53A_*3t*u'',
      ''$`)4@Dr*(zV5f5;>BJ>lXd*JC~FkyLN&on;&9{_xs#)FP%KkGplS--ceT@CzKZ}e5E(ltwl{1&(u|ly'',
      ''f7;PWf6?9j-V4nM^v*~I?j@|FrDzGrO>d5J_T}})J2wEDGe{G^Qxx7*)FngOs{LPBvF~D;HVa=ZTldX'',
      ''nuLVgLB(`>3%#tjwG2=~I(Ou}f|*!3(~92u;7GPbmZQ9QRF<ng^p46BKCN*<$fY;B4^*c2EE~?(+APO'',
      ''s;|nW8Grsz*&$1Wd!fd(}Kp;njN44yOab9d1RW+iKcLdy)eOGIwXL@&t;!uXv-oP6Izy?rxaVK?8Tn<'',
      ''18uBSr$$;TU|HQv>FO%95{qOMgyxl$)<pbST_t7Pv<MA*I1>Xt<A)u()LDet7x2}~cM&n_<C{q_6B`^'',
      ''yXQR$L(;;_}{Yk?u<NIxK`X<`(@*>D9_ng*vy9B2u70WR5l#n?{RO>}^6|LosPML#iB|vtH6#bsaMTC'',
      ''V(<Ri&Hp5Mj=pZ152Skwy4|2S`rTM#z~kiLgafJb?W_QygcYe1mJ>}N_LSxR|K9(q{y&uly4$rFb#|u'',
      ''DJS4dd}xStnu4RwL0_tx0U6rM$z>mYyS#i~UR?hH6bHr>U>ASS#&=-X$(Cl|A#f_o`8<nMqLo5DQutP'',
      '')$qi|X9<Kl__czAV3f<yN(wu-$t*LvRvSD0NfW}Nv1ZWkHcB*^~h(u=s<`Ccvl)`vPZbR(r1_6S+r7l'',
      ''hnyfh(Le|~nhR-x&aMP=GENIT54BNaZMIr^t3AN-l^wLbgt&CkCSnEcf)>?~!-1<%hjfzK!@`3x}SUt'',
      ''WDJzP$dL7r?od0l2WFEEi(WHjB2wZIcuJl*71|<?O)cBF-%+JexCXtMLh2O22(IkM{JbA{)eYba3gMa'',
      ''VP!WC-4-f{9!T=P5F3`)eTDB7v8(R*%>dTN1%pe4dnyt!g;GznB_&j5U=;bQNXyk*}iA?a+BOF9txQ#'',
      ''cfG=Reut4Wpqh*m2R_Tag$4h;T`-ZlILQ)w9$Z_4j4@4~rC}ZM+Tn%7BpoLEfT~(8opd}p;Mj&haeVV'',
      ''qVPzh%O`0|)dR?a_#tz2yu)hJ*a^o=>iCdX^T$d6Qe`#<BZLLC|^p<ICHt3W)ToDHwqQYhXHoOv5NHE'',
      ''09#|OUKHgYRu<&5Xa;<#4Jz<l*ZhC$mc&%~k^;@2wl9D3ZE<1Kf;ACN2Nz20A#3}#%C4Yk8W5AHCGNM'',
      ''b;A2S_#&j^93>GsBpq1^?M?o4<|fX1lNpk$=w-^Z8u-u(Qp+%{pzG0pEiz?(e|jV4i1rC98%2T5tvdz'',
      ''7-mcjoZp20e1o1I67}atKXawVES$uup<HAZzs;c|2y&zON!p<Q*o@UZYA!i^}~{4__6VbhPPCym4e=}'',
      ''((Sr*<biK>B0uZQ8q#BdBdozwX^p%1K|ztyIuYzhV*ur+r)w4^TC6GFRucl?O2Ks!t)69M%?YwSYREG'',
      ''`SRC9Z6U>V)=yosiW7mn5SQ`H+nB8JOcivBm_LKn0(Zqg%%etOspvf8^CYVg;>HUFm@&ARgR@HMt7N@'',
      ''qzQ_Q?BTmA)JHmH>^+5g8&k?(pNKRN$8(bVErk`sr93ERpJXKsSkAem(0EjTp=fIg@xQ_SkmTO84HdP'',
      ''#%Xv+641!k%ixOqgmDR7<9xTo+zo@-I+J0|XQR000O8E0#4#?KO!1Iy(RWAUFX47ytkOaA|NaUv_0~W'',
      ''N&gWX>eg=WO8M5b1ras?R|T98@aLP|N0ad>3T@o6h%@pEi0C?j>k@P&cvQO<0QN5b$FU&Q|g%P=5#mp'',
      ''$Y$?n->Sm<(aokLdpx<rd*iW5pin3j3WY-9hduTxTixc##bwEc{r)rd$1J;8#Oyqs_ICCd`#zb*X%Wv'',
      ''@nXw;!dc)S~EY4X3wbC+AChIcG*~^POj+b#-_I7r5cXwa1c~q2Lwm_oSF_Aw1;p*rB{ur@klqRe7A}W'',
      ''(Cg(8zY%5PbcvL9~C%Pa*7?=O==|4^{CXnmT;Q5hesvQP1WA`%m27Ns*r)T7xfkBcHMcJQk-F0ZrvQ^'',
      ''EP#*_r3rl8wjnb-B*t@t7scRhE~~r(~MV;_)IW<2+gvJ3Bk#7yP2kGWbe-QIz?5TJG$O$5(M)Ko@|@D'',
      ''QgXS{oY{I+5w5Z%9bnW+#~^Nw`{&nr`XeCXFR1J#z|U^%iC34K)p8nqubdj^V^dh2A|3@Y>}lGot^k*'',
      ''8m~(BHd@B7^E}IWtyNSMJ`La$YKyK_)U?aOpY$z|gI=@AZ3zr~!@p1FY|{Ea{nm&6M|OJ3`X`L-i6LW'',
      ''$tcYPi%4Awl{aHL$l!?f=%;+!UD-doQ{?_5m<0p?{EK+Q2Cteis$(<>D;6u|}r>kiCsXb|Z^M_WKO*+'',
      ''W&9F%l|N(MDQhQ*Dlp_>3{z?VJsWg!LlvgBHCO3~!jCxzVNf4eMBXGxTTb{fnJS*xE=xUETY(K5P+-1'',
      ''ODIsV`TeGe}qyGYBR{k``r@PUH6Es_QFO$Ew8JXybogykN&2_5_-61q{E!#4tN62Bkn11x`Rq<Mg7u^'',
      ''n2<vC2LeLRxcJ%M&1&BeWd#j-*dX`1?w}Alla%!DI2oKkJ;hSmQ@}lMJ%RtFUA3F??RRM0xVp%E?G8*'',
      ''BI!j;GH;!?@W0EbWH_UCJFa{L9jSfipnbf3UNT--Y!61w`5p|9@5A_i{^xd_L;0>^;f#%r)W5!E{hPV'',
      ''-k-d|1SM&EaE6<m!1+5J6j3!LGgO=nnDk7Li+_J&2mSZlLmQa^HtV$D5|Hiruv}YQ#@)G)Souw`OGyj'',
      ''AWVc2`dt}o*}CNs(6o1`cMrby9hC%*YejJANw3R@H=fl|h~1FWb8qc_dgY1!`B1BWAxGNlQJX4Lw%cC'',
      ''yicwqg3@B~37pM;Wh92lf=h@7S3z7YP}4s6hX^zD!_UPe8|@wr=<~i5D}LXk}ziPKgY(KV1M>Hh!O#('',
      (''c)bW3xASc{5iQv(snlaM?95Qcswo^Sy|9h2(lAn_@'' @ ''{WW0)3?M!m3x$=khXU8T^qm>Q$Z;uzqAvjNE~O''),
      ''q3IOW$Kyo_6mc0JkK>=mWAXjpVisLx$&4?pB<d3R8)t$+Hi@SZI1MlsY?j3ZYRV;$S;Sho47~(S@*Mi'',
      ''IxMjC-$=a7?xjH#Gn5-{~-irGqS$=Vl6va9o^!rD{j#dlet6jv4d6##q(_jwl81>V*vVQ#Y8fF{}1^n'',
      ''6*E%7p@-QcCbOR^hs%mvpeyNEjhQkZf?&EyY<;6D9ZRQGQ|W?goV8uGhGg}mOOi9~ks*I-X;WF|^rRg'',
      ''=++>W<!n(QSs|ml*Fhu?^BBvK>nxpJn9k$R{7Io%0|5di4G4w|{*9Cusg~i2oj`f5RfFEY?fD3;1iaS'',
      ''aV0Mt^X=ILi-f@meJSH9BwCQr-4>VY$STLZxCeP#^o|9KHZ0G%1H>aDC%T27Hze~e>JK1(I?;}g{=*)'',
      ''(O}ySU{NHKD1-yQaZ8L#KGGM)jG-^p<Ky`<zc6NrXyb&v6eNYefxbhRNI+w<^NhVt$Xe4TE6a`1vv*s'',
      ''ttGfle%Zl}CwMgRG?<C2BD*`M6uuMOGd^lv+$zoy9nIO+;k$~;yQksY@-Q*TEF<LK5(T^Xg%SKmTrc_'',
      ''c4HueLVQvW2m$hv5(jH-IvPEc8~+mA(O9@Bmbcu8pGh`9hFMgqY9jtuTaogFz~^k22VFtpfUR1GtCoc'',
      ''O+??Wt_nS2tr0(w?ubwbAEk4ILQm#S7Y9zE|`X2Y(t`)4%m7rv;j(c(hu@Q7#l9N~OkGde&nto4|MA2'',
      ''Ha+A;t##ANNif$xS>@s1vcz3WI2vt<(NApppMuh3yt}Gi#=jWXgj($MmM(R9B6u;o~b|`Z45-rLdzDX'',
      ''>9jn3pReOz-ZBX8Hd+Q5dHE#`!&}aS91Hc&Ee(SZ#`adB$KK_Vh>!<veb{AIlnk~K1uUVGk4?7YZCEQ'',
      ''lvkm#Yt^P8$L}~D^&Xx$yx3DER*YbI!rTfbpkYAN+aW3U2$H4gFi&+ug1USiN3-3vqSHIT`k&6oAn#I'',
      ''L5Pq_LhUkKG1w%cVgT`wXnYcaoJUXyov+sb1$iHc+zEnqtw;U;~Oq&!p)S}*}OpE@Jx>X8Svk>*wK(a'',
      ''^4)dm8$AE!yX5?;g`yP12?l`|5~?OS3UX?Bba}xqpmT@I_1$TGnQ;@*FW<Lzp(OYI0p_Pm+s$9&YV0i'',
      ''ll6q;;Ed5AYIXz(i7Q3W4c$&GgM<qNAf9HBzBwgSvLjG`4p55!LBroFM!)Cn%8BPF_;t=u^J!S76tlI'',
      ''r`29?TrF%zT^_@>RnCm!cG<ft(1k^I?P{8*U%PT{hr2T8+I6(6lxB2Sr5TLAq}Gh?tu?@Jb4Kqrl7rE'',
      ''gAIgy$%5eb;VL8rLD7k1c7BK~XL}dgvV^qToK=745>{;QGmB#Tbo=NE-Wp-*F7plg3M7rHN5VGKh9Q1'',
      ''RCow4C&KW_J33X4sa#teusV0f977%_q2dz9~*4wNxA_?;BTJV|FVh9bh`%6rhlcmt(iNh{)?*D;<WfW'',
      ''{SBjtxOa*U*V6#c4p&doL~Z3+ghM8X&ev3UZH(O2RRamH!t;*G<QQmCzPBCS{bQ=n~+l%#*y}-WRN%r'',
      ''7;D#8j}Md7<UvGhV_(A9gIHH51iyFCwK}2dQ-L&;ku(rB`bbjVIM=SdSm$E8(xk6{)7$es2x8rAo5)*'',
      ''X8kIgO;$Qy7@6Pr)zvx28VnR=B4D_F{LeVg@WiEPr|abeT}b?g9?(}<p6fLIjst;p_|_`pQsapYNROc'',
      ''-7#vbw{R9n=uqr+E8`3%f7xX4su9rqb)CMLcAQN?VsyT1c&*nAUVV+A$_OX#XK2OAfm-zQGN!$2cH*|'',
      ''FMUxL!NOh}gPvq7gL%}cRfE~7m8XY9-=W61O%{3Hv*Y>>v5A3a`xAxk$Yx9H{Tn+OBIx?5*wXEeFmRm'',
      ''_<2wASGHu-EUw|5}}{BGK#hSnVfBVsHpVI-TZJ7~7j=Q&=6!6ZYioyC47j^854u{d)YjKb^mS{nHOGU'',
      ''%ghOKA8J>&GW(VDX`6gKMsb+2ZsZ*R~6+B`v-@^R_9|#y-EBh#z@ozO@*x?8TYIS%n67AY*@c?Z$)`F'',
      ''m^ma=UX3!@-}ceJMjfS1wml^`&zNDb7d0|5l#u2j#S@fR1iKvc%56p5zCLjtEn_B9fiw-n`3%uDsF5='',
      ''Yv@R&QDd)Rc)pn38(VCQ<U{VeMCr7)Bk#9rVbn0V7UBsjw{~;=3F^C=PvAq#7Dl8(ee8+Qc)UdQ$jtr'',
      ''M;jD5wH?7PIWj2LP^f{Q?QSFTCo-_=d-J}RiaM|z~Bni+$Ij)fgUGC!uRv-ts^hNeTcJJ)iooa(bR#z'',
      ''d^u*$H>n$!l4`@@Y(b?sP6fwMKrekzLEr(=d5or=Qa7n!-YYs^W1)i!spTjgDba9D@%(Pi|mc(JlvWG'',
      ''jt)b=%Yx)57M!q?|DvwuJ__p6*bmp(Jn4(HC}?E(v`fLcGLI-mPEzhzQGK5J{?*bH77B5WZHqopd>MB'',
      ''EFRp|fl9V5=EP6g0F$j!wRD?`Ab1(zkfKla^84?{@7})t$u=hwP^eGZeOfG{RiPHjxZvSG*dc`6;qS9'',
      ''-g~78tTVGt7C!RPT1ugVW!BL&A^BlK@(2>a^n||_EZA0Y-wx(L^+^A)o5U+++B}YeY(Zi~uxIQ{%k1E'',
      ''SPAM&!QaIMHbKwofdhxo@K{&DmXwBgJcfXW5^NUg;9p?ucjGFvZZ81%!aWVBe|z9ZpzC%;1{9?FQXua'',
      ''d}U#OJa7;bUjh*5swRHIY2F3g;-KRa7m}4XeY}X@$FL4E3fknK3gfhX2oFD?}F0oRw&gy&+q=jA4Vz_'',
      ''utu={(%Mp{XS<iQ>-VTeP{&!@BcFlhpctt%uxA#Z<VduT04q0>@Il;__HVfX_TPUG3?H%Y_fL|qZi6c'',
      ''+Nl__EM+;Qu{}3M^$)V@N8YGzX<?H1hJLgu?6E(SL@<UOPuCO}5LB&lvv}dRW|dIlz&K<&bGoyK`xNP'',
      ''u!7k*AqBF&ML7d5Dxyy=A$!djPL1W;sfu@?=h)o^}LTxco)Zh{FZFXA<^a_`oqHTH&7&O58!h7+hxyO'',
      ''DI$$#-Jt?Ha+*C|A6i{MyJ7+h0uwB4_vt%z?@Y%fdj(wpR2G@IhOAZwg)Lf#L45+CmFlXR_Tfxi-{ZM'',
      ''oe41}1vIY`+qvtl)#=BYV54kPWHZj8wWs_^CF;P}Mb&-lu`htTt-)#$n?TZ)N;2umh1I(i@NpT27c*Z'',
      ''$QvJ7pFUVY?jFlT6F2LTcph38d|mwABCS~{6iSM4<BVxB@g6T@geh~gA?7+!n1-rMjH0Y@#Xz=)fI06'',
      ''{`+Bn@Ub^G{BiV5Ja=4vK8IVb_*!)(Lx#I0q$jOhvNG)YLIk&z!zw*1%ZvTB_uh(P2Sw5|r9zUazSmG'',
      ''q#IdEOoQv2KA}O)Z(yvU6k|Rfsv`!gnBqtx<0K(=eVr<M-xx#^~0AF-e1&mBv>$hA=C_th^yF3o9Lem'',
      ''rxRDm@pv6Q<+pl+v~8yi)m7K()<N6sA)v^c%^rsU4R=5U|PT~OyD^;?YswoWKQ8BqimYD|`pu6T?;#k'',
      ''ZJ0Zk{~xm_CDFpyNpyO&0vz10};#y36Z0R_8ff3EU{63__Ww(QeEJ2@-Xk1MoX}^v#XuI-NzBiAqP{v'',
      ''t&MxY4gKR$YHwRu@x$rcJQlWk?48UEO#Q?R%ECzc|Hd8AFtc>D0mD!b6*EkyG)ibrVd@lR~QQC*Bvll'']"

lemma DATA_6_scan: "scans 0 DATA_6 = Some 0"
  unfolding DATA_6_def by (simp only: scan_rules cong: option.case_cong_weak if_weak_cong)

end
