(* ===== verification/Get_Pip_Data_4.thy ===== *)
theory Get_Pip_Data_4
  imports Get_Pip_Scan
begin

text \<open>
  Lines 1102 to 1401 of \<open>roles/bootstrap-os/files/get-pip.py\<close>: the lines of its constant \<open>DATA\<close> as they
  stand there, and that each part of it is a text of whole hunks that decode.
\<close>

definition DATA_7 :: "string list" where
  "DATA_7 =
     [''1=Az0lj2gi(d;q;Jxf+n(@1B5^MVT$Yd|a4(QOYGEc_=P^<c#r_AmiQ556Q~(<sHucl52g$c86uC<qv'',
      '';Q{e7mjk2O6CO!v3TN4<B6P@f}tl4g^CKh&9YnX+3w#pN9O`%Ocq-CsTKt?QQq7DC=2NdazQ6Hrykv1'',
      ''APbb{pk)zKv<=Z>ZpPHt9rD$aipM3H_waK)l?qPmLb2upEo0&DZ^Vf-<4^WuM?z~a2T<@y!lHe<EOW@'',
      ''MlibE6Y_>QPiOOE2g!!U-@Mk*o-PW}eB?lS5$im1l&D*2b{q&3TL_S&ez6Y8EjhLz8&}lZxowxin8Ps'',
      ''jVuWa-3>l<yIM4w*X^wz=I2qU_#Vj-@W~biCQ%4YzDh5?p^e3lZ*!*YSQ+MobcVj@EI75es8eb={X!('',
      ''6zC2r6ocYPx{uX+QND^=4VxME`-79&<oM*IVMERT@3=SV&5$+v*ASW=3D!(mhLy=3gUZ1Y>fjF2vcSE'',
      ''3>k)LXpybOmQ<_t(;%PEZ;u&V?wQ*_UwY$b`k;;o~K-j!5F};kZpD4pZN|fK7h&;;yHb(7C-3wrx+uc'',
      ''Vq)`s6YazCuk#8I^=P2!PS{&p=2Rfp_I89J#GIZ3)g5}i(nyE9QJ9D6ia#cPU>A3vIXets=yy?&eOeB'',
      ''A!JBgfN6!h_dE0}AUC{0_}_yuIm|wi7Dt!E%VTJgF4;yC$uWNPWi@Q_0#`8-xf1nhM&@a3xar&vGR)f'',
      ''lODcQ0GpAY)ERW!8Jwdt2Q?nv~VtC=-o_@Jx`J47q+=xwWoMfTj`i%?&T`Pf0ws;fkcLaOv-EQr^v9;'',
      ''#?20B;74ybjg+XaPr9dxctH%JY-B9d*;43~p2zI(tZjb*i-PWPoxFG{E-x-SE-(J~;G%7diU1g}n~t!'',
      ''0b<*P0eNo9&CQw_@0PqPgMNQD<_njMyZ-eZepbvh6`Gu=>$<sNP;Cn1!TH)yw{O4OtZz_T#RKny~K<T'',
      ''k4dRmtV!zHoR+|VBybIXG2S!#qu0_E7g%cc%vf{DPdv43<lMkiOGP*oLRTO|v(=>SY~g9l!w;k0Oj;g'',
      ''eOJLol>om7E_Ouw$$EEG~hu!pLURC<a`*ilUX{CqKfW5Lv-sM@!uJGBDA&!*xcy6)=OI{SzE{S5)=cY'',
      ''R!zyV}vCEzOSN1GE=F5G%LkF(9sQeM7dl<B1Uy(add`^nyxG4U4hh&&}N$<{w_8HwyAa4thFE!CPTqi'',
      ''X)4_OMz$6kIH8;@k&DmMeWzIpYX$AiWR(Xu7M|2xn-Ls|puN~*bWdZk$gXjlBjyNua<Gp+z;(P>;D3u'',
      ''Xw6f+WbJv#%=rcGtao3<yWO!5;r%+O0D)2iA6by$gsW}mmH`)jP^{6-g?)9tlKfnBb{N4E<&)@&l!+Y'',
      ''^7bkWOp)llMxre=k*+Vu>}cv~@&9G#`Ao``5x<>1_b6Cr|jA0s-Nix(k_bN_yCGyR<f*_>GXp8*FZlK'',
      ''ORk7tzRyi3uSb8B4P_EX-<7c{IQF*`+wGm}WmjImNyLU0WpT?v%<@uhd$xBnn+IJx(!NVxV08_1xv=i'',
      ''X|x;y?LMCGH{5dmpIN!17O#SvAt`|O~BDQ7(DJjKHvcq=}F}<C^xH4&me|(k+{u3@s!t~G)q`1*V(!t'',
      ''+X34NFi`unZd0HZ{=wJ94hA$0N+qR4(e_2KR3}Q)n+>?4!V7I`2=wJ0&dWJzs`O5AI|8hiw%iW-PX<p'',
      ''8n9>BXNzy!v(f<3X?Q?&rJ~h?~4)T!4v-MO0J^0a0f$%_<XFTq*wii0<c63D32$Z(%@TL*Ue9122lvZ'',
      ''waY%OLtrOCjToSMjwFRYBmB<1-g7;)y7u)x)Ada1OEu;M1S2o*#ic3y^OZRC^-1?OkIM3R+Rz6JxPYP'',
      ''8#u4xU0%CHjY#cPT#Bj@GCm_qd+vs5#852uthk)Ih$7b<hlvV~H;FhI@01n`u@bOM6MC^{0Xu*=q%l1'',
      ''kG+*%e^h}Z(NDriyfI)c^8iO-3+BMK|!mMFLXgykKaTKaPjEdJ@%7|snb;>eX%Ox2R?KfIe`rw9RT(C'',
      ''Oy!HJps<W1eh7roTDqxAC#8bIfl-?-df8Kws~voK2fg#q<F-+~pp`>VGCuj)6Tyf%JD@9H8=Lz9Ht}{'',
      ''{r4a-DY(L67q<}V6_!}N)psn{zy)A~an!H=HCmbDXU6V>`lf8_J%SyWVWBW3`Y1{Qp0`5s%m{8lA-8^'',
      ''7;uVqm(<F1DC;J4XoXkU2v9IK)MhbkDbmc2w<e*f5l_i-9cFJqpC`ITrJkUw}d)6|{R6cG+~!<$GKow'',
      ''y=!sP{)45<-?$Ibvwl)&=DaP%R!gmq-#$sxP6}!Uh3E3IxEx5Ua8QN0;jZ&D2QF#}A@=$^=6%!@(Ri{'',
      ''79AI`{7Xk^%|n78l}BlMqM7)f*Z;yu>c5VlTX;7t7$q0ji)>E(U$X(2EBb_yILe5cMN{HUKu^2?Eky<'',
      ''3ak)xY^f$w`i1(2>klTWI){op14|4V6wq|5@~zInnA~tIKkG-+{MiC98mLPKOX=E!%bh9n6ucHe?BTe'',
      ''x8t8nr&aR)dqC5Qn&aV0S`W)Zp+_{O|ib>~(YUkL?5DyawwM@Hyvqk)(wk4|Z!md!`j^B4rS-DHB-(9'',
      ''*QIjs<CB^A@0VHZ1;U<+Sb9q&BsUUjp-SZQV1-+h)X(;$7V%7NHp(c(I~E!Z4K50wNl3}E#ac=V;hy2'',
      ''bBCy}M5{Q%Q8|vp8B%d_O6{)k}F($|o@z+s@o<(U?0=e1pH|l`-0=8JriU?x33w-_)y}zb+c1i4GiQt'',
      ''X7O9M#k~rL<|g$7lI`%Zl%M`(I_}KRjEqe{Sr|DJv!Umh54<ifS>SeOnBqrD!N**G45wqCRBNK+-Y{B'',
      (''Fkop{Ko_N2Uagj8z;D8rr8Fsf;jUJYf7LD^o_5H9t&`_%u>T>zI^Nm3aR>XRN?@'' @ ''{$MskvcA51*l=KkH''),
      ''u*{bQT;$XX8q5;sSUH96QjlHCkaBDJvUDH;vsVym?+J>q|aI2P-s#P_Wu9wC|EPwy`Rw0I{y(S&Xid('',
      ''q+8ePZ?)!0I|U%lVJolX_6j>0+2?uoNJ%FsuTPg)n5b>D{l^QFA;u5ixq6o{W+&kY}bk1exYAodj{_H'',
      ''+_oMpsF;hJ|LDXGLKFX)2+s&YBCeaT6d(XUSDEL)dHr-V8uKgpx#|yV*41hf{(Y$>4suqP~PTO(kch='',
      ''rv7_4ERxt^(?Ml+J20e*;Q<UdWjqgf|tq}-RU+03~vw*+`HP1AFMy%Sw3mtPQ$U2Ducy`6~zaHSK?Fe'',
      ''x!ocn;7oe<zUn3+(yf3~8M<I9;u9=<bbwGW6_kz-hR>}_-r@pc1A!Td)?pdAA~P!tf<oR#YPFPo(S(Z'',
      ''+q4=}r#gCx)sCn^YC?33q+Uxb2kvQ)6`zI#{hlkb}`3Vd(TTU9`1$&$9Cb^l;CDV$lr6O93C;>2sEh5'',
      ''V#T^GWMt51TkFQSrDh}KUy>N#Ce;J2CRBs<`hGr2(rqsl?x)b53+Pq+bUv#OJPVb#P)+afMw%b&(WS~'',
      ''P9pz@`Y4Y}nG)M<X8UuAm)_c+gl5vRENr<jXwQF`DE;;C{e3o4X5#ZpeZom1ALSXoNE(_!e<@qcJ{;r'',
      ''`-7rZ4=G(i9h27Hp(Wuj$5>l(*rL8;7)aJF11<K6phHCRR>&#w-wy`Y?TGeDQJJw5Na`it`DV$EkFtk'',
      ''NC=KJQ4G{Bogat})xW)Ht2aJwAQ?X*m^}1;(EJPn+~9}qsd<eIs~Z{AG%~Dg#NEr|XAdX$b<8e6mGA~'',
      ''4C2QqzixP&`7j#vTt|t11T3iC4XNq9n3AN;ali(6z!gfNBH^B-<lRI#IA^2$(gA<(O#gP6ZZ2F^W%zg'',
      ''LM=F$j990$tm1P=rB_|d4KOzVmdjN*Q*<W92vEONb<Og(ujpOxE$SY5uXc3NNYl9XKL0bJlm9<^mDUs'',
      ''k4wXac_a1m8d7hz|OJDGUGC@UUG7+Q0@QE_$LdOmZkx+MA-H(fom5Jlr!d$0N$r<vTc{fTy!PCU4$eN'',
      ''2%Vm5SS$Iv?57&ap@jz92E(4G)@VwX$JcfRk8IaDE?ApeBj^zfPZf_^?U5|X8Z)*nR9i`QhEu5pz8Y>'',
      ''a)IrNHKK5Q;{Ab&v%Lt-6qp(pCzbc6pW?OZdJGbWn)!}_>G6V#2!7@f(hI0`MXjN#W!34cF3H)yMVF9'',
      '';)B2m@+xF-*6fE6X&8nkE>1?|m$zgzcHG_B;k+Ujfnaw>jDu$eA!+n-`{idR$S}P=g3XgS<qrKBSmpA'',
      ''IUX^sp(?Dy8%@)^(C?sE*dx5@8jlX#I`(;{`^b*SOtTJY3if3T6<*%ssmZkHOLa&72f=uB^m4pH^92G'',
      ''w<K@kQTBcCt_m0-;3y^FA$-2(BSf9DHkUy!XLxgJ3=p-i{VJEo0((eKZaN<t;wGP%5Yhg4j}c9=pK6u'',
      ''7-?|@E(X6p$HL9Xi}6t{6%3&h~Buu2<34#3jcDHWA63xDWI=n;5<Ja;N_`n5p_GofV_Y2UqaIH&HFzx'',
      ''T;wwj;}Hng8fYP@x?{s7O-5E_c4ZO_{rm@2rR@X(QEv~23gaJl>wyyZAfBWkG2}a4;fY2@bb`+G{(&H'',
      ''+**bSN<#qR|P*nb{%xI}_x$TQ2%=&OZM7(s6r1-KoPf_ccXo+Oh@Z}eTk()d9_4tsQEsBi4rW7v2@2J'',
      ''e;B0;wdzIQH|2oFyHwMI@`B2X&8vfITHff{o`qN6c;6`UXc#oYr{cFmEg-Jz|bObR{OcbGR_Vtua$%;'',
      ''W=~A)x+RZxZ;syLUg<D2V`nQUity7QH2d-6xzt`IAGJ8xSFGA$}!oIl}}|IV`T8@LJq?S21s4B|4SSr'',
      ''@(yTU)A7+>HM(TPzmK@naUf6JhY3wa5<{Vjxu9DhMr5+Mv#{{cl<A31Hl;?G-(00COl48)(^SUpi}nL'',
      ''?CE~^$Ro_BhoIrJXkQ<tT2dHitZy);dEi$JT@`rZG+r^HSoCbOvUrSo(hhO{2%nB(;%1M;*rWp-8O#g'',
      ''%dlq*p(x*dU_(pW2l*AZDwOKMEJw$zK<anraQI4x@Vh(U|%9?Xw5s;*xsp&p|?cTQ(MnOGKE5nIxNwR'',
      ''B8!^sHXb68L@y#)akdk=R(V9z=)e;DA(PBQVsExoWZIBH=AI`m3Bi_MkTJP7QH=N#OX5w@qML#Qr~st'',
      ''F2f(qWgpK+%1kK;)4bXf%gHSWJZ)jGwB-kNlrt<~-Hf4BTL+hlBO;EliJ{_u?Lp#UQ$x!+fOQ?Qw3cG'',
      ''UwwglINZ|YrIa<%2?~AR4$WtF|jVX&Y4_t@32g|23a3t-*X8(d!QwdAjH1HHPDsizUdd$uTs_eTfIhY'',
      ''UON31$<`&L0%P|GEU}OQVGo9E03`!?^x8J_u3a@ubNCLF&0%$d%eO3$DrG{C@aF6jB}-cBm+E}Eq!=#'',
      ''|GaHw~5L8@TlrpxYlJL;f6>)wQ^R-;n#~V8vjUSkXYys1^%kXL70PV;i=-pGt&rfm8eth$a4G*6kvSI'',
      ''HTF(KecnryutLHA4%1QUhBPJ>m?+oH=8&R=l?Zu>GSqO#28No&gyTr2S83VhsJf!xY)@^1LR6q9O$QL'',
      ''w6%?yB6;v(t)!>}(Rw=7eD{%=wp;f=6Y>@Qo#*6Vi#IKoYeO^NgzvXIm`{kpgYuEK?encSt2&mERQap'',
      ''%m}zffVn>zpvs2*AuxoG+$1LCc$=`zkdHltuFUpOR%q)pq@&sQ)l?aDn<`@%Je1<a(%~zM3LNX9g)@Q'',
      ''#0u*1X$*VjXmQ7N8VT$Zf%^+q5yqD~aWOs`J|EmsX1ZfrN=;X+liMm!uA(xo6`DRN;89E@S_-j=`tCL'',
      ''42NIs`3r1<QpRBHq_6g)QTI}cXMN%M|3m)-_Uq{}rcNDzr*>+MFwdzEEvB)MH)U;OO>&YUSKA^zS$^X'',
      ''JaS9yS1Vl@I=rwY}#`Q$b#-AP0|69tJHluS5kU{2)RS;P$A`)O}@N8PiU+)Dq9nziOK%T|+U>fMT{mS'',
      ''@Cd9p@$IduX0dv#DSY?`lm|d)wJkQO&`E`0G)dho=nq2mD@~;MtfDh+m2~B+!qMkPa9Ol0Xhd9l9UFg'',
      ''G3VZh={24CF^|{1Nnje;-DbWSL)cG9nlwi?DfxUn0E^S^gnzG%Buf|bNg^89=4scK}&2hHM}g49<s-e'',
      ''fwR9JegFFHAK(8;Lw!1Mg7|P?p8XS_Kq%X-{$O}`^mO#>__<8s*yG3-6#d3mS4+A>A})5M3fryd@pDv'',
      ''=*L=ND2c?2B4vR$qmx6}b>Idjk7dm-_e+=P|qhtJ|4}T2dyTNn#ZZL%J`X2>T4&>;m(NV$ld-awBu@%'',
      ''vyzsMN~jCY1dF^TuCz-HuF8_?e+T6IC`8lURI3^RIa9JB${H%1OV#p<3^M}W1-FT$uDbuj(mt0+~#`9'',
      ''Wktiz5OgjPeWHdQir2#M+{i4F3?wws<C6;RTEEvq&DWqvSlF0JG#KhEu<9yyuKKcTRM+V-}PEh$<scM'',
      ''(6D?dK+>3+3xUYcdObmvMs9{^QUi6azd-nSDs)lz~QXH^x~vO8ah<m3^{}!Q)Qu&^?Nw|H~78~SIk!k'',
      ''qfRqTqYEY;cx#p~gY`Z9;cC=aR3nduxJ>@mLxS9bTVY2e=d%of)%Sm1N90Q_{ct`f#WM$@+bV$EaJ||'',
      ''N>xt-fRx*2Py*lGTOLA%&VbnS0@)ha>v?QJ=H0Poj`ZSRW{klzI)*C^T>KT9jgAGoqr!)?p&hgy@AWk'',
      ''@?F9ofx%<$tsY;sQCn}r3^z7M+|I%^W+V;(utBTht!<LydRQd-hqdfrmtQjF+LAbR07*KWO(cNckpei'',
      ''E~IxhikXlt{G(3Te<2bM02ozM70T6nV)GMy-yTwZHpXK=b2^)Vv+Mcar1n77wMg3faQ6Wu!w0(2c8j;'',
      ''U7^fqZOYGD}-<5>w8x;-SGguJv2=mUHGzL=N=ioX+t%o(e;4XnlnBP=&$}vc*UV}K|^NXr7vMqPX*nH'',
      ''P^<Zhw5$B`lrUq&PLnCXTi-_g9lb9V5w7~k559kE^pMv35B(l4jvwo%f$myhuq+isg%=H5k7n$eVZ*;'',
      ''6N;W;)NQb7E5ds#1C)`E9dP<iE+8qOTo9Ek3l7B`yKG9XK=kuP+A}L}uUUq2QNr(B<D(}!$l!BQh7wB'',
      ''N?2S2#t)pwoa%j;&$?#BGRuUIb4^b87YYrwah$v*Q-6Wl&2iLls$UfPp*XTU6ne5PyMNy=Yfz*BMg0u'',
      ''p%RdC;T~bL@;A2IcUw1d=c=hsLNpoFL>Z1KyRh2+lXYf-Z%Qe)}T6z~Gpy$4PNqX96mbq+xH+H_5+DZ'',
      ''>8a*WKY-~3jF92pR#?t#8)03qu8!<>`zKCAk#8hm|*R=wc&ZDvkYerQHgINnmsD#TW$oYy0vTFQ+kAb'',
      ''$>V=;n~ZZ=0ymojqkDJ8p7HA)vVR}?AMudC)o+EzO5s4aiHif#ZimsUzkINqS$M~xbNB><vB?m;BNIR'',
      ''`7Gd#@!-s0d0$i34y~$tdEPDXwvhsP9_dMwuw$A&Lq*S^`#+|#KYRrJm$Vu96{z!_6QQpYSF`_Gx_Pr'',
      ''YL6o{>W6Vb!WXd5`1wywQ(if=BpC#`S((CV^D2Q(|_DZ3wgvojITb%ZXI_#fQWKvR`v(Nay!oHOrjkR'',
      ''$0sm{?IsVMB*hc(z8c%y4T_%xd3Z0cNPJN#_pU?J7eIjYObcIB)E16N9T@wPN5Y3{>Yz`mZ`fIe+8$M'',
      ''uRh=7ssDsNzmWq$T%|n!wcVNz1e_{9z0GJ3lXtFt}XtH+HF>uDxz6@A^y5Q_!z8-LUkvI3;eeE$wA{S'',
      ''#L#Pl^ctalau5%sz1h#NPD+px9=PVF3^U}Xc{1V4>W^<;4f=;q*<tT#<uvE)sx5>UA~ICq!^sJVrqV>'',
      ''%v@lDw<ve7_Ew2}%wxVyfC@NOTDsmMM30j0i85Q9*_u?Yj>j9YWr~wpFB3f9NQJSpQ3p_kh@mswSjH{'',
      ''mdY~c-0Fh%3>bsT+yE{(@63%#xa%{MrTzDbdns+3Kk101nLd10>eAM6{RwC^S4Z+t_yYi`<kkWRdlj)'',
      ''6|6V(=;5fxaLqe>)rw2gBjh=f_VwZhR$!g^yfNf>uTjYTCdhx~k1i@E&DV>8%3+=X2wg-astCpSSjP!'',
      ''`Jh9GEFG*DZ|0|9yD&C)b31{b^?U*YSgA6p}-6Cp0@O|E_7jh(x3+O&jgHkCD}$j5|Bjv8Agvl1^;~I'',
      ''ujbi#)KS$tvN@kznWl?~%7vdt88-E|CO`qSgU^Wh;&=%g!=-$(#(Y?L5*w2cUx*gh^z7^F1|_~z5HIf'',
      ''(@>L(cA1f(IL%xoyDq#;PC}o>)uj4Qft%DZ9UyB+ILnVJn<s*%f01un^_Xf0B<zKzvp=`SvREq|_;=$'',
      ''fYl1BM$@b<qxOAq0zT^;e6l8p`egiiT|b9lo3Tk|X)H+{#--#N1Lcj_H{y1S@6GcrUGxD-9rZFxiW-#'',
      ''x9QUQ94++fr1RMJ6up1SKcBqptS;iV}_$xp12C;o#Yzd5UqRYN=Kl=+>_;9pvdVa=153MqNlWBx5wEF'',
      ''s!R(^VQ{b$PBo{!^8d^bwko>pc-FQ7NDl3rSN?C?5<J(YD7$n!PuyrOB_zq^ObvpMsI;sxMOW{okDJ<'',
      ''<D(hv_9`0lT`hUZ%SKAkOR!fVaGBHI0Gc%dmvlp2q^yLkd-DNPMa(K9=AbU9oP};0`JKSsiX=I3NQMv'',
      ''Wn+c++ur;Ovo!p#K^ddY|;*i=T=7Ha<@+$o0RPbJC42=|B69u=G0uAGA#rK^m^~6)C4a4<8rS;rT7!{'',
      ''J2T?<Kn8`(9Jn=z%gc|)i6!KOOgJ&TLbn>)2H8wiO)5d`Z!bw<joXwFqaP_(LNx$^}fYn#}-!62PgM-'',
      ''`|#nYPu#0h3V`8oYF{C*$^HnC0CC6NFf{g57xc-gDvi_z@64on5CsdND#=L}d%{O8AixK9As#D5FntA'',
      ''&@M}JfcH9v3;D<qvXAi5WL4LY93XQ;$0B>jx)kuJ#&Pun$5<t;t`fcgZbh<WBIq3J)UKc`Dw9}iK$Vr'',
      ''<=&n!aBz6s5e*F^cHID&BWdu%0>YV-w3`i7?eiIGBmQ^Kmf25dNc&_X28fuYd`b;1wDoRIPybfwq^&A'',
      ''gGh=WY_u$O|>x+l7fS(80{@zyk!2$5^$B_Y)Z+NG2d9}mnZxx&_QKd*uA`sbiB&Tpf>V-UAwNL_{7|@'',
      ''Qw!B*3`IAI?I<Uyg*hC>i`&k$K!cE<xF3rC4fuo2aJr)<B6|A#Q;x~P|CUP0eN6IZxmc3CTV+XDU5>-'',
      ''7m6KGS*P_}@MDiX;sdYhA=52^pVmHn5~+K02TH(p>WqvMl|kjfV25aIfT?S)B7dPC}P$2*;@&0OI~f8'',
      ''|=fklKe;asKJJ5tohN*_^l`hB@g)ELn*fmy{!NSULvdEsfLyJLD}u>r(~HdqI_}d&OPIxqVksmC$GPz'',
      ''Bq&;t!6LIcjMcpX?tO4TDPa1x%jQu+*ECD_2na0G6|8QA88VUH@O1*cCyk2@pgQg*F`m6UXTVo)$Dt-'',
      ''*OZnkCzDi3kVa>~!pO7BN*EM9oy@NdR)Ke!q!(<AC$_Vb_laAOW{fN1d`#i^A39Y6GgPx>WO0S}`Ibq'',
      ''K5>~I<d(gXA-4~{z=R>evZAkq#ot0Cr*?OQiCIOQ%c?FED7K_qu|<eR;zdc~a!Q(@Mdy?1*k_cG8PqN'',
      ''t#s&LqeS3AszTfAeU)D8&d;0IsmZ-SoNFnWB$U>VvKtXNnGmMn{S|tRfE;^*7Cq6~pB}-@&3u$IqOXQ'',
      ''%B?SASDGn<r;vrhPVs4L*^X^nxbJGH%OrfS(go6&0Mcwmv1SD85c8Mh04H^D&6D+(pVfeM!&qUmpq^h'',
      ''olts6q}DQB8wKO}`PGpf<K9h0Jjjav*p2Lg*|=H8CsF_ha$M*Vd;op??s2n5K`^`pqYjim4D1xKDvbK'',
      ''S;Tr@Tj9c6rN~=idHa0~Fn-7~8?z_Xtc^5x~UN!+~6T%fWz70Ih_|2*K)t6o(=V$opOz>d|d@@PHpci'',
      ''q8TLgYX%&i|DvWD`NJ*wGR)P4dFK3aYIWzXcrRjJU?{5J8;26C)DSV!%(-yD&%lvd24<4&vjY0fNvls'',
      ''C_@yG|05(~#yO42qlb6P!PxnSxWLv9<=T*xhxyG#JF1erz*8svbd=5_QMnRPO!lORxLhYuRd#UuZB!{'',
      ''@(Y$Ki<KH8|O$hICgR?r`^?lzc)I<?ZCmHUxC&WzKXtyRG3x(Y{9t4j`Uv1V@BsXyMO4&+&2wI&tdl='',
      ''I2cLC);qHGstup<4bj1|s^g^qxRr*(BT-4A|9goQm~*TIVAbyH2D{-Bg9b%RzN^YOBB?6&40Zw|UTRo'',
      ''fO2iTR^fujwLW5_0=P|sR_a|x!4MxWsxqp7#8;DX*YfC*H^iWG{8y)r!k^RBphGIv3tpHVJ?0^S<Igp'',
      ''Bq+pJy|lc#28E22&y3B$46Qopduj&%g0&hUA-+?Z_+n8c_WOk#8gFp1F@0FxN;FG8pgBM%kgPp|*y``'',
      ''7QsuipLT?RzMBtiIiV6Y=s7ufBWzCYnrPJrS|Z5ITcsP-04W@C=i6I=wW&8Ae|aoZ&Y(h5t5i3im-hu'',
      ''z&zY(zN`$0Rix^(nwvI-{R_X)un$$t;y30cn3*Uvr_7)+P$y*kA9ge|MJe2eNF46WkttcrdGG<Rigr*'',
      ''Gy{(robe%8x&^+D)IQ|&jGGwaWs;6%BZux@Qe3rqVHB&n_{*DmG!q=F9CCf_Uei!&)JRPFO=jNPbKCd'',
      ''7<e3z>2JaW;ExrJ`p2Ixo$~`<r_dyvi<C{p_iL|a;w0e}}UU4HVh@*l#32~*^4tfBI-YQ$+(g8Ebwks'',
      ''kX!R=lU$DmFebyx;wea=m^TE*!MHnTT$7~EE@pPjM62zS!`n>X-jQd!kCD%EHqXmv{fO;bpok{^zhE<'',
      ''X2kk(PIn&_bmUH6#{~V6O|gxa^*s?5bO>0vU!oK?WsI$C(KF06BhuMMomosHy(watQS&GimuVPuQShN'',
      ''}L&0YwyCtj1WC`FTw}kfG`*W7wdi#<-4SSZElp$q~u^Q>GmN^z<C1hVe90i#gCQ{d{tZ@o`BC7$EiIm'',
      ''^pwRcnbJ``U5}4gzNYgglxobU;RNcj;!^@@Gt>3)3s9R`d;@Yp=y>%Dj$PtE90A=nB<;s5gsJ5-Hu)H'',
      ''ijOs=!LF;t~Uxic^5mZq^!8*<;%d(+C=0jK$qpcW8x3DG0#2jdn#P~9i$?O6$BokL&`Gb|KTXAqQ$*$'',
      ''sqNj%TQ6OdLPC9y@;h#0-TcA!sbEm{qSLB6Is&(?IlgfwU^PX*KkKcJ;U>uHAD6kC~lzU4w$oEnV>N<'',
      ''arsZ8bA^-DiVpjq3+APPMv!%KSHc<=tZ_5Y|AUP2UTn1?xNC-)L=u*@Yx<7)Z|oSQ_$Eqf{Ep2gUyP6'',
      ''L1iJUMElv{$4Z3yj9T>V||wwS#6i!OXK{7`h4;qy3Z#k{}E6OVZVaw!9HuNk$$2&7&y-{3B3rNmWl2w'',
      ''(4|N(7aRwBrLzR;I$z)McBl)3fWr`a<M^Gt-PTpHTQTv<B-j2I2PPt!(EGb?Zls#0FnRIynxe!E5$Wr'',
      ''8VFzDIq$P0C5NfF-l1Om!JH+^X`N&Cc^?(7qZr2O|hi35|R}?+IQ2db6uW;2inwJN&4`0YOJly1dz=='',
      ''(3g4UC&HKAW?6Z$nEXnU}@U3WQ57f;+KeO70PgW<7>AmixpO6(}?_LYmoT_f3(Ku|*vc<}<v@u=$8f6'',
      ''4HLIp3rs)d?}g>9NPQB<gtFm%{9_{ukg=#5j0GZP0!>yg0!vg-iI~YY^kao{5*M08p$Ap6C`H060#ta'',
      ''ZltpehBX&#{qH46Z($M&?A%_?kTIV<US+rn+{f+m~X+M(@JB(RiSCa?p0vFff5<i%r1Q;*lq@Qu(Lg?'',
      ''-OwK07u+o@itkMU@VCw=c+WSK{Cl~NmBDR7DszLKs0O-;E=D=(<}B_!DgRj*YjfTf?xf{KV^S|vM9?o'',
      ''$($LyqF+MSYavrZ1(Ny+?9{DWzV<kyyp}Q5Zn#DN&P<yw(E7M<zAi0IRyF4LpMm_;~Q?eOwC-pLgKnn'',
      ''3ilBO~Vrj+|9^$s~VJH>i>DIPjrPk8gCkw7_xsfERMPj)#DkQ5Sk*H(FkmqhsFlp>f(kRJ14LpMy@z`'',
      ''juyxF<_<jiqfVZ*_ArfkUYZAqz%kJj>RTMNA=_v3z~gcq`m1!_NrxBEF%1T~%6FaX%{c5p^I26N;}0$'',
      ''8BFn@smiE41)iKntW2Re+zJqtXIWQekz4K7g?%{;i1A!$FCNRzg-V-!yj%9iN1=t_r_I!Ip;hs@xX8%'']"

lemma DATA_7_scan: "scans 0 DATA_7 = Some 0"
  unfolding DATA_7_def by (simp only: scan_rules cong: option.case_cong_weak if_weak_cong)

definition DATA_8 :: "string list" where
  "DATA_8 =
     [''Rlq=347Br2v#PSQ-gkDyICv6Or!aMb1)Vdkey}@UUZ+=zzbf0V=+Tp4_nS!4O>M;oP5GGk)+(5|9O@D'',
      ''=dul9jp|e0~KVTMoXth3uY|n>qcTYkM;(?q;C(s|mB5&C%H5L2So#8yNC-MtD^kR{;zP}4ZX6Wr)fs^'',
      ''TMbGSEaoW6W1luX+jHW>&33dJF^4IW}QQqU&J#f3zK1R<!0Ht0?EwDNr|e&~q19=a^+J*_G?hGGPaE0'',
      ''lKaGw#jGw2ci;Ys)&T5%0&-i?in0B1lbuO|>5N4~KLP<m|Leo#O{Z!UH1^+MAObP{X5-<cDe4NWN3-c'',
      ''iG_(LB2lj1jtcuJoik_WLKkGCoS76F)pud@qh*l%<G#Kzv#f9pH1asX-&M9nxpJHX>ClrRCD0!kxqu-'',
      ''cPX%%zLDv38UTW<c~X2))r7ha)3^~62gG0KD(jhwFXu&Nj<kDr)<BsR#Hp*lHL6=D|F(J2#g$bUw$y-'',
      ''lP&&;cR$i`k^&}7>E<FVv9IiB^ja$H#9zK0OqBo!F;Yx9<sj`yAG@fyI(jMPQ#VDmNYqfk~xOk;ROu&'',
      ''_{M!yEAQk5+vatZGPRXX}?P^HEI25<f9W#%*7`hCdDhf3V7VZT2(nN5yQPFhu$09E0m;nSo3v(e~i0E'',
      ''_<c>GR?7)6w((;q&98=T8Ttr-#SG(bG}iJ<n}&Q&BY`?kR@(tGuQdE`FC=ij{X1H?2v(fuG(3{1hWsW'',
      ''}V;APk%!{ZG?V0x&!*@R|ZfS83cn{V+mC$9*=zXh2bjm&j1$tl|A@uLZKRn|DM>~s~5F6s9zP9qj_Jf'',
      '';fv1OAUReFp-8~&-bV;Xz!SpTj1n|NfJqloREiZMmZ?O&85$OTBX4rcfh>=oJ=e4BFQBT%i^=kN^}y9'',
      ''WaWui{gAT6K<mWX8TBimwn{hKm<En~=j|R^VKf`byJ{|CfWk+`$R1{*<LH!kiBX9e_^XCFb{>AQ+miM'',
      ''?z`rGT+>a)%3*xGMW$uz$X%;PP^&;S`)ieXR<t9NxYUSbx0NC}L94FS6Ff=&B=KKCLyyu%))uH@NuEk'',
      ''dn|#wd=hU7qTQrSeVjLc-yYviJDqf(oF>)I0DG;U%am3Up1OO1>o`GiD(TqdR!8lEuqOJj3`aFA8mKe'',
      ''w<6zMe(-Dh`?5Vx=0AK3JBo#h{R*7n?+=n#eAy`!i{pVyNV<ia=hBI7(Ww2N6?}|+y0XS5Nk8}KOYJC'',
      ''W5qsv8jpd6+hEZg9d+!%@X-d%y8jg(!O9^llAAJ{XX_0SO;XiSnH}j7Z8%Tfo3;1d+LY}pB5(GvhJsp'',
      ''wVa3Fc2)C&lxvLwv!C<IIZg{7eW6?YAcib6d1SKt4av5a$(y-*R-8;gP%Ttkuh9%$7!wOXL4W0SgQOO'',
      ''&MT1nwo4oY4(TGmkAT^8HOp<;{z_~qM4&6v)=PDpZNoPL8O|F?uBH%9n3NOGIZZ;<5GkmTxMY-3>jH%'',
      ''M{|ajcf1UkZ}EV*G1kD4}2k%`i(ZZ5nq7R)jYD!Db`@%g?p})<^dQSeI#ewBvVTWwog4BlG+iw}l4-g'',
      ''mc;esvbIg#>$n*>bk<o$$T@YdIkM?6|lN4KZnoB#y|QMfa}nA2TbWfAlD^(n>JA{<ho?BI`={z`Fw`l'',
      ''3#~|uCk8pQ7IQU03%T?T#AtZX?0Wn_v5q}3bM-R?B&z<Xuj*amZvxXkqU)>{7P>=4BcpGNh3>MWk<p<'',
      ''a4+^NQtVpAr7FqZ+=CsHrWKK(vzv`TpU~yYu0$WsvcL~rOWBpwgr^PxK$7I(rhkT&ZFfKz^@ce|pLA('',
      ''Yk7hUGtL=L%zn+f+GfKFOwS*jtlJwixjL;msI6Ld@}4+A1zK|Bm1ejU}Kh~v+n9Y%a}G7=iH?Xr6s2d'',
      ''%1+V%6GI8@&3gXyRWXI{0>A-}gc6Zay+zB<{a4*te3+Z(!dwal>FRutJcviDdt#Xx~<jYj6VnI?%qG^'',
      (''kbU|@'' @ ''{6H;<KBaQ4xFg{k^DOFX3tCfFHADTV}fl@G+D&F7Uf*Z)!p)B<sD4Crp{!WGA0HaQ+YTRJZ=7o''),
      ''yz2cQvo&5ufT?X~1_r$Y9eLkuoYf}NEbZ+)b$OKzXG53CCZ8b6j;8s<8--hX@`sDx+77mF>Ova7WsZG'',
      ''anPWk%>RAJ|1roen(S~y$Z42kFcS`g4xR0Cb{w7p*qsqLGRgN1&vg@jR8{;CWo4;@PnIbT-t3P<|B9-'',
      ''e>17dIFB8EG=!;^#IVSR}qlsT$q#t2Oux^V7JsR1%n)35oISbkPrK#x*Aw0W)U3Bo=ktJ+Qq#_aEpxQ'',
      ''r|79n<emL+#-Y)njwS3mkeiNBW1#Cc`yfZmRjJs^;rW+`j2o^z+T}1_8Z!O$DC21L|d!`V)4lC+v=O&'',
      ''gJ6HYqPNP{{c`-0|XQR000O8E0#4#tckI+%!>d3T4DkK7ytkOaA|NaUv_0~WN&gWaCvZHa&u{JXD)Dg'',
      ''?7eGS8%dHV{GDG>BOi|>Q>bmvo_EiojnC2;PxA~mUZA&k7Bf7BR6q?<mAa|~X57qgf8&<d%F+en>7L!'',
      ''zOdF{xGcq$WGBP4EGU7=zDMqt#8cpw}Nm*t2<zRZZ_GIlzv{Ov)%Ixy0j(Wp>^z!-hKWw~w{^EZ}(T8'',
      ''L<j*bV>yWt;aS(#Gd4{15cswyk;D668Yv`o+MqRTSL>vR-H7iF48#YHr{O3KSLj_M*x^1Eo7mK9Ve&g'',
      ''&%0p=E%RL_=s6%hp!_s46b%+oVjP_$W%Msu*SoK#WGka5hQvI;pY6i)@@$QLny&zC@iPsnh9GL!&eqM'',
      ''_CT=(n!6EZnOHTnAK64R&|*T5lRe&hU3|Y`=JVqvq>hcAOONgg<xkDj05``BLcGv{F~C?rnB>LR$ava'',
      ''Wt1WK^H~j#D||dmbF2rW`KBnNDjkmzMh3m75t|-T8E6N9OcAxUAdA|*y(%W|cmP!wvoeQf(-9520Mt>'',
      ''Ne@%xq!@&v{#duuY!Vsa^e3aq1s!f`}V|bgK7dI&liswBqYUnZd1ZQJvCRtupR|yQ^9P!TBgXRI(i8Z'',
      (''bgdr{Ru2^mbpv?!@jf4l?k#P_?=(ZSo}AGZ&8qrIc(!{Nby?7i826Lq$a;CCmEe%w3${@'' @ ''{n>2ud7ozd''),
      ''!zSbnrIXe*fp_PkZm*AjWt9^TXlp(NT188123Lu)nwaCXV*r@9h8ZX7BwUqwk>R`-9_XfA8JiF@QZjp'',
      ''e6;_-Y(R83qaoO9`1Y(54OMC+uu9>a~!?hJARK)-vZd}=)?Bm@!rl4``d@nhaV0<931UJ7v2Ei_j~W('',
      ''9zr|2?{?oG!-$||cpB~g2mFkVzTe*8r{=bQfH53WA9oHu{P}S2kKZ3h-yiJ1*@cJS?LzOizuVvC#@_!'',
      ''KSK|Km-n%$@v;A)SkGoXw0N@-_LFwU--|x~RXmK0<zjM5I@E&oqbMXH75Pl+Vjt>rxb>$!Tj&|c{`*8'',
      ''0F5%c!&02)BVLY)Hw12y08G8{xY_8eg7*?~ehmLHCGO@H3(ZtnxMBdl&uB~I?z*%>U_v$JR``ncBVbk'',
      '';P#Q4DA!+8M(V2bw{Go20M+M-{K&i!5g{Oh2VVSWS_t3LIuKf$wW;NWTq`8Nvc;tkW`wMGVB9Os8d$4'',
      ''6hLGuuS10ls1s@SCvhsP*;JD*KVo-(P~{Lykvlm$LXhU?vmk91B{W<u@o={B<?c3oQ;zb;7)<b;F<v_'',
      ''(T~7ZOgH1`u9&Tjio6SJE#;LvPLmS448L!q>JB*ECs?#4<G>y<HaAJ?;T1l#8UZw7FI+^dK_73j5uz4'',
      ''2+Ig9j#A1hn@A@jKu`ASfL=3>G%Na6`D~$+XW+m{F@f|Mk4|gy-`Cx7B`;@s)5<wGK66<5*Y1H{1*c&'',
      ''jRAB%E4`dugLL64E^U&3ZUh!z$A!<$4qpF6LrWISVD`#O$ZC8H6JDNSGhu5;ht++16W;B!#|>ofBVQw'',
      ''0nKn}A&=8Bed0ipxDwRHJ$ijU~EiDndVi9I<jwDo6cjJ?g|A__z7^cO8a(h2w&X-T>*{w9InYFt7McX'',
      ''X7>SENW;#NI8P-AiwMhh<;z_R!|2U&UA*`i_NLk$eqTbjn~mhmmYQFs2k%y^aj8Du6xRGd6s|_kvjBl'',
      ''DQH)Sfyw)6mcg2W)i6rV$FTMA4gnL1<zSP#*Z=|>C$NNy@@|c&Cd!jZTFEYDsJ^?79r(FR&%1x=Mg{B'',
      ''{Sgjh!P!S6w+;?YV7-^Z-ux-Hun%AArHj?`H(GXVeIV{@Y5GesA09qLpiU6?3*3dqXC2ik8(zFDVe68'',
      ''S354UjYCe*8C8`j<MImH!p7=?(cn4}6rFfD+NiL4LYX6w6YHiXUXF1krSVeQ+iG>>k}jOe*eKh-?I5;'',
      ''j#>i152iXrbb+NyP!t)ii;f6Qvc|aMkqRX0UB0<EoI}C;}7uisg3{#SxQ16yejf9uE50+)uLt5mOQRD'',
      ''(b-GJRRYlJS-+CE>*;Nffe6C7XfL+jyo?0&j<h7F;9=PNy=|t{A=_k9Y!SfJ^z=@7ca0>G6SkAxd4fR'',
      ''A_qpVruAfa`EN5E|DY;n<uHY{eVGpOw0;fE%3|gIt<j9%rpa}gUZ{19Utx}K@tG=);)t$#SE;WcG~_f'',
      '')T~!w<(=*~=2@Y688IMyU6#ZyQYgPTanB~K|D8~9V%v8w_)}H(wTOL&PC@sqYPIuaiIxv$o?LIBVk>D'',
      ''|U3Jc_E^)c^6PotiN^w>vrKkDPG0A&$cPu9BIIW6U#1ePDr{-4sjTi{3bqkZgPGNwl$R#)$fdM~G6#p'',
      ''E0~AAWrUYXkr8!UjcuC)4__8?SZW5_d^Q-`(Nkw?zr)B<O!Ej*FdQJev@xKbFO8ieIeu_W|~9uD>4DN'',
      ''m=s`>CamC9qvnSv$CQW?+g0PU+e9hnmowUgYsQbru<`kcaRVH`;>QB`d%Wm54fVfgHi8(8m9CX-_g@u'',
      ''Se`)EyE!ZvuFj8}1@#80AH7ZLWNej`h7OrC>0(E;2R9*>(l$Q$cUpMNw($2Mh!QZpH|Zal$2zSXrkCj'',
      ''_EOm69O^=Cvb4@`i|IlbXnoX(e`2D!JPILWbr^tbd0O|PThv^V7gz$ev9wYm~Nc|Pq_*Fyxue2=G9IS'',
      ''O|qswO#YKV6|^X>nfXH*5Y@11c`rN_yo{5+VZx%?U))pz4`hdB*BD2N)6_asLtED}`R_OnV}P9{bE{q'',
      ''ei~UC<2bJAO7peQ~=i6aGD&`Y=c5V;9?N_~;0>q$|5rN_v}V4L6B{3;I^v=7=gnAq_F*MG<wc(oc+lw'',
      ''eD3t8C&rFn%pFQPp;E+dH{M-2E=*{oF1QzW!;U<8X4Pb1b^fOHZV!9Qye_tjyi$A|I_{nD+ZUvcD+-K'',
      ''^^*@}dXp8i3dy<g&{}}JMXFNyY&?FGp3g3~hl+&NL>I6O2`$BR8?|fx%3C(T9j2pH78Wr}6b}eLQ{a}'',
      ''0D5fN3_~`k`TN7nEfxV9AuHxSyQ4CXu0M^t~6qC771=F@KSgkI{{z|LLB){aBW(}>$4~=%%g@-AvT7!'',
      ''XEo(+ppYCz4VE?J=Xu&v|<1e)c53~2qkaWT9mL|L;BER>;MDwdh$7uhFZcnP=Ig<6R<DF~kQ9RLmD+J'',
      ''`@%{Q)>XZZonqz;*-OudrON`-g6SExU-Y)Fw%TXYaQE^K1{)O0F|WK2_P@QhId`!(as9%eth8INYle9'',
      ''>Bj0U<R+GfJn^evuw<A6-q$3qk#;Pl$Z1ZwmR6&ND>mMY$g&JOZ$mzt_X^&ZkLzeNk!b#s@Wt4?Iw>w'',
      ''#wy7w1azCCG#HC4SI?%ndsZpRb@?3%^y3(0C#VAB10<#6Ds3A+Zsquf2m&5|qAxr&Pz89rJrE813;{n'',
      ''N4819f=|)B}G7=tAFX>yVFpn6pnUX3B!~TH@2PD=k1u5-r5bZ$~-0ZlRhK`63C{X5tAzdWdxMI;XQJ{'',
      ''8n`nN2L5-|)CWu}@GDpf#g8#tAGB_cE{4N^Q33HawICD0WDq&Be-U<0JKn%^On{2UDigXs0Z#*6+ARF'',
      ''}bgqBJ$6e#Fv<g-60Wbpu;o)6eVj&MowW@c=3ZNE6qUjMhv|gt`_f9U!&?vab^4Y$Z~eDuU$W!NkFl4'',
      ''t)+P%r)tlAf2;thCLmGI;!BA-lnum2PVZI!!D4aU>4f;fdlP1v&IE`NT!!*Ey!26@4<MwpC)58jDpN7'',
      ''R0xaR25Q~|Y!V-O-QPd?I9mU<wcr32k;U+O<79F^N}_r*>VEt<>w-25n_UmqOs_t9etPn9bK}KnzYl*'',
      '';`ypgmfPt6h6{_r_r9p}QDh#9;r)U+%0-~M@zxyKQa!Rj6az8th_Rh}OW&rE?0u@2DTy%gBAsZ4dq?r'',
      ''(Rn^+KXAfh5PV*>j@?$a4m({Wb!EUIr%ccW*6WD4TZs0Z_o8feezSWF%2_kHTqJ5GS|K&gScv($OGc6'',
      ''OQOykQ^TO_B3~lA88<cQkA=)(|J`z35|WYs3p-KF`u>m_Wf1h`}-_SoXX0F#3HQy^5pPpmCycfiz4q>'',
      ''x%A%lZW*Nq)qbNClfSKljRPUGftrp^N5+Fw%(jocaw8atDvXd-@ks<`Pl8!ySlL60D*VctM%@;UFOC#'',
      ''bI?R|Sx3OSP`HSaX;JBE>6@9xHe!H=b^ex3dv>F-)r>WjI2dS^#w6Y5YE+(K%TmBHYhnXA+fiy}k2$V'',
      ''@oWjesH8CA+3DO2hHO#UzRJ%%)G++%nFF?-c7i%b-Nyk9Ne*WU+AO7Wk|9}7bfBtW0O(ax)L*Le;&h~'',
      ''dZZ+71%=R=s<&YG6vv50hGoyxAAomVI)b8V0VdjI!jf6d5s*jQ)q*CNY%L&D?`F(`f1#c)FyqWRx?Y0'',
      ''MgZg_@?)*3;h%xuK{cl#lu{SH-4r<teSY1f>AfWK*tE`x6~IAuqzc3Dzze1U94F)G}Zu(X(+;KNFJ<p'',
      ''1o8>grYlbLjpw?FL<k&VDm`I7YUFua-jlrM;N@3CeE@vtIy7QWFCv7DbxosrWkHL2VteU+<Fg^H7p#^'',
      ''5$S7W5gXPRKvBRq{A+KtP!Y{>Si$2gSOwp1QA^EtQx@i|ecQ-N0U+>iD-5RreqrmoPy$C~307yq-V8P'',
      ''pVz#cJRRMi7$2G>d==_chbZA?1`??Xassvwb`34^%EuW{QGSV69LGzmj1T;_&!jNnmtH7W(1KmJw%*U'',
      ''4VV7Q`GPf)W3Q^f=9L}59K-}W@I#MT^Ho5t9{gyq=l!0^yc$fNA^TY$ssRUoV0&g<)9cs@CnNd}AG-S'',
      ''2wTVBaRL$`F>_yfoc;T17pS8bCUUo{m78>S1p-pN{Zwb_{>}XngzVw2YsgUJkL}b4I=V5PIobJwkK(o'',
      ''G!66i!V*3Nm5?#<<nVhP!-d|v^-LpTIcoeUUj@hvx^4gp_~X93M2X>`zb!p5U{XfHpnAnM-L&QMg7yV'',
      ''{~K_kja1Wgh)1-%J%+UbZ23$SM};f*r66p}LElF7!r^n)$X%ka;H$l;r=Fc`S`D1WjVbj%b}O-ld}09'',
      ''sX}9lBpDH&%gid?*#E&wZcbeHIAqu}jjzeoj2_~@lLcJadWmMJOBF*;L+%e5QX)%|pvbfFp+<|3d`|O'',
      ''X863HsWo9VZzpUbn~FJ`@8%67km<tkcb3CzN?YwewjY&^f%AUu=26UKd(qtE~<18#{t5!kyl*W*B!jA'',
      ''E9LzJ;Y(Oe;sE$tII@gq|$pyVf3ihUZ>j7^csEMVWh?U8m8`=l#!tqWAYPXkoP)0|;|?B#tLpG@K+?-'',
      ''NyRFi;tk!ueS5i;7tE~eSZ&<`Gz^w>jR)shITDEB+~;VYY7hA9xG@C!vxT)+5%N?mY*lXYvgj*gl#$U'',
      ''PO(X{2ArqRJwl|ylp}wM_+?uofYj5n7s4U)^!`BCUdTgeX3_zRckqRF3HVF<2EMRGqduJ!@f04W(<PT'',
      ''TR3T0eozBRmX)GW%T;-QEW8O5$f@0AnupJw%0MVRD!ON2S(%38v%Am%E+6Ks*DI-4~Z(sSQDCgH8i>2'',
      ''OZtnM78>`HKxjAzEz$;XlM(z3*H-p|yi?GdJSt;9i<Mu>}snV^6?D`-^TsICs&zSfGvNPiQS$r)%BA)'',
      ''CJ<Gb39BCy8Za;^|Z~YtgFO_Mv%&Q#5Y_#`ZxM=sS}^dnXhmqCxXAs(Y$lqoB<1KB*K2rs5{8r%@q|t'',
      ''ikPIkJ$MPc*sEUP4P@VbKM7q#cVu6EM${uiF^T;d8t|qE?K2ASqFG{Ow&-2>;lJV!AIr9tF(fo*oubD'',
      ''=xK#QVz^PQ>)WS;cs_A(aZ#nUtN1rr)AU6=ed&*^o=wrl!S7r}3KZ#ys+%=Op{k!`r%j18ESccTo~mb'',
      ''BgTBiM8g1Eq)D1pAg)+_tCAe@g05g6>Yj;)xL*P{@&K~5ADUL|d1fFDQYn!AAdjqnQhw?fRKM}OH=#F'',
      ''i${|6cBdOM%TY2Fji{rkQt1Qbg}@Vw>|7L-Cb1l5<57pM2ybHb{qg(Iup;FWxN53<s0(~?WvusmT3hH'',
      ''PTG<^v5BuEY|MR7kE{$K@;~htXtA-)%y5E$te}(6Llm6DuX``G%>0N#h9_Sbgeyg$C%1hhz$+u^UaAs'',
      ''kI^h*JET^0k5%z$}RKNLpKq(LPfw>VqxiRGOp543D%Hle+az>I%cCuTLB>Z*#s#I?Qfs&ogyt1f&Y3W'',
      ''VF8q4Xb9$SC!42ESyb(Va9vCCGA-aARln~w;_LfC04MVGG=v&>hv)Wan1w$*>!=0>z&4MHERnQ1BPrp'',
      ''-O&^6=f+(Z4KV}Y25W*?6_<YVpV3`;s=m3U<8rTLvwv6bB^6R=y?v%qDThdt~N3nztW69>Kw2I-~9BR'',
      ''Wqp<(ty)5^Lh;;0{6hr>cgeQ`9u7M>YV$++8%Pe40vjxbC+25g`Teyl0i-%mrpc|nJPgxj_^qn6ec2K'',
      ''Dr|?dAe=fKF$<e*C;21Q#aml^Sw(P_<B>pSCt>fX<<U`F(4gSG9K9^d~%gKC0^dDZS%EYh)MvZ4dWc`'',
      ''nv2)s9h{51_|TO+PBFl0|JM&7*}|?qRrsx@*O2Sh0%rZ_4$U+ADV+|w1B({S~%Hwaq1&5JU0Ttp@@^{'',
      ''1}YOrxUo87z(=R9mDESsbsXI+w+ULvyop=LwIAFZRd23OmAOwp!=vurbxiw1A8lYKHy(?hokOJ?8$<r'',
      ''SbRFQa-b7N%HzB}tCio$}Z(GJUuwH`$Yr!zQoyV`>wJkG{AFP;?Z961jYT5OX#n$TZTASSAIrtWyhWG'',
      ''rf+2umeVqgt9MM%Iye?+t`k?{wcoU@B&c;PCvhtdLk6+Lg+1ETdU?s>B!P9(NUu-9Moy$-^xM(l<*V!'',
      ''M^=tfSwFT*Jra&$5A(?NO`!zV9JHl?LKR(DNI;$UcE4B_PPcfgWa-*ScH&@3iLCfsRX-O@u)40(etdq'',
      ''L*IPpkrpTp<39;U&%LsyC2526a-$<BTGn(GCJLWLBn5^=CcXPi)qj5#2miw_Ldi3>%wx|1MRG*zrT+D'',
      ''>P>>eS!`pYfxiK+nyMG*;d1DBOk8{gL^L^_yKH6WusMks)GKS>2$)W;o2aybz@o71F8Um$m8o#8^P(7'',
      ''Qo5kEpFie)lLGUT^zolhCPVx$btuEGS8R!Z=p4%7Y1GHq_lTCD&vLIlg>-4T_8lO6y&Y_%Qpt{SqQP`'',
      ''XiVU2<3YIl`X<SFE0JB~W4iOwPcM-e)AXzl^5HA1((wcFrZwt}uUIIiOiPuiolkmhMQY0@%Xc9*u(6J'',
      ''Ee=CcYl**^xl+&jG(C$Tr@z_`$b8R;r+WE;isT3l(O@us`yOzOOY=jeQRj$I1j^jg@w&@W@o7ZPWIEs'',
      ''cUUm+UPfx7N;vM^R^5ENIf-n_(Z!GlB?d5-4w=e(KRfz))jk{p_I%x)rXJ?uau-_C*7=)8>)QWeLTIG'',
      ''(Jk}yJ3Pp<t@KeuPN;l7HZF>5_Hg0@Ojh;j#u+*s@|{I<J&rEfg%%OAzQ&?;P>+M07E{I7pC#pG1%IA'',
      ''h-{Loa72~eQs8-`elts{E@(PgiAhM^52kX{2sp`JtT6@H2%oX&mzT$a8h-Aa5(h1%GAM)U_W9$@-*aF'',
      ''zO<I@X0q}%;`pN|eJFVj*#j@g|Vs0D2&)Q$%4fPu!LC6>4<<1nEpNNmjf+U`vf*<fJP+3>p%^(KX!xQ'',
      ''_3%Uu56y8EupnAcF(lGdk@8IiQ;2b^QF2DV@7&6NC-MC5~tt;NoR|?bj_N!jN=_flQsgD1U%BqO;?K<'',
      ''R#iXcyhdr2^C@_9Cz{J6Ex|-cBr4Tltfx9(^^>U0+`q6S=5zocbl@3K=0vSGTz@TV`JpQLT!@hb!a@%'',
      ''B@O`3o6}D~(dY<q&3D=iin>p$E*=D3_wA9}HZ|Q7)Lf7{Tje{HWN4w`7+=gSDnQj%<>QG~-Igll^E#3'',
      ''FPpFvtR!M)McgD^?SA3+IVM3A~ya>XvOBx<~sScMA)v+q{A6SU2_hC`O*#YzocRF&+Za{M)Sb$GHhb+'',
      ''Yi?9%p-FaFB?0^5&-VeEXiJ9CfVc0Oa5?wQtYXnt9YN}_n8ze=EQY8qR`v=b;a&;I11^gmpb0wscqt@'',
      ''VDKSo~8Rp|hQX&OItw(P?)ouA7NDoEN&16ZbGjv<K%(zys-r(*d(;R?&J_(0EtZb{|QB{Sw7>-O<+wV'',
      ''V1P?C5r1~jO>wzrRh{IJ}5dxS;8gH?a@eG5K+`w7trkyT@11MplMTz%_U1|7TdErlYXkb&Q$47q5h;l'',
      ''&6G5zT6<8hJVO^Z7)SFAe<+2nZ>i2LWxb>k%h;rzHRvG*5($d8JNSl#Z9Pa9{MuyBfc4KhQuIib+wIT'',
      ''w5BJ@}8z&PsyL4BzoIR+chhQ~NBXGo+CD@EA_N8Y4)bX!+48Uh7r%NdL>YffyNHQ9k$tZ9a^|Wc@zKh'',
      ''3T&Kn?7s^M!SC`#C-nE7o0j_Fz392CTL#5V2Ho+|@FGo~zGa!WQ<bv#ad^_;L0CF}gqZ3g?Glz6X0is'',
      ''?2h&@LvGPSEDi$}~|{)IEfsc*!mbAMn{9oNs`8L&L>+xB97R;ih?RZi(J*N5d!Iq2m*o9Q#lR2eHH%E'',
      ''0$|Jys*o)@NP|5=8<30EWyESO73X7hUG=k@aV?cHffejnigfYo}SQKI))+^$z%)y{qt6K<u4h>$~gDl'',
      ''K&QvyLg>OmkKMK!M$5SIoV06-A7WaX?+MpE!TX<h2b~@4*;yg$H_vCBS?6U$&1Y;~%UqVk)C!PKyH;n'',
      ''Ciaqf0R9~@!DxGe1yLQ(w)SkY^sYsc`hDH+&W{q`mb^vNXz?o^O0N(fgy3R>5H0O@lw^ga0%0@kK2e*'',
      ''uJYIR4PL`YU?5-k+8q^Zhauf+hXedhE&?#D_(X~n2hB;m&rsE^}_jM!zHf(M0cPA33)AYJi^1zyELYG'',
      ''H;|`cf_PE^B}osb=8-Sv717(`XgG6y{oZt+9-BbBfK+zpE6gRhpVc>cZ7O*HBIhnTm0lfOcu4?Oyrrd'',
      ''FY3=;m8H;r?pVn@tpFdv&M#Qvuwv_%_|gOzD*A{AF?>ASk6mx#fGH%&v*NZNsNkNov4eHH1m6iZw!jE'',
      ''Mc#O<|K{~prxQ~UIS?|_QNyir(ISB+2NA|yp$K0T6A<q#qluR7hR9nG%W}oxD!ECQFx2K_yu<V{@3iw'',
      ''cGbrWaMj}Fd-ET?&VTEv^Br)&fN)iTE4m!ntdXtX#2)%f`!C%&+4xrN<GCZNETFDeczs+hXRpGjm*^r'',
      ''wcC`gaeDl5~GZ&K9L)--xi%bqCT?3!O-%+DOr0VdaXz=Y<RzHAr5rlQ3)x#S%7U|dO?4u~!&dnNd|kW'',
      ''xWq#L#}L;^1MT-2sz((%C!SeP<y`_O%m0p;}mR)Opp3RUP>Cx)WJmAGAfs!rG0&!4n9Y&Q)`EjTUDRf'',
      ''NzixmOgd&d6PmuVyc{EOI#OJ9~a$xf}u%;xY6>UTykB$qFxsLruRm>gI@p#EB5zSJoNCepOB65CL7I?'',
      ''G4pGr*VHi%C#=r1L>X8;Re(RJ&$8sFp*Tbr0*5P|OSk&CE?V&F6O0F<KJ$H4b$^8o`0qbW#@`jAJGpv'',
      ''f#|vSp73v4hd>tO*Qvfp)ZkTw<@-z|X)#{ZyufB2Hw|Q9$_xq;F{!|Ukby<l50FDZV2fec?E1A{o+~R'',
      ''Daq$_vpWi7ooF@}s#yLFIJqU#~h`%N2(vNMlA0-}4}^UJhGQO>_h<Oxx>*dwRebmJ3k{N_HgFO9eEk*'',
      ''@vB5fjNN)R9Zws_@JgTzd^I51zMfoA7SnOxIFpj27ygp7xZzO3wX&h5D6Uix!>Sx0dyYLwQ?Z$R_yz3'',
      ''pz9GJ&!kD_^zE{w;*<DaD8rDR2`QpMze{~vWVQ>Zahk-_0`sMFPvJIT;@epXG7&4fz&aUU|hwlRu?>L'']"

lemma DATA_8_scan: "scans 0 DATA_8 = Some 0"
  unfolding DATA_8_def by (simp only: scan_rules cong: option.case_cong_weak if_weak_cong)

end
