(* ===== verification/Get_Pip_Data_5.thy ===== *)
theory Get_Pip_Data_5
  imports Get_Pip_Scan
begin

text \<open>
  Lines 1402 to 1701 of \<open>roles/bootstrap-os/files/get-pip.py\<close>: the lines of its constant \<open>DATA\<close> as they
  stand there, and that each part of it is a text of whole hunks that decode.
\<close>

definition DATA_9 :: "string list" where
  "DATA_9 =
     [''5*0%#kmFLYJw$Uad0!L~7!=BLC+^M3ZB<B|Hp&^m5fvnmlnQ}sL(Oud8jrGSI!;I%WAly<Y@|vz<o5U'',
      ''b7`y0W-nENpwVpe-Zo)ulo!Qng6;&%g6kkpft$>46X-Aex!_~$z`L$U3*h11OF{pmO-w*P0J*>{t>S?'',
      ''tRJ*_q)GEfPV>~*84`;2IzA4k_A>!$BxzJx6is<d!1zgss0qD|=y^<(`-n~in;o@jyP$-4<`adV}w_U'',
      ''gnOlKjqgCb;oX!E9dJ`90L!2%Brneim~bBZ1#6ytd;vy>LXJ$m0B;JRO~G@>jky>ykl_>7XBHao{=3O'',
      ''CS2$GGPxy^`mu6=IqAz?_O@h=UCFcC48+u0G#@6gUY9T=gW(UuD#siXjUoThn>&d#JvQW4s*$o&QG8Y'',
      ''XW=Vy2;=I)7BewlC`U9Km}+UD8ze?Ph<ZPKzN+i#<~QGfQcw*z?CYQ?FTeT2H<DD~8>x!nbDy|i`Zh~'',
      ''-Ub#%Ni9Q`+4v%QrZHdvA4X?)(J-sf5#n=+QK!^cCuhZ5$(Y^sKAWix<c6B8zM39d7(YTc82`4xot-4'',
      ''ghq&BY<AEQS8MId|VG5zrGcH1{FsemmK_`b)c126*XSC(&wdTI5oufe})92d7;du=`Hv72+Y(JALJXg'',
      ''A_C52fJeJZrCC$(4oX#{uej!G5B3%N14JbnzO!2}eJ8H>1FM?|`FWFugLpM6b}&xgrQv*t|Rj5wjS=w'',
      ''3h0or6roPFGsDS?O=EgD{3P~#KKT|z)|w_76a-KFQCXe6^G}hJPiO7QzURmTLFa#=GZ+i284?DMV)Rs'',
      '';bc{$4T;)XN(>lK2k3%na$YHKBRjAN!aBz^0VzihQT$FpgVl{;0R~ZY1Zw^M=e^HP^mRL{#{H|-SFi7'',
      ''hV@$A_EN2sgL?|h8-Iknv*kOitKEFEN{_gd?WV)zkmzOLyTIp#fNk-+P1mRg>fo`(&R_Bsn9<OG?SfZ'',
      ''6fRxEaAVH%8g1gJQ9rRK8%j;2hpR|z=D=1L*T7r0KKp;x4P@L6Vc0uN5f0}~`!KCVFxb0ew-CF~BgwS'',
      ''xNloWdFk{Yg~1#S~~qi+T()q_@8j;Xexzni$KM1Db6nrsrtGK$iHzkW(+>$a_#UYSNPq{e>eyW0Zv!q'',
      ''}GSiR%CS-UD<aIW#I&=A4{P@%apPT=@MwW<3g_;9{~#;C*0Qhi%l-c8>71i1&g0D%Fcw+DYm^8)F1Uu'',
      ''eXk!8ie?yvP)SPE>rf(&2(ufpxQm4-wUM}nTCZfLI=!c(SfVKQ?Demj>r<db_fbT9oYUPIMR#fGFfBU'',
      ''nbw1L)r+^=oHwGR8P+e#c8?WgxKE$d<@%DP7L;oy7ApSe_dtl;Kk*oP=)9%VpwdEyU=smMk0ie6?n_>'',
      ''e*7Cema0{4P)61<9{<W!RMgWp_=?F1RtXhy~j;TGCX!O`QML}a(8*y_krB*69`2A_bf=S7aoe9SEIQ#'',
      ''Qngq{K@ad@>$a7{RPNN{0n46^h1FW)seiLm_&x5HlPkB}!scX7!z7F*PQ5th;L}_7&DXqY^!YL6Q6s6'',
      ''I*{U;m`2E5Z;mE>xa-bs{#tDyFKjZRmJ1D-lVEMIlhE4l=wpj@E`}^Sw7mPKH6biq=UC5Dw3r$J@Q&3'',
      ''j6lW)j$P>XDgzzlMZ-}!7;J%u0NtQIQ<EnI+z-1R>beuBr-_u(b8XWh(#%zeV24mLV3cjCxj_xZG~Ie'',
      ''Nn5aJllHsjySwTOox6Y}B>Ay_G8YQYkE4JiNg0G552cI^Ol!s+eRU5-%GKD=0;{`niz0N0A6~SvcN?k'',
      ''~%ibj>%<;?R5(WnXU)kdK~$_tWRnC77I5ZRf&pyz1|*|pHzVuDlDhOl25f}_|y<PKmp9wt0pJxE{pX+'',
      ''0J*1nbdUWQR3VqFW=b+4gxw(Re9_PBg}&Ey?z#UDyeXX3B4N-){e~e|+}i_j|{?XFK0-A0FX}Tl6viS'',
      ''br?J43PPGQDMYc34@txE=BME4Hf8Y$daC>3DEN2@K*Mt4!urEz<Lx3x$^v94xp8i(m&d=vXzXED%myk'',
      ''cUPJXkBDo}>28*z;2`;lsvmIa^xUv!c9R$^lIMfND^e;5vUFmG*-Anfi<N&YK=DRaq2fT6;o!yYSfnP'',
      '')=9GyChcd1lFJ>qHSe3w(W3(}vpK!cF-tAQgiN0F`lfUQ!&f$@c`N$4aomaE`IxlYX*Bwe_Nnw2@p`|'',
      ''W|*>q|=^wViP%e!x631Tv%@z`x0Fm{+uOTTG)XGORRzQ>_&lQf0$ui(Kea-B^LHTs-`iV(#Sohpa6d6'',
      ''ebWMf00Y^9oF}l}U2P>H}rFQ_Bg^NQ6Y;Zb5<^UL*O?=~Q}AZ%D{W6SXuFi%mK`My=700LLdXmpLeNn'',
      ''9-?fnQ@lvf|X%9(qu9wJ8ZB3jKhRel98%W0IlPB*d+U#9iW)fMyg@ign?&cOhn1(hGGD*-beR#+*W~8'',
      ''aE<`~mJNkaQ;xBX-e9n8*BcHMFRByu%9M<@1q!EhZ5Snt;cPM+b5h<O-xVH@L)hDv@V8r_f3P#4`8Vo'',
      ''EPlh0Q7ZXQ@u6*JS(loA+4=OfpV?fDGk)cg~1UnMutI>i42<Ak(O<-?GHa{-!ToyjpFZ5k<o%%`7cU<'',
      (''$r{UC~ds8YOO?qmWUWfvD|Y2r`&V~-+j-=}m++M0pxHD#_&7u@'' @ ''{gDyNwWE-uT{W~0L?4iI}hu!m*8_j''),
      ''sYt9_{NxSlV4j{?f8bt7Fq3H*f_81pGjTqtYZy@5~HV;uz6#g$d8TnLoQe5yl&Wd{pUPI9{|?dR_B2T'',
      ''PV1jw=#Ft6=u?QRV5oqb{vt|1oic!hcI0AR+58QjWtXX&Q%IP$)VXdY|L<M!R_&wwe_mGV+Qb5rbNy|'',
      ''%B1Q#syoi?I!3EK6d_-oPuOwubq>qk9~|#)^5p2)4$(6tsAr8u;IBk+&;HhiN089%K>HwoJT=Zp987Y'',
      ''Zyd0%Q(79zn#e7K_hvmevk~jkr_F52vS;mlPbj(~zP$XI83>RP@WE-0O{m;dW`a}7JD~g0=Gi!6wn4F'',
      ''(uLP_$1=4kBB8Pv{aB<WrUt939Obk5yD-0{1CM;E&2h8uxEOsQvQL&|%5|4My(eIJ(JFakERn(*Z`ah'',
      ''w~Z`G}JycAoj<ZY`~o%?<A=yGOB(Tp=xcVv@7yR1t5RM6Je!?5`=Q=q#)6Fp(WEUdn0rc1+HC*e7rMU'',
      ''?&^cma_Z?mI}?F=*!d5x$qe@!lT&397%MQ%#D?CPR=<baI;-^K!W(rXWfB&d`-I~-HGK?;k>YG=f?af'',
      ''tMFxOK0yu9ot-mkS4O0Kx~9%nt58G`KqvN0cB4Xs1&IMHJ3Ou7Ef0CRKavc3bl!Lc&ybeSNG%IE+pB~'',
      ''xR=*ooMBOE~H=cuvjAwABIL`+M6?O|v{(Yt-7=fZo1Rd4g2vbxw?u6R)7f-W2>sPSn3wMtXMkLU2YA$'',
      ''l?>_5C?m?-~Kj!ezeU9pWB<RlO?^#<a|F(N!UA^-97!Ok9Vk+at@&KKpR5KlH@x6e2Jpxw@7PB~HG&g'',
      ''YA~SK$FijJD_gy~j1-t@Vx{s2>=84ui1JLws<HzRNE9HzG{?w&m_mq6D9(dZZ&fzo)y)m_Kt|-1a>vo'',
      ''Omph5J;m8GzTx!09Pe*{FWVpN!8LZBQUK0@H)9<oFpb2iSq7KTc{0sk0B|W9UajD8E{^SJ2uk^bohS9'',
      ''i7+Gv`V~egs;s@=25be>xsbCh>axmLp~t~O1_kbs^nVVX9a=d+FTvXk?;ioBjEa<f5Au}t1{L5rzvJc'',
      ''yPMFNcJh4=t)lM#*v&!X8C)MY%Pbt;s(N8PYXUS7b^=XLW0gKKgnf5F@F$=mqpjO*&ET|DmFeD6$({b'',
      (''K)WEWj<aXA@'' @ ''{R^^u%)WX&cg|I{+>6$1OjsiK*wBoYp`&aI75Yy&jZ2gN-7I=uxY+sJZ9gMa`XbfSoiN''),
      ''u5guBE_t0C}A7$Q&`OfK&~4DeOiE%H_Ecs%qym2<;W{*?Z)M8mzLGLYK7OA@&g|Z`)L5LGUT2F(Wy%$'',
      ''||9aaskvKBTffRnoyZ?W+|`2p~9{K!zp-$u{WYj0jhd*OcHinMfOSo@0<ggyf1ZHyjM967-7_8yulhU'',
      ''q*htZJ<sq-S~;CglV5~zfk57B3$kJWfYl|1B=(gf_RU$ymBYMsW5XUkwuN9qB9S3}Qh7n_tmJG>M5Bi'',
      ''A!=e!#s;6ZM+F*-}vlS9*f-;PjUkH*l3OVb$MG2&?)5(;q29#+8iPZx}juKne_F@6jDchU1N>$0vm}D'',
      ''0`w!|83ZO99e3?j@NKS}PmVteK`$3SpF#(+v)sMTrK)YMw()|%|uIe@sx=abtRTJ-nO4oB&MP0%q*!L'',
      ''ex%@m9UX6FlE6&qtN!y*ukpy=I;jWF01Ek7XBZF8kID2f?#a`-8MOnoTCScvI17dj3#bYqyWwl%Qi7m'',
      ''m7t<L#`a^hdN5eY+m@An5F2D3nxSwOIvZq>xk7jf3p3tH=w%bJucu|9ZkSkU|mHNp_}OQ+H=T-LbHa='',
      ''zcLkY9joH(!U&{s8@S(s_2`UvJ~9!Ldz0xnh)v(55QwHirB19^79e!i?ei0}vN84&o|%+R{7!t{{~rA'',
      ''tNbnb#ofL_B{Jz*pK<!$p(*Zk(-L!Er+EPyMe3sIWp70G|bpqoOf#sT1`rM`A4&!)lbz(M4v(H(FHin'',
      ''1#nfd08UgO{heFfS~8D6=D^~O8dkTx7cj`r}kkCU3s!J@TRn_0s1SWNf=jD}<<562H{vE&#CZ@HLTAj'',
      ''BS9d8Sw^(p;a(SZl>}o7;&UGVwtP_cN!ND@bfMhHOp|+vgO)nX-AVlXw#i22d~P4%P1D7h|2^?Y1T<y'',
      ''=-w_36-=*XiZ@(OB)4^_Ey`LoYUZiB{V*uE!WR0XjJ@XT@eb6?om7X1OU9(-rn>-YV8CO{RP9)u)O+a'',
      ''vkYyMPEFV&k5y&crr6WgLH~?Krw8<WSX8FK=7CM~g05}RK+5i!QK@~;(dC)}PxMB)0s$F)+3!TV468A'',
      ''F(Z0?N4%?;KOdCX7uT}Y<g;O)PcKfF>p$~);CIglworH4OSLfnY%t`Vd+VEmJQ=ip$EBxpktFd7r?Vw'',
      ''f0F+<5N76cU*o?ZrpC-r%>{R}@%f8sC~T6Jwa#=2N>O?-{@@EB|17g-1GYapmj%-0>#k<uPEUUy=RXL'',
      ''HqK35DRrk_y3#c3RfjflE3;<xm$eIwJ7><y822k&(k@3S0XVuNx=ehs9=GJCoPWB6&g~z>y;KU2Qu-3'',
      ''f{)XV>Jq_H@;J6rgD?zT>PHN9g~h&wZob=CPo_q7PAf~=+r;FN;%cARfyzH49-`~px5IYF-g{CF+-DO'',
      ''aRHs!P-Zd}h9n`2wK4g5diJAf*&JXdl8o9~g(cnBt{7{mjwmA4v)uDyJHwuDmzUH}FJOeEZJ1NxM8Q4'',
      ''vSB)Jjf+N5Cx#F9|!r31J#L6Hrj4*$BaVow$^DbcrMI$vPi~O}E<Ux)X_*n`;ICG1K;SIcrk-5A4G^E'',
      ''?4coiQVP;jA8;<I3&vSkM`ZMzmhkF{%ugIgVdL7hJF`on!#oRD!vsTD4svgDHCEN--N&n~Ybakaj&E$'',
      ''wU_bh>Tg0)#IWK+Uw~xwlAi4j$al^k?X(P$u;*IWoDX=Wv7U^7MhL_1r@jhEhcxf!a~_c=YAS(9>@;L'',
      ''WVdg7+F@9d%ntgnGK!8mqUe35#RV6L(Xi3KdLJb>KvrUO<mC`m1A!$F6xvdrV08b;MJ*d`YF0BlgR|Y'',
      ''_lc=m2M5}TfoEFsZ#jEEuC_E830F-&!JO9C#l&x*Mm9=nb}$~{S;sp)cs#u*=uWQ<k&;GHH4_OXA88c'',
      ''nW0uPGs5rjjge>U@C>#${$P0>7Yl#O0j#HfA(f!srm!-!xJPPkxWg{5W#YH--(Rbpl^5zB575W{>ESp'',
      ''1@N;$pp1p^!4T``kO?8?>bPTk&w-WSx78$3{Ef?&WGF!{3**e=v|#B~`?G(mqMTxsHOiq}_UzxA9}2O'',
      ''iy`JNe#)*TYf+p5cXoozK(iZdj1VUkAwr4e`LCa4eTahq`6DV8hz^>@;_;yi>3odx;R_0eWevz7Vug!'',
      ''Es^>!n8wc;?GF#Im0rku4GEi(@MLsGMD$8@1cXLp=%pxa)IG@cuI&)^sLzH+TMe)dmejnd5Fus=N1i}'',
      ''6E!L@D-J!j*s?yvU^kwotit-ycpUV>-lc_`hEG4WG{#Aj0v<ER;`_{wU>T=sD=)}@s&G7^fd|A<k&9y'',
      ''$b0F7)+iLg<NbNku{R8h-y6auY<reQ`P~Vt|vFp`Ov#d;w8#c6@m9FCyz_p<{K7)MLEJ>p(a(-3FGrq'',
      ''4qYy{Yp$ynpLW7(Y|4C1*iPtI;W0*buvhkU|z9M3Ey%yBl%YLS;K_N@knh#p}`)<x4P%wy0|QI1kU3^'',
      ''Sgxn8E`I>B6Bj$h*w-RPnIwx1z-6ik;KEsD<|EiIp_DEiqw^X$4!C6~&Ldm^mvIQ;#!KO|JlEL%4Urb'',
      ''_d*&eiHvq+I-4rAR(}xu(@F~ENl$3df-JcLOd}{HOeM~v*ytgwtAKAg{NV@a(=$P_kA|SmxuYZ?ayVr'',
      ''_K||2ZN~!@wz11x_K{|ANpriPF~bI|-C7rkurl-IbrQ%EC>9A;`7YA+YW82Gu6ygyMw{2S79_S`=Cp-'',
      ''DpJ!LzZM(n~81vT8-~IQ%{YQs$FX^6;hTE{asO}ni24rF66oy?`u+0hDO$D|YeXGr4@Vt4vsd!%aNPV'',
      ''UA8b&bGp{tlZjM8Co!a&i5t{3yoq@RWj>$^)Q&Fj`J+Uyc`$R|L&=x4-Nbv9TDHr_zwc8s1$G3Vl{D3'',
      ''GWYGkB|HCvNCVM4f5TtO4j8P1*Jxuxv~fFvd2SV3K@N_gv22ZU5)l-uq+NodG%HWEzwcj*!bX_yp0u='',
      ''XQlDNuym@iOLI$ovM|$w%zkaHWG4S_S}0h`I>ryS_De?sj?x_{;C4Qx?-pq;=PqP7WNg8NT!4w@>*sw'',
      ''u$y;P?<ore#UW_O$vd9~MQ##E5g6p%R9|09#iRT@l?^x@H8*}EtnlFdA#;CJefT0*W<|UTd4rn`^5Jg'',
      ''Zmalhnx0IV_DzYvy`B1*thce!WvDAn0R7t|4PDaD5b)mNsGsfro_f$^3-{wBQG)3I^-bJS+b~i<1cDs'',
      ''!|z;dD5a($>&^;Z@%SmA(DpShc%F6S>tVd3p_<Unn8fb3XQg)KFJuHagydkkOJo54fc1I|iduYL3iKq'',
      ''&1eKMJj_(Mj-gm!)It#*B<sT4=3>ft;Dg%s-4pI1if}Z@A;d!&M({Z_x<wGd~8i4R0<A7lT>crTH*gh'',
      ''~<B*0HOs8D418cQ-r09hJ^u?uu5FfQ580F$^AWT$a2lgNCOz>k9HV+QA?Nw?Uj?nvE!Uum%ce|x}&tP'',
      ''jSV%<ozGs!?_+aGLMd~env~QvN-{1;(o<{c4ENB!fTp@j_dr}_8n5WGj_Bi%75YTNQ7QR~#0R!Up!`J'',
      ''}HS-ro)#v#)*VgovJVc~KdjL6NI4sJMWqc;1b7bF&a)2uI1v_h})Mg7D0agXg{i?Zv^f4C5uCswX!9i'',
      ''kp65R628+|{Ku9j6yE?LfTPi8q9fpDCvSzTPQI#NRm3p&aJmff6^1ti(!RSk4h-=fLM8!VqHYLeBU9O'',
      ''=T>2^+g6g@cHz*hn?DbRJqc7S6290?O?f@wQo=h8+W2V*R_Pdi62^;MJr7C$9AgdkZV|!3UB*g}^?5F'',
      ''<U69o4rvq<+3uXj)z4r1e(xj!KYhfMVnC~*&>+uUPXhaJ8mdS#%C8}TyY#AzW<xzYF}SU%Hh=tDye^)'',
      ''G3Nvw>HHm~BGc)`oibr1WZ_jzPj(Vg@Ep6P9U+kI-M&5i5w%ak#3J=GX!dGz2ywiOPNI5AmSf{R>N}~'',
      ''V|Hsp-%9G8M+DKsyvx1JVG+e#$tVd{Kr%;p|dXq#N-Ofk%_w7028GKBk1;d+x<Q`ra#IC1$>g&US)*M'',
      '')VgSSbE7Lsa!UwWOLBu6O2VsefmlM1MScJ;ey8a)-GfCCaQb5JaN&axbK9y_8KGe2@`F;5Z&SKNBp4^'',
      ''g_~{vgk`aeF+8?3p@s^CC2pKCd#D<jjC^;`kA{%Mnto2nTA=zfJR3n`R#Jx_?jcteTy-CiD(Y?S`J(x'',
      ''VcKjx<yw3@M`66)A^OA(^<9fV{k?n9F73zm<J}jjvI5ma2;>_wvK;g6VF55XsqMOY^>&Xsb&1kTE-xf'',
      ''6}J^>`Z^LB6!?P^q0AN1sK|O`{Xu_}UE`ES{zMcoZIY_!YiN!*ho{lY4GGrfh>^1?M#TadG#j&1!p`T'',
      ''<ps~gvW&vl>F!<cPOfP3x%<_Xndj-O9+_!W$C<5*XZ5fExdlbbo&(^si1AErXV=RQ0h0=P~r^5^5#Nb'',
      ''Ub^_a@$fRp{t|CN@-LHVvI(|ZoI-#F4P(G3hbLf1J{(5a$4Qlwj%xw!B6r`oDd6wWjE`(^c{_Z(lhw)'',
      ''-55KBP@SPoUX_<2I09%ms6hrydj=j5z>m;6le0V!;%B9JIijIdn`%HvlA$IQM47zHg1FL1{AimK*cjt'',
      ''J>R6bGF7Ls3l~R*+k`E0Ssdu8%i<c+%H2q0Nj&Mrgl^#iC7@VWw&MK`u}*{0P6cY&EcBO16ueoGe}sE'',
      ''9#e#sC%mnSQBzYtfH89wV|nr|82p~ra|>(lDRHD{0@C*TCz~%D-qchO?;%SX<$#$-!F(>e+R2O4#=*S'',
      ''bJ9I_HF_U7XYPGjvcVx@SPhx+BMH~7LBt;ECYl*EO(DX8B0oHEtvF<xO)9tO#?_O{!9b`3LzBmm~4}K'',
      ''O=P;(}&G8<cV{UtPAUhF!4K8A^*ZCv(^yQu4I*j>Jn*nL`cWBjKt!PTlxY;EK)@_uan1j?G{c>kb2VC'',
      ''%ug`|iQ4g^uWzPlDX?f1s~%OVh3d1lw?)Uh;W3c_?=rDaxLSCEBV|j9bJzxLh<K57%>aXhUCYx)=;Bo'',
      ''-&P#ORrVhZQLFxEDwir8f)(X1AmU40dDcU-*GYAvzqeg8HKD#a-FKMQe@8!-RD3N^!0)jEih>L!GdhU'',
      ''#iYcmFLVcPg9BPv4ffi@dixOM*ge#78-J_yAAq7tbApghpILqBuhdR!%IRopNhrZP`ipU6@UnD&TE^='',
      ''O{Fo@jR^lu{zoD?ZsjImpm$5+<<%(M1&ux}DvVOkB)%=^r_ti8$gXBeax-Xg7-_-kG#boo4e{QJvpH`'',
      ''mRzqBpdgYvie`)c!dP%c`eUo?}yt<qn`Ec1~6(paT1AuG=9@7q=>x&i+-gI{e15xonKy}o2Ne_N@)ih'',
      ''1TC|Gu$Ov-~D4b$+si6Z`kJW%|CTxAQx90(E!rl}_<vHO{Fzgt9Ob#unMX+*<=zMOhDL?2JI38ct>q^'',
      ''wy9Ya$fQc366fh>FFI9&}Nj>2~f(9MLFsv<LOmW^;<HIfYwE&^4X+X?`(9M<*H%`YJXn1cH&_%8;?-$'',
      ''M;j$xoKC7GJJQ;6TT^b1mOV6FBLuQ0vlj{>C_%4<OzxL;pLOpk=Uy_bk<Q7S>Z9;p-9513V`x#8tpFX'',
      ''??pw3PxIHN*h=)-uVL2-6vfKV=jDc`}-x^3=(z3M2&9U`8Z+@`iTvL@*RkFco3RNj|gNx%xUW((U<ko'',
      ''G=zx6FnH>TgJ3w9u!Vo2XvqP<TX;u+7-;gYV=O^r(^Hxc&fkzpKpJvL(*r^!ufVyy;;^oH-B^MEimD_'',
      ''ul^Az5i2<<6b)w7p6VA*nnAu1(&>M7N4mkZ<uT9hghNIeK8?JzC21CK1Nj^#*>QJ6^lwa;iOaCdFum$'',
      ''7bg<j)x3O57Q}d5UZ*H>M?`ZsL=U~Y<?<!K^Uu5Ge~VCzHnQZ?M7BjW^<36TQl6l1!)sqaGLZ(sS%eL'',
      ''t8?)*NLOZjYHa#U$E2yyxgRJT^^~$x39;D$ckIh!4#RjShE{Q`ld9g8Xh~tDz$lk(eH}Sf)-6Az13UJ'',
      ''qK3Wvt43ORC(Hle_-%RR7?b4ORVz(oTQ}}(ZIf{De;BtV0Z6{(U<oi0KA~SjV8Y6*s->PLI2s6=@Vk`'',
      ''E)&KD-|(PZ2>w8&J<XYDE88UUejI%WxUE%Kb^X|@Hg2~LS@s<<z$slz4~^_B?*?w3&BztRs?thuMORk'',
      ''YYM!H^9n>PHQ0XM>$sdEhlKq3eFzlJZ@`5U8K}s8`}nhGNZNz>(=Vp{$W66tg5}s6vFKsi#TyexgmQb'',
      (''4WC2vh*qVnKhUN(cqj>IdJ&J@'' @ ''{oLlSg^ETss*hj3G3n&t>#K6R~RRkjZj{XG6nW{InUa~q7-X7ubQ_k''),
      ''FB+NDlq}`aUF$5)o0qwGjutMYaQ@qHx`8v`Bq3$Smhvd&o~_@e(|L9Hc4uWG)6pcGTceG7{*~3>eq4n'',
      ''UDF;VInT8Kla$!YRw6BR!weN+3r}+Q6zQj?|yNvpMj9$!JC#N1^?qG9TMzj2iNCo5QO3?k;kfTCS?<B'',
      ''W2B}PlF=v*dOT41B}$93Wu9{AQFkiT9?@Ey-=@GmC_eRx<JiG0H95duVZpaA>POA`IYxw9ShtN>PtK;'',
      ''eAv4lAln6d5Xm$`EV^s0*S05#KNxj*H4jEpx*NHE#wXVo-z;rve{Q18l~+bR%y0+bRcYAS5&<$iz<en'',
      ''n>@Ip8DBn-fxcz4QPb(Volg<)Q(2vz&Dfr+cg85iKRcac|8V&E(Zhs)_EXWC80^hsXjX!Wy2a{2#WKH'',
      ''eqyol)#SY3{qP1AFdG&#nOXUik+X>+9zr8LRx70h&!!QCyXmx>4`$P}>^WGa5VQTQEtZz8smjx~sZ!Z'',
      ''oK|p1n2!&+FYIc=WR|26~7hm?W5x;fKxa}lj&$w#RsrqGIE@$~MOnoJWz8b&#%zHK7oj_kpm2n&+xJg'',
      ''h6kb<v@TU<$LGQ4t_aEc+@H9Qj^kWJL3-4-Wn8btp-%U}^wG>xRXi*7N?l9Qws2Bz=zS{+O-QJ1W(B$'',
      ''ri!mQ>ZtR*M<X53pF&Dt&)k!WsOvK;pH03i;=ZABK~#(ndKA#ZvB}$pfxt0>1V{Qj<x6Cny<G2C#%Lz'',
      ''@fR$R;fj&22|vH@ftfC7+$*`DD=?I9|$D+txQ3wC{c9Erb0#o5T3Idhg#V&RO#Xx*`lzJr&jXq%=&aO'',
      ''6S8i6HuzC(QLx^U2BX<z>IZWT2A61y)e5NTe$2bn_pp<Y)hUucr|E#BGzDCxyz<?s`>cl<aHLM%-*|y'',
      ''`=I&p*tGFq75E)n-7#oMcz^AF#O&ge3oq~4v5FLC$mTtou^?!{cR#IH-UT8zZ`<|GEHW}8<EbP_noa)'',
      ''C!EG(zuWy-pkWJ5dkuNX8G{i<V=EO=<b`v7%``TxKwo7|+hdUX_%H5ma1wxUW_&+`bQwchb<)0j>1$r'',
      ''zYW#l2gpN7RJhBTvPZ%;p^`>xt@<<nE9-J-rNSG;aPArLL(lzAxxdp)pE{b3i`jG{igwdF%lrlm?a@q'',
      ''m+KEQ94C9m^rrcLr&u$J)g$ed6cAKp|I*pL{*oW*yjULe<qH39?%?{Py{}<cqW#<<Aq~r&PvRcjvB|a'',
      ''JVny-f+^y5w`@>>0{c3Wl2vYwazQo8-<BpG&D(ApfdKby`EtB--yFjx%0?@vV}M2(ES>x4&~>6PcIKO'',
      ''^mOk$liJaz@!g^CXL5lBoo>rZ1^wctEFe3YH#Jl?mCLTj$bmX=q8&2jgn80#q;S2cwN%Vp9iY637a)#'',
      ''sGlqkss#)3{c@W0BC9z7cu^)soO$w?a}6-Di7Y#l@i^~$X1tljKz?UhoIP@bUhSk@cEtQ^j=8h7ZQPy'',
      ''&RtfSYvz!X4St5Lj|kWFviqNv6&UPgxmIAm!e}mpl4nyU7Z-wu0pBhv)1$t7U8JMMO3lS;eN$Ryhp(+'',
      ''3)+7bCZZ--2oX}>+wsu)7d_dhOC*jMIIbhQDJI-;^f8;W@?;iUQ#5-`ic|A=n)5gH9$MW`9*;j2GwQ0'',
      ''yvR3Hl4VU|82qM~Ofe#Z4&*C+zjs^{6kG0O7o9$Dg(jH97?_3}+-DbEx{gR+xAW0KKEB(7XO>c-kYRx'',
      ''W{p?#D4E><9)y2T0Pg^g#_c34ngWtWoEnq-heTi**h|>#7!EK=<SWwJdvJIjlqSI<%w)PR{b5=n#6s8'',
      ''#e8WB66vk_FG<Hvhh+ggXQ&Y4+YP)-(Xl%$$CtEE*^vs%$?BzRFm($w@S$)Ss7Hmrcjb<R4pxI6!=^D'',
      ''T5_2nxv<RJwb0FBBha04b}(V+C0Wi?Kf5BnJRubTTh$&wR7{cKe6@<Fh~Q{`tp)!#8I;-)|ot0XeI#R'',
      ''O_9y|J89FbXxY;I5L>p3c`&eHH4;tly_vIl>Zq!vJCdC?a0CHHozhOq5G^;M3Do!0LWK+n^DgK^Q2w{'']"

lemma DATA_9_scan: "scans 0 DATA_9 = Some 0"
  unfolding DATA_9_def by (simp only: scan_rules cong: option.case_cong_weak if_weak_cong)

definition DATA_10 :: "string list" where
  "DATA_10 =
     [''NMSIWA}M+IY&2<N%whebQI=0i?ZQ=B_sj$TJm8@_s56L$J-BD>uoSDXvDHPVs_T09bx_g|1jmL?FO&m'',
      ''v!-Z^Z$|sF>O|#CawZYGvcJYpw4}IgsVu+#SJgZ0m!J9)56Jcm94;EvB(7t#^R+@=<6Y<q1;Gqg4)}`'',
      ''}C^h)r|%M`RbuxE(NoG#`rW+^)eZcn}qS<W-UiF4>Anl@K~DNa?(yHowi63xQCRC9Z)-KIq1+>zz4<T'',
      ''m*mkUiUE&Y1mXaFaq_f&$Jst;wfIb&1nD)K)x3Wwy4>LFcKusITDYvrR`t(e1uJIBpbYhbRp9=t?XrY'',
      ''xy2x8fLJ-)?xVofJ(?=8&frTY?l)yVBqc?OgTp?5Ob@5qRc*c#kiw(WxMi<oAcvrN~`ZV^lByLEI7!A'',
      ''G6<LQm6{=cWo)ZRt@9ULD`mAvt!>R%VlYp_BTe5|ksAI162mW`-3#UX*s7xIu(Y_4adIol??XNj=v^U'',
      ''twz1s6eqh+-8}U^k4O`@Xap@%8o>(PAAa4}ZQ=1B6k{dNP2!vJrVsvLKqCNC06yJ7F)zkqa8;xT3`(j'',
      ''D5TBWeGvq@~YHbqRKg5OY{1U$+B(zvXz$Z6W_ZX9fY???a`Qk`E!y+ngz&{FOdyc1`7Ql0zXI$I?bsu'',
      ''Z;3(|yDay41eb|Iw!L92R$)5Q6eTM|knNiklYTQ-T3+=Z$!m2$_Ns-Q$YnBT&l8Lx-Kd)<2P0yBy*YN'',
      ''nF7(``FHBoF}m&@MPK^_&R1YNd!z_eB4C-?+Tu1ofO73Cl?{Kby%b$ZcluWxp?2iU&4}f_qI6j3(U{f'',
      ''3yP$<^*m<m;g>`)JJ#UItrHPtsy5l=k8?Hp?81TJ3F@kYsKUyr+mHrHL7vTP)D{(kvB5Q>E$DGJWm^3'',
      ''z+?aX2xH0B&s&@xv#;I=PcS|v)Y^vW5j!f$TZCJmQmh|sAMWr?Ud!gH--$-*ft&Lbi@@)j4j<ght^3t'',
      ''d1b@beiu7d1g$>1U^)1viLF&J6$0D=uIIv58rf6&UHjlZR3u^|O%1!i~{UNRT$G&-H-Y+HgaZdbYc0o'',
      ''=hGsgitJglAn=g$!PE*9!8n1+7q_z<bqkejgM`ZSPX&{mKTSMaCb^O3>V>zB^;>!v7qh!Cp}70ivYHL'',
      ''CCp4Dd&73pSHH1v&Rf^u&w7!C;Sj`Zv`4`@d+zaE$(+to>r&pD9@jz)i9Z+hv{Yd=`hJJ<;qPHXduWF'',
      ''N?L(}E%8kneRx`7FP>p9KF+lvnoqAx2i)OM!^@^epEqU)z5RHZ*f2rlu0FKoXX2}mQ_-3x_QiuPJ0H('',
      ''G>(0}4dgjz@cUUZONyF?)y3?N5K*%p>9wc%Ne?$Xl*>GM&V}eQ_1pOuv+{p82M)Ofh@dT+}i<j&J4Nv'',
      ''OBDO0$GLE1?1X0(-96}l{o*|eFw$yLsx(<WQ<6`?QeJtyDV!h-r)BL~gGG*C#=L%o;VG_H#Po0Tkj)Z'',
      '')6m8#N07f9}bz*feh%w9-4NN_0!#vDb<`Hf&0AdW8BZ=IFjPj&A;DM49M^7`c^t|H|GgJ;y&EkmHV{h'',
      ''}w~95>9&tP@P0o%MNC_7F!q!ngnP}ub;b((nB=(+70(9_!{)*)sj68ScSvgwfpOqcwBn7m!dmXw1k{4'',
      ''aVw|w3P4kjVF<p@zgwGcy)>pvUA56cEuBhy!3L19T^*q$77k@cLPG!bzl0qkRku$z{{`fc!C=s76k8m'',
      ''fa;-s3A+_drK3AZpflfO^hwc2w&EC^0ep>Z$JMTF|4(!d1_wG*X?_})~h2H~eetzQ(3bO%eH#U+7mM|'',
      ''uX%d^V+#HM(@_tOlWJlCQmx{kVt+^kJ*4%qqxZ$K57dG<H<4Pm<kC8Ab|$ngq2-B@?61|m3&4tFVL$Q'',
      ''B0&u_TJl$@a#7op!{DHe_TFk5#^SSUD0nVu-!m#m$_qM^kZS;-O0SWZN+(=QSl-wtCUOk1jBN0Xs5pW'',
      ''YvI@L}ED^9~QrtA<~3U^x^3^$#pD|S`w>FYv<}Pb%eU%-WVgEK(pR7Za7wT<5{jz(dt_+OIr%|TVmQS'',
      ''<z7HtTh+N>u46${qf}Qww?Y@Y<wO-RhqtisuM1*%xz%ngw%~@+?Ya`QT{9r<Mpa37xp0E&YLGTvIRg0'',
      ''3a`x|0qenL4BOcj`>TnR-OFLEKhp&5CmV*|$qNWG#qU{GP1%%($DKoSBF;vyy7X9aiQWs6U{d$fCq-o'',
      ''fpAyH@maudV&0LrCH@k8U1RZ^C89({DUE7u<z7My>$tt0Hn{Ro=WN*dD~ZRty8uQ^)M$h;uU2yf?EuQ'',
      ''}$blj_OUqn!SGA}%uWYux4nx-<YjxjqHhBlr^%61@Pf50VL8{=d9XXbmYW6WUdL!R0X3k_+Aycevw{('',
      ''#pTj3ZQDaI<%tDf_w1@SkNS^S)BL@fYIrc2}0rs5h1An>yYInj?!v~U*zBceo^PtIfS}8rVbotIaL)}'',
      ''p#>3RcIkgt00S|*Y-~D`6!~D2(=6|uZP(p&Z%Iv5?w@i7L&*xPLm}-WfY7O?LYG0M2VYPC-^`I5dI^)'',
      ''IiD6U}fjk>>;33#7DwxPCb3u+q-2_W$!Cs@Vn2e=ARr=E`B_DU)2+Bh$`Lz_{f%d8y%BWRz^zZxK3ee'',
      ''e7sneg|8FLA61C+>OoF*us0yjtqFSl1IUF_w-(rH^Yg@1Iw7rInuno$0%elsq8%x}wfWTC{O)s^z#6)'',
      ''+>aK?*O{z_CSoD^mw%MHk7_Ar#{WZZ*&8QMO*|h-I28`$1x74rQ<OIfCjFU>B3(Mxs)2yd%CI&K+YD&'',
      ''_;Ay<ml&I;yu*6TPtm?St48JJKv3TPy0~5H9ZeVxSq6S0LvNAISclD8;#M_iCuAOPDn!9=(sdX7_PML'',
      ''OlOcAJ0+~K&XH=oD)!F?hAb@E<(5<hoR%H~Ukh<Y+e>irTZ$OJ>;V0;<cLm~K^)sI*es5;W467Z>4Ae'',
      ''`uY$1TEybK0ubH)OX)fy)@c7V{$C%uML&X|H9_b=RgKYQihyCNd{k`|Q(a-qv&B5{Z{{B4iz3e`%djD'',
      (''_p<S$RFr`2gUcy7{*ywe{uD<Q>Y-sy*pO-j%asNYj~wPGidhTQ^Kij#G++wCuo&ZF@4d`ZN7%s-a@'' @ ''{g''),
      ''7jyBf4zlwSS7}pk{q5>NPsn{TXo8#S7Ja`o^vic+v>?J0<&_hbCvRn^}0Yb3aR?GCOU#XYPN<HHI>jA'',
      ''-G-`JsU6L=P_papwV_4fL*^8S@;X^SrYz0VDFN^t`Mba_kEbyktIP6nlNb?0d-tn9db_f4`wNNGba$%'',
      ''JH0{QyN>Mkp#Kc><2-Euu+eGl6XE+d4>R;EW#n1b!1F-kj?>cyoh%<B*|qHacQsGUxou(gZ%RwwZpT0'',
      ''_=L9GFW$YPju$Xh!8`%E6GoB|ThD|~AzYu-Lw=hr(^+`i=+S~|9GpCKS8p}8caN<^bGxw%srXX6K<<?'',
      ''p?3ajx2`IJ9^K{Y$?wR4}i^YQZ4i`N~r#CX=_aK8e$^7<6u#|^9w1Z>Z#6gTC>mb1mjup0%nvVV~INE'',
      ''BPO7U+bOv|_Y~JgrcOwtmv~?$Y5>s0x~$XcK>5)O-1Z+^#J(`WdYJXMDiLhi6q<ui}4=aVLEz?yBJdt'',
      ''pF-V=>L`;&<kyK&?)f}4tfO#E=K5SUT~9lK`3k9(F*MztG@nY97HW*ZMumf(L}`ke{&Xn1PR3zKYDH#'',
      ''@Va8-3V3S}kH@<PrCeSdGW-R6w4iCn14}OhRRG<j6p{59=DIb>vFqA3$Ja`netbpPyDTd{xvE>9NYQk'',
      ''_THeFz*X{yjF}CO{@7lHouO=L|_khcfzrp{GJX;2XL0>B>3Icirxu(gbTxEV|d}Uk;oWJYKEh}X3{(g'',
      ''TX=Mj3h=d!K<pm&A=UOnYZ46&Vu0K@HY*m>2F^E)eisZORK2_3i%ti(CTM;t5A%f?`W3F{Sx8*2qEWf'',
      ''vLjBlSRu7~c7_C1c>`?Ilc5cZLcpdW)PseCtN)=tLhs)*nBXA3x?DOy9nZdD83T8UswKyICw$#3ByFj'',
      ''yzx@otVpHCd&l{BP0)+{m<yrc7M-^(e5qOZ;(xq;e6IJ+=2gXMx9qjA9h|_9weQQbq60~9s=iaPLKEB'',
      ''x=%}bx^w70y`ZOWowD~$d4zfSZM6jmssTNDr$r=b-a*14EfZFR3c|Q=y<0k=1R9-A<B|}SwQ^h7SB1P'',
      (''roLk0!=eK@RlyESQo@$s%4)k=L0B?4CVzt)XKo^CUTkh7ef%xA^()nT`VxGgdH7k#@'' @ ''{pryxBTRgOv-Y''),
      ''x5M4QL9H~4=du|amSvkyf@L8Cavr@f^u6B5#`zC>imE&8Sd>cKaBYK695b}6@r%RH(-7RSX-F`i9wuZ'',
      ''Mxy5y|K#5x)T)Kw=2{9@a(;-9&BB*IQ}3NzTbPwM?f4Ol37J6HMhaH*_Na1qHT&MAO>^2!#3=BLksWY'',
      ''r0H{OoB_=Tf!Ka7D>X8ymEGiH~u}<1-B>!B-Ngq<3-jc%{ywxdn%O;>^EL#ox1iKY<J)vWR+|z9ONHH'',
      ''=u&;;3^EG$&*3L#?K}qO#0ZLd;u?LkXGfKM-7+OXp5S++bBtae`YNyNa!k&hSeCKT!_r%x9u6<8v9zH'',
      ''&V<W{jdQ&t8RlVVh#?QsBsA8h#DWx=NU6GO!kLYw(mY4}?DkUjOT}>k1d3u>~9BfJnF;*h0glFMM;o='',
      ''goLTp>zy+!7ofY9W|QdE&Pe*Av#c$edBX!9(Jka4He_jUh(T*5m92CRXebsn(Xp`fh1-~ct8R>w*`*9'',
      ''?iyI7kK#Z*pH}^@!Yo#qi#1;UvY<v7h+lN@K=Ae;)PwjY@uyC>a-q?TDTz78yA_GH8o?uvBAj&L^k#3'',
      ''fav^U${QR|LSp926XG!vMywN{;K#A0>c|(&K}n=TQtu4n(M%w*LBd}u*?#Mi7%ujzF^JEV9p@iuANw6'',
      ''A6p#O9~yv$4}cz>(|-vCTU}Z}#q;<uN`Q|@amZCX)$R#EO4(zNQW=SiFq@)mN(nRoIe*1ixt1A*1R@f'',
      ''@oVY4pOY<1yqmyKqz40tO8iV_Cf>_Md+S$)z6T_>yYxkGt5K{m3a@D^odqL~o(#(Yd@GUJ$(q&jXT$m'',
      ''hQ!m=4smRk%#om-Kqyt7(_vh!I7PSi)3mcO%!e{|m;M8`#xPC$v2EId1(Kc3&4w5<TGdH>N^Kk-~|=d'',
      ''(eF4sYDQAJ{MMRUE@ghe>RXUIC?~#LRWhQ@KA-VHP#KhSVy5&pB=t^QOWHUeVGh2u4*}hD+PvFcy#g-'',
      ''MW0=!!%0&H9zObRKZ33SPb0{$|@Jsy+L^5DOC&|PPx_oQEVG0Wl5&JV7Y0@v~8g|vEF}$3k}f_SZ46J'',
      ''b&>IyS6E(-`2Ls+Yw>Qk?6O+M!y&lz^w=J4;VrUJDbXF?O2h~|8pQm?`hcbCM;!hKE>>Bs0#8x#!kkS'',
      ''iMH9}8n_7>LU5d%MI2Zx$U`^K>)3U(ivxa&(?asXHO);%2%p51_nH0@5B{Q%8KE)~k?hIQAs->Z`%QR'',
      ''2Rq%O*1yyNeop9&$(0HhxMXwP^p0FAey4~*wXAfD(P6VgaO^5m!h>>;qdlqr00q;9eGebs<Wt@5(C(A'',
      (''O7XI&QKN@'' @ ''{rpyneySSO5EX5cQPLLtmd(G=h{BaI6f82VUTRqNHJ5K3O_7`+tFep+F-*M4BPL{J8%?cy''),
      ''(uNnXq@dp?t;KP@i*`44c<ijP^PR_G(2$5fU0U3^2CZZ*_HsAz@KE6dxpwS&J`P3=uIu1$y~~K%y)&P'',
      ''#{SW3LmQ$rkTo=hC-h$FdwsZ$5ppn!wd8Ume?r{ovizpN^ZP*6!nuNv&WYkj;AT5+<||%mZ!wdovbz)'',
      ''IYPRdoZQ!lP5aygx2QkYEck5(&>s+$4s?7BM+Q#U%1i=XmIPXM-d8N<nmH&?FoKHVXqr;%Z9;e-<6Wr'',
      ''<M-dlQb50~oQ(mh)(h539>skXi8ALQfww9*bsGVJClYHa5oV}=_>hH+?8NU7$fTc0z2tDd!sF0tgo6`'',
      ''#;{m`s7+<ghUTzu3-4-AY+}DDuxXa!2z|5}#u<CHQaDM@yM{7!Tu-6ZZamR&&G+)>X=soS^bT>_`dk!'',
      ''6=MN3V`>3)Ji2Xx4UBj?TxeR^cH0~9P>fh<>)%37QMyGAYC`=ZO^*J#uK!)6}|L%0<VlMdoy`{>T``='',
      ''h|9Q?5w&D5p+gl;F3p)$Y3yx<xuAs<MX~L`rOqflpS8!%Qk<O2@-R0~qjg~I*1%ywpN8wVY=%x5&z0b'',
      ''3)tdXfwXWr3;M6tG*A`72aHRjXGiMER6FKj?H<$ku^VVkTMc1&9KluFJ1ytulgKvG|0KUg0z;2JnVl!'',
      (''!`4C6!gx$M@3PGDWA4Sw%j?xC9)Nv->(ejkH6m~Ne%I@'' @ ''{r73cYbkz?81j6|R+}E8QqS^j%u6(&6=CI-''),
      ''HfHuSO^K?yY+rN|&=3S6<>AyeFk)$9bY-!=1r$W5CVDYt5+DhoGQk@RTH8HdjefWK;TH++|H@eVs`Lc'',
      ''AgPXscPNSsVG>~IR-i5jO1h@vwVqFm3K)aoYbsRzPmf0yX#$$&8Msx8{-mv5qB_J8b@_8<$T5#z60i`'',
      ''XGw_((VsoLzQu38W=vB92pbrvzC!OqXi7jT+uKIB`K~FouV8`jjY+z@ejmN6i@Z)z%})Kt0V-SK0NvU'',
      ''BZ6Dl47CE<~`+Ba*`&hSRpKvmJW^hRr0dZlJCCUqV#*HCLI9Y6}Oin<m(EVGeF$URibZ3Jr(+y>BGFD'',
      ''Vf8Y|}fVpihf)CKK`L{=zcnS2*P+@ppol^$Lk37Tjv>*V4Je5$Csp|1v}{p7{wY16;JGRwq~yJSK}7^'',
      ''^|YGg5s}+s<<D1s*J`icOe7>x)JncAf2f=v2HAVF9gEEHs2ciMtYxnX5j0jeH)M?-I*)O0>{&Pj(7DK'',
      ''0||NiczL0jdM`&(9H(B*_)=V!)nW#xdhZXHelPP9kK>56(jZ$=8wG5H2|>^irM!nsjkzzsu#?tr&rwi'',
      ''mQ}~!UcKe%F!5wG(%a3Fc9wQqtrE_)k=8dr*c!5DhKrt%UU}l!d`|65SH3921qst)RNqHbI9tv+l;6R'',
      ''6`^=a8(zZIZnnkP88?UWk)Omm3YR>67Fy`weOep{mC?lywc#b=`k9Wd81A3qTLJP@f6xchF+$3SiJq='',
      ''2D7z?Fy-&yX4_d!Fx3`l$&Mi4I}<4%VPR#WoBQIOQ9<+Z&FN_Uhxk{)K)<nuBU_Sl40mXwR*BEJMGR~'',
      ''sQ6KVpnG*dUjd2LBS22Cc>Surr*4a%l-lhdF3caEox2->oQIwcfq?O7TG^#M}4D^LFEf_gF`fceWoju'',
      ''Uod`%)%ue+_0f@FNwp$+lH@K)5YH2O`V+-wwa*VvD`k&lE#32hBQLLJEMmfs5hq=qg7ysMlx?7mg}d+'',
      ''uXokHwQbbyKAoyP+BF)q4W|8aMR+@ZLd!^b8B7WZ{vb3Iqks*}ti0140v=RXMG4Y>-2f)F)Lw^<&o5!'',
      ''6_ucbQDdqM>RjmMY4<vxCaWXj{CDEtNXyX$`19M6vHJ`;q&p~MTX_Y{QIe)R(xtPMK#<El{*jbv=8EZ'',
      ''>XyD92YygMrvC@Z>}KTW38fDK%h9O>@HB%|6D<}lG^+!s1|p$`$0F^0!U>g*=1bjIF}cJ8xxoliyi_#'',
      ''&U{i!P~d*$;FFcli}%L68aNiGsgIvFI<4Cm5+={<BHEN}@A|Gry2z$94~dh4N5J+4=A}KB4wVo}&s&O'',
      ''LISe9cj+s>NlxwC8_RV0vublAGFn3#%gC_th59ECb~UTbhC_=bjW-O`!QeIK;7C_<|IN!ESqSm`>8{P'',
      ''D1C1Pwb^&_VphT*ON48#fTd*uA3qD^0{qO84Z@u<l^#t-K#;=9{s|-mYmfP7lN5gbO;S*j!frCWdd%~'',
      ''_n4D11ojt$%`p130|3Z-<d_;yg`GwBN{By2mSP1M7V)Bm|$F6!r2|$NBa2g1#r(#;am?U^KLup}p*$9'',
      ''S;qk;V;?5XG<0I6_&Ud&?zEN+kFrMnU+&xHnHy<}KzU>ehdUQOho7=(WsL<GGf4<GFNIyD=R+AvnUU3'',
      (''#S<{#RNS2j#n>O#ML`;3Y5A(aPw{(>b7BsBHinIO{2-SzWhUn%~s=R$y4o@'' @ ''{MKSo=et~>Anj4U_S(gH''),
      ''j1{~CT%YsC<2|2R1rOAb{X2W50JI7K~ulDPSfc-6$s5+yBzDoF5$__lj*LwZm4dqtKO^!sc3x>o-Ptf'',
      ''spS}5>A9Ll)#eJ8Dvj5$0ajiwX{8D`!QEE!M(9McH4Ubj8CBh8Sc6MUYmXq~v?cyLvIW5mPC>hwO9~7'',
      '')0ZXWt+*1qSK`2kN1rOf0fD`3_5z|+<T-EFa&LurUwA}m!TyT7ojBmYwoD{bUNK!SFp`}#^fsLp0PN3'',
      ''T<cJ!hb2Z<_D4#27}j@FTkMkH3ua+Lr`F`5eZxoC(^{2&?Jfna&lh{G#FcxV}~qrcRO+YKeCAE?_TJb'',
      ''$OQuxL4Bgibw7^X@E+Da)BkK%(_z2bp>k_w!n-HWm2`Alq*_gWj72Cr%Ex6U(NJ{iKl@pl&}$%yvKDH'',
      ''+TyrcPj^NhvtA%Dq;7emD%`Rv@4xlpN5wm)?4@U)3uhyfpF3}sOJvG##IAg)Bb-Q-%wsV064&FG{NC}'',
      ''BS8N{U&A0l%`W%r)~0^{n>OX%PUJRs^DAN+tK3i&<w}*lfBZ{|MullQ=i08O&KMqaOL3k_g4m{UQz7N'',
      ''SRdb{S{_#|#uxqt=@U+{6l%D3q)Wa&C({!kgtJ|qcZC=`~-i}l;=;Uas`3fM_Y4L9~wO~HBE1`R?p`S'',
      ''EMdmfQg-hLJkw$1e;n3$U6GOT4i??0vrI)5hpYlvU$-MHM@U#CNRukEDf+3glyM+{GK%MC!=iPQJ=UJ'',
      ''g;F`akjQKbH})sdV8Dz~%7M#M9$k2VA+!%XfF>u7+=LEO`|!v<W!3+EyEY>3k4Ku&b*}0@4>GHNRMBl'',
      ''?&{f^p6~P-11xXtINd@+d2KAQpc(YTS5d;7<>E+FspWU)!Q(OrQ2oht%fC*N4vXfGF>f!hA+L<y6{q~'',
      ''$eV8^pv-r7AtV@KbH6CAldCitnLzz=-;|B|EDM+uyg>w_r~xiv-HTM^@X;ZKB}N&^p(-Gb6_Sxd3#(l'',
      ''@<J+kO>?SR<i%fYR(2WO<Oq`Ayz0v-IQc^<j5FFL2-{UA5-zImJU=ONB`D{F9DVcl{7D~!Zrf9&2P6w'',
      ''6>*8T`Wl38bqT_9V6sJt)g?R;sHsSBNX$;$JfQgP2AAa3TDCLXJ0Cvs5>6=B|n*mT~mj*?qcK;tOsal'',
      ''S1p+l4#ch2*#3aI5?Gt~uFSom9Ci^T~9{1O{Pw7431OB6@#tO!1?_fRK#yZXMkwIk{<q);ditDM}Ul3'',
      ''slRj8JF<&E!MYmy>ONzaHapoQD@y}rH>NgI+zG^$wer(@1Cnq#75`r2eu<!`LV(awy^|5SHB|5(%(P3'',
      ''SCeH^T;WcGIeD7T=9EDf!`x%=8{`-Trw!9)YG<poc--pC(mD_O1$PjAPs*}OHz=H7=#r17Y~u&WY0oG'',
      ''u(Uu)D!Zs;jZjfNe{1;8dh^cgMo?3|?6EmD7u~nk=<EQ=TNdxwszYH#67MDRMLz?di$45Bkx|;qm@3t'',
      ''C#q{{l1sq$rfD#%v^@UN4%oV2l))4^b{tbzKmVjwga!iwP!T+^SkUD{Xs)kQCL20x!C9y+YhKCoMc6M'',
      ''o5^>Iuev2ARnAM%J&t5=UxqzTeo>Z|upQwO`;+Ehzc?0_;gMjIYX_Br?Z)(2zJuQ*r*+bg0hCc!ti4V'',
      ''k|DP&4`4?f_`?E7dZ-VbgM~KYs_>Q3`Pn$Qw}zuLA?_%gDtyneZ@;v%Gu?_%dp+WVxg)t+uCnI&9LMt'',
      ''OmdD&cy4LCv5HEpQw$o23ZRZXtZ#2DJ|k3dhC|qBUWZlQUY<zXa^C0)xzZA4{Y8&L{`rp*g#ST8@2ad'',
      ''zF%AbgGLL~N32ry0^Hy-Ixm?%x1_|_`&EbLooCKRZRfx0!t*~<$WhK;~wZ%X}+Ri`CZqP2QE~y6}fe3'',
      ''M2%x6+2k2?w+Q{qx+<wB=#U>b6H0W(6t&pI0u$5Ad=mZdFpM{MV_<ZY!ZWEk7LE@0iw(s&LO;&bBH&?'',
      ''EC6_DlMpfTKM=P(2~PGDHYoxIoL>%MEcaqphzmDc_-EB#l{#*g5|yc3{RH72-3dbJ9X*?xq<o^}Fb&S'',
      '';5&;I7~68W}A=~Tc7Nb3hpGkysA}r*yw^-gSuP1kR8j}s^E|rODyNJTSz`J`AZ(;^rOj}W&TxKG>bV0'',
      ''gYO#g7Ko33tZbnR=Ph)b;o%Vb!iM;#TP9IrgIga~5f9itf#Do6=17`LII*7t%S_-HHxz!b@D84?$6wm'',
      '')lkZiee2#;L%j@eHCn@1W)7yDr?0DbFK)=9oeQ-iVt2b80!Y$pv5|{oI?_-R$F#0y1V-NAh;_6_i#RI'',
      ''o3no@gHj``Jr)w)OF$3|K(WR?0Xb!m)^+ZJ1+EWV0#giymnZl68%X(qK?>?6^t*{aXn>BEnu*qVj|li'',
      ''50#>hpv%LG(HjU{C{#tyHI-IYfb<2M`8+I66=h*b*|LV%`hQqxiuMkMdkv87b8|=lr&Q4Rd|R@Ye8Hu'',
      ''v@^Hl<U`A2jjTe+g8tcfH`LY!+;LchLC9n+CEjP>N*DHZ-)3#ALn30S85^(Kl7Jz6B6~X3922;QXp1U'',
      ''3-BZRA602-IviH6wX5Sse#<Y)U-h;qZ<BH~U*eQPu<=2qGEt_+#MX%AR-qC<F}Y0{ZKz(7gho#4%6~^'',
      ''oY0#k=9`m9cd6}NWa4@<0MfM3<9JQqd)E}?X+>b;BtnfN7ZgV<vMqv~lU*;?i^0h<h{e5(klo^`l>~q'',
      ''^!udIVxEu(|7mTpFMa-G8Z2MP5S8)nE<v#`M;Cx#~|gO7{iTIJ`G#25;ArAKijIh|21jic_*UDQ)B!%'',
      ''lGvD6?vVSejE00YwD~shc)UT-=UmGkEn1D*qgv!+%<w;PgMkdPc%8%u9;bD(LEFQaMn1HkiH-hr*Jd-'',
      '';u8*r3qrmIVxtg1iP##&!2Nw8btOznhO{T$=D-`k_kNQu9zvvFool6nALbQ9WRB^bjaNgpx(5kFcf)X'',
      ''7TZwJ(>TzqX{X3xPHLI48Q(TRgl?HRCw`4?6O6H&A{$YvVLbeXaZQ$#`CH_9>2$-?q9Sbjwic_Aadnk'',
      ''l_|5!7?v+!)uzxqba^JK#cn5V0V{r&Oaffvlr&h>|oBJ^@UhRWo)y|Dm>zGQdDosaj{~$uSWSdHkU$&'',
      ''}dyH~1bHVta}u*f5v`~_EsnK%vOQQV(b_E(h)sETx?+$f;8S#Lu!`a_&>m-k~`#Vb>Ju!_U9Q`A$omh'',
      ''#_x=;)UB<HVa|U(0|NdeL;DM4Q-V<Q|bc0m7M`pTl(H?t;Ps?Ca4+G=xd3(Vg)2Vm6K@>7*$6_BU`?<'',
      ''bl;J^&FGV$`lztu`_)-r~2R()%gv!qBCLF?+ZqibwAnHmX@C%zymW^Y``}s*acf+mRQw0*n&w=L|4wn'',
      ''Ax|fJPz{8vG()Jz>MmGr-hue{tK9|(Y>(chiGV8=9d#**)xS(x1E1S+`K8sMeRAbbv+9R)g4MDp)Y%i'',
      ''0E(0WktOy%n|K{cHk?m@!R^KGk0*shf#ZvzW_r}~#2M>dy{u3+whQDvx8=zcS<^laM#hble0|o>75ea'',
      ''2e=nLNj)=?u_UTeP|$D@4aMfm4YaofSD{-*yh*C@tU1N_qKa2-iFkm1c^l)+I}j!9^o(feaQmtcQYPR'',
      ''*la$4=Z>w(@x+prG)N+-MB)+VFY|%W=H*(zYiSRV|K*L3<)0WbECYP--itp~D1txbqGOrA`HN;c<tqC'',
      ''N4QQKz)dX934OdlY>PP43U31R`Kt(iu2u_IvTXj4Va8;)DtRp9Z?6Q6dwL^R?Mm>;7t6jQAS{P@L(17'',
      ''%&bDagCf!J`RX0Q-}&54Mt_BUH5bC~-YbyWad+9+GjW91WSRACbvkIS63F2=G=kigrDSh&>gtv8N8Z4'',
      ''p@>vevjMvHOeD~;z1NM~Z2FwfUUF2uYDiSvjPaGbIi58{bft_N3GqI|PA#&vF0`ahUz+jLFugwonK$('',
      ''~JVe$Por?c)bU3Eu5*)sE-4Mz@T)Wovor1ff8P>_7+x`q`>!9~<-e|H?EV^z!!cA{$f*WXWo+WFSEfq'',
      ''0fwJQc{qd){1O*q1n(6r*Ik#cCOTJ!}LhP{_AaI-zVP9cl9*5?r0=4$sZduD5V3s(2ZNl39+E2>|;9Q'',
      ''+OB~UJ(5o$m>zSWGfX`uy`G9()*u{|KI&R4HF+~uN!z~t<(qj8`F>$@sH;2>-krF!A^2wz111F-(c9N'']"

lemma DATA_10_scan: "scans 0 DATA_10 = Some 0"
  unfolding DATA_10_def by (simp only: scan_rules cong: option.case_cong_weak if_weak_cong)

end
