(* ===== verification/Get_Pip_Data_6.thy ===== *)
theory Get_Pip_Data_6
  imports Get_Pip_Scan
begin

text \<open>
  Lines 1702 to 2001 of \<open>roles/bootstrap-os/files/get-pip.py\<close>: the lines of its constant \<open>DATA\<close> as they
  stand there, and that each part of it is a text of whole hunks that decode.
\<close>

definition DATA_11 :: "string list" where
  "DATA_11 =
     [''Rq&i>@9Z1LRHu>6OpLfcJ;T6M=p<3zndoE5@JhuQahz$&^dc?MJZ4|N;P|C{T_bCl2%!yNiV@JE2LFS'',
      ''Z>pD57T-(s+qJ%wXSSC}xEF#8620kptvq`SDAF^js-!XE80loU1BX)n0DaWyAF}$Mmy7_E^2C>xeho+'',
      ''MYg|R8FDWuKwrm7N7@&c$~J{CwAXxXo@T%6^8s}=}Wo){3_Yt5#f4q$b0Yb$W}rH6KcAkow1%x025X7'',
      ''$y<#RaAshuuE&wKE6$%TV|+?Awde*oGMx&hotwc#WQf^h8`jH{z8A^;9;oC(bUAHBW7DAJKLFDYB5N%'',
      ''k+P@6}><&Q9F0De(MgNkfh(4y<na@=~9?6?FELkz&UBP1^^}4#=QNmWoNTFX?xey)}#s>PaqKzm*Bj#'',
      ''l2Is8>`(<HqU83XIkvfff5~oP-A7U~ZL7x2Vv+W2AKx7y;W)0N(61lMgfv1NlC5fSA_3TmXQjl9!ebe'',
      ''VYm1^I+Kd3)JbiJJ)>p-72MYTpP6R-*G>`)feR7tRS$)^DDm2TJP12Y`xjlTL+N<JmT({Ug8Gug*D#n'',
      ''x3ryj#;3hufS4a2CGmN*uXejGX`MChGPUylJQrL}L^2@QG;OH)n)g2>0uy$dsuZ_;7G2P`<1l)Up&+c'',
      ''DIn>iN3xaDQRC^tax#X|nC=`ltxLo#p7Da51=mFK3SFk#I(r`?221#veAF%kjw01mx>Kcm`SnSSn*Sw'',
      ''vcVCJLqD>KPhjTzN=ts8ev%JTNnwfs?O`zAi|`yHlJ2KG(K-e-KSMIj-HO-zpDQ+r`zTVR!sKkaa{Fj'',
      ''>gQd3V1w9&#*pDNd{pg**Z$;%rVjM=)hl(-_q2+7IuP_`sGIQCPx$4YWiNye-48;B=YbpbDvr2=g}<3'',
      ''OL0V8h)+{7!*FabxZ>C->Z|yiF@c*{9_GIlzbU7~0lW}yFj)4zV@Cb<zcFAl4Ll}{&q`j`;;Z`T^#1i'',
      ''r;b!}}x+}{%v%QZ1EpjhoFE}WSB8^pg=nNnF%$k@`2yR8Nmf~CXq(YC8#u*rl%>}5!ZH)-zPg^umqyU'',
      ''Hn&MReQZg6G?1HX4Cce11pRV}pwtJ2IknV@o9NrBd2<FWvb}RXt0QQqUUyp<;2O_X@Pyvh+1~YxLq_G'',
      ''y0Ylc1(@ExG4qL=!bX_fXaniQTt!&JME9(bHY%GwuWZ^^-gr6d<zK#K2Z;(1mA8GjwMKI?5WC}$NIv$'',
      ''eT$a+2G3ZPi0Cp1-2&kr@$z!z5rG;6r^OKg+@A+}jn4>Xc+-2kER#F6WPkwC$nBh#hnI=e4lNQ*P{&A'',
      ''}yilcLMe+`r80`%0j?VzCg3FYX2AY2W->T3pg~_L7C4mD}l{y`dp-GCYkl&fgYWZGJ$O)^14TFP<Fo4'',
      ''h#M2#9;$Rc5Pfe@lp+;(~+nBo!ao|Nc0d7Gu<k-csEvI_d3*0wHSfTE*CPW*+<FPMYy1iOFwEbsSGE#'',
      ''T)VCF^bQaPjF!)sHEm=~k~^Y(+m7(09;FD<Uwv!;;#m-bBAb>}fwl&IXcvvu$YVks{p=jd4HCJMQ~r<'',
      ''e(~uKz0&*GeaJ9T;35U?Au#QPxocr!lkT}vx_lOY~I_KDd1gQP(`vma@GAd&yOq)XzQF?n*0nj{H(v='',
      ''a7~3F&798D$r*N(DEUK~-ekqBa$*6_S;(%782SKZ$dX4{33C7VPWy{pl*L5#2gzPmgIYZpp&nhMsBH^'',
      ''mtYDJ+7rI|*i5D@KL|rsRC3RPHp(cbugzE$zB$MelbvXrFer!s#-&P>v<|q;e5kqyI@>EPHk|E;}D|r'',
      ''eNB+Y(wt{vDKJ1;h0bnbaKMg@YNyzJaVx4%n=2|G1qm5I5dpy;8BhfgdXPH09`IXw(_Q4JxY`TKKd!`'',
      ''iv25joWzr4@z&=F_pA&(831e5T@?LSnICN!m6+;J608Ku40{V+@ap!JM_Qujw7B!^g!TO>0^<m>1r#3'',
      ''tO(pZWS;KVQawGYTx?NmhVp1Q&g+FNPdwTOW>BTR$eXFBYFWJaA{qVxhm?ZYYxj=lS>H$oFCFo;E-pO'',
      ''pezkCum%bjvM&G~-~c$&zb$`%`4d)tp|yXmUE-VrLxO2XR9d+3zqO~rmTyo*HlCz35Yis7ARb#zU|Az'',
      ''$s0sxEVRlH`S8tgQ;B%YBJR+w^U+OTaX20j<0ncBq#7zic$LdPr+yzYw1Vngp<p;@6xePR53SzZO!4i'',
      ''xDSeR4gcUyMP0xYd1BI<K(?Gc>#l2vd7AqEkBB^Gm*R>NeP9)h_2=`hJJ#g$W8f1dmu+N2VUk7$UmH>'',
      ''1C77;$Mx0nIxf;aSJBVxehm0PT$NoO>9bomb<ex>^@^VfS_CW8R5N{5Slzrnhy+8H0FtiC70h?ZE|kW'',
      ''Dx!;P|hoTsbp612pvxXhk^by%ZAsQL8985k{)FFS*y*Wisf?Ub&7gHN#VLidId_})eSi#gRl1KR!KLN'',
      ''QQyih#&{G3qq&5&guPWN6gy*3b|CHP!d?g}S{fdMngmn#_cRaZnC%sP^gshcN!7U51GRw6je4`0pAAA'',
      ''4{7KXmdT5<}BW#n28ZmKqr5s8H_11!^5D#B_>XtlTi$V1Y9Sg~|Mb$*@OI5L;sOhqy5D8;<(cD58`X|'',
      ''}n5>^L@<6fpYov1-Ssj{_5+3M{WB>XBnHa?|7)XT_(qKHY%CQcM=v=-p7DEv4Srl#+iAym8{3qR;Pj1'',
      ''=n$TuYX!(w}C@m}9E2&XvUHn^D3}Mm>_K&h?MJ#Wt(!s!>gs9MIjU3fX*5!?Nq!VOf<I=Z<tws6M3dw'',
      ''RM-exkUHuZY}DL>IU<NyUBSmwr;JvDjG3?;O$mZ5z7p!DNv%?#>N34cnm#G#d>}O!%dBMp$m_k!m!TC'',
      ''=IK0uXF_yEd3-lr04k(qd(L!wIk_R5>)CiS23aAUf2Tup2^*I%LJoM(9o^-1@=1BjMXt-7pqEZlxQh)'',
      ''7*8BgzyQlwd+eY$t{}n9Vu1JfP<D}Pi-8gxU<8JfLP14xeYbz;!v`yJ+BvKWn#H#K7?T7gS1|;Q=w0p'',
      ''OA+4r`x1PlfPU@+e(@bE<Jw;P%{Jit$s7C8(aQ;8tz9<M8<;AD=83iL~N=s!I0YeF$Up2OU>ZEqS%*H'',
      ''n*4wq?W_8fJvJnwtUtz!U3W{o3BF`(o?qjJT!|ZRp5AmY}9j9DslBPy$XgOe!H#K9&4zkY*$so`t0JH'',
      ''NB3OOT#@T%+~cXmp-PD2DD|v^(XM+%@qeU8LdeR4J<D##-u=*4_L*VCe{y>VAT}Vt+&PYHvA=VQ}S&C'',
      ''VR_f#@KF$UzbO0Q(2$<XM4Dz4t3H*bVc~j6p~W=o&|r6g-c(z;a+;k3$zCdS5dvgB*2nYV2vrGpVJ!)'',
      ''Wz42JnhFCQmxdh1qo^eltUm;2qGy(@(OI-e&mNhQDj0p7NCHi%Y!~;?q1fNjyS)(wPrR8u$IR__3ahh'',
      ''tm%*8HMLQ&Zf4?GWqHHm!H`YAMl;1&Q(Are7wh+-UO9To!`#=W4pe+l72*Vjoc8ZEKmXlQ^nBA9QSV8'',
      ''0BMbTxCLmmbML4G4(M99%u@FA?Vk3_eb$@4?9dPWgEbS%oO)2y7z)fshIRwXS(*pH6B?gjga3QYj$`('',
      ''j05R07`{0LLYR=nI_D@$7e&~ZEhr!2nl4}>Gf`&-)I1q+_I`t;@-ljH_ruvgbi@B7`>f$3;d4-{^{@x'',
      ''GBO}@*eIkCc|0V>lH|pPy`^Fk1wsOKTL8`B?^4KxtQoZ`R5p-pX2pH;)2x`fa?Plx!z?*t_xr;i_NfL'',
      ''%FiX!|hUGN<h+p7v6hn+swuTJxCV@NxDmEHa)|)+x!Ld2vl87s_vwk<XH9@_g4RA07GtAWGYo@uIiG<'',
      ''z5E{8YMUMY&p3BdZ#=1y@)<C|ry$KYv%sMa}p5J7vy0DtmXf+m1WspC6Xot`65rN|e>Y0I9rGn6-eXi'',
      ''rNg&zh=gfbCw&Cb{;i+JK9doSwUvsI!oZG-u9&+vbDRnsT@Sb#zpdVFe0La9hdYfCIrrxj%v;DEJ%pW'',
      ''}k!xnyPs#-|N!ZTaOoR+-WhcMf4k@929WfHrttG=I9&VzpNZAH=ok8P2oPQyc*}tG=cPEN<08%T9cg;'',
      ''x{=0!7PNCku(J}jw!yJ*!3`QPXD!=cmQiu?12Rk_BC$Dki36*|>J76kSNkH%Pjz?uS(~zSn`+>^3rW%'',
      ''zN83CKkA#{>$OA&_$8CFXbwl%gXvJ=!*_IL`FrkUdU$~jUyvpvZQyFnfe`7%R8*~a_rwVMN1r4OxnGS'',
      ''u&eI%0WgXB(Q#|<EBB<kPX2*}g-NnTxUH5bofWINCeGSAP*d5T8$png}(^HZ}S7i<x2mA3XE_G6pLj#'',
      ''r7s?0UntU3I|$+B?8{gN2yPsn3gi9o@B^$_-daYeTG-dScNFOVco$2+YH`_y;gNEW=oFj_x3?Lf45oT'',
      ''1b3(Ma>WyEj$G!Q#IxZHO2*`r>7;y0f1{BfOt$n8=wsIoYtJq3>CVdXn=;&WyhJ>0A;m*hCYGYdz*H;'',
      ''uZ`V3&$w<wCFRc=&z@0D3b^%$+CGQu)^f((%g2X1&z@YPfz$xZro#Wyh2?F)JZjg5&6UCNAtv@PJvO('',
      ''9CnVwgiaT*Q<Zs@#rw{=K5rvNImK#MO(gXkIcFY0m8A}WRxfG}otCTjG53z;@1|p>p6onzB{BVR<d9z'',
      ''%>?ay@ZW<;R@__JYw5SVv>+ao{&5dWo{+9uq5&+LZ4HaCA&8}A`=r44+*TkpXArJJipwhO_RE*1E;iD'',
      ''|yVTIlI(3U5T8R=`H^1kB~#{`y+y^Y*)^QTzuyDVtrGZL|F_xOr*e+;=z4(HHpNlL~HzAm!9R?mc+gz'',
      (''4)o$eX#!bbbYY1{$0Nv-VAk~4^Pggk%V`2MilNpZS@'' @ ''{pwBls*t2lNezB-xJM>K<decxfan_K<l8w5>)''),
      ''4ukbbcNJ7;>b?<7u86#7w7^=>KuuIaQ1#z7^XRvP!kbWZ#bW+31bMUb_T`J+SI_qhCUAbyYG4qdgQJm'',
      ''ayTGh)9gmCp)%2cb&&=t6pGhQ)_?N>jHnvr9!*^k=TyU6Y@c0Kdq>)uc@<1VWr3aOOFb~pkak>a?Axw'',
      ''-HpF&sb*O@ly+pJ@=u#Fw)7=vnHE&w31i!>yC=vgtH79TBVEz#saQs@+DJPBIee#?W&N;cjro&%V13}'',
      ''NH;4f=*pKMBGIn-3p-`5#|>{mtLQrnc$&@2+ind}4r~oezI~KN{!7<hN-#n}7ItvG{#i-_MVr_sxAjK'',
      ''MLJd=ih<0B)egLqoO3&xtVZj-L&q$<sQRQ#P1Xe^$28pZ=kRY)+MROvn=V?>h7gCIsgX@@a8%8UF;T='',
      ''9Zmn3v#ak^A%o&UYTehMU?K|(BB>(PTL-nZ=gD>o)OmKX99*k+(F&s8#ly`6)K~)$Rjbx#E!QUwJb5r'',
      ''OENOMsmO%x(M}f7A&;@4D1J5*jzh}ea;b=HpcpwyR#mUUvOgCWn0I+-T<xSXm)TRB6ivL2qdFgTS0dr'',
      ''YNjmHe?G&n^Xw#*I$#xy(W_~ct~463dDWg$VQY*@?}rXO_QS^vcxm!r=;Fd{Y_$u4u6!elF$h#gotCn'',
      ''l9lB2W;5R*TG>%(qWs<?qEKgj^RS(S$yki>bZICST9oYfFfWiI(w-3{g1r20j5~pNEoEMAxn1ULD|U;'',
      ''tKc8sj5o3jh%tKmz~*eF^ck<R809MoG!suKQCK?G<7j(*yv?&VM>W{n~1>Kik_5=<_K>&u+j}Y&b0uP'',
      ''%yGtYf;l7wmVQW;ffwOV&?tuZgG%Ma=JXN^G4#S<aj{dIQ~AXyn9FldMzm-V_1N_e(r5&q%>vv+K!{>'',
      ''5@+R_?U|?FfOjY*$TJ!53QW9(+GCfWUMu$13eRBND{-sgs@)Eq;v>hJ%;&bKKC)ZJY?UR2M10G;HkoF'',
      ''MiiWaMi6kVP$DVeJhZ6N(L)gTvUR)7ZwcCVR6l$%9|;3%WR;rA2|6<L^ZECe2#!~7#uN%kXF9DO|-9A'',
      ''!zHKClI$xH54DuoRbc-Lm@P7hZOk1seFErh?R4)6g*hLiM9mUww7Z&qUf<5R0Bn;Bz1`x01NGzS(EhT'',
      ''h;iu%k-%{2HHbiH4InGq^e4HgW1fw$z5C@)a<~h5y<mlOiqiB`Cotw6%$;F3;uj7E>$C|!A7c@YNVd;'',
      ''y?(Q|yK}hroMI({Jo_m6Hy_GIJD%MPOJ-$FZ%u|(>wVz76fth*Svj+XGpc!J-W@>pE^`x|VPOG7IHM|'',
      ''=sYRNfS6G^2?~dVpmzrx^#aRvW6C;I!rFmYabpKW<X$S@45GF7lXOhF1mXfc@nA_AmW$T*NiaV69)-2'',
      ''7b@3B%2->%KluHO%|MpVF)QNbh3uREr-l{tmroiPaKC_1|MMQit95kVHrFXv-;aDkUA+T-!70UF+^el'',
      ''C33!M~%1t9#XmF6q<=KWw(Aj?wJgs3>Q?C&F6Oa|l5i4S&zz9U!_OXn|n1s0bAE*-(`)gf{plG2zvHx'',
      ''Ye)uiU-|CeTXaxsU+{qVmCEcTv&J3+Kn~<U3PE;L>iS{uv>(6A3U!bb-KZie!mS^S^ehyw|vogBi2fe'',
      ''!OkQSarhoYp&h1YWi(6A40ld~i}A?qv==!>uSt3xvo6x#pd@E5_C8P_(6Nx7`Nm9gfu;BZ)}wRrOF9#'',
      ''u25$_xF|cw<$)Z;F2l~@||DW07Bgl_31siY$VhhZt!DL;9s$P>YUqB8b=YgSRARSH4(=x&TKwxn@JX+'',
      ''s!M)t@NO#!fvt{jhk)VCiS#_n(l!atz0Ss<_(S<As=)XfR;C^Y}Yzk9W<i9S)~5@oA^o}e~JYztV2eH'',
      ''=GKc7}+JFp&_uE_yTib#nq6<Zd-gZEv?WTCs=Ildx&^oTX;pw0g61JSAo%`oW1)G+a}Zi>2zL1>CS;z'',
      ''ukMa>J}u0*Z<U7R&n$tlUvsDmTmCwvk}lxK}3{v%A<Wl#tlVBFkC_V6`$z*sfHEVvfH5z%0brP!iTrQ'',
      ''Bn%AJv*B!%!Cs)KzgU@WAAeCk0i}q>uVE@5>jcS9|Kz|M4I|4$XE->6^>AwViSIG)o7kqJ4!_SJ6hYk'',
      '';O@5+#-41w20qF8;LX;<aO$EZ_Z3$+<?x%kNazA|<ZX9rrsKNDYQ`$*qOxD(*N-Lb`Ml`X0su_?A#8w'',
      ''RpEciLy)<%bv+*hTiu<EM_bbSr>Hu+N4)JXRbn_|BA5WXhW&LA>aV5B$u_{?D57^&Dfj8H6nNk_**AX'',
      ''KN@dz=T#;IZ0|n6o+1xwjr4K7YcfK7Rh<pHHq`JUSHlsAI~A7!?HGE(ar;#e^a!Y}i)W;iB#fn~ZO@6'',
      ''C)=MA!gt8E^FPPCcE+lz9;#^imzb2Eh$0ANDjlZd^?=ND@9@KM}JE&x|CMO*fd$QwY6(o^gQ8$_IYJW'',
      ''){2=1uNOuq$Q65LUCe9|gPKEVZS69|@)(A>>>Bm47-v(6&O|)TcZBHmwMNp$?ZcSs<oTS<C+H_3xKR*'',
      ''=dAYeokPSEsI!^GXhg&p2B9w3v4y1EcSBjSs|G>Z`b1VnL3l$L})!{j-3+y)Vy1c*<;Jk9mr3(QEc}c'',
      ''a-#0IdTv~TGt|9vr_s76V|7~qb?iCza0B3h8;7i;W0oMXwi+{cZI5suet6CW0AG;`5#jttp_AvqUy5Z'',
      ''EeKF_p8WU(=}^h|bQ-pO5~zv;TJQnj`(#XeRBIC=Oi7?Px#);>h7!(PDl1%eG)P)`6;OC2N23V>f!Ad'',
      ''?5ABe88MQ_@!@6nUj>vB_yBtmCjNYYLe6nAp)SL*hyQF?PmAMvci%&d7<sIvIvmwC$MYzT@J6$wu2>v'',
      ''Cm#;I-Y0<i(B5{w50VZsC`W^jP|#VV>NMg>g1?MFPy>9^zsQoihHm1JjXg8PBwblH?QKqgiPRlP5x#h'',
      ''C=%G}5P_|nwcMW1dAwIqdr=w)kgd8Hr?XQU?x_3WwjP3ovWr0Cmc2Az24hMtb2?X98a~`HW!RV3kcqQ'',
      ''y0;-<Bef_;D-plW<kGP?s?xMftsf%*fTAk1zx=_)e8+NA@$6<88o$Fe*tE5&4|EYT)$v?~!3hPwQ9XM'',
      ''gXzLrr!0{>_Vje1BM54t%ZUC7XaFe1d}BcPb|PSnY9S#Eoq$dbgsM;bl|*ySNqCL$5uHzPNeK;@AiND'',
      ''%Epfjle8a*z&jb^%Yo(_gr2#)sL*44^4~d$@!uK%7?TjUu7`IxNdjFf(LB6FcZoKGjucJ?X#W&afX<b'',
      ''*Wrq@*6W~aSDF<86Ok3CAU8(dA@K^FNQ34?IU%t5r~-<n8QM$pnFM5x3pl`OIXtn2G$rVqjHC)AtrWy'',
      ''CNv#{ck0DA7dSy_L(;}<rhXMTTXi_{vA;zoqEx|y*a7<Kv7S%5*CbW0*`S>uKjtvS(<9$PM+=B_puB7'',
      ''S32?bbrY!7B5wMEbdDFJgDDWQZ+>Dvl_gAHJp&D9q|uPf&2QQ7Jb^iB<W#W}X33JFdy&jm1glqmF4CI'',
      ''`^sW8qu67{dxQXy!IGJ8@;j9|d5REq!9>!Ex>9<6}qx7*Jy#2NpzDHv-mQ8P`mAGYKAINcf}JAHiQB8'',
      ''3(fbDM-vL5vEOPdYe|25fBO{g&9bJI#P)$^lH~~y%Oom|6I7&?xn}Hq+GA&aLxfi^H3Yh?wz`xB$%<b'',
      ''R6)RJM^a$QBd^+pQGJ2^5pj2nGh8v|NyT_LGlR$K^a6kNnE@=S9Ui$A<lg6)GhMnQR*xrZh|`-P65G2'',
      ''4WGo<+f?G@0hjbr~O|oq53KBCX7~KS2+Jp^Tps{K#(DFInJSq{7c$kv=n3Z5j!KA`PCMo293Y>Nj;p?'',
      ''n%+}--pD;9{I!OH)rCMLRLjODCw=jP16&_(`mnKXvd50;~gLShei6t^935aG)*h^gbuKBEYINs{_+3Z'',
      ''RE*ros?oX#tzDS|Dmw1v{Fb$RV#vs~RLLhkP60x}#K=p@nV@1y^)v`ga(Xo1H#eM0P8*10kXfJX61^7'',
      ''&InUJ!MWK(69>L;@$j^=3Q}xKvn+ku4ua+wHeSXmX)!+1*i615pnHqqTi!WU%*X0$F|*)KB?+9VEwO-'',
      ''{~bZ!Ese5v94(iY6G$Rpv}r^QlKz6|VN97(;L3u(AI0hrBJq|V7QBq^by`-z{ppNe`){QF;IO152{a`'',
      ''%?eR)Tl}J`%Vqa2)nRn;5GsW|1yz4fg<{i!|5q6_Cquu|O75!VB-v&%?Ilm77zw-Rv2bHB5{H15uj-n'',
      ''5m#_`k7@QtAV_s(#$vwis>EbL}WrPv{65D2&-7_0mdmL?CGmbwP8kOqnwMQRnVnmC`5uB4-t!~lT&u8'',
      ''j#$?@uQ8+Ua@QzM5||f8P!5!tYyQ^mMEHF6`yKX|LD6GJl0(4FBo%E_4zAf7glQwXjvoTkwL2Pm4KJ='',
      ''tfT}h&<)llEK3k4&G9Ow_3Lh-U@FXoMV*j;J-Cby9Gmk%G~kur{Eo%F%{|_UZgWI>JU>}p&-Q27N?n='',
      ''g>rtj=IASJa9gv%hs+0<;02zqY`PsrA$$1D=NKy@=QDUJ3B_vl==XLL)VqYja$FZk!G3&sgYV7S>0Eu'',
      ''@$Y6*~40dS0r~199v&6R<TxgQ~0TX|1h&Cl=E99IeWJZj?_3b~6wg@#4QIJ2}eW3XM1JUx-RXjAjOAL'',
      ''@R6*1lIkg%*;UsP|?*FnnD1WjI2y+i_BZxQ$O!i(yI(|q?&rp1ThDF@th?P;8wxX+RXla~U6)|``cGK'',
      ''0!l;0RQ&a=FS=0`xeWeay04;VmG&QqeX^p8bP%7H`?lw0r4DcI{Qm;j9;JNI-`UsQ;Yar>vVfSJJ6%7'',
      ''>Rd2FXkh9sl@Dy8M$)-SMF;;HG;rLILT4vp6T}34DL!U8eS)EC$Nsuv02$6sIq!u#H3P6>3=nKu4G+I'',
      ''%u6tlj90Vx`<EIMu9JvjZ>?q_S#F5pr#5mFlj$e;F5V?<=xb*SlLheuwo&dxR<O-67^<Fpqli%3?;Hm'',
      ''Wr&ZPjypH&?s*E9ftzH{>;LG!XiVkwakyHypu{jKm;gQJ#08x2V1OZ=C-{yyOh68=zZ<WDiK1N`XTgH'',
      ''j7e<(=pJ2{y!ht9|$F9h>8;oA1&@1O5|xAS)Y@aVt3e{r~XwEO+en}b9$?&{Kd_212z&hq?F1EA$%za'',
      ''j(WThr~={`C3$Yi7|rgMZnY2X|WZKO}QeHf!5`#as3M+voqzhH0ST|2u-*QR}L)R2wE^^*v#-bQuU4e'',
      ''bE7<uv`Jpnqm45`(3ms)^Dxl+pUN$AEcmNVb?2*nHQNTi?`&3hI@=y9c1|^)l%<9orOnhPM?j6llRdv'',
      ''{QrT``{+sI3wp@`S{y*+xBSsu;;2cMuL@VxpArXfurjH}Z(;Qnicxbi61IgPvKc>oVqNV)S<I)H{(pL'',
      ''F-O>8=d>PiEP07SqaFko4kmcX0Wk5Mr>>sizctlYeO-s&>km7#jpgTy+#K3%v;v1(qgz{@rQQW;AJhD'',
      ''=j#Sl{FUg+hl70p49I4g?mtM!1g2w9$kB$Y~#ox(e=O$Vr26r&8QZ=q#`3PX_}kd{pjtD{V|C@4qS8y'',
      ''-da`4n7D<ZS*{9*&`qP0X`Jh{b?hUFi6ByTYfCSHIQnj2#M&)Tptn4S9-YA|(|}*}e34%XK}W^5i@_d'',
      ''H*`grbP9o0`;Td$u^Z5jJNpg*`Li+cMGUtiYb>#=^2gq$IrGk`Mc|z_2d+8`Q+w?@Nan@2}TJS?I=4-'',
      ''N1_H)+)X!yKtc4{B!h=m^4W9|s>iO8L<jTZB^0^~32vE~`cYoBke;_+ILoI~&X1cX^EMy;^{Z{hj5K?'',
      ''|OOHA{u1??kv9diLR?Cv!GR-`g^K`VyQc-kLOr*Bz%YE<^SgFLTa^kAAP{qrzH-qSN`&1y`{V!fV-+O'',
      ''uJ3a^-JYDrNUf8S8=*L!<!f=bzzS|4{Dsngrakd2*WO`SY|f2s<(W45hIbqsNsyxgzKUaNm-BYXYEsk'',
      ''UdDv;!sa(Nx7D&<Mjv0aGk!s!hVgJ<$J?SkUP8w(^uVm!UB|?f&uP62f$4h0><JIUa(z##J+>VYm0-;'',
      ''^e`)`Tx_e;QzjXj|2EPppS#T*~d`0vZ-gf32lxC(DQ3({WY{+N%O@k&Rj4bcU|g*m$<MjnQIG55z$2n'',
      ''ZTIpSI%2#GlfPkt36+Tt&&(xbPTqJD<j3U%O)L!sSu%tJ{lafUd;>R2$M{@eymE9t8;@w9A5wS}0fN7'',
      ''y-;Ipj2wZYMlGc;Qe+xng)!;M{4`GqngRNlJq2aM6f<GAW9{;PZwC;mN2gGJ5%ru;}N+|Av?##1nCN='',
      ''!Yd=yZC-+T%I+fyhgiZ5U-T1M>nkWCjXd0@d$49_ynGJG!MJz7!5LHZ#b;<K46CkL~|DBESg&O5NtTS'',
      ''GhhT7Rv#){fgxH?-}4*PyT%S%hF8z^v+E9)GsJ-tCpWgZ|pn^>s)Mg0h>h2C#iqv(8%BP_PO-CkL?K>'',
      ''u`G;y^W~X>*ZG+@C!K1HZ~MeCzHvt>49&cI>W1t?z>*zhp&4%eT>(hn!lo_k3Z}6;;Y^-aqN+y-L4bj'',
      ''S3}&&s1-a`CMbF@L2b3;O-RJ_$}mUpF)gzRKCA5xjN?ByS5|5zt-GncE>R5uhCvUjkKIXOmVZ{?4wI1'',
      ''eZ{}W97uGwVZt6J27iNAT@rd+5O0n?c-j&xT9jXn!6DYo<X_f@mD-i0Z`NH~0u&OIVc(_(x(1cv(qp='',
      ''ZskB-7Eu56z{xp_?agFkC!_@f}CCZPmqO^dN@-rND2Ky$iRQD3nCq%s*Z)xdI9$iX}MTt=bFAsD1jy('',
      ''%<As7VlZ)Z?6#MOAaJ>e3H2=)59)LskY+NK{A--%Df`?o*5DUyZ7Tj+ib*)gj?wN@qwOIl<by2S4r$q'',
      ''LH`yOTGM2&{}Jup~0hC?fMEVVS*cC2HgHx+Qgf4eH5M)Rc7`k)|t-pL&K<zC>n+u_`%-(-tJ+rMj7xw'',
      ''{rt->KPSP?vt8AMNFhxQem>}6GYy1V>~M=k**Tr3qlN}M$+Kt4?(VJalHgeq{OM*teJZqz<<08--o1N'',
      ''wOP^*8lHd@Q>tQGl6RrF=P)h>@6aWAK2mmXVHAr9{2aRR{000F8000;O003}la4%nWWo~3|axZdaEp}'',
      ''yYWN&gVaCvo7!EVAZ488X&Ja$Mr(Ms%y#Aob;P!zx|9wDugfI!;E&q>o#X)K4-ao%&DpG%j%a{)SE&='',
      ''C2@6!z4QVQaemgg9LTnW8wML)b92?sYiTdhg>`j^`set1l>(YRI5cWmyzQY~bp3i?Uo7z^iv;gIs*Y+'',
      ''!`EKH?+sj)%^pu2ZP%F42j*MOn6pT<DG(B<!T8uR%<#3jRmq%lp!BjgN!oseOy`AO!#+4HldbGE+-&0'']"

lemma DATA_11_scan: "scans 0 DATA_11 = Some 0"
  unfolding DATA_11_def by (simp only: scan_rules cong: option.case_cong_weak if_weak_cong)

definition DATA_12 :: "string list" where
  "DATA_12 =
     [''6M}p!l$o<yNl|j6c9-A~CrpC8gQq)?2hD+P4MKEc3APKI>h<BwT_+?zbhU=;S-ub@xC$F0Mgs>&CI_j'',
      ''nFPgzyLDmOtj9^L?c+d38#Y{Ff+=JMalUt)3Y*`#}9XBaHYHZtzY}1KZxBqlnuu)3ISSi?SKqwXUC?y'',
      ''6eUmLVCPENb_R>Io`KA%<d?=V6~*mku`#nODm6Q1Xt&S+i`hCXME(XLGK`1kE!P)h>@6aWAK2mmXVHA'',
      ''o?Qyb8|=008tR000*N003}la4%nWWo~3|axZdabaHuVZf7oVdA(ZyZ{xNV|J{ED;ruW;=Tn?qiw@abG'',
      ''`maDU~MuaX>Y~tAkY#O^G=pDl8R$={onT<sV}5N*|{Q{akyCI<L7;Ue58DIMBWzVPVk4dB4>-!H?QHp'',
      ''ugERkkspdIVPbN01pmm7JZ8CM38``zBx=pbMM-1$Q_sxFFHA^Y<m4<|kN^p$_0)9s7lhaq71;o8UMNy'',
      ''Y1{hqDlxK{vr<j$B@SMcOrp!3aV@9@Itu>z-B}9y0Ym8#0D3DWFP{LDc6B4Rwq1Q^4=O-uI?KY%Z*su'',
      ''@}Cz&CWCqG`jy}Z7=d<_EE3x3WsCM6N<-xU|2>}p472?E7*1!87&OA0~ggJ3YH3KV!NxZ?T4oX8?oTP'',
      ''hgBBwQ-NSCw+?)rbdL+XP@Snv?0p9l5%jlD}QtUER$Q<o(tC4>v#GllK?5w-?v<SC@C>=9av@xqf$be'',
      ''|2*WPv4V^>tD&=udd(C2?J{ZANEuV)BwcfXi1i6v)wV~h>#XWBw4bUr#uGL@`s8(F!E45GLeHuq-0{l'',
      ''C3;kXfC<86e8Ux0dT5|mIGF&;LMS4Dyx2@qQEW)b%P@LmFrX#EX~~}&O1YEGSH(B1{Vr(CRy6)RnM{t'',
      ''5DBRE|o-1-f&cM<f!{Z-2wFc9@3C~DUFq!{Jku`k;=Uen)7*2k=_-FL~;_99($?4*oH{X19`scGZfSa'',
      ''%s{H(+-I8LZ|kaKc;oP6HS&L;#u)9F<IeaGTLPzA!LRUV_}pfbf!m5SzyQ^lk<!Yx9f*^1RC7Aw8@yO'',
      (''IjJAqM}Pl!fGoKr;dZ)rRFtl9Ebkf@vQDN_I{@v)#53iFfsw42>dS#;VlDT@'' @ ''{d5-)Ys+ul3hpMyMo@G''),
      ''~)>vFjw?RFXJi6SRQB%W@HIA)N5jzWtb9X;=|%&Z8rR%VYh;ok;DjOK?-y2q*e+7AVdlYbIwe&v}8$?'',
      ''2FHzCTCdn2kh&6it8*|5QK%q=1=c#3bG@cz(al;jjohtjhKgm94VC<VY3Ii1OQ{NJ5N8lV9Ul`pjZP?'',
      ''W6!Dy^C<-LY()mD8B2`f?uZtWufGy?9eD#w>kd+Ztifu|2<<(}z#6j|eWpp=2g$$#VKe1#lg{eo;hUb'',
      ''=`?I?ZPyBLa%V3=)So(Pg&C>z9?Z6EdmLWzc1tQ}djsWQc}ObZ*-p%@oW=WSHvk=Z_>vK*v@y#Y9mii'',
      ''gqPfqhRQ<i~u2<#4}S4iS9f5DB7H(9R<awJ;h987SmmV_h1XhV2#cbi$4ijd9Y^rgw^k!@`XFk@Z{;u'',
      ''nSBBrqQfH2dNwPp>)9uP#umnJOt||_aV}!zHrveIB2~y^gxGc;)v^+9&#8G9puzLbWYnxbbx33;N$Dh'',
      ''Tjbkv9U&QV^%EZCsy)^=G+wS=*YzlTe7bCO{ALXgVY|sLb&tsX&AS^y6KE3F(4y;h#AFg#G3d~EA*4m'',
      ''^Omu=ZB}RfYA3nC@`_mo|7AT^-opx9u?uB`xcd}3q(-ak`k*pomoBMwhUITc*anT;!1_dn8l6N31t6>'',
      ''_yjIYk<W|dG<YYFXw7U&!rxm}P3z2TWY8>D!&=`@?!eB~Zi4-Ae6N|;_j1I!MF28NP1G@OZcyxm-MXw'',
      ''<q{eURz37f#H$mDg|Y4%hLcUKPoVvC?&+rwTW~c>40x(=Xy%FCAm-ucre6#>?Or3FC4b5ox^m4aD+Pt'',
      ''S^$sUOy(zGqOtu*s>$<WtW~F&#rp)SayM4d$X%k?QnM0tlaFvK_|P+kq%C%Z3~CDE6Unec<N~y_ox_o'',
      ''sF!AnW?Q<GK+v8v_sH+Z84eC=g+7Y$bZ2O>V61lJvc*ull1ZNhOrN_?{hH!Ay4R$&;yHVSn*ODFw-~*'',
      ''Ve$VT+;250FKzA$~ZeMj+l!8IMtYmM0tOGF8mnTpQg;XuYMp`G(>2!LB#av_SYlQ}}iE;Ana%>k4o9h'',
      ''Pr)CbKGfi%j#KHsaWR^orADc(U5eQkwLdZ|}w&A_MYKF%J6&C#LNGcQavdpZ5y6?iYEK|v8hvkW#=C_'',
      ''$`ED4!OKP9$sldqJxkc?>wAo1%g}3GZ;x{41umj6o5j@!Ck~6S05H>Lj)|&X*V2ppVJi?+Ng#tk(#5b'',
      ''TN~9$LG08<H6Z)?mxiII=zQ`^vh}Aey`1tciiwY(=~=kC+)r(4?98VP_TT{u4az)F=#Y<7)$<hj%u!D'',
      ''?UFruLVZPoF@mmHIwrwb342XWXES$u(R}|(7Vd7)%Ci_a-`WPyjf2+ag}ey3!2S$c<T0qd#v5twjuF>'',
      ''mfN%F4VMi=8zTjmIZ13N-Z4HTKta_=w0P9vdEzg0a_oA{^%5_m?iMz5nblOXC8gwvxEv;+Xa7|^`3-k'',
      ''@37yoBD+Hp0#X!uC8ihVf!*hTKJeHn!_3cFad!R2z@9<>J0_ti%4G@tj6YnBakUPii(ED2Ua0ktIwa3'',
      ''IA0f*Hgd-dS0BH@F@=?P|;#UoWCFT=hVi;hlT4(=W+I-BG1^&=+-1`U$AL<=*rgn-4jt6$biF!T~0R3'',
      ''X>MW>={z1)sQKw)VuNLsXptN<G2%W!%*wFtMMirFalp6+T*mh%Q@sWD4Ly<`wFyo3BeyMb3SAAn`+!('',
      ''o{>?_=LpYTpn!Q#+qg%+ou>9#%h()39p7!kc}*427r^GuB}?XHRVnkGe5#~*)lDVyGBjkiPli!4%vg7'',
      ''|exY+IL?K%5PY$m)jpDL9bbgr|d|vQgG5RGp^LR$;8lqyOL&uBa1!+~#e_!ci_+nmT4<*zQTJN)Z#fc'',
      ''8naM26-UX6K$MW%Uq*5qmX?hF?+-N;4W%oCQ!w1n!Z-x*U~6ER3Afph>b_ueq$uN)XgD$r`Aybv4cw('',
      ''6ACh1WW(G;8tq3AuGdP8eRB=&Ls9PuF$-Rm5>6@COb_C2$TQ*b|E@TobkmwDsG4322xPi;|N}c2P&~8'',
      ''G)B(tvfX+;QL<II81=ndF~``O4;1|R%@iay*0K)YdB`szc1mfr|Y->vA)o%v(>VB*y3HKJ??nlpaj~^'',
      ''#gom8T7>3_=16U^>SS(CZ!3mgGqol3s?wz1o&v}F(s}lWelbDJXH^pZ6bh!72c7#rEI!VyXn-EXc|1G'',
      ''Nl5{6O6GT>c3Ra3bJT2co!w5C%w04C&C%-LzpA)U^`M>htPJf?<DP~^1GxlSCIt@P+JP+ERtkl$zS_Q'',
      ''6Zvu7yR7vmRP4Brn)(Q%r&@AQq=E_+GY7AHHjobrSz04Qo0^5&OfbsRqMM-0TOJX|vnEgE(rT5@|%U#'',
      ''WJFHl9=-A2*ikH2DCg`{>%sVLtgUP)h>@6aWAK2mmXVHAtCQO<G7D005G8000sI003}la4%nWWo~3|a'',
      ''xZgfcrI{xtv&s7+qROw>#x8m(=qj)%1fNIbCan%RcxivJ%63#H0|YiI1~w4tSOQuNZWdE?tj1C1wewI'',
      ''lI3_Z5drKj7K_DV@xkSAIQ*OiVUPt}uvMJ0#}uBUJLbhcXW81#Sei$I#Sy#SW^4F4W^UxOx5MFZFnGm'',
      ''I<7Ar#ck7H<-iRH)e)IZ!`0oeyfk%J3n*gwQ##0eTgI553&C^XFL;z$0!PY$G%PqT0-6-S!n5|OIS-f'',
      ''K2+D-5Hm}N0kwPgw6vv`@gL4>Tiz+AEgasZpHfslw-*`u3s;>;By_5v3uGC%h64UaN6!x~pX2yL{oHD'',
      ''|+x!WfRI8lSr%&;xd{R2Q<x09u@b1h~l3z(Xoy0P@1zM?Q3M7;FMn2cnZW1ds#5xqx;cw_~=6{a}T^o'',
      ''En$p%P<h@G4lf?zRWYo6qxDp2(h3o{|Wsec!;b44eTLmamgV;VLb^7HdCS!nDe-fH`Uez$kQrMBdC@W'',
      ''mLG%YsMbHZmthVftl}_?AEgdNet_)~@2UH4pwwN)51g7LyFH3C;8^m3eUX%1tct|i4MVo%N^(#&$l0y'',
      ''5Dn%Yd26_;<Axq+vDy_HHmP~w_vc=WMn=h03l+70GdVclW>}-0*hLZ)Phhz3-cJt}#^9=)t`Q-BE4|e'',
      ''sDO)mdn|Cn8#joI|~>-luCU{`Y>HoLe!pG_fmc6oaK`D}LiEBgSLmsdCJe0DLr0kSt&RHY&|n=X*t#d'',
      ''Lo936hf!v-8=_A7dc(advZwbU$9r*@RtB<~Os`&*zglyZ$`CzFJIyg)<<0IlKHghkB+L)5{wh>V-Tu{'',
      ''S6Xq@o92?j+Ftm$!BQ89JyqtSJ!{cXTN^BVV|zf&!&+1VG7($KAcZwWze+K^U3UD%+4kklV7KVbp>>='',
      ''g$O8lWM4i_F%#>Yz`xU*+0`XB=Je|FW)8_Qv~_+{Ab*)Hreijl&lV__kMpYwY$gg8aIT09U|voo9Ta-'',
      ''CZvX_-pBK}DBs-f<&Vkwjk!3?QxIGxGQczjPS>;)ta>rr81~maRPQ)P$4@ag41C_tZBQJ~NQ0R;REKM'',
      ''aN24!@!IMr#fEsC;j!o^_VIBpJuIEC6y*sx)=*iTE9^-Dt5&yLf(pND|<0Og>g67P-u=C%DA>>;%0v*'',
      ''4>dBvT47TTpQ~6`Uz}811VSm_1Z<)Ny-o{l_to0M2YpGKg03*Vnh~<b)kV@!Rg=w^;nHwfz0@E&KU|S'',
      ''#QVe-3UasVgUMnz~B$fO?2mw1Q0h%$CMv{6~5zXQ2=RK;DumQi){Rr`5Ax8C|gpYyk!u%=~m}1w;4(q'',
      ''3oa(VFJ}KcRm^VOClUOM4|pheD_2WbaGBN4oQ2%6Fplm<Ej(Jpr0it-6pL=)an#^Cj{=<MS~$n{$ck6'',
      ''Qa1y#1^y$V1E0tyfO}{n#(|vG<BgsGhy<-0@=SVkvbhiSnzhG~VfpjM90;-e*w8668u%CWnZ{LjA_w0'',
      ''@2uoQ|UI?Im0uEt<gmmx<hy>`I_qx|BPMIvDTaiY`LTSwrdla0zMNjmIzD<(q^92X_{=kpZ|yO4u6TQ'',
      ''J?Mj27v?l*5>enBui4&eCla7Km8CTcc5t$)7x)Wb6vGa|N@?G)?2Qit-91^gT$ZlDShxO*u(gKfc?G)'',
      ''{k#%w0s`2-(digEL`7rz<03F!i>?2P!a*3XX4l03iMK>EyD4PZV`fFhV38~G7<2riAw|IfIE<f+=|={'',
      ''FR9O@agt?YC3T#MaT=7l%w2(Pq73NN3@B$srH&@<NV)@~>uA&w1@RRNZ-F1F7S6f*uk9HZURu)+sTbg'',
      ''LWlAx|%wQM)Fw@37Xd?cYcz3)+1G+F869W@msyxhapdkqdl5zOJt&u?*<eL#o<FcNyLLAY!h#um57-5'',
      ''bhur9k>EzxxW-vs`-I2c)e7lJ1SJ{Qax%zcOhU!a?-M2%o~;A?{Us!>V#CVnV@e3V&`zyxF0##5+S2N'',
      ''jT($uSzy7#)*Ld4Mg$BLQqfYSfof21N&6fJf$ENPQ|hb4M>ir-a~hNBr^RGL9;pn!~hd8AK)PBfFqdZ'',
      ''G<_u7<oV$1&+j<_5=%+%9z<CBG6JS<BvT9-2jAU7!B2mRI_7BaJ9jwsf=oRi@jF}3ljz<h1;XK4{n%a'',
      ''xgumadN>oMhJu&1j3w%*&Nby$hpXysIl;*U&2amVT<T<l){ah=jV<h%N-Evf1!m=bkT$0iY$eXmUxx|'',
      ''<ymffQs^Iyy2KRRW#3yNC(4)c>t{!Cd8&pxp)q_Xe)&)moBvasM=1XE142FPZTj(=DPt$;wxq%#G4U)'',
      ''*~ZFQg(gY}tX4b_0gn|#0=tcOOQ%rBDdgR!Xi;PHqx_l`+NjlKSHiBN6SW$$#62O!<%ZXnGELA5Y~e@'',
      ''$!9f~l)&HbawEuzMSswpQ<MPyx{;)jGdBO<7@oI*plzRHH!Kp^Y)lZE1@No3aR=E&%M>&DPQf;dN&~`'',
      ''xq0p0YI3Rvb9>Ep*Iri#hM77Y#c;_b_Brh#g)DCJ8VgbreawyAcY)VDV&(Er`K;^AG1{u`9KoU!`OvK'',
      ''SR`k9$S!f~VFQ(;D@@eT6EC)=>>uP7P#D708VK6RQtKkxO^|SJiw1QKT4;q5tJCB0)S#*`_fh;9sbVx'',
      ''E|NcLtHgqtJZlleiG5Z@V97Ciej0(~0>3lSO1x$;sR_gp(vif&6w1@D&#)ZWr)@U$<&RT^b4ceSTpI1'',
      ''{^2li`w9b?j_y5)o6WwyInZB+mUcXf`DaNRTA)!2p$+1>iGtr}Ljb^qYo7Kbi%1HqXbWmIepX+%h62Y'',
      ''(*aC5khKmFU54iqvpc5aszTp?yvd*4H>9Txb}QX>F^qWO!yHD_*NKp~_`2gkQGE=<`4X5$*(f+@e8Y_'',
      ''@T9RsU!>kw>e==YfgZUlyc$2lw-E7t!kLm#8MeKfp8MnyLaz;dO({_{F_S}S(<~|2XcQC!F}D;v_?@R'',
      ''?Q)&|1;990d#qrA*D>wjf;7P(rYUaUiiCSi8f`&lu|QVl@vZ%i0hb&t?Yke0#jnYrYUJ7#g?HM~Yvj7'',
      ''&$OYHUP)Y>FO_g4G%<Cgl%I2>;Nbw{fFa?VuDJBZ;o6PobhkDK*03(OlU@J$RFo#{MmB2Jo6LFq;%89'',
      ''4eAUT1i$Q4E2VBi!p;7R)&s(o8yswIV<Wqcz{_uH6eF_VTi&R#G?$tTqvTQ2pb<jFxr<~DA6kIX5dL4'',
      ''B>xEFstY*rB(eownH(y5p5Z5aa(v&S>0<zY0QVEWzt7SWGN)$cNEP1tpAn>ZP@EVf;1-RueTyGuc5qh'',
      ''>|>$OAf`GT!EO3rtYItz{!VBYEWO)LJn+67tY2_`o*LG@TY?WXrK4!BTy{L|7C7oKK7$8+wse%Wfy+x'',
      ''Mt6LN44(=h`Orm*8xvRyNjbQ}U^!H4ns;Q@sep(Rem8YL_u9x7=LTJvVjc1)=dV1@2t5g4kxl)I`S>7'',
      ''<I<U>*QyWSh7@q}C&jOD$&V2UbFyyqY*vTq_pM#^TQT6klsFFX8T&DIwfBJ@s@ULLUs89g-(@ny`t#B'',
      ''^e-(xmvkY>`Pt#(){e3&h5gZ1KQ72G9w;6s+~l+xES-HwoKQ?5jwY#n@VgY%ag=Pr_?8=mnOer(KY19'',
      ''$v<v)MY?I^`~n>3X^f&_-gNWeH4j@qNJmbW_P7CU7)D0*mdkcn1X`g@KPXWYK}T2^~Bm%M>nVP<jg<M'',
      ''v-F|Ae}_YzW8)=aeiH-2tDcU7|DDXKn<GXO3P(Q8z$elLFjA(nDsX~=n7OqBq-m$m|aXSn%M|$m*6|-'',
      ''Msd_Z8hn^8>J_9N72pwBmGDg^hX@kT4nlZ}S0(hJl0$?DsErW9e!982Uhwomc3U%tx<klh8;#RnXH|q'',
      ''o#x4pA@;$3KZF#%sc-Mh<FXuVqF_BMg2!G`~Cz$`Chc=LuC#lj)d~Aggv3JiiQSwgdMK_~{oiHp$kFC'',
      ''h=$rVDd8}--&=J<gd#$@x(iYHZOtFk_Hyv9?K_z0;c83U$|l<-oV=zOj33zgQ|uE|y4dI^$Vl-x-@Y4'',
      ''TTr>m!&2<Z#@`AB~Q=y;#{jfvX>l1<5`vn7!x<j*uN$NopEpW^WHizNDcZir$TS6$m&8<J4Qnv9i+H{'',
      ''VC?0>YT>zs==3m*<ZzGgSVQ>9yz5P-A8>@7?{1%zptujcK;$JUB!`7#*f95A`o}XK^k?#g@Co-GFIAi'',
      ''A=4k?iZ&Tg{mrUtcXnUZ?{3-c)b~6M!H&u48c6G9GwmnRcCuZAP#AI!?<2`^t=~&hLuisR-A%HOSZ`S'',
      ''mmub9=v(j0qB^6_4ZX2zqO_(O0;kL*OH9^QkpX;LVMQxh<{o;IneOgX*icmS#-Qs;U-)E0O<j0SKHlk'',
      ''p4?y+LuzjlcR?=B4i`t9*h?g}-xD*mqbDjHk@o^qKT^{Co%I~bT}gbkYNo{>J4E%#yM>8rY5P#)4&Hz'',
      ''VZ%ZToIyu?=LKJNpu2C{+M=aEn?-1H5h`k9!P0nkSmLtyIq&4CMLBNp&l!p>@O2pq(!&)r<{C#_1*<W'',
      ''yn(vD00jpcgS89ZQJYfpy~j|vzI}og8g@^$cvxT6$mvrb{hqAeGZ;{b~w6Z_Al`g-0%=&fPuwN>fRlQ'',
      ''{AV0Q2cnwr&&3re?gMf2=p{Ah(ZO{Wdq0I$-yh9M!dyHbH;)diR3RQ(Z3+u(+{}JHDoGa>De3k=+^o>'',
      ''$=VIoSiE;0?3NUIof;MV?e6~^{frw{e>>Z2_5bow6>p|$Iyq}Mq;?1<+Vdsdtt<I#qcDg#P_D&)#6Ky'',
      ''#W_F}eAjlFygI;OuJ)7%cvbJX;5m9N|Grkc50zB^}J@<6}Yj4S=w%8W}{`_H(a=jYR^lYHFkFB_=1M{'',
      ''+3cDXec`q~65wVy#c@T1S0BrCo2^Tf3j$67E5IOPIZS+s@Z>^;RiMm)=%Iyi0G3wNM+0oqC&cFi#@;W'',
      ''}2($RdrWo?ytRo7biSwS3q4w=NTWk|6%AL0p6j*J4oP>f&UT$c+iWTdko;M>c0aYppG?-L-6l-mZb5M'',
      ''+KPWJ_FNSo(()@3+F5|t8@epW4iad8&iKj&Z=dYPCpYrL13Lm~&ACtPyp)bS4Y^KZj|*{N+W`A%`w~W'',
      ''IJN<<Xxdwyq7^nWl-8Z4}CCJvQzvkQxHwV$2EJc>OUIy(8yh)y|U)soTLWsKSn^4m2I}7mG@>?|U+fb'',
      ''qwemkaKiobXX0o=2F5&p~gKXtt|e<6*}5nWV#sTj#_zRXeqRLUX69}b#<0Llxw8|BF%*x<d^XWwUZqZ'',
      ''@hK7g4~ubL%X(cqMWde!KtL<?-z2!7A*7d{~9s>&13)_gp`=a2`87*_xnt`LY_k?#&it_V8y#5=Y-~^'',
      ''HUS7d$cllf0q`-sgKrM)JfIRp^t#;g|Xmk@IVeFfbST;1h?ChEz!HiLWivO9Sjovz|kO)cMOLP2A@A3'',
      ''wDR=~h^n-Aj|c_d91@z)?lDmwLVdeoVH|8#M@Ct&|KOM-5>DUcb)UV?(>fHchlM?LuB337+LieIn%Be'',
      ''Wvz5>6<!=3J9!Ty~!D>%*liQ_;o$o$^2A!td%{X%#nnqXcMdErov<(-0v&0v4@E*RtCSOABecKv=i1Y'',
      ''HjER?iyF}-bnP`&Pt{?(p%dM5_))I7E)W;yFgTsh$PMlS3FVV51XFM(>;B9WfgMAeP_uSbM&G-gNCZh'',
      ''TP9kdKlndM@c7-9A&<yA^y-r6y&?=E%Ap<PmE%W`G-Ec#;jivr#IgR<G7GX#`Q0g2<^l=oNH1yVQaQ%'',
      ''&A0HL!nff6;<8^(yyskYAxT#+3{|A<Fz6*WU@BwRWEa#ug`ufs#=*fj6hnsw<fw{_FXz;-!W?Sc!csW'',
      ''-*k2Gr5FeAc4I^qhn^f~Xq2In$ufMxGFeEF=n~~Am*px^pi2mR3q%&fQ?<;OI~GEg>r@ryE{vCMs6bQ'',
      ''#A<8$Es!a$s^w`z{D8k3C2AJu#78HrDCR8#y+F+(}$}aT5^&jxUgoC%PG58L>Yx|T9RQF#(?-~6shfN'',
      ''j33bLj#2r?VVSfc^{0MR;@$%E&Hp}VBFWc6cD{Tc+{cx_hfMq3Lz9k+p<A-V?lI4>1iPH$-5%hy>W3O'',
      ''Pe`pnQ|Y^35MpPxUKOd9;l4$ai$)5KCn=8BhhXvpt&H9Eq#m13OWHZZ0T^b75&=6}+xZVyM6-UMQNiV'',
      ''Ua|il^rOZH$znqZiTJXy1`)!f34k7Z)yok|CK=rMlTRTM<w!AeZ)|mLA|c!)Dm3>D<`dO39DmNW$E|%'',
      ''5mrx!gHBB@;?uPCfH7l%)&G@eGNzj<Wf-rHUi(z>gtoe43J}0Tou#Rq1W=GhMNkp7=>2g3p?BO0vo$i'',
      ''Yl(Fi@kgY@vU4dc5TG33yR>zdKtp^PNYB+|;>&DYSHQdq?cB3koHVc48>z;3gg|B`8?f$XN-T@uoCLn'',
      ''?^^cl-2D9CPn1=dC(po?R>2uP?l{4fyNZhQ%4;y(oZ5u0VoPU;M5I3NwNbZ9`!Ms&l=aub8N?na<ufU'',
      ''g>~-JL?>NXtHXUYAI0vqzrQArjr_k7sp<#5Q_k-_Fnw&+3o@<{6z*fFMp`<FvqGu{hTgGAn!w@C#)uE'',
      ''NTN8HeUwnbknVkS0GI~lBFG#RNHpZB2G<X+egy^_H=X~SSJSQZu-<y&!hiUvVPlBMbi>3t(N&u*z!`C'',
      ''HN^Wu(f4o6MO)sAK^YiNZ;cKE{7)G=DoB>*o{Y*CMA<Qh1(Y%NAlF{dk2U=H!*FEdf?CxSnrMh}47jH'',
      ''HU>7KZ`&wPujePz@K?hAZfI(0R0ni!%pG_`<m{R(sO@xSTouZ--h^b3dLb}HoSSZa-VJ6L{f8}n7E^<'',
      ''9jdeZ7HbR}Hln_KqN343GQD3-W$dTV{o@Ay+m(8x@N4U8HrL0!0+x8}-|uSQ1Lv!cD~8P@D+yJ}I!EA'',
      ''}N$@7+{-9vJ^Mb0gmk!NFonPyqp+)q01@so;&4uv4CduE(wP=%4>Q8Z-QX2Mkc4U>q(yH__V{g_g>Px'',
      ''>{mZ*#@O|*0P0zIQ1d_>+4(76c;LJE%Viw1s!Pl>T7U2YUpI~axz{P!)Ulx@%E~XFNcp2dt_>DML`YS'',
      ''Ep=6AR&}{YWoa+KP}%2c<6fFr*t+Ey{ZwR@g=E-5azKmnoXYWytV+4saH%yx#hmz?o8AdI5#p2Tfm%2'',
      ''u3EGgt$f{#k>N1*paAgLKUA4Wep3WM~Nq|3b&oRQ)$vqtX+A~NW0ZjX!a@wr1vP4a3W0oyjqW8!+c&('',
      ''AKbcnnxu|^FPSO?+l299<BqX5frIN7po!$=}vu#*zU%9ch9tP*TcGf&iTOYY`?%+OmGjta--gt4a*)x'',
      ''afFK*}>N!=qyy>vFT$HY1Y+D^0Oo0;^QTkb<cIw@oQ+88KOCBq<6f65L+tB}D}at0H#0qmZfck`AQnW'',
      ''N^Zz;&Q_-+(Eh^s~9!5`nYF-IPjNA3DcR11k>V`16jj6h_IJ_$v&+V50p`8n_Mvz@`((Ed^~#JQXi6Y'',
      ''aL3eA^zhk{-r9RTXP0?RS(r*zOUs?u5?L}zl5J)5=NIw0N5$p{*n?tY3=I;PL$Y3jK@dZ^T{6NhQ79F'',
      '';Vf`|{VW27l4r9(o{PBB{Z9^_G%H0g~9E#X)?<n@$vHe43Ag&T%RT8$7IH3SDcmRsh7nvXDS;YbYc&n'',
      '';QJ6qk^!A~V{%Xc%kwzY%t5W!>_Z;v6+*a&Lf5@H!aq*E+ORsdeHnT!>M++%PiTnCVkjuEou6W1P*jE'',
      ''NUycAY89;AjQI2Z@bPY7J%xq0YV{-;J?KY|WE4+cgWS|L8nN7)pff3}tSiISqzZ8m~8gWI=l<zuGYD5'',
      '';gwlg^t1cSW&1l002gR7e$Y5gnMv-+JE|p;fIPs!RyKgIgRF_Dd34Iu!c4nT>+qFPc#Kk<L4&Lt1&0Z'',
      ''^3;@*NQz37Tm2`8K5l`k6B*=mlZy-^F(Rw@?FLr`Zyy@r*CM~xa!#*;H(HK>d$t@vzje!r<en`@PWNa'',
      ''zR3e+*=B^mzf(Q(1;N!*xUVUYNlFLY#_&E<WbJnOz7I`-tS#v0mo%D`;l1A-KVFFB_F!vFt{#&Npy*C'',
      ''-{W)ci}7(_<oeQWs7XjmO+@_62WV8gz!ekDmH)k+B{v<$YUy2;^6SS>2rgqKRL7$_$k=!jsf`+`T%tE'',
      ''roj#6@$S2wD`G%nUG7m5a;<Du(f)EMQ~Q>G=Fa{={2Vu_Nct6E*XeKK;&_*qlbeX7^5`t1uVq`mBq20'',
      ''8a+81eFXmmnepWBsHAcS3O1&%rgO6=H8+5B**e}Tn<5;H|Zo$Me856JB_bP;k_G`9?N6uCc?u16O2;`'',
      ''>#X1|;{HjwZ2vN!TwhP;&SbHe{d$QXd0Esi5#))FpC@WT`h0yhxtT5ux$8<X3UvJhX;s-T=wNNEs~Z7'',
      ''+6&)5@3Y>1XsOJ{9hc!Z~DwYg?lB#bqq?WU^Lc_qpbYy1X6LdHEL*)gA;@S@8tHU*NWn5OE7QUSd>7U'',
      ''A&kvgz{jLW(tbR+sU!+Ua>mU!i!1wMCCeZabI+<UBrVqhs+1$`R6Xx&5p01G1g8kIWQRi7tPpLwFoL$'',
      ''vE8Fv>BWbrm5uUs1KLhoL78&Z$gNt4gANVu<H}kB(z`q0sTeG3+NrQ-U0S)aIHJO?fwh6@caz0Uk8kn'',
      ''smXym>p#tH<Iw%CzNwEX4YuT{{4TITP+oa>B;CfYLm~sSZ+(B2<gaGeXOg$BTWsj9>&ILa0iPK^5vkU'']"

lemma DATA_12_scan: "scans 0 DATA_12 = Some 0"
  unfolding DATA_12_def by (simp only: scan_rules cong: option.case_cong_weak if_weak_cong)

end
