(* ===== verification/Get_Pip_Data_7.thy ===== *)
theory Get_Pip_Data_7
  imports Get_Pip_Scan
begin

text \<open>
  Lines 2002 to 2301 of \<open>roles/bootstrap-os/files/get-pip.py\<close>: the lines of its constant \<open>DATA\<close> as they
  stand there, and that each part of it is a text of whole hunks that decode.
\<close>

definition DATA_13 :: "string list" where
  "DATA_13 =
     [''IB~ZzR+{;#h%lCicp9E8)RE&*f#V!ieJz6C*V{tiE*C-9`;{JUtAh*oG^u)Eh%P;1q9s0f!84l40%Oz'',
      ''^0s$Op864GpsRrC5%*rWWwSXE5Bl}beS6+e|D^ZgUVX`1x(I#yGq>9LoBRR)<)_2Mv-PV0oS?G6SXbX'',
      '')cAOdqJe#%2raLD9CAL6GNRK!~WP65V9E|z>m?6aBo7Qg7BV<@jd0d>%Eyh)VMhH3RXc3Lr^&+kIDuY'',
      ''+wLE1saJ%7h^W`Vt84Oj6MCBnh|r!yrZD<R{e(1E57fTX4sf4YMOv(UEjh>laPh9LnEtQLa47UwV3hd'',
      ''2WP6!FNSI1MaitvZ(Sm1lGS3fZ(~g;99EDk?t!k6>DS<*?0Z4bUSn`+<Jc5=O;xT5pO`sjyPeVyIJ}!'',
      ''#s7V;qW~9FfF-r6JIb@w_y2WN(Oe=mkl!xE@HQD&U)RB)Dn*=O^>r>a%gEh6m}KN_3UvJRw+B_&X1v#'',
      ''zV1VX4(OK#WG!Y>KY=DE)6Pt0K8y8H~ye1DvuBX=wL*t{G;q$v6-Vg>M6H;-75yKSA2+!>8k3X_s=A7'',
      ''d6_!Dvmux04(sBJ_L6!~%>*M#G3xlz+D>N2~C<L?OWrrw(N5aoCJG}DSV_6rV4R1*I;Hx1~{$}6U>C&'',
      ''H+N(JF$cmhT9lr41swoXfXNDqfPtfWHy8>IpXjT5B{u5m|E}L~ek*WiIbMma)9mcL{l<!kly8X4V1}A'',
      (''t4`ybQ-_Zh@'' @ ''{D6#~Tiyu7J)joN8p0`bSDcIrv5B=ZcqKfv<cT>=RG<ktk{iVP?k<6mTKlvq>byGSm~#''),
      ''P=EW71SNH5gWp>;2*OxiL7U_(ODAb4Bd7%!1oQPsgC52!4c~G~8=<axYwq1+OALBNb&Y;8y2a=}O%W_'',
      '';7}7V%3}R5oQ~U-eo>yy0k*O`dfM;4oWdZ3@x254ng~_0RQEdUXhpl^2#qD4Dp@wpJ)FyE{V>UbNYfz'',
      ''oV%cU)X8l8^cdki9sEIvm6h$Lfv4TCI7O^yuTxUmP73T;wk-zqLFj|Tq_P)h>@6aWAK2mmXVHAr^`g2'',
      ''n;?001-s001HY003}la4%nWWo~3|axY(PVRCC_a%^d0FJE72ZfSI1UoLQYjZiyo!!Qipa|!|->;QodP'',
      ''#|N6E}gmyicPmdB~hSgCqdD>SGE<w2|ARMNIkv}g|E*$$Yp&b7BEScc3|=lZB%-~&=V`|4Syj!ds6Ew'',
      ''-Bx-W%;-d8m@HH97~}vQ`Dh&;zy?8%jIzT^hf&~l*?M6nF3JNmS+>bg_;7SGF17phYc4i6;nHQHzr^m'',
      ''qC?f~>{;3PaNV}TeK<CeOsE5#Q_>ONBvT>S_+4i`!o4vW7pg|wy3b#`jMtJ8D8~DVLZ4%qTnL;BuR1)'',
      ''JH;6>PE(U{a7RdF0h3Ykj6Hn#hUswS1zJ#|{cvCJN0S7c3JuV3;X;Qv7j>B9lDv0qS20|XQR000O8E0'',
      ''#4#E)(3O#svTXiw^(*ApigXaA|NaUv_0~WN&gWUu|J>Yh`k5X<{#JVRCC_a&s<ld97D%Z`(Ey{;pqfa'',
      ''}Y>sU13evtqA4;+3F72vZQE=wm_B%j6^wHWKtt(JI2!gzB`hVB}YZSOh8~tyf@xG_waH6&z?MkLX|=;'',
      ''j$vi1XRqi>G?`3JrRBQO+``-WTX^x^OW<-Xw316MEi9S7<Jx3VH2?JW9b5_dFq=JmGkcKAf{@qXKP&y'',
      ''fWO)r)hLW3GuDRd1;kA+r16Bc(TTm6)TV?oh6ahZX7T;vPMh8Mkm_dAKvO^QYAtYvNvapd0S*fdUucz'',
      ''?n<MZpZZ>d_<b<bQ+JTpx#Y?7iGr=UzG*^;ABSh=sH(A3OUN-u+c`|90<mu%-_|5K6<C6}zY6_WQQ!>'',
      ''4`8a0an#YEHRlcF)78K(NA~(wu{_8Y?`7THJAnkFxLMDJTu`M#vXOF_k-t@|<Coa<qIEm%L)D+UC8Iq'',
      ''efh)Wg}`%OVPq3zK$Yvt+WMZY`avZU3G~H@0h%Hx#8?i^9o(xtVC^v%!31rA*`av>g};RN~P7Zvj(m8'',
      ''v9m|~zTl08QztXmT4`@WRJ#JtVDdLxvx(oK=Ky|l*5D|63AfD9d0?r^Rn4bxv$8<g{#w?dTFHWzS!Wl'',
      ''MIUZ+{?wr$u*<5J}6CcLJ?eUu0qLX04U{0a~l%<*$mX~0#N3ny}Obd2Xa}(tsPTpN&4*!k&NR5vNz@6'',
      ''?~$HRt0!Ck{WYOUj=>z?WXygB{!#~d1lB62b86k%M-G_PG?K8e<`fZGB^FMVShwk1wj;E8y)$gmPWWJ'',
      ''gb@ND?I}Ix0d{%qTWW2^(Q=`w>1qQor*<0*0L*1ETpk^?yGh0VSvrR)cKqwKhsU?)FiI(BXZBuIWb=M'',
      ''qxwh<8bQR;P+ND6g^kSGML$0&TGJrTn;kzIf~E|fd^?D`N7!4!6&=pTa%<|*En$&lLQLx;OHc;@KdHa'',
      ''#$50OrH~x*IK4*vb=yc0)C41}(zXCH&^wR*LN)F}2*UpMdG!(&wYp(7)?T>wVtShqZT0$wc6{(@6csf'',
      ''y22L*Df4mizyK`YXXXmQq?=_Q#(#v)5PQm2}Z(;L1F}$wuO2M4E)b@ImcCv1RE`n}-0F*^eR0B(H3|n'',
      ''9yI>nQ-vx|@O*C_1*_yu{5Y3v1h`B|y@qVek!i~WoZ61L6>bZ&K~Sm{@nR(n=I0MZ22aP2B@2A-Y<S0'',
      ''^&)U36;RyD&&{Us0a_<8^<v?eE+#PG$Ht?eDn?GH2aykj0(W4lYk+8g=Pj3xnO~b1ktby)<K4=hCb+@'',
      ''8ws?dW+CNqzj3}T-R!Y{ZERfgFyhQn?R6^P+1}(NoMLx7tXlPy2Pn)xkcOe?yg8;47T%um>(N_{*;G?'',
      ''{*WUF)<&LWh@0tG<&l%%i91|Ys5)0wg%qE{Q;7eH({y(kc-W7?I(wAey~O7o+P+wVH^@Oq7C`h-^EHw'',
      ''OHYID-fE5M8e2{y|H#ylssJ94CChj7c(B$UMvu5>*XQK2TGqRV4bz$#E&qjoh*Q)Rw*E;FW<!)EJeR%'',
      ''FmllY%-7)#TSkH-mx-6`Gcd=_(zC-z>+aF8CbMlhExxa4@@=03F~nfA%2Rrdjf>7@<Hxi0fTWI=C#^c'',
      ''l(`m;U$|eLoS$y3j|lRAQSTnc>wc?CiZ>QI_%o?-@E<n7Oi#`1^s1@w(&FBpn1lOk|&+-F6v*0UDILs'',
      ''mI}>u`~*>VdD@xcW~*3x_%~Hh*#dKpT@%+_dDPAhB$f}B=`1WqJH;E8I43uf2yM6_`ST6NiUokU5hva'',
      ''<9)3KB7t7_cwyq6u>p;8Ix?KKi3zpa4Y30l?7=kszhZ5-Vbzq#G^U^Y{d3S9+=}BkMFx)_A*qwVLGts'',
      ''ydcU$?w9prtjo<#!7vwX4ilhx99jgPiK(d$hY2S+1>XMq}d8rEbFOL7_wuiXu_E3J%r$cnQM(O?sN=A'',
      ''J5%cKXL)0RFNMEW04O9KQH0000804tU?NKODQP_6&~04@Ol03-ka0B~t=FJE?LZe(wAFJob2Xk}w>Zg'',
      ''g^QY%gD5X>MtBUtcb8d2NqD4uUWcMfW|$q#JgPZrqt@hzk=v1DVtT8lclmi^SVo1QHi)|9gM(M{8Z8Z'',
      ''K-6RgnMv9U`cTIiKIqLMyV%u1TFz#{6OMOsf7oybJwoj$)%RZ1U>r(JPs5?z7UPlTC1wUF=MGJI74w0'',
      ''XW@Yo*%uknfUaK%WpZ)sg>7e8ni;=IVvZK!V2(#~DwO&SFq2>iB-^V0XI2AW7}CCRUC=77fAsrqj@1`'',
      ''XO9KQH0000804tU?NZM3Jr2_&004N0j03ZMW0B~t=FJE?LZe(wAFJob2Xk}w>Zgg^QY%gD9ZDcNRd4*'',
      ''F=Z=5g?z4I$v<$#e^&V3~gX;L+ZbX7H*vt_|7SOwd)O``VKcl^b&P10}y&%Bv=^PZ8j(bkhm4}(-gRh'',
      ''_J!iIIl!XHdPiL?(cRUkf<zUL#m1x)D09ywwvEy)YiuvfGfmO}U$t`k+BPl=3^-`Pky4qV%55gTq2NE'',
      ''7b`*7-8Mo_Qnp&49b5GK?GGjoQMOz7@mco&AuY|q&5t55AX~V&1rV`<@3|mCPGG``Y^aHBC<zsLCp6l'',
      ''PMd8b(f1{u>zX`%0M8vbC$%cWi<a$MGSUbM&ngmac55)o!@-NewMV<aIfENZG08t*+k;k{#0ZO(&dY8'',
      ''SPviqHWKr$_dn`QHESvSBJgrCX&Hnnj-WBq1L)<@@Gbr)i_}LcJ#^eaM=$BQoY9k?9?TUWU^U&ea?@T'',
      ''*ogCn6R=4rjy33-h$nYKRSJ$(A{K)fd2{w8QwQnhZj^K+Z{%F{EQSx7}gB<fi_#WONGQ{4)DaR-tpSL'',
      ''B=c2}Bg}0~>_JfHPV-$Yh+s22nyx$FU5TS-TtqSFP3`Jx#s1@dX-|#gxY&@u)#u`hACTpwOY=gJrfml'',
      ''1}1f?S9ZNaYEih`WTm||26M<?sw5VD;mADGPoE2g8oxB2qp)wAP4Q!LOt2jI#`9HIagu^&Pm&nn)6^B'',
      ''=XI)$E;iL)P)h>@6aWAK2mmXVHAwN0bX@ra003kV001KZ003}la4%nWWo~3|axY_HV`yb#Z*FvQZ)`7'',
      ''NWMOc0WpXZXd7W2LYveW%e&1gqE|m3##Uxyx0{hVBa@RsB2i@ZyN-<h{HY=jFTuIJ$`|CR+*|KcQ3Dg'',
      ''kcwP!w!X1;GU7UxE3%Z_bbTBW2}t&UoqStFXfc!j!BI@j=b3&xt9SG=*H4HMq!m;L_hPySiwmY1rwT1'',
      ''g4IH+tmd2_D1a-j1I3CZ9xUomuztC?s4oZ<-iI$^$Q7KI5zJ{?%%=DkV2&v_cn77KOHXSTVdr{mP}Nx'',
      ''E1wtaRz%*m0>$(z-E80zkb`Vw`~3C>9?o-)B3N?%DGf<WJMurVT&R&Adg$-;@<tPYS=oH(dAwiVEMDz'',
      ''?RA?p35h6N@Jmnzw7_ux1-)c(f>sM-MY&{f%k{I_vfJC2OP2x%++ymoM9Q{|cDTvIhGYN19c{Ye?fib'',
      ''3(nA5WiDd{9t;78)*hJYla^#=B66z#Hw7`@^<8TJf?GljLC^f?d#wm+y7u|0s&Y>#9?O+no#-MaM%5?'',
      ''IXRpP^k58?g~G-tdw&Dl2t%wlf42T0zd(r4tZs+m=Yj@mggVFLjCgQ-Pf*3Qirh9joG^H8QywQ-IYU^'',
      ''PHRP~ND{lVPE0ACgxL+wIu;%hP`SFi&1pge7*<!sNlip=I6w%?Jfon*cq`Sgpafy7usgR>;9N3wfS^B'',
      ''&4x?Q3EQx$VtJQ)yVmV;fwNxVKJDahf5!?DkL|rTxUEoY))D=$PNo5=RT92Y2G&2j3ApuH%pzWD?yd#'',
      ''vgmx%`HO<3y;Bw56T747n4mF;%QayQ#GWL5Lh+FEIFX;ZG_XMYp9#(}zoX9K%Fg@+d-Na&Y5=XFM}gb'',
      ''<5as?P47&&^8EL3(&_GHuHcnIc=l9_u8)c!ks9bp+x{%{b2w_PHwX)H!I^+d$Ojv`IkXQ7$qD~v3y^c'',
      ''daG*cDyk>tj5+Zw|Cc=zL63^(jMuyczUI`LPa4O?7<J?;7P&`Ml>O4VYT&%o;hh&^$OEn$ri2Y}kghz'',
      ''a3RBi*i){?3FMJdUHx4Hzx}T$@ypvtRK>V6imjmdJpf7mmSUzp<JUQ6(U}9-{t*nQ-f3{Qe<kWajsN>'',
      ''+!h7#Bi=Vx@JV4Sxq`ZSFvdn7&6gixsTBmk!i=M+svU|g}DY+;TexCw<nhhJbYd;xr5rMP>d(s8)b|*'',
      ''$f*4v6qYnA6&6xZO+1#DPy)bj!!-gLGf@AI2zX@Bn**@>ySpE-(P-E#)K!B7-koPymKsV&f12hTA@Fg'',
      ''7ljpp&K?bzDtb$TiSVk-?^1N#*Z~3@Y$-d4KMT-bCDc)4PQ~`P6R}&qkAMfr1!dSi_mjrx2XF>9mOq^'',
      '')_lg(tQ6tiyFV>qLz;|y)atLZGBPqr6Zcb+6b4uAkaa&?VY^?i40DUOp#FU|F-K7)DgdSf>1Fr@(;_{'',
      ''TF0eIa-`aMph*_#Q<EL8wy#D+=Xu0zWPpiwrws4>P_2Vns}QhUyJU7DqZ?6JI4ueP!@V&m-XjEN{4`1'',
      ''1b$f*W0XF9(Q^=y<zYc#9VCuW8j#K52*nu(R`zYZg5uaXIOJ`$6ENZgLpvb9p*Ev=;p`d7ok7aO_Qsa'',
      ''#Ee_CS}sku^sbj|j`!ny4c{Gkg{=t(zu+|5-52pX9{u@f=&)9k7!iOqpc+&`OUI2J6(S#<EW?j?M!Qm'',
      ''~Zla677l*k0`{)bry<+zc{{c`-0|XQR000O8E0#4#5~{}VECB!j76SkPApigXaA|NaUv_0~WN&gWV_{'',
      ''=xWn*t{baHQOFJob2Xk{*Nd7V+cZi6ro-u)COCL*OgK%@-)St3PIhwjL=kKo4G$Ua&{QQp00NCPYttp'',
      ''^a?eZS7KOuW?yN-BQ(_YYJAkFPtZd;rt578`VA+;P~51*C0_mFz5mi6DXMfKrPnD+J>n8f<(xgEoqcc'',
      ''QTv{k+Db>d~;h(Y)tI~!QQKr5JFiQBRt87&q*a8e5^J?03TL^BT^pGR%<xnnFnw?L7Iqg@U;8!iaKA7'',
      ''xH!eF;ZxcU{{Yu$k?>#2%KA7UC!m&d-t)e2MMK_u@@eF<G|o_2-qib#)av%&-84fQ7nX~JZQm!Gn2od'',
      ''~$)h_S_+~HH1=S*T!Hpb6TI^fw4J_{X%TPU<9RJS@7G29P%r8u_87QvH?%_9jQ>A5&J_^kj<{nz#rhq'',
      ''H)4Nyx11QY-O00;mpmNiIu5=-#T0001>0RR9Z0001RX>c!Jc4cm4Z*nhVVPj}zV{dMBa&K%eV{dJ6VR'',
      ''SBVd6iGWN&`U*z0X$!yi}0Acq@1m^dhD7zD#FRjh)@ZBvZD3@3`(#3wm%4VR(7(<vrK)IzW8~<sORWO'',
      ''#4Qn8Uppg>R;G9(-3e>C=SmP`l!l!E&Np!f-eW=P1;a8W`t-U)9+8?SunFgm<|a^)1GkXSR2KUg63B9'',
      ''rel0XYrgZ}*Nq7empD(m-DW#u|M4kKdGR1?57MU0hFu6Zutmv~q9Yjhb<hZVe2XXIqL<c=qqlw*ga=r'',
      ''aff9Fkce`|ci9P;kd_^|bO8f*+O9KQH0000804tU?NXKpm?E?=00K_r?044wc0B~t=FJE?LZe(wAFJo'',
      ''b2Xk}w>Zgg^QY%gPPZgg^QY;0w6E^v9(TI+AzHWL57e+5rQu-eP6?AU>?XTa^HP67l-n<7cCAAIhDmb'',
      ''kmB^{Pnu(Zl`kH!~z9Qjd+@76;q{iS;0d!+HK@s2~VtpLc@ol&Z4y`k3)-Th^)C<&srptwh2$Wz8BX*'',
      ''d07&wfMCWQpso*z|1tqF)S;$+qBr)+gjMGm}jC$cx~@hnv2<{E^{Vwo@P;_(o8b*vf{NA30GpRew*o0'',
      ''Ra!;sTOd)^QM<BKbrY+m7VXRnF2%b-ibAF;y%n$1SQ!FQ%wyP{8HX<}@PT<LMV<02{jDAF$v&uOvl;G'',
      ''6)a=}DFWL(Ao}Pv4b-{D7UN2^|A3wf>A+?C&GOyB1gmv(97+(H-cKFS~)$_&K;+ydB5bp8zuM4=l{F$'',
      ''!8f8nKhb`VDRHvoFGL~OJu)=iy;@NaQ8WAFoc|A3Dr;|v#VB=E!(?5-ADanH7}^Ma)XdsS5+vGksO%g'',
      ''PP=`1XRG{QaxbXhu}<7fKL8E|!cpYKO{xSi*{Gw`3sU8g4c<-{zuF3)q>@isgj<ZtJqCB#Z%eqMWOEM'',
      ''`I%WJk*100jerks2^UwxLTTdmnYrj%kJ{DyZq`3<q>CGN=9nCC<|4WSq2&?uYVD->O}Jjx2{CJ;jv(<'',
      ''WKw`qH`ZL4+?7q1FtUb(fk79gioDIB*w^c{NY#2BN|9}rdi44CWg*P<S}4Ai=b!5ap0vhO(-6Z7{&2Q'',
      ''2ymLJfS8R>X2*w|&N!#)I&L7sT2cw)DAl;cQ(56}cAgSd7^qX|sYwD~h>pYAzxn!MX88Lhhue3LyQT_'',
      ''PwJ<2hz1$ZQwoa7t9Zo~tH0~|n%TIu~6W`#dc8EA%SN=8o|y^dY7ES^GCdUGF(N~L8H1|N#-f$?iuW{'',
      ''tuPyaQLMf%hyc??e*ej$!3zGGNbW_nk+W_0G*jgcE8<Pb~*9q`huO^|{AQ`>f&<m>L`g-QWXuK{lCyu'',
      ''|5=v-?M87V+kva8aQqWJy>hw9lI7Fdg08+hyxMSM1dsTf~7}b3<CbeH2X9<j*gMWCzY_%)2N+n{9>&|'',
      ''Li%C6NLcVq5dBi7MR@6G?rMRWzz6MoFegx^nQo-_oCRlxhXMTU#P!@=Y33|XL7}6v$7;1hfa#8ztsw+'',
      ''&qSm@Q)pns&6Nz>FFz&q*JQ20@ouIv@SlbyoGjr`MvoZ>wgXl@z9E3<o@|I_?=a!W9m?Yh7L=6rAS2b'',
      ''$rR>){{aUc#fK(zn<PbaiEUhBo-`J9+q8K&m01<onRtW2z&V@5DM`!?y3^XGUL-Hn@~1R_=#y3EVVcE'',
      ''(jC0aU1PzML<HGu9}pHLoe`U3%~Fr<w|~>E%7<`?Lxd*4;>)_s9%VF)IY;!IHgLTrCD<He|Yx+sy=td'',
      ''s@9<e>vClH))aJbbsd67`x>(vmxSvKBvghC_gy3&(HZeJ$@8Ft$Co~g?(W@_xWA)okh={`3{z>jiVap'',
      ''Fn1Hq@ljLaHlYF*t4aW1xR+Ehai2=uSkd{<l9g~>-$BUk^YfNxQjGgS>-&`Q+FXgjz%UrWb+<ze*`h>'',
      ''TH`{RjzASIhL7R#N81-F#=F5)w!f`RX&{){8OWMHU#`13g&a$#mC;^ShH1J3PlcFpj7;ivII|cxkd+u'',
      ''74E6ow|7stM9`5XFZh#G&~amfNZJun+$*AEp0QIYgq&K0)j-}9W`ulUxkPiY{IFWbjgXqrb)WeaAnVR'',
      ''pda=ID2^cEBuMO5hSP&n>Exu)AYenNV|S0pFcq=s`@Dm`1QD@ofpk?->)K`f$V)(v3SKl?*}NJ}G=(n'',
      ''q5MG$835F7QwGG@yN|y>_mLS?sfv*1f3}61*ClN&=%_@j_1hA?xKT&5O;VYt(h(z{s#aH35;&$j#E+#'',
      ''bw)6I>3GnfWCL3h$<n+{w~%%pt<-m<qaD8$UHCXTda<+<VCQL`izEfunLR}8ClEnd%#}l;5HJU@sY2r'',
      ''@o4N}>7+fjNv}yYKFeZ}HnGc0RjeZH$DFDWRm_SXDvC?4ng8&d#!2Tj<9w4hT=ax~?ECKVVvIGE<3bl'',
      ''#KdV9E2d3IQD;=diAyf}~=imgtgm(g)I+tqxQA|^n6qc~w>wa~EwjhwIqcn&<Q0E%}tA1T=(L&(GUSt'',
      ''Dtn6#{Ilkqu;wFcr)Oj78)c1&R>z7gvo$e+P~D=8?-S7##Y#g*`@h0Ssl|mA7!&3N3pGI-SftI_5VI$'',
      ''!d^JLiGi>EY>`rn+@V$6xpI@QJ%X2Kcn`B%Xa2w1#mvrA_!^EZ7_F)fgWO~f<?`d#W_8lf<PEYk^lXp'',
      ''w4#0jMPa6(jRSd{x9kF%lTFbi3ULeO41u7LP5|hrq2x?;OVI+NA=Em9fqty|p{ciy4()<xz`e)Te28D'',
      ''1$f*|_3!cLj-&u7}E%~VMQIvO}OY9;=_@7gu5!dH!!--yR^RN%&+6Gf-!KzlS0~{SR(A0?5F^>Uh$Y>'',
      ''#CGGt*z%T2+K3q6hDG+oj`$ixX}>{*Jqqa*7<h|eEhe>h{GA$kc6L7;m`mQ7B@Etm&a#_?s7De(3zLx'',
      ''poMAmI-bk)_usofYX;Nd%OEYR(_XL}BVRHAd1R77&pKWMVR@sxGe~G-5g{(*)6s;)P0e90DT&Xr$Y5C'',
      ''N2%gv|KbWEyK`%gA#<l6vb2J)}*pp??+%`$SVOGtn;)G8ekPdI+d4wvd+?tK$`&SN5iy>f;D&tw#>IV'',
      ''_rPMW_?tveb_eK_=GwtgQ7WNEhhk;nM}<))AxDKn68k*tttG=+GK7@OWNmz7v3QD$MK5hDW0{bQA$1$'',
      ''FV9q2#%)DT+;=W3;G20WA$S6SSm(wMwoqayxs+K@c4nW(^1Pe#&9%8kQ{MtykA1Vxqh4JoT;Wnlw6BH'',
      ''cE!-(mrDVS1|Ssv9C>`~JrRQ0-b2#tra2PTD58asEZ=czJQ?o75d4v0_*%t|0pNbYr=0tf_n3Q_2ex2'',
      ''2u+?r72_`UMRjoS|YSJz$UV4<tM30Jao+q$5m8*nKak>B#<x*z8SRm-Qp}bkwW7(qcv99xp1Gvew|xk'',
      ''x)zK>d9=n^p3o@04<VV8iTN7H>W+&Bbcc->35Z!oca8`Bflqby`p6x8Muq+&}BFFC7n&BRMV$0b;`zo'',
      ''d%a&#l+AYM>SIJ@U%RCDRezryZ@@JIA{N-PW(4`{L$~v1DJ)HBVaQYuLAXRlK`@jCVqOahj6^LmMHtm'',
      ''prW7mK8-k&6CODO!fKWYK{W7}sb}-NtNode60zm<yz|xD#7r=rV4ObeV`n7|<*S$d0i)bVhMW-;3e+#'',
      ''ICc95YnCqE6*CN;*&B1x&So0*2Doa~N0wNv%D3VyOp(Ge=d-MTAt+<vjC>U<?Vr6QWBaQ0O<4mX$ccb'',
      ''gR^;?;L}G>CnqwnIFB^BE{z4OhsxRI9v9(oHIor!DoJnYH?akk()BJ(9Hp+;xrO9a_D<=-S$<ulZ$b!'',
      ''%KEuCJ+51K(~qc%ATkbNJ6R@4Z4H$b|3+C!u)i|Yezs7^O5}MDhKQ>hD>{of5u*ucWeB5d~}K}GK2LI'',
      ''5#YORNvORXfcDN>$WI{RLvdB}V%zo|q;L4xJz4AS0buonAl&8g5g?=Eqmv~&!K;&_7gv4TB<x_i4kom'',
      ''W(|b~+`J@TrME0yD{7jBykRB7m0pslK2}|0dW}c(t3hOU>9x*aj;!wDr-(txo3UkoU$?leZ{|j5MoZ&'',
      ''GJq=(geQEc%L4{Jxa<ndl(48DcvlVF4_&^oZ|ph10ij*ih2*VBAB#2k+33jk0(js-LemI|R>LRec;L8'',
      ''Q}fQVJ>{fDRO}nD`xH@+Pei_Gq&-w(FLNKqDkJ9Gs8D2Wksqv&oD$8QAK~)5O@s{-Db~C8vxVC14A;{'',
      ''X`ac{scF)n?<i6?3+*=<KfJcPA0mk`=|MQI!5=$PF{Yj65S%uDl}gX*(NQ<DLjzz&tSX?2J<<Zi{I-v'',
      ''1<j7*7cOWagk4~mRM>&m6{^!LTGMmbfllm>6~!?nR6Km4G4q}ZoVob5#~!5C2It<P3{4N_{(%B1^3Pj'',
      ''&^fYK};g%?M3#UNEK74CChIF*oX;vd^)I?c8avNPAe~$%gqmi!YTBHTL5u);HPj{b#?`d$q9c<~_`@R'',
      (''idm^_^{^gYo?H`Lh^l-I*N)b4PYRr;_mY4XZ}eLZYJF~TR}3GG#)k3(8F;l%@'' @ ''{TWL;DbQP~ZAAw!!L(''),
      ''yJRz{#(%hiXLA#a!y$^po}25y80pDmoP41)e$S&mR8gVq82ybnWr2=hYGbVNOX*MQtn0Aw%g%_n?h8I'',
      ''>~g7Sr2tW=aGzGWAmTdJ?`=3LB~W-_U8EEi}rh9qb)A2+BS0A*!;Rz;8Q>{$Gtix*;dP9h_*3%4;nH^'',
      ''ayWF_7Vt2Rgk(Mtz_lIjMot@AE$=Z9``cqE9;rX#clOsSj%<Il?KQ=1FLa6dDHptuXb$doi14CE#B|k'',
      ''gG@Wty&746Gb-y{_&+**#u#5Us)s>rGfA{}SVOZBS6*ZRI&tCS|cYaa#0fG0)(M!}N9l?O#z!Rt+vBi'',
      ''oKvH^n*Y;Y8YKBvagtLvtk?uO_SUc^XCUHzfF?HM@$+<t{<Y^cPq9qr*D9%TcmI~{c}flBJ66$~qF52'',
      ''$WSrG(uEmlJ*5-}4oYKcN%tWS^sldbQ-IlEcJz8pF>od#m?@BsRX%r0ab3n^IE^HG1cS>-Pd8n4?Xrc'',
      ''mlg9RQsUCuxKS_m+p52Sh7!iM3B^cqgMEAg`=)hxvE~SoW9iR__Y1P;AQlpqw3Jd#v6V+gP)a9?IoM4'',
      ''Dy9C00?Z`o*(_OC&TrfV=bTRK`m3OtF=F2~DvBa1<aG6p&Zvt!FiY8ZX%g4NPvq!BDX?tWo(Iy(dAi-'',
      ''v$t0dSX7~|6Y~Ytm<DtS2H=MIk7pvUIS(AYByJFk_R<B=(b=Gz@X}-3qinOwQtEDgS!kZ<#)gLC}l^d'',
      ''Je$*B^#3`YVcSnW;wZKLT`^!G7p?gwpn;q3V6h(fdt8)lpAHszh}CO2q79g=bB_hVK2YF~t(i0WU6<U'',
      ''N+0D83kU>w05n{{>J>0|XQR000O8E0#4#K>{Q7p#uN_cnAOhCjbBdaA|NaUv_0~WN&gWV_{=xWn*t{b'',
      ''aHQOFJ@_MWp{F6aByXEE^v9BR>5xLHW0o0D+b9SHjv6ij{$N>w_Tu@roa~1Ls1A6HL|#-NP(nc`|taP'']"

lemma DATA_13_scan: "scans 0 DATA_13 = Some 0"
  unfolding DATA_13_def by (simp only: scan_rules cong: option.case_cong_weak if_weak_cong)

definition DATA_14 :: "string list" where
  "DATA_14 =
     [''vL#vDOY4K}Si?7O-n<#63BDua$#lIBiGIE$j=#NcHXChKjPyxaTPc0~Y%G5bs_!{$ef5oX+P!QDuZM?'',
      ''+{Q0FrB%Q_(Qo#?dCPht8V>q2!qgy%|L?ve84-S{q8h4<;swU%-CzYY9p=mfglLEr2Wk;!1i5f5<6G>'',
      ''Yi8S!bv;xp?ZF;eL(Rs5b>oZ$?ny-Vy;B;SlUBYLsPPv3x`QVOO5Mg(o9KKQdi0?+{lp$rc8B0MvLv6'',
      ''}1gKif=5gc>5wcidGR;>bWz?T5-<A)@vG-<IW$Eb0}!K5%2s6j67~aLy-5tF$&XIHR5m#a7k+1TAKs#'',
      ''Uy<GQgcIPX`D%Axs7a_XQ=)>$#LzIyyRg~mQa9RZ=K%m){oJ$S0Jo^p5%R<pqKd%oP^*+!KscHsUM*g'',
      ''(}y|?Dj3e)IH*vm1EWLMLQ>-$^iwX5ZJNoLxIht!ls&0SL_{hGWk7mSbE1$nD$8si>0lqshf2Hz0k^+'',
      ''?{2M^lpCVcBkAg7tIex+bT|02b3CiRo$}M2tZh^ms;KOKD*s}H<-BW@yO$5X2k(j)In*+*gFmVeM;~M'',
      ''E5qt^je4mpn~9K{RQnh=$_X%$%#g=IOjRISRHD+UvhXAW9~OXY1!eSF#PYp-L`V-CG5d^qfX+QXATcb'',
      ''fNnhCyRQUt-aw&OWN-yC1SMO=IBb2{Sw9%HqBW+o$qhHi&S2ntc~I4Z+<?-HLg$d+zKVai$z+KRayUt'',
      ''rRZv9}B=qmm<4}e)n#cjnA6<wCdqKOpm$V{D&+fyZ@izk-jp08=_c9+NhOA%i$<=-WAJHdjIA9h2H8K'',
      ''yQ5?H_izx?h%JhuSnK*(*~qh&vTd(3s=D+lqAawmRZ?>^QB)2`;CE{RTckJz7<VgYc5@k~xrN*{ZFgV'',
      ''#9Ch0!_s<uZZUNgxW|$>U=XSTqJc$TdF={e!d5EOOtj;q=Lo2Lm^3XJ#j7*bERd!##gH~WDU$!t>sE-'',
      ''%98?ey3IF4YR$WMRd>5;P>Ffe$B%(&33*T=X*yJa6o`MOWRvGq3J2#Tih6W-F@@ruls=L!tNjss;`v&'',
      (''FWPNM9H9g;SCfcePh2;~2-Z7j1ckBpdF!3ngT=n6cV`Q{!KR^dtd-?tGB@'' @ ''{!-i_eScHrky{&5{IdB6P''),
      '')h>@6aWAK2mmXVHAoIr9{j-t001oz001Tc003}la4%nWWo~3|axY_HV`yb#Z*FvQZ)`7UWp#3Cb98BA'',
      ''b1rasl~-GD+cp$__pjhw7?wR-wqvKojOC$Q+oeF$Zmol2C<1|&D4PvMY9tlME&AVgNRg5y=hFB=*5%y'',
      ''zoy$kkEEiIv7&F2XEIYJ()-)rXPAWx)NQNm33r(3q?rSP!hIN898KE3YMOwF!{^pd;ld<JB{qx9rNC?'',
      ''xo(^<W}cpbgDSfMl2?covXC8)PXy?;^feA&BL_CBG%E>_)6r<0Hrk=vX~65&)68CU}&YxV5C;AF7uAo'',
      ''!VQFlPURtel2i?1F)nkVF@fmlD4s7l*a)g(EGZEy0QLqMco*RWCpAxP?Y#lYywc(?!lmFc=KLXw0xu='',
      ''nt&OIVmJnn#O@xe<iW8T80a5cUW@DH-RE79f2d23$FZn%&*(+R`(yvI54`wj3#Jyd+YU48M66M5HPG_'',
      ''N!RAR-V#W1yd{+poO~^m&Is2k>{M@8Am_a!s!%S)4NXXbv=9h0CU)MHLX2J$G@H#U<*nBFaxwu?rb0?'',
      ''|8Vb3YY<0#aGL2uH%oooTteXlxJ`GR91=?+iBxpwvCnTxNXkoI<XiPQRBZc>kh{O%7?_`0tqLA>!lJH'',
      ''K9T(0`F*%XaY_v3+uPa3k;?bqNJxvkm~JM~}=F0H7AvkJ=Tp&iv*g!vv;v-2+xpnd;g^?C^an+VQ7T)'',
      ''uk+c<%5Xx{AlFNC;8_8s&2{ky=#x<xkNKr|BLdz`7a64y!W730m*Vgfj~19U(4s%L)j9Ya~)DS0%X$`'',
      ''T<10|EPh(dCvCt<5l9CcwnI=jcC|{yHc#7qG?-q*;s&A34Oq&bkI^7G?ZN3x{p!WA}%D~eswH|nl!yz'',
      ''88QjbA~SiGEr9Qj@q6E;xWBy9>W>2)9OT|qHBCNn@(S<&G|3Jclf{AW(`F@_RRWnW(`||jb2m>Fn!)7'',
      ''TLn#_*tD6?!n}iK}PidAq>Aqqdlzr#2Z^5Jd2&pEPZkSi(612s?^v&!3RWoOPU1v?ksAwmE<*KvUV04'',
      ''tYJARg6JTnACbN6NW{A$p2S;gZQc;!f_#V79bJ<7I)$FbmA3T938^I{Ftu-`5Vr&3kL>(cH^yU@qWVm'',
      ''O3(J{*Fz{|chCGQ0+y0y(DK417b|IgwN(brDom5Ji+z9Yrqx!{PPrAosSXEX)vo4Y`$i`q;fEm9>+>('',
      ''Tr+9TjgW<P&S%{&`QIyN<uC6;|c7ovz(bsmTdI0&;oW46m}0laBgNB^m{5q6;ow&v(;z~ykPk1DEroA'',
      ''?*Qtm4&Gs<FGNC9N|Fcb;H@41(hV|SKc0FplW?;ip%lVIYaCxA!L9MJw{EQz%5N~X-VZXHKl||sTY^P'',
      ''+5}sHk*Z=@DaluUMV^}a&g5xzK<-W#o>Kh0)6}J$l5-1T6xFJxzHPP6ui8fRV6<h_PAd-aK5GLSln2B'',
      ''$cF>C`Oe0=$7l89JMK9lw2e6{*}V!Ff(=Ql6^Ia~_6ZK}Hau_O%QBohVul9)_5(K{lqCopWahy|M%^$'',
      ''Az!@aI!}4)}&~o<E!a_QJZj<Th|;(rk<v&8RL{0;rrU##`AO$+mh7Hqm+?K`r8f=?E%D7mAdOtAj69?'',
      ''VL=fBe=}XWnnJQM`&)|&8M>wT9|i>=_y=hQ*(jG)9K7=U;Rwu-Z}owhp?Je{(FN6Xf@2*Jm1)Ic)ezC'',
      ''9%uuhCHGI#U+Pi%Gj43$C6b=0Y_mOx_)o=e`O4e$p+o!knQ5-fHCJ2WQPYko+h>x)V_DGV%zAVh-;wv'',
      ''-Alyo)8QuZm((>G7=7`x0nYA>{xet#n0ZwR+F>Lff?IJFugw1S(H)f3)z73`$D?YZaYe7#tHlXnl8jZ'',
      ''MWtrW7o<wU87(X>3WR$em7%abOWAk!Cc_!y%3^XYWZK;RA&zn>k({pjjzqH_n+W0OZrcR+3yHl<~1q4'',
      ''THe@~9ndGW*uE-QYp?I_P8P$7HYbKTt~p1QY-O00;mpmNiJ*ji>M82LJ$}7ytkz0001RX>c!Jc4cm4Z'',
      ''*nhVVPj}zV{dMBa&K%eb7gXAVQgu7WiD`eomg3K+%^z?_pg}BC|2vLYAyt=fqiImv?<V}XpH2+FxHer'',
      ''c^PXdRixHci~RS_kd#Cn_NH9~v5w)#Ilmc7?5ncYkTAucKRXfjPL$o%CsoSs`tL#{CntGb?x7M@yghK'',
      ''4m33V6KO3&Jij}ULR5vwO;8wgq)HhObse~2>{!*mc0mNy!ubA!xf4R8${SU6H5``l~Pj3tStNCAgtJ{'',
      ''j7oSbAlhi&rw*_O++%=k8GHCJJ>K0g8c)g1Sg&WaettQ5YFGj6T|rcxn-^#T;?9jY<Vd?yt<$e_{r_r'',
      ''ZDrs0R@_2qmP_Os4qMGsFqpvy)Zih#sSjt#QYk;argPCOBU#LEYz!(N1b`tMvu~r3F(8-t$_pLj29^u'',
      ''uMMjR3ntZqJ6SvU*Te2<Po^6p^Gl;Ntv~qx1}6=$-dq0ILmmgV6&7|VJ8+lvGqxhfWaVOj0h0+08Kyh'',
      ''X4CJ2xy-WAnVObTbE!A4S)sTGNWW8f`|je^IsEX$*Pt-tLGKVB|78dOv^<74t38ymXrbWjAmj}QJ;AW'',
      ''Q9mn;_cPYGqtduJaJ9gl}Flm&AmTS-@RCRgai>rl>;U}g<%8H^zAM(6JxCYbjW>Nk+W$BKSZFO11xhV'',
      ''Ku&8mvm@e4#qSbF;!pMA8?uA@Z^W9%Ls4NL;hbE;re61_;;?l=%Enjy0S{cy2c*8F;DLr^<HOGTYFLM'',
      ''yu!`4f_M5e2u@<Xqa;M3X6V?V<-}xm3-bXA!+v1VPQ40!fe)5`$|3x&~I?;4+JG#)>=EsxzoC%XzjO3'',
      ''W-iI?%fVajZVN9K!vpI%<G|KVk(g9cqG=R<~FY|Q$-p7L?!s<T}VoLX_+z2P~e}@>Y!U5oKN1Ew*-N2'',
      ''7I>Agqxk|?UbrTsvYQFeFZ3z#b{&l<@~~bnF2Wpw+XxQit7$RELi4=}=L?rKMAFp_DcGafCkvtn#1^I'',
      ''WW!<9%VPpnnWT%Afa|cQ+>r|t+#yZiH1<^70_)Erb#!EjBx1WcMIE5Fu(lli#n;H(RZo&C<ls1<Ey$Y'',
      ''@<eLnldX`lNs>3DcdqbMeL=5h2?{BlJ|tE*U5h0x(DT8*Pg;kTl+*%<D8<|QY&aTms$)k1#wwq07;E2'',
      ''ErgJ$-uJa2?v~$h3&H@4{Cm(#C%uJpU2jVF$9*&s!{eY`7fR$klR2JoM}PcW>`=^t^tK)D6YsKvX14Z'',
      ''PWygeF+Y8M|O4O?>MU=&&Y0G2%;eVR0<hhj(cQ~rkf|hIOAv*G&3AVTFrTY#>UvT`^9o6)gts(#cHO@'',
      ''T5UqyJc8gnK)V%ofbA`B)#jpZ_`FEglTmCe;oV-XhuNbjSvH$JNDXh;IED9q_aTqp@f9}XgmVcuIBZD'',
      ''M@%EK&sqsLW8wkH-C_40PoVC`)eqO!gn%8@QVZ7Vn9PEgP5UG3hc~qNQ!|ivNQA2)tP<KM_`deMMliH'',
      ''-TcFlqQxDrf^!ygX`!T(Bmr7_8ihQF%ovYx>pfXRhNfp5rf?3Q;k5VJ%>%o<RtGCU5@T!KBdGtl%yMP'',
      ''m+woF*#|sw(YB2j+;tAaWg<`e)|_taZ-zvF~z(zC3?=1z$P+g0be#b~50bakw6|>t{F1bc)MnpP+2n='',
      ''q^aOWGHWob09Wy{@ob=UVi)dYJLXs@<1p&2c<hA6auv_GwBL@u6Jc-YMNfz1a$h`A8=RB$ZAZ}FmF;m'',
      ''*qQ>^9{zdsIfxN)&vb}T>vcG;hG{<hh!`Si^ioco;%sNf-XXqsd_2XPZ6R-Ds_8ZEOa)GLRTLAjPYn*'',
      ''d6ke=6P5jAVFYru3DdUVH-n+N3sLYX%kW+>MY+CVVJj=YA4}#zW7FFKPS|m=m6c^e(?fWQ0C=5?i7f6'',
      ''6ldldit3ijX=`&;-FQ}GmQ7&TF*cfjgwWn0UEN{{SD>-U^VMb5;=LX^@~k_VLa3?f`U8r%BbOL0+1V='',
      ''Td8+~yEI>6+iD&7YYbZ`Yf4XuC#)<G}hDk-d^b@sk##F4?8-R5j~b^tcD)H0z%XGeP8BbFYqFcN^=9m'',
      ''K|;NL>dNsK4nZzrI~nJvpXzvtHtFoU0=mjS%r3<_R4!!o9?_hnc@j`R(Ka}^+3(hys@JrlO!|!Go3$!'',
      ''Ag3H2gROQ5?Przs1kM~4;rAA)M#7UAe(bM_YePB@&;<&uvC|X<jX909STyBK;8?f(DXoIAk-`j64kE&'',
      ''KCouE|DP@hT0hZwT7S)}A<xCW&y-j?uaF80@1uNWZg)GGFtfZRCd}A^v#3s+pjESX_vy^{faJqqGMFY'',
      ''obJ)fQY`VVKI8~SfNr65lcGmbwpj784Q=4mz^-^|w=$Lx=ePB(ZGhq4woLQ;p}H!N*!>e#`+W)}I4_?'',
      ''t9iSaDpI&CSk35z;0U(K#J>dv4^|12FcKPDosm(}}yIddKUAg1nqLbsQg096Gn|@e%80rRFGS<Gv=wb'',
      ''^u)LarezUQwDIsCPm^|qnWmtxd~7Hw+UvPwg#BNo8}2OdK-+%*SP;};3<5xfuq1$Oj9<7UM<DDf!KUo'',
      ''1X~uvEILovOUsFL;+cO&TrhTNt(Wu<33uNn9y(olA36IImiKJ>b;3VQJ-Fq<@#-N}-N%HfS4f4UKIzs'',
      ''*5A1dHlzG$-|NXQ%-unyAn_pN){{m1;0|XQR000O8E0#4#i+jaFyZ`_I@&Nz<BLDyZaA|NaUv_0~WN&'',
      ''gWV_{=xWn*t{baHQOFL!cbaByXEE^v8ukUtNDAP~iOJ_VbY7~M@68asFD-Vi)1iHbRnrJueL|DZ-$IP'',
      ''!k??r{y;p69AoBLQ;Lj~0nnO1DtifzWo3Sz=89^`xxW(`X7PW2}be&?X!>moa`m!9c$30C(aCNPV4rq'',
      ''rXBNpi!Oq0p6Lk;L$iTIsj?O*k;Y;a$AhyMH+y01@h|mVjC0sv*U9~ysIOy%Nxrm$FN&9i*u-HiFt4R'',
      ''Kq6_0#<D1qY>j%2xDyi~1oAipmi+-xO9KQH0000804tU?NS+;5{L26U0C52T04o3h0B~t=FJE?LZe(w'',
      ''AFJob2Xk}w>Zgg^QY%gPBV`yb_FJE72ZfSI1UoLQYeULG40x=AQ_xy^tU0L`6NS!Jwu@nihbgH7nC#>'',
      ''Ejk>jKA@0;W}1Phs*&(BZK?j?>;y6B(S1Rhfqg(puzjZwL749e@PYTffdKhC-nEyB-2J}NMDag-Fh#<'',
      ''wC-=E)G19pU}v`POw^<6ryZc7t6&6i)(;m@+|&_1zQKIANT!;$+X%riSQ#YYK44YKMXR8sA0bY*-Lja'',
      ''b}CeX-<Gz-n)xKYn3poRwUt)ZO*zf4~yUS6!M%OF46war#Mvf`WDINZ2kdIO9KQH0000804tU?NWrHD'',
      ''|62tB0L%>l04)Fj0B~t=FJE?LZe(wAFJob2Xk}w>Zgg^QY%gPBV`yb_FJ@_MWnW`qV`ybAaCx0qZExE'',
      '')5dQ98!MPtQXND4VTL%~jup~`@0%;7S*|MT21X?;pj3rVa={O$x<9A0=5@jdbFnzHo-uv_1krqv>v}F'',
      ''}HRV`K%;g`xxCZ$#lYek!8Paq4W(^}>0Qq;hL&^4~FaQ(Vu+N=wq_w_!}$6ncMr)kdfsuwxu1}^ABzp'',
      ''JFxs;)tIB5wPl|2&yY3Mg4-Am3=nR0}fOYGENE*OE6dXJw-bm@Os@pEv9tn3DC5ZMn3}D(0l=#a6;F('',
      ''wZ})7+GS%G9iP6QzA>wPFeE@!%nec=`y>&UEW-OnFI&!)5Y!O*&X}t7ngrtT(hmHYgTemGf|>1aIP4y'',
      ''HSl7`;8_@Joae3g6|8wZ7tN7`?U7S6>5z<RAs6M&hrfcHZw!!)E<cb4D}&qII=7Sp?YG<*hAQ|i7;`&'',
      ''n2ri8>{eJpNUR~B76qCxb5>ZiGW_C?2<l0aGtp?<W#nc*55=|4d4POiSz<4L=;tQrQxL}6M0s-*YV)b'',
      ''1WIP;VlBE)(kkGZuvQCPz1GP_w`Ew8Va_tSv-VIG}C7yeSRdx0e08g%~_E8cLu9w@;$)>cTacdvLn|9'',
      ''EqD`{i|ie!uf}4yDo#1(%ZA=s>&(w*qQF+Ho1kLFICxI3$G$rVuRc0knEIct@ui8uc{v!OZQ!a}KR#$'',
      '';aiT)=JOW^0Rx10)NBqI(9Z2V;!t6f{v^mOLH#SBT1OGXc@0?j{>KZFxcK65v?!tI9*~I(G^MePhAsJ'',
      ''7)#HCG0k%fLdil{p(G;GqIK#4y9IPZ#``ijDmgfjZO${=;xbqQDuMU40<<d(6e*(AH`B(7TKt7pSU=U'',
      ''AF;l5cUBvzBqo6Q5zM~j21)A1Dhy}tG&)1lEXt2W15vp4}wTM66@HzxogWYIJdS&4?3nb!pHH~qOK|P'',
      ''ZpO_gIiX(({6VXPDr0dn<$MjiLKtJNdqHYQVED}!7rW<vl}B^<wbO@oAHx*N?&Kf?p1+<4A}6gJBe19'',
      ''drPcn+X>rIAV02T!0+uXt@JX*5F#pPs0b_a`Uw-dq2mZYS_73J`rV{FV_er#FhQrPs`b<vw5>y%~fhR'',
      ''v>JM-X!K2GN{H|i%}RZarOtVH{e<)nO<;7qQsSv^*xJLJpi>ULiAcdV^5Lp>HhH<85jqB81Tr<p#{Pu'',
      ''?IA&t{(USGphAK0wznOiqy6xD;3DjYxAFEU%3(3_f&OMJw<2$_fU4+u1u{oF$@A=>FT%wpH5GsN?&st'',
      ''=4WhGITETN69>CZn;NTcq%0NyxE91twS>9bPa3*4Hz5A}~3G=+-^1&Ss)b4m{?9d#xBh3W7KBSQy|9l'',
      ''2mu*%xjERK&KgsnC!yyY~<IKea~ee4dmaP2u3#%#bGzyGN>LwNxW3|F&|)G*%ZX}PwphB&elFaLG%%e'',
      ''NW(k$v^cZ!b)dmfI?QRKk}bjau}`8H{R$EDp6=!!9Znh0#Su^`zaHr&O=blfUmId&Q1IA{q}I-D08K!'',
      ''IJpl_*Spp&Zz2T^`drJrF2xq2%9+SIeVi1{kPyF^gi)5-nINO1Vf92i(4-^n$h%N!g$vKR4_@GJTAzc'',
      ''&wf7Yj-g=x;iUFxcc*J#r@eOaZm3v?69#XP{&I^a0MG4)*RFX-GS21;7i_ZT@|lkZz>B!hgP?d#U;6<'',
      ''Xf7SWloQkK@LGi;a$hV09v#`;1W>rS<W)y#dAN<jiN9WdbI=%H|>M!g5;z=rOg{PeBaoYU-_B!?1xG7'',
      ''O6@MlMVZwdOID?fDR-7hAD`R)Cy@&Af4jEiFP33try!W_!+H&9Ch1QY-O00;mpmNiJzh{jZ=0RRBa0{'',
      ''{Rn0001RX>c!Jc4cm4Z*nhVVPj}zV{dMBa&K%eV_{=xWpgibWn^h{Ut?ioXk{*Nd394wZ`&{oz57>ix'',
      ''ztWmFYAUJ3iPzgPQ@@_XF;*(TCFSv64N&Sex#%LV_S5vX!5<s57TW7Jt);4=@?Ndu>B!K0%PB7vcVTc'',
      ''D*&Sj$@Vyg^LtSg23w#&+Np$1@FtaHs)qvjtX8X^C+dQS`+5gW=ntCo-a1Ps4h<07LZ_1^icH(U%|hu'',
      ''W>&S`71$rP;FOyZp0O=DvO0c(03^_Ig*p?8h*VzrX0yO%RU=8=*`0;hO-B!gcOW6x*pswM|cD>$J@cC'',
      ''?T$Bok|!7ns6eb-HgW!S%9LtN~jAp=p$dP_=`30=G4*1ezgBF<WTT$o%F?-?mmUh(vA_am_upg<;Sno'',
      ''~FMrri-YfFB1NF+Dy7k25_UyAO1UPX0x8bvh@>V%3O3mvG6+Lfp^Ax*K<-_Tjy(uBX6{bCTtE%{tYXd'',
      ''~DR9W72=eH0fs0azu?o9S7o!!<+a6-2o%CA)X=DKZAA-s6$DRz<SWqkKXHqHT+Hp@0PkzqtQp=pXJkK'',
      ''tL2CqlZ88#C2D1LZQfUk=6(LV=o!Z*xq1J1#(w}%O9KQH0000804tU?NIkRFfwKSr0Pp|+03ZMW0B~t'',
      ''=FJE?LZe(wAFJo_PZ*pO6VJ}}_X>MtBUtcb8c}<PMY63wJMDOzz4IaF#gSz0&LtG6i!OIFBhh}ZH$?U'',
      ''ZBv`O~wT~Q&Yq8|0A0aSABl+PD~tt7MyCRn3dqz<OzN$FuxFQFV&5pS6waziOo0htKCHq~lZui(Uyyg'',
      ''RA1;5o4|M((%VUPTQaq<|wmQ(xIg6vY;U(Vx9sOqt)-r)dAOz~;Mv+Pc`6>ZV!r-`3=pQ#pMrA3fU3;'',
      ''enhB;fFM{q!3^Z!?7>@Z0Ot_P)h>@6aWAK2mmXVHAp@cr(cT$007(x000~S003}la4%nWWo~3|axY_V'',
      ''Y;SU5ZDB8AZgXiaaCx;>QFGcj5PtWs&`cf-a~!e3ZKk>50gRi_66gS#T&L}L6nnwC8rdg_qx}0@$qvS'',
      ''FzG)un2SEGj`*yAU*5-=%S$+^~lPK~b<5VS-lY1&u3J212+<upgmSfWY-B0OG0!di}TtbIP05YBU!E7'',
      ''0jHA|su*|u%15+=zui+3rI4R8=tfh5D(azdhn3K}U8B+6n8s*L1<amDxsBWWf~2=OiBG?iUz32;jirS'',
      ''jYBYvA2I`_6KR8SQ3bbFEj`S~mn4(Huf8YD%ztOg13)SEt|qVq5d2|FZgKTccoFtehL%X~nQM)r2Ywb'',
      ''$zm>SM6Ji;3Yuq1SeYVHzJiNF#K(A?Sd*ng^J-(wajOorxWAe-XAu8863Ycf0;D}Dnc0v0N%m_gF&w;'',
      ''?e-<@2m6$pG7dk>{HSj>N~y$NaLIh#fL8YW7euP$YTYnooT)HuNl4daTwhm2B|zlv*(hM^V!&SlNTEo'',
      ''T66|@W8@*3hln@Q^-S!y-cCiw9%rj0Hmx^N3sbaX=gHDV$QpO`VQR|$@nF8n*PUNUG(Tf`Jlk5e}(JN'',
      ''%nRAP1+2Nq7juKm3OOm);+XM%7P$0A6~#QE*(i>(RIl-bqALWPoAx@Cv<*+zZ+L(?6g%{HKPT}H2Cxb'',
      ''2I*@?uZt%#lW|-L5xqCuAlrJNWqNMQGrj6n0?@Zd@_6kHqo(Y4#fGsG`1~FP?^r@oU(A#U2g)kFTMQE'',
      ''9$5DvSj`kxE*r%fBM1D%`oca53{_l&&B&pK<hXlrP^qUC7yI_K>CgW7QwjIN(5X3+%1A&RtI_p_#8~9'',
      ''^QRinFLOKwXHuR49)@?pY&ARu-Wb6DJe-{|-WuTPezFScz)e~1GFa7tca}k}$SMJRw(CJ#Qzp^_4rZF'',
      ''-#OHY?6vQ1fRC)k%v_8q!#XRD`##F?`j87+b_bYQ&VeqGsf9F&Ho>dVxfLj6Ptd5Lc1r%px5Cr<CIUa'',
      ''*j3jwbJ%CpiK0&glnpH;<pTLI>*j>&IoUKr8n`%iemYx08E<OQ$E3tp2Kye2PrO<wStyx=u?!TYsdaG'',
      ''fSIxK5KBT&KwnuG8cP*J(0@>ohsSb($>UI(1Jh)gk?l2gE`XODz)_Pacj3TinBJzIYf;%Sf;4K{%Z1K'',
      ''O~N2>1U6Dj}M}@r9F6z8AG-$Q^QNFD5z}}?}IW}z8u=tzfem91QY-O00;mpmNiIH=|^H-3IG5}B>(^;'',
      ''0001RX>c!Jc4cm4Z*nhVZ)|UJVQpbAVQzD2bZ>WQZZk42aCxm+ZFAeW5&rI9fu28*N@<PleCUi*jYn2'',
      ''=i7$@Rv7K>K$HRdsNaBS8cm!BS_wwJn3xFgDQnY%lW<2H#_QCGr*#|E?Br}n3i*&VC<R`(YT2oHm(?V'',
      ''rzOHPkZUXRJe?OXEtXqM4ZGLoeU<B~;0GDfa0XY=dZIa#I|8y}>bToj5Fth$n0SzQWwaIh@IhKwnfDX'',
      ''~wdaQ&kw01dA$X!6Zm-KuQ{5A{E5_MCFXicMvCpYl7njqqY7GEwL&&*1fG)f{dXSr*}cny0a1QXL!|R'',
      ''G1TTEjW0+wCzYL2^UH~Jv$)qYg*cl!x7jo*b<t?G*)UGN>wnr8JYG4Q)R))no6ovVc$h0Nb!Cfj0oim'',
      ''VxEr8GYyzzR7waNpWhcW&sh<Qr=MA(EN&14`aiyugjxs^$}(9KD&c-1N;QfIO;pNP_=pl!K+bboFs?{'',
      ''mi0@mn6a}GKrlHWm^r=(~Y!U|DQ)sG)PU42CwOEkgxkwcYM*$>ookCBLp9Ra<iYm4sN)S;N8fzx_zgY'',
      ''p9A}N=O@&s7nx{V2o<CLc=jzh_^B>?I$7ZFJ+TN^6=4he+wl(D0dFIXWHpbBBoYOB^59rT<Ra1U`|=G'',
      ''IKYK&dt1bOV=S>EP5+!gEg4npGWFDKu#w*Cy!QIF74Uld8Snz`6|yoirgFIMJ?{!p`e}(K#nX%M{xxY'',
      ''<Fv0H*jVk43J{ql>_AaGd68?tD0I^TzBFgOQWAymzz9e8^|aUrylo;2zvA*%pgE4#IwYTf_i}*ra75j'',
      ''-(HerO$#6&GlY=rmy!Vuq~R0h9UY1^|DoQ1ta+)F9ZaCA+FD2(2bw_9b0w-egrZ)S9Ow;RBtT->rWiU'',
      ''A&*1N74kJ>qaUwQ3$Ws`6Jw84;|9brT_1A|mJU{!o`2Ef3)hK+RN54*w{`EM5_owGjnuahyWmSlb+}a'',
      ''4pCEhQ}#73t3`E)xQ>gN&r8Dlr+qwwqZ<G;1~F#UXj8mBq|w_B+o)|uFBAUg;97R&@yDl$W0uW1S6&m'',
      ''>cmA8968tDx?>)DO8RHjv3J3ijAY2mwOdJ605<Hp{w2;dCI^qRfCQjA$3YO;Bfv!wbRCGDBu9Q6h996'',
      ''H8OChdKi2qrP@~Nx*ZEEF_eXH0=qd5wytC%Es45wlPmUm94XijYdsRg2&H>>R=+|80(QtCM4i0aNM~^'',
      ''UQ30PMwg&ErvJDk&!YGSCGx})J$0f|VGBqNh_O>e4iLQC&@GsdQfdJwIPbu$l>snSpodKI075HsJ+U>'',
      ''tIUpe$uf}AyU4iT5&f1U0Kw)SP+MQ7FCRKqXWsU=5%F;A*VBn40jVW)jV6st3!$AqP7~7_r7Eac%(4A'',
      ''Q~9QAX>Q4mivn(;iZEg^}<0D@^I>3W>?t4Y6e!0Qm_c01tXBoh)Iqnr4+p3d$2(WpZojjjLh2*q4g0_'',
      ''MepQf6gLt5++i%BDB0>gA5Wst9@l>jc$~$p>x~+9FLr43<PM+w|y@I)F-t%_zgN0g3~7Bt5mjwy_Qt6'',
      ''Nisrwu_y|ZBk%uJhP^tjRc*yK{0gwyn?JW2~yYSRwJTjQ1ra2b=1+sYUaS-T~RVq#8@VJ%7hD;&q}S2'']"

lemma DATA_14_scan: "scans 0 DATA_14 = Some 0"
  unfolding DATA_14_def by (simp only: scan_rules cong: option.case_cong_weak if_weak_cong)

end
