(* ===== verification/Get_Pip_Payload.thy ===== *)
theory Get_Pip_Payload
  imports Get_Pip Get_Pip_Data_1 Get_Pip_Data_2 Get_Pip_Data_3 Get_Pip_Data_4 Get_Pip_Data_5
    Get_Pip_Data_6 Get_Pip_Data_7
begin

text \<open>
  The first 2100 lines of the constant \<open>DATA\<close> of \<open>roles/bootstrap-os/files/get-pip.py\<close>, together: they
  decode, whatever the lines are that follow them, to the beginning of a zip archive of pip.
\<close>

definition DATA_lines :: "string list" where
  "DATA_lines = concat [DATA_1, DATA_2, DATA_3, DATA_4, DATA_5, DATA_6, DATA_7, DATA_8, DATA_9, DATA_10,
     DATA_11, DATA_12, DATA_13, DATA_14]"

text \<open>The literal: a line break before the first line and after every line.\<close>

definition data_literal :: "string list \<Rightarrow> string" where
  "data_literal lines = CHR 0x0A # concat (map (\<lambda>l. l @ [CHR 0x0A]) lines)"

text \<open>\<open>DATA.replace(b"\n", b"")\<close>.\<close>

definition without_breaks :: "string \<Rightarrow> string" where
  "without_breaks s = filter (\<lambda>c. c \<noteq> CHR 0x0A) s"

lemma scans_append: "scans p (a @ b) = (case scans p a of None \<Rightarrow> None | Some q \<Rightarrow> scans q b)"
  by (simp add: scans_concat scan_append split: option.split)

lemmas DATA_scans = DATA_1_scan DATA_2_scan DATA_3_scan DATA_4_scan DATA_5_scan DATA_6_scan DATA_7_scan
  DATA_8_scan DATA_9_scan DATA_10_scan DATA_11_scan DATA_12_scan DATA_13_scan DATA_14_scan

lemma DATA_scan: "scan 0 (concat DATA_lines) = Some 0"
proof -
  have "scans 0 DATA_lines = Some 0"
    by (simp only: DATA_lines_def concat.simps append_Nil2 scans_append DATA_scans option.case)
  then show ?thesis by (simp only: scans_concat)
qed

lemma without_breaks_lines: "without_breaks (data_literal lines) = filter (\<lambda>c. c \<noteq> CHR 0x0A) (concat lines)"
  by (induction lines) (simp_all add: without_breaks_def data_literal_def)

text \<open>The first twelve hunks, and what they stand for.\<close>

definition first_text :: string where
  "first_text = ''P)h>@6aWAK2mmXVHAu`kGfJ8b006%z000jF003}la4%n9X>MtBUtcb8d7WDS''"

definition first_hunks :: "string list" where
  "first_hunks =
     [''PK'' @ [CHR 0x03, CHR 0x04],
      [CHR 0x14, CHR 0x00, CHR 0x00, CHR 0x00],
      [CHR 0x08, CHR 0x00] @ ''+'' @ [CHR 0x96],
      ''5H'' @ [CHR 0xCC] @ ''9'',
      ''3J'' @ [CHR 0x9A, CHR 0x0D],
      [CHR 0x00, CHR 0x00, CHR 0xBF] @ ''('',
      [CHR 0x00, CHR 0x00, CHR 0x0F, CHR 0x00],
      [CHR 0x00, CHR 0x00] @ ''pi'',
      ''p/__'',
      ''init'',
      ''__.p'',
      ''y'' @ [CHR 0x9D] @ ''Z'' @ [CHR 0xFF]]"

lemma first_line: "\<exists>l rest. DATA_1 = (first_text @ l) # rest"
proof -
  have "\<exists>rest. DATA_1 = (first_text @ ''Z`-yK|J{ED>nxD8+S;<'') # rest"
    unfolding DATA_1_def first_text_def append.simps by blast
  then show ?thesis by blast
qed

text \<open>C20: The lines of the script decode without error, whatever lines follow them, and the result begins
  with the signature of a zip archive and the name of its first member, \<open>pip/__init__.py\<close>: four bytes for
  every five characters, and what follows is decoded on its own.\<close>

theorem payload_is_archive:
  "\<exists>head. 5 * length head = 4 * length (concat DATA_lines) \<and>
     take 4 head = ''PK'' @ [CHR 0x03, CHR 0x04] \<and> take 15 (drop 30 head) = ''pip/__init__.py'' \<and>
     (\<forall>more. case b85decode (without_breaks (data_literal more)) of
        Inl e \<Rightarrow> \<not> is_ok (b85decode (without_breaks (data_literal (DATA_lines @ more))))
      | Inr rest \<Rightarrow> b85decode (without_breaks (data_literal (DATA_lines @ more))) = Inr (head @ rest))"
proof -
  let ?t = "concat DATA_lines"
  obtain xs where five: "5 dvd length ?t" and xs: "b85_hunks 0 ?t = Inr xs"
    using scan_decodes [OF DATA_scan, of 0] by (auto simp: is_ok_iff)
  have joined: "without_breaks (data_literal (DATA_lines @ more)) = ?t @ without_breaks (data_literal more)" for more
    unfolding without_breaks_lines using scan_no_newline [OF DATA_scan] by simp
  have more: "case b85decode (without_breaks (data_literal more)) of
        Inl e \<Rightarrow> \<not> is_ok (b85decode (without_breaks (data_literal (DATA_lines @ more))))
      | Inr rest \<Rightarrow> b85decode (without_breaks (data_literal (DATA_lines @ more))) = Inr (concat xs @ rest)" for more
    unfolding joined by (rule b85decode_append [OF five xs])
  have "length (concat xs) = 4 * ((length ?t + 4) div 5)" by (rule hunks_length [OF xs])
  then have len: "5 * length (concat xs) = 4 * length ?t" using five by (auto elim!: dvdE)
  obtain l rest where d: "DATA_1 = (first_text @ l) # rest" using first_line by blast
  have "?t = concat DATA_1 @ concat (concat (tl [DATA_1, DATA_2, DATA_3, DATA_4, DATA_5, DATA_6, DATA_7, DATA_8,
      DATA_9, DATA_10, DATA_11, DATA_12, DATA_13, DATA_14]))"
    by (simp add: DATA_lines_def)
  then have "\<exists>t. ?t = first_text @ t" unfolding d by (auto simp del: concat_append)
  then obtain t where t: "?t = first_text @ t" by blast
  have "length first_text = 60" by (simp add: first_text_def)
  then obtain ys zs where "b85_hunks 0 first_text = Inr ys" and cat: "xs = ys @ zs"
    using xs hunks_append [of first_text 0 t] by (auto simp: t rbind_eq_Inr_iff rmap_eq_Inr_iff)
  moreover have "b85_hunks 0 first_text = Inr first_hunks" by code_simp
  ultimately have "concat xs = concat first_hunks @ concat zs" by simp
  moreover have "length (concat first_hunks) = 48" "take 4 (concat first_hunks) = ''PK'' @ [CHR 0x03, CHR 0x04]"
    "take 15 (drop 30 (concat first_hunks)) = ''pip/__init__.py''" by code_simp+
  ultimately have "take 4 (concat xs) = ''PK'' @ [CHR 0x03, CHR 0x04]" "take 15 (drop 30 (concat xs)) = ''pip/__init__.py''"
    by simp_all
  with len more show ?thesis by blast
qed

end
