(* ===== verification/Aws_Inventory.thy ===== *)
theory Aws_Inventory
  imports Json
begin

text \<open>
  \<open>contrib/aws_inventory/kubespray-aws-inventory.py\<close>: the dynamic inventory of the running EC2 instances
  that carry a \<open>kubespray-role\<close> tag. What the service answers to a query is an argument of the model, a
  function of the region and the filters; the parsed arguments and the environment are arguments too.
\<close>

section \<open>Sorted output\<close>

text \<open>\<open>json.dumps(v, sort_keys=True, indent=2)\<close>.\<close>

fun sort_json :: "json \<Rightarrow> json" where
  "sort_json (JList xs) = JList (map sort_json xs)"
| "sort_json (JDict d) = JDict (sort_key fst (map (\<lambda>kv. (fst kv, sort_json (snd kv))) d))"
| "sort_json v = v"

section \<open>The program\<close>

record ec2_instance =
  public_dns_name :: string
  private_dns_name :: string
  public_ip_address :: "string option"
  private_ip_address :: "string option"

type_synonym ec2_filters = "(string \<times> string list) list"
type_synonym ec2 = "string \<Rightarrow> ec2_filters \<Rightarrow> ec2_instance list res"

definition vpc_visibility :: "(string, string) dict \<Rightarrow> string" where
  "vpc_visibility environ = (case dict_get environ ''VPC_VISIBILITY'' of Some v \<Rightarrow> v | None \<Rightarrow> ''private'')"

definition role_filters :: "string \<Rightarrow> ec2_filters" where
  "role_filters grp =
     [(''tag:'' @ ''kubespray-role'', [''*'' @ grp @ ''*'']), (''instance-state-name'', [''running''])]"

definition ip_json :: "string option \<Rightarrow> json" where
  "ip_json ip = (case ip of None \<Rightarrow> JNull | Some s \<Rightarrow> JStr s)"

text \<open>The name an instance is listed under, and its variables.\<close>

definition instance_entry :: "string \<Rightarrow> ec2_instance \<Rightarrow> string \<times> json" where
  "instance_entry visibility i =
     (if visibility = ''public''
      then (public_dns_name i, JDict [(''ansible_ssh_host'', ip_json (public_ip_address i))])
      else (private_dns_name i, JDict [(''ansible_ssh_host'', ip_json (private_ip_address i))]))"

type_synonym found = "(string, string list) dict \<times> (string, json) dict"

definition add_instance :: "string \<Rightarrow> string \<Rightarrow> found \<Rightarrow> ec2_instance \<Rightarrow> found" where
  "add_instance visibility grp st i =
     (case st of (hosts, hostvars) \<Rightarrow>
        (dict_set hosts grp ((case dict_get hosts grp of Some names \<Rightarrow> names | None \<Rightarrow> []) @
           [fst (instance_entry visibility i)]),
         dict_set hostvars (fst (instance_entry visibility i)) (snd (instance_entry visibility i))))"

definition search_group :: "(string, string) dict \<Rightarrow> ec2 \<Rightarrow> found \<Rightarrow> string \<Rightarrow> found res" where
  "search_group environ ec2 st grp =
     (case st of (hosts, hostvars) \<Rightarrow>
        case dict_get environ ''REGION'' of
          None \<Rightarrow> Inl (KeyError ''REGION'')
        | Some region \<Rightarrow>
            rmap (foldl (add_instance (vpc_visibility environ) grp) (dict_set hosts grp [], hostvars))
              (ec2 region (role_filters grp)))"

definition hosts_json :: "found \<Rightarrow> json" where
  "hosts_json st =
     (case st of (hosts, hostvars) \<Rightarrow>
        JDict (dict_set ((''_meta'', JDict [(''hostvars'', JDict hostvars)]) #
            map (\<lambda>(grp, names). (grp, JList (map JStr names))) hosts)
          ''k8s-cluster'' (JDict [(''children'', JList [JStr ''kube-master'', JStr ''kube-node''])])))"

definition search_tags :: "(string, string) dict \<Rightarrow> ec2 \<Rightarrow> string res" where
  "search_tags environ ec2 =
     rmap (\<lambda>st. json_dumps (Some 2) (sort_json (hosts_json st)) @ [CHR 0x0A])
       (rfold (search_group environ ec2) ([], []) [''kube-master'', ''kube-node'', ''etcd''])"

record aws_args =
  aws_list :: bool
  aws_host :: bool

definition SearchEC2Tags :: "aws_args \<Rightarrow> (string, string) dict \<Rightarrow> ec2 \<Rightarrow> string res" where
  "SearchEC2Tags args environ ec2 =
     rbind (if aws_list args then search_tags environ ec2 else Inr []) (\<lambda>out.
     Inr (out @ (if aws_host args then json_dumps (Some 2) (JDict []) @ [CHR 0x0A] else [])))"

section \<open>Sorting keeps the value\<close>

lemma dict_ok_sort: "dict_ok d \<Longrightarrow> dict_ok (sort_key fst d)"
proof -
  assume "dict_ok d"
  then have "distinct (map fst d)" by (simp add: dict_ok_def dict_keys_def)
  then have "distinct (map fst (sort_key fst d))"
    by (metis distinct_map distinct_sort inj_on_subset set_sort subset_refl)
  then show ?thesis by (simp add: dict_ok_def dict_keys_def)
qed

lemma dict_get_sort: "dict_ok d \<Longrightarrow> dict_get (sort_key fst d) k = dict_get d k"
proof -
  assume d: "dict_ok d"
  then have "map_of (sort_key fst d) = map_of d"
    using dict_ok_sort [OF d] by (subst map_of_inject_set) (simp_all add: dict_ok_def dict_keys_def)
  then show ?thesis by (simp add: dict_get_def)
qed

lemma dict_keys_map: "dict_keys (map (\<lambda>kv. (fst kv, f (snd kv))) d) = dict_keys d"
  by (induction d) auto

lemma dict_get_map: "dict_get (map (\<lambda>kv. (fst kv, f (snd kv))) d) k = map_option f (dict_get d k)"
  by (induction d) auto

lemma dict_ok_map: "dict_ok (map (\<lambda>kv. (fst kv, f (snd kv))) d) \<longleftrightarrow> dict_ok d"
  by (simp add: dict_ok_def dict_keys_map)

lemma sort_json_ok: "json_ok v \<Longrightarrow> json_ok (sort_json v)"
proof (induction v rule: sort_json.induct)
  case (2 d)
  then have "dict_ok (map (\<lambda>kv. (fst kv, sort_json (snd kv))) d)" by (simp add: dict_ok_map)
  with 2 show ?case by (auto intro: dict_ok_sort)
qed auto

lemma sort_json_get:
  "json_ok (JDict d) \<Longrightarrow> sort_json (JDict d) = JDict e \<Longrightarrow> dict_get e k = map_option sort_json (dict_get d k)"
  by (auto simp: dict_get_sort dict_ok_map dict_get_map)

section \<open>What the listing holds\<close>

definition aws_groups :: "string list" where
  "aws_groups = [''kube-master'', ''kube-node'', ''etcd'']"

lemma dict_set_set: "dict_set (dict_set d k v) k w = dict_set d k w"
  by (induction d) auto

lemma add_instances:
  "dict_get hosts grp = Some names \<Longrightarrow> foldl (add_instance v grp) (hosts, hostvars) insts =
     (dict_set hosts grp (names @ map (\<lambda>i. fst (instance_entry v i)) insts),
      dict_update hostvars (map (instance_entry v) insts))"
proof (induction insts arbitrary: hosts hostvars names)
  case Nil
  then show ?case by (simp add: dict_update_def dict_set_same)
next
  case (Cons i insts)
  let ?h = "dict_set hosts grp (names @ [fst (instance_entry v i)])"
  have "dict_get ?h grp = Some (names @ [fst (instance_entry v i)])" by simp
  from Cons.IH [OF this] Cons.prems show ?case
    by (simp add: add_instance_def dict_set_set dict_update_def split_beta)
qed

lemma searched:
  assumes "dict_get environ ''REGION'' = Some region"
    and "\<forall>g \<in> set aws_groups. service region (role_filters g) = Inr (insts g)"
  shows "rfold (search_group environ service) ([], []) aws_groups =
     Inr (map (\<lambda>g. (g, map (\<lambda>i. fst (instance_entry (vpc_visibility environ) i)) (insts g))) aws_groups,
       dict_update [] (concat (map (\<lambda>g. map (instance_entry (vpc_visibility environ)) (insts g)) aws_groups)))"
proof -
  have "search_group environ service (hosts, hostvars) g = Inr
      (dict_set hosts g (map (\<lambda>i. fst (instance_entry (vpc_visibility environ) i)) (insts g)),
       dict_update hostvars (map (instance_entry (vpc_visibility environ)) (insts g)))"
    if "g \<in> set aws_groups" for hosts hostvars g
    using add_instances [of "dict_set hosts g []" g "[]"] bspec [OF assms(2) that]
    by (simp add: search_group_def assms(1) dict_set_set)
  then show ?thesis by (simp add: aws_groups_def dict_update_def)
qed

lemma dict_update_last:
  assumes "\<forall>e \<in> set es. \<forall>f \<in> set es. fst e = fst f \<longrightarrow> snd e = snd f" "(k, v) \<in> set es"
  shows "dict_get (dict_update [] es) k = Some v"
proof -
  have "dict_get (dict_update [] es) k = map_of (rev es) k"
    using pd.get_put_all [of "[]" es k] by (simp add: dict_update_def split: option.splits)
  moreover obtain w where w: "map_of (rev es) k = Some w"
    using assms(2) by (metis (no_types) image_eqI fst_conv map_of_eq_None_iff not_None_eq set_rev)
  then have "(k, w) \<in> set es" using map_of_SomeD by force
  ultimately show ?thesis using w assms by fastforce
qed

lemma ip_json_ok [simp]: "json_ok (ip_json ip)" "sort_json (ip_json ip) = ip_json ip"
  by (simp_all add: ip_json_def split: option.split)

lemma entry_ok: "json_ok (snd (instance_entry v i))" "sort_json (snd (instance_entry v i)) = snd (instance_entry v i)"
  by (simp_all add: instance_entry_def dict_ok_def)

lemma dict_update_values: "set (dict_update d es) \<subseteq> set d \<union> set es"
proof (induction es arbitrary: d)
  case (Cons e es)
  then show ?case
    using dict_set_entries [of d "fst e" "snd e"] by (fastforce simp: dict_update_def split_beta)
qed (simp add: dict_update_def)

lemma listing_hosts_ok:
  assumes "dict_ok hosts" "dict_ok hostvars" "\<forall>kv \<in> set hostvars. json_ok (snd kv)" "''_meta'' \<notin> set (dict_keys hosts)"
  shows "json_ok (hosts_json (hosts, hostvars))"
proof -
  let ?d = "(''_meta'', JDict [(''hostvars'', JDict hostvars)]) # map (\<lambda>(grp, names). (grp, JList (map JStr names))) hosts"
  have "dict_keys (map (\<lambda>(grp, names). (grp, JList (map JStr names))) hosts) = dict_keys hosts"
    by (induction hosts) auto
  then have "dict_ok ?d" using assms(1,4) by (simp add: dict_ok_def)
  then have "dict_ok (dict_set ?d ''k8s-cluster'' v)" for v by (rule pd.ok_put)
  moreover have "json_ok (snd kv)" if "kv \<in> set ?d" for kv
    using that assms(2,3) by (auto simp: dict_ok_def)
  ultimately show ?thesis
    unfolding hosts_json_def using dict_set_entries [of ?d "''k8s-cluster''"] by (fastforce simp: dict_ok_def)
qed

text \<open>What the printed listing holds, from what was found.\<close>

lemma listing_lookup:
  assumes "json_ok (hosts_json (hosts, hv))" "json_ok (JDict hv)" "sort_json (hosts_json (hosts, hv)) = JDict d"
  shows "g \<notin> {''_meta'', ''k8s-cluster''} \<Longrightarrow>
      dict_get d g = map_option (\<lambda>names. JList (map JStr names)) (dict_get hosts g)"
    "dict_get d ''k8s-cluster'' = Some (JDict [(''children'', JList [JStr ''kube-master'', JStr ''kube-node''])])"
    "\<exists>hv'. dict_get d ''_meta'' = Some (JDict [(''hostvars'', JDict hv')]) \<and>
      (\<forall>k. dict_get hv' k = map_option sort_json (dict_get hv k))"
proof -
  obtain e where e: "hosts_json (hosts, hv) = JDict e" by (simp add: hosts_json_def)
  have ek: "e = dict_set ((''_meta'', JDict [(''hostvars'', JDict hv)]) #
      map (\<lambda>(grp, names). (grp, JList (map JStr names))) hosts)
      ''k8s-cluster'' (JDict [(''children'', JList [JStr ''kube-master'', JStr ''kube-node''])])"
    using e by (simp add: hosts_json_def)
  have k: "dict_get d k = map_option sort_json (dict_get e k)" for k
    using sort_json_get [of e d] assms(1,3) by (simp only: e)
  have "dict_get (map (\<lambda>(grp, names). (grp, JList (map JStr names))) hosts) g =
      map_option (\<lambda>names. JList (map JStr names)) (dict_get hosts g)" for g
    by (induction hosts) auto
  then show "g \<notin> {''_meta'', ''k8s-cluster''} \<Longrightarrow>
      dict_get d g = map_option (\<lambda>names. JList (map JStr names)) (dict_get hosts g)"
    unfolding k ek by (cases "dict_get hosts g") (simp_all add: comp_def)
  show "dict_get d ''k8s-cluster'' = Some (JDict [(''children'', JList [JStr ''kube-master'', JStr ''kube-node''])])"
    unfolding k ek by simp
  obtain hv' where hv': "sort_json (JDict hv) = JDict hv'" by simp
  then have "dict_get d ''_meta'' = Some (JDict [(''hostvars'', JDict hv')])" unfolding k ek by simp
  with sort_json_get [OF assms(2) hv'] show "\<exists>hv'. dict_get d ''_meta'' = Some (JDict [(''hostvars'', JDict hv')]) \<and>
      (\<forall>k. dict_get hv' k = map_option sort_json (dict_get hv k))" by blast
qed

text \<open>C21: \<open>--list\<close> prints a JSON text that reads back with every group and exactly the instances the
  service has for it, in order and even when there are none, the cluster group over masters and nodes,
  and under \<open>_meta\<close> the address of every instance listed.\<close>

theorem aws_list_exact:
  assumes "dict_get environ ''REGION'' = Some region"
    and "\<forall>g \<in> set aws_groups. service region (role_filters g) = Inr (insts g)"
    and "\<forall>i \<in> (\<Union>g \<in> set aws_groups. set (insts g)). \<forall>j \<in> (\<Union>g \<in> set aws_groups. set (insts g)).
      fst (instance_entry (vpc_visibility environ) i) = fst (instance_entry (vpc_visibility environ) j) \<longrightarrow>
      snd (instance_entry (vpc_visibility environ) i) = snd (instance_entry (vpc_visibility environ) j)"
  shows "\<exists>out d hostvars. SearchEC2Tags \<lparr> aws_list = True, aws_host = False \<rparr> environ service = Inr out \<and>
     json_loads out = Inr (JDict d) \<and>
     (\<forall>g \<in> set aws_groups. dict_get d g =
        Some (JList (map (\<lambda>i. JStr (fst (instance_entry (vpc_visibility environ) i))) (insts g)))) \<and>
     dict_get d ''k8s-cluster'' = Some (JDict [(''children'', JList [JStr ''kube-master'', JStr ''kube-node''])]) \<and>
     dict_get d ''_meta'' = Some (JDict [(''hostvars'', JDict hostvars)]) \<and>
     (\<forall>g \<in> set aws_groups. \<forall>i \<in> set (insts g).
        dict_get hostvars (fst (instance_entry (vpc_visibility environ) i)) =
          Some (snd (instance_entry (vpc_visibility environ) i)))"
proof -
  let ?v = "vpc_visibility environ"
  define es where "es = concat (map (\<lambda>g. map (instance_entry ?v) (insts g)) aws_groups)"
  define hosts where "hosts = map (\<lambda>g. (g, map (\<lambda>i. fst (instance_entry ?v i)) (insts g))) aws_groups"
  define hv where "hv = dict_update [] es"
  have "set hv \<subseteq> set es" using dict_update_values [of "[]" es] by (simp add: hv_def)
  then have hvok: "dict_ok hv" "\<forall>kv \<in> set hv. json_ok (snd kv)"
    using pd.ok_put_all [of "[]" es] entry_ok(1) by (auto simp: hv_def dict_update_def es_def dict_ok_def [of "[]"])
  have get: "dict_get hv (fst (instance_entry ?v i)) = Some (snd (instance_entry ?v i))"
    if "g \<in> set aws_groups" "i \<in> set (insts g)" for g i
  proof -
    have es: "set es = instance_entry ?v ` (\<Union>g \<in> set aws_groups. set (insts g))"
      by (simp add: es_def image_UN)
    have c: "\<forall>e \<in> set es. \<forall>f \<in> set es. fst e = fst f \<longrightarrow> snd e = snd f"
      using assms(3) unfolding es by (simp only: ball_simps)
    have "(fst (instance_entry ?v i), snd (instance_entry ?v i)) \<in> set es"
      unfolding es prod.collapse using that by blast
    then show ?thesis unfolding hv_def by (rule dict_update_last [OF c])
  qed
  have ok: "json_ok (hosts_json (hosts, hv))"
    by (rule listing_hosts_ok [OF _ hvok]) (simp_all add: hosts_def aws_groups_def dict_ok_def)
  obtain d where d: "sort_json (hosts_json (hosts, hv)) = JDict d" by (simp add: hosts_json_def)
  have "rfold (search_group environ service) ([], []) aws_groups = Inr (hosts, hv)"
    unfolding hosts_def hv_def es_def by (rule searched [where service = service, OF assms(1,2)])
  then have "search_tags environ service = Inr (json_dumps (Some 2) (JDict d) @ [CHR 0x0A])"
    unfolding search_tags_def aws_groups_def by (simp only: rmap_simps d)
  then have out: "SearchEC2Tags \<lparr> aws_list = True, aws_host = False \<rparr> environ service =
      Inr (json_dumps (Some 2) (JDict d) @ [CHR 0x0A])"
    by (simp add: SearchEC2Tags_def)
  have "json_ok (JDict d)" using sort_json_ok [OF ok] by (simp only: d)
  then have reads: "json_loads (json_dumps (Some 2) (JDict d) @ [CHR 0x0A]) = Inr (JDict d)"
    by (rule json_loads_dumps_ws) (simp add: is_ws_def)
  note l = listing_lookup [OF ok _ d]
  have hj: "json_ok (JDict hv)" using hvok by simp
  have "\<forall>g \<in> set aws_groups. dict_get d g = Some (JList (map (\<lambda>i. JStr (fst (instance_entry ?v i))) (insts g)))"
    using l(1) [OF hj] by (simp add: hosts_def aws_groups_def comp_def)
  moreover obtain hv' where "dict_get d ''_meta'' = Some (JDict [(''hostvars'', JDict hv')])"
    and h: "\<And>k. dict_get hv' k = map_option sort_json (dict_get hv k)"
    using l(3) [OF hj] by blast
  moreover have "dict_get hv' (fst (instance_entry ?v i)) = Some (snd (instance_entry ?v i))"
    if "g \<in> set aws_groups" "i \<in> set (insts g)" for g i
    by (simp add: h get [OF that] entry_ok(2))
  ultimately show ?thesis using out reads l(2) [OF hj] by blast
qed

definition demo_instance :: ec2_instance where
  "demo_instance = \<lparr> public_dns_name = ''ec2-1'', private_dns_name = ''ip-10-0-0-1'',
     public_ip_address = None, private_ip_address = Some ''10.0.0.1'' \<rparr>"

definition demo_ec2 :: ec2 where
  "demo_ec2 region filters =
     Inr (if filters = role_filters ''etcd'' then [] else [demo_instance])"

definition demo_insts :: "string \<Rightarrow> ec2_instance list" where
  "demo_insts g = (if g = ''etcd'' then [] else [demo_instance])"

theorem aws_list_exact_witness:
  "\<exists>out d. SearchEC2Tags \<lparr> aws_list = True, aws_host = False \<rparr> [(''REGION'', ''us-east-1'')] demo_ec2 = Inr out \<and>
     json_loads out = Inr (JDict d) \<and> dict_get d ''kube-node'' = Some (JList [JStr ''ip-10-0-0-1'']) \<and>
     dict_get d ''etcd'' = Some (JList [])"
proof -
  have q: "\<forall>g \<in> set aws_groups. demo_ec2 ''us-east-1'' (role_filters g) =
      Inr (demo_insts g)"
    by (simp add: demo_insts_def demo_ec2_def role_filters_def aws_groups_def)
  have n: "fst (instance_entry (vpc_visibility [(''REGION'', ''us-east-1'')]) demo_instance) = ''ip-10-0-0-1''" by code_simp
  have g: "''kube-node'' \<in> set aws_groups" "''etcd'' \<in> set aws_groups" by (simp_all add: aws_groups_def)
  have r: "dict_get [(''REGION'', ''us-east-1'')] ''REGION'' = Some ''us-east-1''" by simp
  have c: "\<forall>i \<in> (\<Union>g \<in> set aws_groups. set (demo_insts g)). \<forall>j \<in> (\<Union>g \<in> set aws_groups. set (demo_insts g)).
      fst (instance_entry (vpc_visibility [(''REGION'', ''us-east-1'')]) i) =
        fst (instance_entry (vpc_visibility [(''REGION'', ''us-east-1'')]) j) \<longrightarrow>
      snd (instance_entry (vpc_visibility [(''REGION'', ''us-east-1'')]) i) =
        snd (instance_entry (vpc_visibility [(''REGION'', ''us-east-1'')]) j)"
    by (simp add: aws_groups_def demo_insts_def)
  note listed = aws_list_exact [where service = demo_ec2, OF r q c]
  from listed obtain out d where
    o: "SearchEC2Tags \<lparr> aws_list = True, aws_host = False \<rparr> [(''REGION'', ''us-east-1'')] demo_ec2 = Inr out"
      "json_loads out = Inr (JDict d)"
    and d: "\<forall>g \<in> set aws_groups. dict_get d g = Some (JList (map (\<lambda>i. JStr (fst (instance_entry
        (vpc_visibility [(''REGION'', ''us-east-1'')]) i))) (demo_insts g)))"
    by blast
  then have "dict_get d ''kube-node'' = Some (JList [JStr ''ip-10-0-0-1''])" "dict_get d ''etcd'' = Some (JList [])"
    using g n by (simp_all add: demo_insts_def)
  with o show ?thesis by blast
qed

text \<open>What the public sees of an instance, taken away.\<close>

definition redact :: "ec2_instance \<Rightarrow> ec2_instance" where
  "redact i = i\<lparr>public_dns_name := [], public_ip_address := None\<rparr>"

text \<open>C22: Unless the environment asks for public names, what is printed, and whether it fails, does not
  depend on the public names and addresses of the instances.\<close>

theorem private_by_default:
  assumes "dict_get environ ''VPC_VISIBILITY'' \<noteq> Some ''public''"
  shows "SearchEC2Tags args environ (\<lambda>region filters. rmap (map redact) (service region filters)) =
    SearchEC2Tags args environ service"
proof -
  have v: "vpc_visibility environ \<noteq> ''public''"
    using assms by (auto simp: vpc_visibility_def split: option.split)
  then have i: "add_instance (vpc_visibility environ) g st (redact i) = add_instance (vpc_visibility environ) g st i" for g st i
    by (simp add: add_instance_def instance_entry_def redact_def)
  have "foldl (add_instance (vpc_visibility environ) g) st (map redact insts) =
      foldl (add_instance (vpc_visibility environ) g) st insts" for g st insts
    by (induction insts arbitrary: st) (simp_all add: i)
  then have "search_group environ (\<lambda>region filters. rmap (map redact) (service region filters)) st g =
      search_group environ service st g" for st g
    by (simp add: search_group_def rmap_def rbind_def split: prod.split option.split sum.split)
  then have "search_group environ (\<lambda>region filters. rmap (map redact) (service region filters)) = search_group environ service"
    by blast
  then show ?thesis by (simp only: SearchEC2Tags_def search_tags_def)
qed

theorem private_by_default_witness:
  "SearchEC2Tags \<lparr> aws_list = True, aws_host = False \<rparr> [(''REGION'', ''us-east-1'')]
     (\<lambda>region filters. rmap (map redact) (demo_ec2 region filters)) =
   SearchEC2Tags \<lparr> aws_list = True, aws_host = False \<rparr> [(''REGION'', ''us-east-1'')] demo_ec2"
  by (rule private_by_default) simp

end
