(* ===== verification/Notebook_Image.thy ===== *)
theory Notebook_Image
  imports Py_Strings
begin

text \<open>
  The two Python files of the notebook image, \<open>customized/nvidia/image\<close>: the server configuration
  \<open>jupyter_notebook_config.py\<close>, with the password hash of IPython as an argument, and the query function
  of \<open>connector/dbi.py\<close>, with the random number and the reading of the result as arguments.
\<close>

section \<open>The server configuration\<close>

record notebook_app =
  nb_ip :: string
  nb_port :: int
  nb_open_browser :: bool
  nb_password :: "string option"
  nb_token :: "string option"

type_synonym os_environ = "(string, string) dict"

definition notebook_config :: "(string \<Rightarrow> string) \<Rightarrow> notebook_app \<Rightarrow> os_environ \<Rightarrow> (notebook_app \<times> os_environ) res" where
  "notebook_config passwd app environ =
     rbind (case dict_get environ ''PORT'' of None \<Rightarrow> Inr 8888 | Some s \<Rightarrow> py_int s) (\<lambda>port.
       let app = app\<lparr>nb_ip := ''*'', nb_port := port, nb_open_browser := False\<rparr>
       in Inr (case dict_get environ ''PASSWORD'' of
                 None \<Rightarrow> (app, environ)
               | Some password \<Rightarrow>
                   (if password \<noteq> [] then app\<lparr>nb_password := Some (passwd password)\<rparr>
                    else app\<lparr>nb_password := Some [], nb_token := Some []\<rparr>,
                    dict_del environ ''PASSWORD'')))"

text \<open>When the configuration is loaded the password is in the environment no more, every other variable
  is as it was, the server keeps only the hash, and an authentication token is switched off exactly when
  the password is set and empty.\<close>

lemma password_not_left:
  assumes "notebook_config passwd app environ = Inr (app', environ')"
  shows "dict_get environ' k = (if k = ''PASSWORD'' then None else dict_get environ k) \<and>
     nb_token app' = (if dict_get environ ''PASSWORD'' = Some [] then Some [] else nb_token app) \<and>
     nb_password app' =
       (case dict_get environ ''PASSWORD'' of None \<Rightarrow> nb_password app
        | Some p \<Rightarrow> if p = [] then Some [] else Some (passwd p))"
proof (cases "dict_get environ ''PASSWORD''")
  case None
  then show ?thesis using assms by (auto simp: notebook_config_def rbind_eq_Inr_iff Let_def)
next
  case (Some p)
  then show ?thesis
    using assms by (cases "p = []") (auto simp: notebook_config_def rbind_eq_Inr_iff Let_def)
qed

section \<open>A database query\<close>

datatype effect =
    Print string
  | System string
  | ReadCsv string

definition PREFIX_OUTFILE :: string where
  "PREFIX_OUTFILE = ''/home/jovyan/notebooks/data/''"

text \<open>The file is named by a random number; the effects are listed in order, with the frame or the error.\<close>

definition dbGetQuery :: "(string \<Rightarrow> 'frame res) \<Rightarrow> nat \<Rightarrow> string \<Rightarrow> string \<Rightarrow> string \<Rightarrow> bool \<Rightarrow> effect list \<times> 'frame res" where
  "dbGetQuery read_csv n query source sep clean_outfile =
     (let outfile = ''temp'' @ nat_str n @ ''.csv'';
          cmd = ''jdbc-cli -t '' @ source @ '' -o '' @ outfile @ '' -q '' @ [CHR 0x22] @ query @ [CHR 0x22] @
            '' -s '' @ [CHR 0x22] @ sep @ [CHR 0x22];
          run = [Print (''cmd:'' @ cmd), System cmd, ReadCsv (PREFIX_OUTFILE @ outfile)]
      in case read_csv (PREFIX_OUTFILE @ outfile) of
           Inl e \<Rightarrow> (run, Inl e)
         | Inr df \<Rightarrow> (run @ (if clean_outfile then [System (''rm '' @ PREFIX_OUTFILE @ outfile)] else []), Inr df))"

text \<open>The file that is removed is the file that was read, and it is removed only after it could be
  read: a result the reader rejects stays on disk, whatever \<open>clean_outfile\<close> says.\<close>

lemma query_file_cleaned:
  "case dbGetQuery read_csv n query source sep clean_outfile of (effects, result) \<Rightarrow>
     (\<exists>path. ReadCsv path \<in> set effects \<and> result = read_csv path \<and>
        (System (''rm '' @ path) \<in> set effects \<longleftrightarrow> clean_outfile \<and> is_ok result))"
  by (auto simp: dbGetQuery_def Let_def PREFIX_OUTFILE_def split: sum.split)

end
