(* ===== verification/Notebook_Cells.thy ===== *)
theory Notebook_Cells
  imports Complex_Main Py_Strings
begin

text \<open>
  Functions and loops of the tutorial notebooks of \<open>customized/nvidia/image/notebooks\<close> that are plain
  Python: the downloads, the images, the labels, the error rate and the training schedule of
  \<open>3_mnist_from_scratch.ipynb\<close>, the training data of \<open>4_keras-cnn.ipynb\<close> and the matrix power of
  \<open>6_tensor-multi-gpus.ipynb\<close>. The libraries they call are arguments; an array of numpy is a list of
  rows, and its floats are exact rational numbers.
\<close>

section \<open>Downloads\<close>

record download_world =
  dl_files :: "string \<rightharpoonup> string"
  dl_dirs :: "string list"

definition SOURCE_URL :: string where
  "SOURCE_URL = ''https://storage.googleapis.com/cvdf-datasets/mnist/''"

definition WORK_DIRECTORY :: string where
  "WORK_DIRECTORY = ''/tmp/mnist-data''"

text \<open>\<open>urlretrieve\<close> leaves what it has read in the file, also when it fails.\<close>

definition maybe_download :: "(string \<Rightarrow> string option \<times> unit res) \<Rightarrow> string \<Rightarrow> download_world \<Rightarrow> string res \<times> download_world" where
  "maybe_download urlretrieve filename w =
     (let w = (if WORK_DIRECTORY \<in> set (dl_dirs w) then w else w\<lparr>dl_dirs := WORK_DIRECTORY # dl_dirs w\<rparr>);
          filepath = path_join WORK_DIRECTORY filename
      in if dl_files w filepath = None
         then (case urlretrieve (SOURCE_URL @ filename) of
                 (data, r) \<Rightarrow>
                   (rmap (\<lambda>_. filepath) r,
                    case data of None \<Rightarrow> w | Some s \<Rightarrow> w\<lparr>dl_files := (dl_files w)(filepath \<mapsto> s)\<rparr>))
         else (Inr filepath, w))"

text \<open>A file is fetched once, and what a failed transfer left behind counts as the file.\<close>

lemma download_once:
  assumes "maybe_download urlretrieve filename w = (r, w')" "dl_files w' (path_join WORK_DIRECTORY filename) \<noteq> None"
  shows "maybe_download urlretrieve' filename w' = (Inr (path_join WORK_DIRECTORY filename), w')"
  using assms by (auto simp: maybe_download_def Let_def split: prod.splits if_splits option.splits)

section \<open>Images\<close>

definition IMAGE_SIZE :: nat where
  "IMAGE_SIZE = 28"

definition PIXEL_DEPTH :: nat where
  "PIXEL_DEPTH = 255"

text \<open>
  An array of numpy by its shape and its entries. \<open>reshape\<close> is an argument; it is documented to keep the
  entries in row-major order, and to raise when their number does not fit the shape.
\<close>

record 'a ndarray =
  shape :: "nat list"
  entry :: "nat list \<Rightarrow> 'a"

fun flat_index :: "nat list \<Rightarrow> nat list \<Rightarrow> nat" where
  "flat_index (n # ns) (i # is) = i * prod_list ns + flat_index ns is"
| "flat_index _ _ = 0"

definition documented_reshape :: "('a list \<Rightarrow> nat list \<Rightarrow> 'a ndarray res) \<Rightarrow> bool" where
  "documented_reshape reshape = (\<forall>xs ns.
     if length xs = prod_list ns
     then \<exists>A. reshape xs ns = Inr A \<and> shape A = ns \<and>
       (\<forall>is. list_all2 (<) is ns \<longrightarrow> entry A is = xs ! flat_index ns is)
     else reshape xs ns = Inl (ValueError ''cannot reshape array''))"

definition rescale :: "char \<Rightarrow> rat" where
  "rescale c = (of_nat (of_char c) - of_nat PIXEL_DEPTH / 2) / of_nat PIXEL_DEPTH"

text \<open>The unpacked file: sixteen bytes of header, then a byte per pixel; a short file does not fit the shape.\<close>

definition extract_data :: "(rat list \<Rightarrow> nat list \<Rightarrow> rat ndarray res) \<Rightarrow> string \<Rightarrow> nat \<Rightarrow> rat ndarray res" where
  "extract_data reshape contents num_images =
     (let buf = take (IMAGE_SIZE * IMAGE_SIZE * num_images) (drop 16 contents);
          data = map rescale buf
      in reshape data [num_images, IMAGE_SIZE, IMAGE_SIZE, 1])"

lemma rescale_bounds: "\<bar>rescale c\<bar> \<le> 1 / 2"
proof -
  have "of_char c < (256 :: nat)" by simp
  then have "of_nat (of_char c) \<le> (255 :: rat)" by linarith
  then show ?thesis by (simp add: rescale_def PIXEL_DEPTH_def abs_le_iff divide_simps)
qed

lemma image_index:
  assumes "i < n" "y < 28" "x < (28 :: nat)"
  shows "i * 784 + (y * 28 + x) < n * 784"
  using assms by linarith

text \<open>C39: A file is read exactly when it holds all the images asked for. The array has one channel of 28 rows
  of 28 pixels for each; the pixel at row \<open>y\<close> and column \<open>x\<close> of an image is the byte at its place after the
  header, and lies between -0.5 and 0.5.\<close>

theorem extract_data_pixels:
  assumes "documented_reshape reshape" "i < num_images" "y < 28" "x < 28"
  shows "if 16 + 784 * num_images \<le> length contents
     then \<exists>images. extract_data reshape contents num_images = Inr images \<and> shape images = [num_images, 28, 28, 1] \<and>
       entry images [i, y, x, 0] = rescale (contents ! (16 + 784 * i + 28 * y + x)) \<and> \<bar>entry images [i, y, x, 0]\<bar> \<le> 1 / 2
     else extract_data reshape contents num_images = Inl (ValueError ''cannot reshape array'')"
proof -
  define data where "data = map rescale (take (784 * num_images) (drop 16 contents))"
  let ?shape = "[num_images, 28, 28, 1]"
  have read: "extract_data reshape contents num_images = reshape data ?shape"
    by (simp add: extract_data_def data_def IMAGE_SIZE_def Let_def)
  have len: "length data = prod_list ?shape \<longleftrightarrow> 16 + 784 * num_images \<le> length contents"
    using assms(2) by (auto simp: data_def min_def)
  note doc = assms(1) [unfolded documented_reshape_def, rule_format, of data ?shape]
  show ?thesis
  proof (cases "16 + 784 * num_images \<le> length contents")
    case True
    with doc len obtain A where A: "reshape data ?shape = Inr A" "shape A = ?shape"
      and e: "\<forall>is. list_all2 (<) is ?shape \<longrightarrow> entry A is = data ! flat_index ?shape is" by auto
    have "entry A [i, y, x, 0] = data ! (i * 784 + (y * 28 + x))" using e assms(2-4) by simp
    moreover have "data ! (i * 784 + (y * 28 + x)) = rescale (contents ! (16 + (i * 784 + (y * 28 + x))))"
      using image_index [OF assms(2-4)] True by (simp add: data_def)
    ultimately have "entry A [i, y, x, 0] = rescale (contents ! (16 + 784 * i + 28 * y + x))"
      by (simp add: ac_simps)
    with A True rescale_bounds [of "contents ! (16 + 784 * i + 28 * y + x)"] show ?thesis by (simp add: read)
  next
    case False
    with doc len show ?thesis by (simp add: read)
  qed
qed

theorem extract_data_pixels_witness:
  "\<exists>images. extract_data
     (\<lambda>xs ns. if length xs = prod_list ns then Inr \<lparr>shape = ns, entry = \<lambda>is. xs ! flat_index ns is\<rparr>
            else Inl (ValueError ''cannot reshape array'')) (replicate 800 CHR 0xFF) 1 = Inr images \<and>
     entry images [0, 27, 27, 0] = 1 / 2"
proof -
  let ?reshape = "\<lambda>xs ns. if length xs = prod_list ns then Inr \<lparr>shape = ns, entry = \<lambda>is. xs ! flat_index ns is\<rparr>
            else Inl (ValueError ''cannot reshape array'')"
  have "documented_reshape ?reshape" by (simp add: documented_reshape_def)
  from extract_data_pixels [OF this, of 0 1 27 27 "replicate 800 CHR 0xFF"]
  show ?thesis by (auto simp: rescale_def PIXEL_DEPTH_def)
qed

section \<open>Labels and error rate\<close>

definition NUM_LABELS :: nat where
  "NUM_LABELS = 10"

definition one_hot :: "nat \<Rightarrow> nat list" where
  "one_hot l = map (\<lambda>i. if i = l then 1 else 0) [0..<NUM_LABELS]"

text \<open>The unpacked file: eight bytes of header, then a byte per label.\<close>

definition extract_labels :: "string \<Rightarrow> nat \<Rightarrow> nat list list" where
  "extract_labels contents num_images = map (\<lambda>c. one_hot (of_char c)) (take num_images (drop 8 contents))"

definition add_confusion :: "nat list list \<Rightarrow> nat \<times> nat \<Rightarrow> nat list list res" where
  "add_confusion confusions pair =
     (case pair of (predicted, actual) \<Rightarrow>
        if predicted < 10 \<and> actual < 10
        then Inr (confusions[predicted := (confusions ! predicted)[actual := confusions ! predicted ! actual + 1]])
        else Inl IndexError)"

text \<open>
  On as many rows of predictions as of labels; \<open>argmax\<close>, the place of the greatest entry of a row, is an
  argument. The counts are exact as long as there are no more than \<open>2 ^ 24\<close> rows; the error rate is the exact
  quotient, without the rounding of floats.
\<close>

definition error_rate :: "('row \<Rightarrow> nat) \<Rightarrow> 'row list \<Rightarrow> 'row list \<Rightarrow> (rat \<times> nat list list) res" where
  "error_rate argmax predictions labels =
     (let bundled = zip (map argmax predictions) (map argmax labels);
          correct = length (filter (\<lambda>(p, a). p = a) bundled);
          total = length predictions
      in if total = 0 then Inl ZeroDivisionError
         else rmap (\<lambda>confusions. (100 - 100 * of_nat correct / of_nat total, confusions))
           (rfold add_confusion (replicate 10 (replicate 10 0)) bundled))"

definition square :: "nat list list \<Rightarrow> bool" where
  "square C = (length C = 10 \<and> (\<forall>row \<in> set C. length row = 10))"

lemma add_confusion_count:
  assumes "square C" "add_confusion C (x, y) = Inr C'"
  shows "square C'" "p < 10 \<Longrightarrow> a < 10 \<Longrightarrow> C' ! p ! a = C ! p ! a + (if x = p \<and> y = a then 1 else 0)"
proof -
  have x: "x < 10" "y < 10" and c: "C' = C[x := (C ! x)[y := C ! x ! y + 1]]"
    using assms(2) by (auto simp: add_confusion_def split: if_splits)
  have row: "length (C ! i) = 10" if "i < 10" for i using assms(1) that by (simp add: square_def)
  show "square C'" using assms(1) x row by (auto simp: c square_def dest: set_update_subset_insert [THEN subsetD])
  show "p < 10 \<Longrightarrow> a < 10 \<Longrightarrow> C' ! p ! a = C ! p ! a + (if x = p \<and> y = a then 1 else 0)"
    using assms(1) x row by (auto simp: c square_def nth_list_update)
qed

lemma confusions_count:
  "square C \<Longrightarrow> rfold add_confusion C ps = Inr C' \<Longrightarrow>
     square C' \<and> (\<forall>p < 10. \<forall>a < 10. C' ! p ! a = C ! p ! a + length (filter (\<lambda>q. q = (p, a)) ps))"
proof (induction ps arbitrary: C)
  case (Cons q ps)
  obtain x y where q: "q = (x, y)" by force
  from Cons.prems(2) obtain D where d: "add_confusion C (x, y) = Inr D" and r: "rfold add_confusion D ps = Inr C'"
    by (auto simp: q rbind_eq_Inr_iff)
  note step = add_confusion_count [OF Cons.prems(1) d]
  from Cons.IH [OF step(1) r] step(2) show ?case by (simp add: q)
qed simp

lemma confusions_range: "rfold add_confusion C ps = Inr C' \<Longrightarrow> \<forall>(p, a) \<in> set ps. p < 10 \<and> a < 10"
  by (induction ps arbitrary: C) (auto simp: rbind_eq_Inr_iff add_confusion_def split: if_splits)

lemma diagonal:
  "\<forall>(p, a) \<in> set ps. p < (10 :: nat) \<and> a < (10 :: nat) \<Longrightarrow>
     (\<Sum>p < 10. length (filter (\<lambda>q. q = (p, p)) ps)) = length (filter (\<lambda>(p, a). p = a) ps)"
proof (induction ps)
  case (Cons q ps)
  obtain x y where q: "q = (x, y)" by force
  have "(\<Sum>p < 10. if q = (p, p) then 1 else 0) = (if x = y then 1 else (0 :: nat))"
    using Cons.prems by (auto simp: q)
  moreover have "length (filter (\<lambda>q. q = (p, p)) (q # ps)) =
      (if q = (p, p) then 1 else 0) + length (filter (\<lambda>q. q = (p, p)) ps)" for p by simp
  ultimately show ?case using Cons by (simp only: sum.distrib) (simp add: q)
qed simp

text \<open>The matrix of confusions counts, for every predicted and every actual label, the rows with that
  pair, and the error rate is what is missing on its diagonal: the two results agree.\<close>

lemma error_rate_confusions:
  assumes "length predictions = length labels" "error_rate argmax predictions labels = Inr (error, confusions)"
  shows "(\<forall>p < 10. \<forall>a < 10. confusions ! p ! a =
       length (filter (\<lambda>q. q = (p, a)) (zip (map argmax predictions) (map argmax labels)))) \<and>
     error = 100 - 100 * of_nat (\<Sum>p < 10. confusions ! p ! p) / of_nat (length predictions)"
proof -
  let ?z = "zip (map argmax predictions) (map argmax labels)"
  have c: "rfold add_confusion (replicate 10 (replicate 10 0)) ?z = Inr confusions"
    and e: "error = 100 - 100 * of_nat (length (filter (\<lambda>(p, a). p = a) ?z)) / of_nat (length predictions)"
    using assms(2) by (auto simp: error_rate_def Let_def rmap_eq_Inr_iff split: if_splits)
  have "square (replicate 10 (replicate 10 0))" by (simp add: square_def)
  from confusions_count [OF this c]
  have n: "\<forall>p < 10. \<forall>a < 10. confusions ! p ! a = length (filter (\<lambda>q. q = (p, a)) ?z)" by simp
  then have "(\<Sum>p < 10. confusions ! p ! p) = length (filter (\<lambda>(p, a). p = a) ?z)"
    using diagonal [OF confusions_range [OF c]] by simp
  with n e show ?thesis by simp
qed

section \<open>The training schedule\<close>

definition VALIDATION_SIZE :: nat where
  "VALIDATION_SIZE = 5000"

definition BATCH_SIZE :: nat where
  "BATCH_SIZE = 60"

text \<open>The validation set and the training set, images or labels alike.\<close>

definition split_validation :: "'a list \<Rightarrow> 'a list \<times> 'a list" where
  "split_validation train = (take VALIDATION_SIZE train, drop VALIDATION_SIZE train)"

text \<open>The offset of a minibatch; Python takes the remainder by zero as an error, by a negative number never here.\<close>

definition batch_offset :: "nat \<Rightarrow> nat \<Rightarrow> nat res" where
  "batch_offset train_size step =
     (if train_size = BATCH_SIZE then Inl ZeroDivisionError
      else Inr (nat (int (step * BATCH_SIZE) mod (int train_size - int BATCH_SIZE))))"

text \<open>The slices that the loop feeds to the graph, step by step.\<close>

definition minibatches :: "'a list \<Rightarrow> 'a list list res" where
  "minibatches train =
     (let train_size = length train; steps = train_size div BATCH_SIZE
      in rfold (\<lambda>fed step. rmap (\<lambda>off. fed @ [take BATCH_SIZE (drop off train)]) (batch_offset train_size step))
           [] [0..<steps])"

lemma below_div: "s < m div (60 :: nat) \<Longrightarrow> s * 60 + 60 \<le> m"
  using less_eq_div_iff_mult_less_eq [of 60 "Suc s" m] by simp

lemma batch_offset_below:
  assumes "step < (n - 1) div BATCH_SIZE"
  shows "batch_offset n step = Inr (step * BATCH_SIZE)"
proof -
  have "step * BATCH_SIZE + BATCH_SIZE \<le> n - 1" using assms below_div by (simp add: BATCH_SIZE_def)
  then have "int (step * BATCH_SIZE) < int n - int BATCH_SIZE" "n \<noteq> BATCH_SIZE" by (auto simp: BATCH_SIZE_def)
  then show ?thesis by (simp add: batch_offset_def del: of_nat_mult)
qed

lemma batch_offset_last:
  assumes "step = (n - 1) div BATCH_SIZE" "step < n div BATCH_SIZE" "BATCH_SIZE < n"
  shows "batch_offset n step = Inr 0"
proof -
  have "step * BATCH_SIZE = n - BATCH_SIZE"
    using assms by (simp add: BATCH_SIZE_def)
  then show ?thesis using assms(3) by (simp add: batch_offset_def of_nat_diff)
qed

definition offset_of :: "nat \<Rightarrow> nat \<Rightarrow> nat" where
  "offset_of n step = (if step < (n - 1) div BATCH_SIZE then step * BATCH_SIZE else 0)"

lemma batch_offset_of: "step < n div BATCH_SIZE \<Longrightarrow> BATCH_SIZE < n \<Longrightarrow> batch_offset n step = Inr (offset_of n step)"
proof (cases "step < (n - 1) div BATCH_SIZE")
  case False
  assume "step < n div BATCH_SIZE" "BATCH_SIZE < n"
  moreover from this False have "step = (n - 1) div BATCH_SIZE" by (simp add: BATCH_SIZE_def)
  ultimately show ?thesis by (simp add: batch_offset_last offset_of_def)
qed (simp add: batch_offset_below offset_of_def)

lemma minibatches_map:
  assumes "BATCH_SIZE < length xs"
  shows "minibatches xs = Inr (map (\<lambda>s. take BATCH_SIZE (drop (offset_of (length xs) s) xs)) [0..<length xs div BATCH_SIZE])"
proof -
  have "rfold (\<lambda>fed step. rmap (\<lambda>off. fed @ [take BATCH_SIZE (drop off xs)]) (batch_offset (length xs) step)) fed ss =
      Inr (fed @ map (\<lambda>s. take BATCH_SIZE (drop (offset_of (length xs) s) xs)) ss)"
    if "\<forall>s \<in> set ss. s < length xs div BATCH_SIZE" for fed ss
    using that by (induction ss arbitrary: fed) (simp_all add: batch_offset_of assms)
  from this [of "[0..<length xs div BATCH_SIZE]" "[]"] show ?thesis by (simp add: minibatches_def Let_def)
qed

lemma concat_slices:
  "n * k \<le> length xs \<Longrightarrow> concat (map (\<lambda>s. take k (drop (s * k) xs)) [0..<n]) = take (n * k) xs"
proof (induction n)
  case (Suc n)
  then have "concat (map (\<lambda>s. take k (drop (s * k) xs)) [0..<n]) = take (n * k) xs" by simp
  then show ?case by (simp add: add.commute [of k] take_add)
qed simp

text \<open>C38: With more than one batch of training data the loop always feeds full batches of 60, whose beginning is
  the training set in order without gap or repetition: of \<open>n\<close> rows all but the last \<open>n mod 60\<close>, or all
  but the last 60 where 60 divides \<open>n\<close>, since the last step then feeds the first batch again.\<close>

theorem minibatches_in_order:
  assumes "60 < length train" "k = (length train - 1) div 60"
  shows "\<exists>fed. minibatches train = Inr fed \<and> length fed = length train div 60 \<and> list_all (\<lambda>b. length b = 60) fed \<and>
     concat (take k fed) = take (60 * k) train \<and> list_all (\<lambda>b. b = take 60 train) (drop k fed)"
proof -
  let ?n = "length train"
  let ?fed = "map (\<lambda>s. take 60 (drop (offset_of ?n s) train)) [0..<?n div 60]"
  have off: "offset_of ?n s + 60 \<le> ?n" for s
  proof (cases "s < (?n - 1) div 60")
    case True
    from below_div [OF this] have "s * 60 + 60 \<le> ?n" by linarith
    with True show ?thesis by (simp add: offset_of_def BATCH_SIZE_def)
  qed (use assms(1) in \<open>simp add: offset_of_def BATCH_SIZE_def\<close>)
  have "length (take 60 (drop (offset_of ?n s) train)) = 60" for s using off [of s] by simp
  then have full: "list_all (\<lambda>b. length b = 60) ?fed" by (simp only: list_all_iff set_map ball_simps) simp
  have k: "k \<le> ?n div 60" "k * 60 \<le> ?n" using assms(2) by (simp_all add: div_le_mono)
  have "take k ?fed = map (\<lambda>s. take 60 (drop (s * 60) train)) [0..<k]"
    using k(1) assms(2) by (simp add: take_map offset_of_def BATCH_SIZE_def)
  then have order: "concat (take k ?fed) = take (60 * k) train" using concat_slices [OF k(2)] by (simp add: mult.commute)
  have rest: "list_all (\<lambda>b. b = take 60 train) (drop k ?fed)"
    using assms(2) by (simp add: drop_map list_all_iff offset_of_def BATCH_SIZE_def)
  from minibatches_map [of train] assms(1) have "minibatches train = Inr ?fed" by (simp add: BATCH_SIZE_def)
  with full order rest show ?thesis by (intro exI [of _ ?fed]) simp
qed

theorem minibatches_in_order_witness:
  "\<exists>fed. minibatches [0..<120] = Inr fed \<and> length fed = 2 \<and> concat (take 1 fed) = [0..<60]"
  using minibatches_in_order [of "[0..<120]" 1] by (auto simp: take_upt)

section \<open>Context windows\<close>

text \<open>The pairs that \<open>generate_data\<close> yields, in their order; the padding and the encoding of Keras are arguments.\<close>

definition context_of :: "int \<Rightarrow> 'a list \<Rightarrow> nat \<Rightarrow> 'a list" where
  "context_of window_size words index =
     (let L = int (length words); s = int index - window_size; e = int index + window_size + 1
      in map (\<lambda>i. words ! nat i) (filter (\<lambda>i. 0 \<le> i \<and> i < L \<and> i \<noteq> int index) [s..e - 1]))"

definition generate_data ::
    "('w list list \<Rightarrow> int \<Rightarrow> 'x) \<Rightarrow> ('w list \<Rightarrow> 'v \<Rightarrow> 'y) \<Rightarrow> 'w list list \<Rightarrow> int \<Rightarrow> 'v \<Rightarrow> ('x \<times> 'y) list" where
  "generate_data pad_sequences to_categorical corpus window_size V =
     concat (map (\<lambda>words.
       map (\<lambda>(index, word). (pad_sequences [context_of window_size words index] (window_size * 2),
                             to_categorical [word] V))
         (enumerate 0 words)) corpus)"

lemma upto_filter_bounds: "filter (\<lambda>i. a \<le> i \<and> i < b) [s..e] = [max a s..min (b - 1) e]"
proof (rule sorted_distinct_set_unique)
  show "set (filter (\<lambda>i. a \<le> i \<and> i < b) [s..e]) = set [max a s..min (b - 1) e]" by auto
qed (simp_all add: sorted_wrt_filter)

lemma map_nth_upto:
  assumes "0 \<le> a" "a \<le> b" "b < int (length xs)"
  shows "map (\<lambda>i. xs ! nat i) [a..b] = take (nat (b - a + 1)) (drop (nat a) xs)"
proof (rule nth_equalityI)
  fix i assume "i < length (map (\<lambda>i. xs ! nat i) [a..b])"
  then have "int i \<le> b - a" by simp
  with assms show "map (\<lambda>i. xs ! nat i) [a..b] ! i = take (nat (b - a + 1)) (drop (nat a) xs) ! i"
    by (simp add: nat_add_distrib)
qed (use assms in auto)

lemma map_nth_upto':
  assumes "0 \<le> a" "b < int (length xs)"
  shows "map (\<lambda>i. xs ! nat i) [a..b] = take (nat (b + 1 - a)) (drop (nat a) xs)"
  using map_nth_upto [of a b xs] assms by (cases "a \<le> b") (simp_all add: algebra_simps)

lemma enumerate_map: "enumerate 0 xs = map (\<lambda>i. (i, xs ! i)) [0..<length xs]"
  by (rule nth_equalityI) (simp_all add: nth_enumerate_eq)

lemma context_window:
  assumes i: "i < length words"
  shows "context_of (int w) words i = drop (i - w) (take i words) @ take w (drop (Suc i) words)"
proof -
  let ?L = "int (length words)"
  have split: "[int i - int w..int i + int w] = [int i - int w..int i - 1] @ int i # [int i + 1..int i + int w]"
    by (simp add: upto_split3 [of "int i - int w" "int i"])
  have left: "filter (\<lambda>j. 0 \<le> j \<and> j < ?L \<and> j \<noteq> int i) [int i - int w..int i - 1] = [int (i - w)..int i - 1]"
  proof -
    have "filter (\<lambda>j. 0 \<le> j \<and> j < ?L \<and> j \<noteq> int i) [int i - int w..int i - 1] =
        filter (\<lambda>j. 0 \<le> j \<and> j < ?L) [int i - int w..int i - 1]" by (rule filter_cong) auto
    also have "\<dots> = [int (i - w)..int i - 1]"
      using i by (simp add: upto_filter_bounds max_def min_def of_nat_diff)
    finally show ?thesis .
  qed
  have right: "filter (\<lambda>j. 0 \<le> j \<and> j < ?L \<and> j \<noteq> int i) [int i + 1..int i + int w] =
      [int i + 1..min (?L - 1) (int i + int w)]"
  proof -
    have "filter (\<lambda>j. 0 \<le> j \<and> j < ?L \<and> j \<noteq> int i) [int i + 1..int i + int w] =
        filter (\<lambda>j. 0 \<le> j \<and> j < ?L) [int i + 1..int i + int w]" by (rule filter_cong) auto
    then show ?thesis by (simp add: upto_filter_bounds max_def)
  qed
  have "map (\<lambda>j. words ! nat j) [int (i - w)..int i - 1] = drop (i - w) (take i words)"
    using i map_nth_upto' [of "int (i - w)" "int i - 1" words] by (simp add: drop_take flip: of_nat_diff)
  moreover have "map (\<lambda>j. words ! nat j) [int i + 1..min (?L - 1) (int i + int w)] = take w (drop (Suc i) words)"
    using i map_nth_upto' [of "int i + 1" "min (?L - 1) (int i + int w)" words]
    by (cases "i + w < length words") (simp_all add: min_def nat_add_distrib)
  ultimately show ?thesis by (simp add: context_of_def Let_def split left right)
qed

text \<open>The context of a word is the (at most) \<open>w\<close> words before it and the \<open>w\<close> words after it, in their order
  and without the word itself, so it fits the \<open>2 * w\<close> places it is padded to; one sample per word.\<close>

lemma generate_data_windows:
  "generate_data pad_sequences to_categorical corpus (int w) V =
     concat (map (\<lambda>words.
       map (\<lambda>i. (pad_sequences [drop (i - w) (take i words) @ take w (drop (Suc i) words)] (2 * int w),
                 to_categorical [words ! i] V)) [0..<length words]) corpus)"
  by (auto simp: generate_data_def context_window enumerate_map mult.commute intro!: arg_cong [of _ _ concat])

section \<open>Matrix powers\<close>

text \<open>The result is \<open>None\<close> for a call that never returns.\<close>

partial_function (option) matpow :: "('m \<Rightarrow> 'm \<Rightarrow> 'm) \<Rightarrow> 'm \<Rightarrow> int \<Rightarrow> 'm option" where
  "matpow matmul M n =
     (if n < 1 then Some M
      else Option.bind (matpow matmul M (n - 1)) (\<lambda>P. Some (matmul M P)))"

text \<open>C40: \<open>matpow\<close> returns for every \<open>n\<close>, after \<open>n\<close> multiplications: with the power \<open>n + 1\<close>, one more than it is
  asked for, and with the matrix itself for any \<open>n\<close> below 1.\<close>

theorem matpow_power: "matpow (*) (M :: 'm :: monoid_mult) n = Some (M ^ Suc (nat n))"
proof (induction "nat n" arbitrary: n)
  case 0
  then show ?case by (subst matpow.simps) simp
next
  case (Suc k)
  then have n: "nat n = Suc k" "\<not> n < 1" "k = nat (n - 1)" by simp_all
  from Suc.hyps(1) [OF n(3)] have "matpow (*) M (n - 1) = Some (M ^ Suc k)" by (simp only: n(3) [symmetric])
  then show ?case by (subst matpow.simps) (simp only: n if_False bind.simps power_Suc)
qed

end
