(* ===== verification/Notebook_Training.thy ===== *)
theory Notebook_Training
  imports Complex_Main Py_Prelude
begin

text \<open>
  Training written out by hand in the tutorial notebooks of \<open>customized/nvidia/image/notebooks\<close>: the linear
  regression of \<open>2_getting_started.ipynb\<close>, once with an optimizer of TensorFlow and once from scratch, and
  the network of two layers of \<open>5_pytorch-gpu-tensor.ipynb\<close>. The operations on tensors are arguments, with
  what their libraries document about them as a hypothesis; the floats are exact real numbers. The
  theorems are what the notebooks claim: the gradients are those of the losses, the two regressions are
  equivalent, and the loss goes down.
\<close>

section \<open>Tensors\<close>

text \<open>What can be read from a matrix: the numbers of its rows and columns, and its cells.\<close>

record 'm tensor_obs =
  dims :: "'m \<Rightarrow> nat \<times> nat"
  cell :: "'m \<Rightarrow> nat \<Rightarrow> nat \<Rightarrow> real"

definition is_mat :: "('m, 'z) tensor_obs_scheme \<Rightarrow> 'm \<Rightarrow> nat \<Rightarrow> nat \<Rightarrow> (nat \<Rightarrow> nat \<Rightarrow> real) \<Rightarrow> bool" where
  "is_mat T A n m f = (dims T A = (n, m) \<and> (\<forall>i < n. \<forall>j < m. cell T A i j = f i j))"

text \<open>Of two functions into the numbers, \<open>G\<close> holds the partial derivatives of \<open>L\<close> at \<open>A\<close>.\<close>

definition put :: "(nat \<Rightarrow> nat \<Rightarrow> real) \<Rightarrow> nat \<Rightarrow> nat \<Rightarrow> real \<Rightarrow> nat \<Rightarrow> nat \<Rightarrow> real" where
  "put f a b v = f(a := (f a)(b := v))"

definition is_gradient :: "('m, 'z) tensor_obs_scheme \<Rightarrow> nat \<Rightarrow> nat \<Rightarrow> ('m \<Rightarrow> real) \<Rightarrow> 'm \<Rightarrow> 'm \<Rightarrow> bool" where
  "is_gradient T n m L A G =
     (dims T G = (n, m) \<and>
      (\<forall>a < n. \<forall>b < m. \<forall>P. (\<forall>v. is_mat T (P v) n m (put (cell T A) a b v)) \<longrightarrow>
         DERIV (\<lambda>v. L (P v)) (cell T A a b) :> cell T G a b))"

named_theorems tensor_simps "the cells of the results of documented operations"

lemma is_mat_cells: "is_mat T A n m f \<Longrightarrow> is_mat T A n m (cell T A)"
  by (simp add: is_mat_def)

lemma is_mat_dims: "is_mat T A n m f \<Longrightarrow> dims T A = (n, m)"
  by (simp add: is_mat_def)

lemma is_mat_cell: "is_mat T A n m f \<Longrightarrow> i < n \<Longrightarrow> j < m \<Longrightarrow> cell T A i j = f i j"
  by (simp add: is_mat_def)

lemma is_mat_cong: "is_mat T A n m f \<Longrightarrow> (\<And>i j. i < n \<Longrightarrow> j < m \<Longrightarrow> f i j = g i j) \<Longrightarrow> is_mat T A n m g"
  by (simp add: is_mat_def)

definition product :: "nat \<Rightarrow> (nat \<Rightarrow> nat \<Rightarrow> real) \<Rightarrow> (nat \<Rightarrow> nat \<Rightarrow> real) \<Rightarrow> nat \<Rightarrow> nat \<Rightarrow> real" where
  "product k f g i j = (\<Sum>l < k. f i l * g l j)"

lemma product_fun: "product k f g = (\<lambda>i j. \<Sum>l < k. f i l * g l j)"
  by (intro ext) (simp add: product_def)

lemma product_put_right:
  assumes "a < k"
  shows "product k f (put g a b v) i j = product k f g i j + (if j = b then f i a * (v - g a b) else 0)"
proof -
  have "product k f (put g a b v) i j - product k f g i j = (\<Sum>l < k. f i l * (put g a b v l j - g l j))"
    by (simp add: product_def algebra_simps sum_subtractf)
  also have "\<dots> = (\<Sum>l < k. if l = a then (if j = b then f i a * (v - g a b) else 0) else 0)"
    by (rule sum.cong) (auto simp: put_def)
  also have "\<dots> = (if j = b then f i a * (v - g a b) else 0)" using assms by simp
  finally show ?thesis by simp
qed

lemma put_same [simp]: "put f a b (f a b) = f"
  by (simp add: put_def)

section \<open>Linear regression\<close>

text \<open>The operations of TensorFlow the notebook uses, as functions of the values of their arguments.\<close>

record 'm tf_ops = "'m tensor_obs" +
  tf_constant :: "real list list \<Rightarrow> 'm"
  tf_matmul :: "'m \<Rightarrow> 'm \<Rightarrow> 'm"
  tf_subtract :: "'m \<Rightarrow> 'm \<Rightarrow> 'm"
  tf_multiply :: "'m \<Rightarrow> 'm \<Rightarrow> 'm"
  tf_scale :: "real \<Rightarrow> 'm \<Rightarrow> 'm"
  tf_transpose :: "'m \<Rightarrow> 'm"
  tf_reduce_sum :: "'m \<Rightarrow> real"
  tf_reduce_sum_1 :: "'m \<Rightarrow> 'm"
  tf_l2_loss :: "'m \<Rightarrow> real"
  tf_minimize_step :: "real \<Rightarrow> ('m \<Rightarrow> real) \<Rightarrow> 'm \<Rightarrow> 'm"

text \<open>
  The documented behaviour, on the shapes the notebook uses: the element-wise product repeats a single
  column; \<open>reduce_sum\<close> with axis 1 and \<open>keep_dims\<close> sums the rows; \<open>l2_loss\<close> is half the sum of the squares; a
  step of the optimizer subtracts the partial derivatives times the learning rate.
\<close>

definition tf_documented :: "('m, 'z) tf_ops_scheme \<Rightarrow> bool" where
  "tf_documented T =
     ((\<forall>rows m. rows \<noteq> [] \<longrightarrow> (\<forall>row \<in> set rows. length row = m) \<longrightarrow>
         is_mat T (tf_constant T rows) (length rows) m (\<lambda>i j. rows ! i ! j)) \<and>
      (\<forall>A B n k m f g. is_mat T A n k f \<longrightarrow> is_mat T B k m g \<longrightarrow>
         is_mat T (tf_matmul T A B) n m (product k f g)) \<and>
      (\<forall>A B n m f g. is_mat T A n m f \<longrightarrow> is_mat T B n m g \<longrightarrow>
         is_mat T (tf_subtract T A B) n m (\<lambda>i j. f i j - g i j)) \<and>
      (\<forall>A B n m f g. is_mat T A n m f \<longrightarrow> is_mat T B n 1 g \<longrightarrow>
         is_mat T (tf_multiply T A B) n m (\<lambda>i j. f i j * g i 0)) \<and>
      (\<forall>c A n m f. is_mat T A n m f \<longrightarrow> is_mat T (tf_scale T c A) n m (\<lambda>i j. c * f i j)) \<and>
      (\<forall>A n m f. is_mat T A n m f \<longrightarrow> is_mat T (tf_transpose T A) m n (\<lambda>i j. f j i)) \<and>
      (\<forall>A n m f. is_mat T A n m f \<longrightarrow> tf_reduce_sum T A = (\<Sum>i < n. \<Sum>j < m. f i j)) \<and>
      (\<forall>A n m f. is_mat T A n m f \<longrightarrow> is_mat T (tf_reduce_sum_1 T A) n 1 (\<lambda>i j. \<Sum>l < m. f i l)) \<and>
      (\<forall>A n m f. is_mat T A n m f \<longrightarrow> tf_l2_loss T A = (\<Sum>i < n. \<Sum>j < m. (f i j)\<^sup>2) / 2) \<and>
      (\<forall>c L A G n m f. is_mat T A n m f \<longrightarrow> is_gradient T n m L A G \<longrightarrow>
         is_mat T (tf_minimize_step T c L A) n m (\<lambda>i j. f i j - c * cell T G i j)))"

definition learning_rate :: real where
  "learning_rate = 0.002"

definition training_steps :: nat where
  "training_steps = 50"

definition bias_with_x :: "real list \<Rightarrow> real list list" where
  "bias_with_x x = map (\<lambda>a. [1, a]) x"

definition regression_input :: "('m, 'z) tf_ops_scheme \<Rightarrow> real list \<Rightarrow> 'm" where
  "regression_input T x = tf_constant T (bias_with_x x)"

definition regression_target :: "('m, 'z) tf_ops_scheme \<Rightarrow> real list \<Rightarrow> 'm" where
  "regression_target T y = tf_constant T (map (\<lambda>a. [a]) y)"

definition regression_error :: "('m, 'z) tf_ops_scheme \<Rightarrow> 'm \<Rightarrow> 'm \<Rightarrow> 'm \<Rightarrow> 'm" where
  "regression_error T input target weights =
     (let yhat = tf_matmul T input weights in tf_subtract T yhat target)"

text \<open>A run of the loop: the weights after \<open>n\<close> updates, and the losses measured after each of them.\<close>

fun training_loop :: "('m \<Rightarrow> 'm) \<Rightarrow> ('m \<Rightarrow> real) \<Rightarrow> nat \<Rightarrow> 'm \<Rightarrow> 'm \<times> real list" where
  "training_loop update_weights loss 0 weights = (weights, [])"
| "training_loop update_weights loss (Suc n) weights =
     (let weights = update_weights weights;
          (betas, losses) = training_loop update_weights loss n weights
      in (betas, loss weights # losses))"

text \<open>With the optimizer of TensorFlow.\<close>

definition regression :: "('m, 'z) tf_ops_scheme \<Rightarrow> real list \<Rightarrow> real list \<Rightarrow> 'm \<Rightarrow> 'm \<times> real list" where
  "regression T x y weights =
     (let input = regression_input T x;
          target = regression_target T y;
          loss = (\<lambda>w. tf_l2_loss T (regression_error T input target w));
          update_weights = tf_minimize_step T learning_rate loss
      in training_loop update_weights loss training_steps weights)"

text \<open>From scratch.\<close>

definition scratch_loss :: "('m, 'z) tf_ops_scheme \<Rightarrow> 'm \<Rightarrow> 'm \<Rightarrow> 'm \<Rightarrow> real" where
  "scratch_loss T input target weights =
     (let yerror = regression_error T input target weights
      in 0.5 * tf_reduce_sum T (tf_multiply T yerror yerror))"

definition scratch_gradient :: "('m, 'z) tf_ops_scheme \<Rightarrow> 'm \<Rightarrow> 'm \<Rightarrow> 'm \<Rightarrow> 'm" where
  "scratch_gradient T input target weights =
     (let yerror = regression_error T input target weights
      in tf_reduce_sum_1 T (tf_transpose T (tf_multiply T input yerror)))"

definition scratch_update :: "('m, 'z) tf_ops_scheme \<Rightarrow> 'm \<Rightarrow> 'm \<Rightarrow> 'm \<Rightarrow> 'm" where
  "scratch_update T input target weights =
     tf_subtract T weights (tf_scale T learning_rate (scratch_gradient T input target weights))"

definition regression_from_scratch :: "('m, 'z) tf_ops_scheme \<Rightarrow> real list \<Rightarrow> real list \<Rightarrow> 'm \<Rightarrow> 'm \<times> real list" where
  "regression_from_scratch T x y weights =
     (let input = regression_input T x;
          target = regression_target T y
      in training_loop (scratch_update T input target) (scratch_loss T input target) training_steps weights)"

subsection \<open>The values of the operations\<close>

lemma tf_laws:
  assumes "tf_documented T"
  shows tf_constant_mat: "rows \<noteq> [] \<Longrightarrow> \<forall>row \<in> set rows. length row = m \<Longrightarrow>
      is_mat T (tf_constant T rows) (length rows) m (\<lambda>i j. rows ! i ! j)"
    and tf_matmul_mat: "is_mat T A n k f \<Longrightarrow> is_mat T B k m g \<Longrightarrow> is_mat T (tf_matmul T A B) n m (product k f g)"
    and tf_subtract_mat: "is_mat T A n m f \<Longrightarrow> is_mat T B n m g \<Longrightarrow>
      is_mat T (tf_subtract T A B) n m (\<lambda>i j. f i j - g i j)"
    and tf_multiply_mat: "is_mat T A n m f \<Longrightarrow> is_mat T B n 1 g \<Longrightarrow>
      is_mat T (tf_multiply T A B) n m (\<lambda>i j. f i j * g i 0)"
    and tf_scale_mat: "is_mat T A n m f \<Longrightarrow> is_mat T (tf_scale T c A) n m (\<lambda>i j. c * f i j)"
    and tf_transpose_mat: "is_mat T A n m f \<Longrightarrow> is_mat T (tf_transpose T A) m n (\<lambda>i j. f j i)"
    and tf_reduce_sum_value: "is_mat T A n m f \<Longrightarrow> tf_reduce_sum T A = (\<Sum>i < n. \<Sum>j < m. f i j)"
    and tf_reduce_sum_1_mat: "is_mat T A n m f \<Longrightarrow> is_mat T (tf_reduce_sum_1 T A) n 1 (\<lambda>i j. \<Sum>l < m. f i l)"
    and tf_l2_loss_value: "is_mat T A n m f \<Longrightarrow> tf_l2_loss T A = (\<Sum>i < n. \<Sum>j < m. (f i j)\<^sup>2) / 2"
    and tf_minimize_mat: "is_mat T A n m f \<Longrightarrow> is_gradient T n m L A G \<Longrightarrow>
      is_mat T (tf_minimize_step T c L A) n m (\<lambda>i j. f i j - c * cell T G i j)"
  using assms unfolding tf_documented_def by (elim conjE; simp)+

definition residual :: "nat \<Rightarrow> (nat \<Rightarrow> nat \<Rightarrow> real) \<Rightarrow> (nat \<Rightarrow> nat \<Rightarrow> real) \<Rightarrow> (nat \<Rightarrow> nat \<Rightarrow> real) \<Rightarrow> nat \<Rightarrow> real" where
  "residual d X Y W i = product d X W i 0 - Y i 0"

definition half_squares :: "nat \<Rightarrow> (nat \<Rightarrow> real) \<Rightarrow> real" where
  "half_squares n e = (\<Sum>i < n. (e i)\<^sup>2) / 2"

definition slope :: "nat \<Rightarrow> (nat \<Rightarrow> nat \<Rightarrow> real) \<Rightarrow> (nat \<Rightarrow> real) \<Rightarrow> nat \<Rightarrow> real" where
  "slope n X e j = (\<Sum>i < n. X i j * e i)"

lemma regression_error_mat:
  assumes "tf_documented T" "is_mat T input n d X" "is_mat T target n 1 Y" "is_mat T w d 1 W"
  shows "is_mat T (regression_error T input target w) n 1 (\<lambda>i j. residual d X Y W i)"
  unfolding regression_error_def Let_def
  by (rule is_mat_cong [OF tf_subtract_mat [OF assms(1) tf_matmul_mat [OF assms(1,2,4)] assms(3)]])
    (simp add: residual_def)

lemma scratch_loss_value:
  assumes "tf_documented T" "is_mat T input n d X" "is_mat T target n 1 Y" "is_mat T w d 1 W"
  shows "scratch_loss T input target w = half_squares n (residual d X Y W)"
  using tf_reduce_sum_value [OF assms(1) tf_multiply_mat [OF assms(1) regression_error_mat [OF assms] regression_error_mat [OF assms]]]
  by (simp add: scratch_loss_def half_squares_def power2_eq_square)

lemma l2_loss_value:
  assumes "tf_documented T" "is_mat T input n d X" "is_mat T target n 1 Y" "is_mat T w d 1 W"
  shows "tf_l2_loss T (regression_error T input target w) = half_squares n (residual d X Y W)"
  using tf_l2_loss_value [OF assms(1) regression_error_mat [OF assms]] by (simp add: half_squares_def)

lemma scratch_gradient_mat:
  assumes "tf_documented T" "is_mat T input n d X" "is_mat T target n 1 Y" "is_mat T w d 1 W"
  shows "is_mat T (scratch_gradient T input target w) d 1 (\<lambda>j _. slope n X (residual d X Y W) j)"
  using tf_reduce_sum_1_mat [OF assms(1) tf_transpose_mat [OF assms(1)
      tf_multiply_mat [OF assms(1,2) regression_error_mat [OF assms]]]]
  by (simp add: scratch_gradient_def slope_def Let_def)

lemma scratch_update_mat:
  assumes "tf_documented T" "is_mat T input n d X" "is_mat T target n 1 Y" "is_mat T w d 1 W"
  shows "is_mat T (scratch_update T input target w) d 1 (\<lambda>j k. W j k - learning_rate * slope n X (residual d X Y W) j)"
  unfolding scratch_update_def
  by (rule tf_subtract_mat [OF assms(1,4) tf_scale_mat [OF assms(1) scratch_gradient_mat [OF assms]]])

subsection \<open>The gradient\<close>

lemma residual_put: "a < d \<Longrightarrow> residual d X Y (put W a 0 v) i = residual d X Y W i + X i a * (v - W a 0)"
  by (simp add: residual_def product_put_right)

lemma gradient_of_half_squares:
  assumes doc: "tf_documented T" and x: "is_mat T input n d X" and y: "is_mat T target n 1 Y" and w: "is_mat T w d 1 W"
    and loss: "\<And>P V. is_mat T P d 1 V \<Longrightarrow> loss P = half_squares n (residual d X Y V)"
  shows "is_gradient T d 1 loss w (scratch_gradient T input target w)"
  unfolding is_gradient_def
proof (intro conjI allI impI)
  note g = scratch_gradient_mat [OF doc x y is_mat_cells [OF w]]
  then show "dims T (scratch_gradient T input target w) = (d, 1)" by (rule is_mat_dims)
  fix a b P assume "a < d" "b < (1 :: nat)" and P: "\<forall>v. is_mat T (P v) d 1 (put (cell T w) a b v)"
  then have b: "b = 0" and a: "a < d" by simp_all
  let ?r = "residual d X Y (cell T w)"
  have "loss (P v) = (\<Sum>i < n. (?r i + X i a * (v - cell T w a 0))\<^sup>2) / 2" for v
    using loss [OF P [rule_format]] a by (simp add: b half_squares_def residual_put)
  then have at_v: "(\<lambda>v. loss (P v)) = (\<lambda>v. (\<Sum>i < n. (?r i + X i a * (v - cell T w a 0))\<^sup>2) / 2)"
    by (rule ext)
  have "DERIV (\<lambda>v. (\<Sum>i < n. (?r i + X i a * (v - cell T w a 0))\<^sup>2) / 2) (cell T w a 0)
      :> (\<Sum>i < n. 2 * ?r i * X i a) / 2"
    by (rule derivative_eq_intros refl | simp add: algebra_simps)+
  moreover have "(\<Sum>i < n. 2 * ?r i * X i a) / 2 = slope n X ?r a"
    by (simp add: slope_def sum_divide_distrib mult.commute)
  ultimately show "DERIV (\<lambda>v. loss (P v)) (cell T w a b) :> cell T (scratch_gradient T input target w) a b"
    using is_mat_cell [OF g a] by (simp add: b at_v)
qed

subsection \<open>The two regressions\<close>

lemma training_loop_simulation:
  assumes "R w w'" "\<And>w w'. R w w' \<Longrightarrow> R (u w) (u' w')" "\<And>w w'. R w w' \<Longrightarrow> l w = l' w'"
  shows "R (fst (training_loop u l n w)) (fst (training_loop u' l' n w')) \<and>
    snd (training_loop u l n w) = snd (training_loop u' l' n w')"
  using assms(1)
proof (induction n arbitrary: w w')
  case (Suc n)
  from Suc.IH [OF assms(2) [OF Suc.prems]] assms(3) [OF assms(2) [OF Suc.prems]]
  show ?case by (auto simp: Let_def split: prod.splits)
qed simp

lemma regression_input_mat:
  assumes "tf_documented T" "x \<noteq> []"
  shows "is_mat T (regression_input T x) (length x) 2 (\<lambda>i j. [1, x ! i] ! j)"
proof -
  have "is_mat T (regression_input T x) (length (bias_with_x x)) 2 (\<lambda>i j. bias_with_x x ! i ! j)"
    unfolding regression_input_def by (rule tf_constant_mat [OF assms(1)]) (use assms(2) in \<open>auto simp: bias_with_x_def\<close>)
  then show ?thesis by (auto simp: is_mat_def bias_with_x_def)
qed

lemma regression_target_mat:
  assumes "tf_documented T" "y \<noteq> []"
  shows "is_mat T (regression_target T y) (length y) 1 (\<lambda>i j. y ! i)"
proof -
  have "is_mat T (regression_target T y) (length (map (\<lambda>a. [a]) y)) 1 (\<lambda>i j. map (\<lambda>a. [a]) y ! i ! j)"
    unfolding regression_target_def by (rule tf_constant_mat [OF assms(1)]) (use assms(2) in auto)
  then show ?thesis by (auto simp: is_mat_def)
qed

subsection \<open>Tensors as functions\<close>

text \<open>A model of the documented operations: a matrix is its dimensions and a function.\<close>

definition function_tf :: "((nat \<times> nat) \<times> (nat \<Rightarrow> nat \<Rightarrow> real)) tf_ops" where
  "function_tf =
     \<lparr>dims = fst, cell = snd,
      tf_constant = \<lambda>rows. ((length rows, length (hd rows)), \<lambda>i j. rows ! i ! j),
      tf_matmul = \<lambda>A B. ((fst (fst A), snd (fst B)), product (snd (fst A)) (snd A) (snd B)),
      tf_subtract = \<lambda>A B. (fst A, \<lambda>i j. snd A i j - snd B i j),
      tf_multiply = \<lambda>A B. (fst A, \<lambda>i j. snd A i j * snd B i 0),
      tf_scale = \<lambda>c A. (fst A, \<lambda>i j. c * snd A i j),
      tf_transpose = \<lambda>A. (prod.swap (fst A), \<lambda>i j. snd A j i),
      tf_reduce_sum = \<lambda>A. \<Sum>i < fst (fst A). \<Sum>j < snd (fst A). snd A i j,
      tf_reduce_sum_1 = \<lambda>A. ((fst (fst A), 1), \<lambda>i j. \<Sum>l < snd (fst A). snd A i l),
      tf_l2_loss = \<lambda>A. (\<Sum>i < fst (fst A). \<Sum>j < snd (fst A). (snd A i j)\<^sup>2) / 2,
      tf_minimize_step = \<lambda>c L A. (fst A, \<lambda>i j. snd A i j -
        c * (THE D. DERIV (\<lambda>v. L (fst A, put (snd A) i j v)) (snd A i j) :> D))\<rparr>"

lemma function_tf_documented: "tf_documented function_tf"
proof -
  have "snd A i j - c * (THE D. DERIV (\<lambda>v. L (fst A, put (snd A) i j v)) (snd A i j) :> D) = f i j - c * cell function_tf G i j"
    if A: "is_mat function_tf A n m f" and g: "is_gradient function_tf n m L A G" and ij: "i < n" "j < m" for A L G n m f c i j
  proof -
    have a: "cell function_tf A = snd A" "dims function_tf = fst" by (simp_all add: function_tf_def)
    have "DERIV (\<lambda>v. L (fst A, put (snd A) i j v)) (snd A i j) :> cell function_tf G i j"
      using g A ij unfolding is_gradient_def a by (auto simp: is_mat_def function_tf_def)
    then have "(THE D. DERIV (\<lambda>v. L (fst A, put (snd A) i j v)) (snd A i j) :> D) = cell function_tf G i j"
      using DERIV_unique by blast
    then show ?thesis using A ij by (simp add: is_mat_def function_tf_def)
  qed
  then show ?thesis
    unfolding tf_documented_def
    by (intro conjI allI impI) (auto simp: is_mat_def function_tf_def product_def hd_in_set)
qed

subsection \<open>Equivalence\<close>

text \<open>C36: The regression from scratch is equivalent to the one with the optimizer, as the notebook says: on the
  same data and first weights the two report the same losses and end with the same weights.\<close>

theorem regressions_agree:
  assumes "tf_documented T" "x \<noteq> []" "length x = length y" "dims T weights = (2, 1)"
  shows "snd (regression_from_scratch T x y weights) = snd (regression T x y weights) \<and>
     (\<forall>j < 2. cell T (fst (regression_from_scratch T x y weights)) j 0 = cell T (fst (regression T x y weights)) j 0)"
proof -
  let ?in = "regression_input T x" and ?tg = "regression_target T y"
  let ?loss = "\<lambda>w. tf_l2_loss T (regression_error T ?in ?tg w)"
  let ?R = "\<lambda>v w. \<exists>W. is_mat T v 2 1 W \<and> is_mat T w 2 1 W"
  have "y \<noteq> []" using assms(2,3) by auto
  note io = regression_input_mat [OF assms(1,2)] regression_target_mat [OF assms(1) this, folded assms(3)]
  have start: "?R weights weights" using assms(4) by (auto simp: is_mat_def)
  have step: "?R (scratch_update T ?in ?tg v) (tf_minimize_step T learning_rate ?loss w)" if R: "?R v w" for v w
  proof -
    from R obtain W where v: "is_mat T v 2 1 W" and w: "is_mat T w 2 1 W" by blast
    have "is_gradient T 2 1 ?loss w (scratch_gradient T ?in ?tg w)"
      by (rule gradient_of_half_squares [OF assms(1) io w l2_loss_value [OF assms(1) io]])
    from tf_minimize_mat [OF assms(1) w this]
    have "is_mat T (tf_minimize_step T learning_rate ?loss w) 2 1
        (\<lambda>j k. W j k - learning_rate * slope (length x) (\<lambda>i j. [1, x ! i] ! j) (residual 2 (\<lambda>i j. [1, x ! i] ! j) (\<lambda>i j. y ! i) W) j)"
      by (rule is_mat_cong) (simp add: is_mat_cell [OF scratch_gradient_mat [OF assms(1) io w]])
    with scratch_update_mat [OF assms(1) io v] show ?thesis by blast
  qed
  have loss: "scratch_loss T ?in ?tg v = ?loss w" if "?R v w" for v w
    using that scratch_loss_value [OF assms(1) io] l2_loss_value [OF assms(1) io] by auto
  from training_loop_simulation [of ?R weights weights "scratch_update T ?in ?tg" "tf_minimize_step T learning_rate ?loss"
      "scratch_loss T ?in ?tg" ?loss training_steps, OF start step loss]
  show ?thesis by (auto simp: regression_def regression_from_scratch_def Let_def is_mat_def)
qed

theorem regressions_agree_witness:
  "snd (regression_from_scratch function_tf [0, 1] [1, 2] ((2, 1), \<lambda>_ _. 0)) =
     snd (regression function_tf [0, 1] [1, 2] ((2, 1), \<lambda>_ _. 0))"
proof -
  have "dims function_tf ((2, 1), \<lambda>_ _. 0) = (2, 1)" by (simp add: function_tf_def)
  from regressions_agree [OF function_tf_documented _ _ this, of "[0, 1]" "[1, 2]"] show ?thesis by simp
qed

subsection \<open>Descent\<close>

lemma cauchy_schwarz: "(\<Sum>j < (d :: nat). a j * b j)\<^sup>2 \<le> (\<Sum>j < d. (a j)\<^sup>2) * (\<Sum>j < d. (b j :: real)\<^sup>2)"
proof -
  have "0 \<le> (\<Sum>j < d. \<Sum>k < d. (a j * b k - a k * b j)\<^sup>2)" by (intro sum_nonneg) simp
  also have "\<dots> = (\<Sum>j < d. \<Sum>k < d. (a j)\<^sup>2 * (b k)\<^sup>2) + (\<Sum>j < d. \<Sum>k < d. (a k)\<^sup>2 * (b j)\<^sup>2)
      - 2 * (\<Sum>j < d. \<Sum>k < d. (a j * b j) * (a k * b k))"
    by (simp add: power2_eq_square algebra_simps sum.distrib sum_subtractf sum_distrib_left)
  also have "(\<Sum>j < d. \<Sum>k < d. (a k)\<^sup>2 * (b j)\<^sup>2) = (\<Sum>j < d. \<Sum>k < d. (a j)\<^sup>2 * (b k)\<^sup>2)"
    by (rule sum.swap)
  finally show ?thesis by (simp add: sum_product power2_eq_square)
qed

lemma slope_residual: "(\<Sum>i < n. e i * (\<Sum>j < d. X i j * slope n X e j)) = (\<Sum>j < d. (slope n X e j)\<^sup>2)"
proof -
  have "(\<Sum>i < n. e i * (\<Sum>j < d. X i j * slope n X e j)) = (\<Sum>i < n. \<Sum>j < d. X i j * e i * slope n X e j)"
    by (simp add: sum_distrib_left algebra_simps)
  also have "\<dots> = (\<Sum>j < d. \<Sum>i < n. X i j * e i * slope n X e j)" by (rule sum.swap)
  also have "\<dots> = (\<Sum>j < d. (slope n X e j)\<^sup>2)"
    by (simp add: slope_def [of n X e] power2_eq_square flip: sum_distrib_right)
  finally show ?thesis .
qed

lemma half_squares_descend:
  assumes "0 \<le> \<eta>" "\<eta> * (\<Sum>i < n. \<Sum>j < d. (X i j)\<^sup>2) \<le> 2"
  shows "half_squares n (residual d X Y (\<lambda>j k. W j k - \<eta> * slope n X (residual d X Y W) j)) \<le>
     half_squares n (residual d X Y W)"
proof -
  define e where "e = residual d X Y W"
  define g where "g = slope n X e"
  define p where "p i = (\<Sum>j < d. X i j * g j)" for i
  define G where "G = (\<Sum>j < d. (g j)\<^sup>2)"
  have e': "residual d X Y (\<lambda>j k. W j k - \<eta> * g j) i = e i - \<eta> * p i" for i
    by (simp add: e_def residual_def product_def p_def algebra_simps sum_subtractf sum_distrib_left)
  have ep: "(\<Sum>i < n. e i * p i) = G" by (simp add: p_def G_def g_def slope_residual)
  have "(p i)\<^sup>2 \<le> (\<Sum>j < d. (X i j)\<^sup>2) * G" for i unfolding p_def G_def by (rule cauchy_schwarz)
  then have pp: "(\<Sum>i < n. (p i)\<^sup>2) \<le> (\<Sum>i < n. \<Sum>j < d. (X i j)\<^sup>2) * G"
    by (simp add: sum_distrib_right sum_mono)
  have G: "0 \<le> G" by (simp add: G_def sum_nonneg)
  have "(\<Sum>i < n. (e i - \<eta> * p i)\<^sup>2) = (\<Sum>i < n. (e i)\<^sup>2) - 2 * \<eta> * (\<Sum>i < n. e i * p i) + \<eta>\<^sup>2 * (\<Sum>i < n. (p i)\<^sup>2)"
    by (simp add: power2_eq_square algebra_simps sum.distrib sum_subtractf sum_distrib_left)
  also have "\<dots> \<le> (\<Sum>i < n. (e i)\<^sup>2) - 2 * \<eta> * G + \<eta> * (\<eta> * (\<Sum>i < n. \<Sum>j < d. (X i j)\<^sup>2)) * G"
    using mult_left_mono [OF pp, of "\<eta>\<^sup>2"] by (simp add: ep power2_eq_square algebra_simps)
  also have "\<dots> \<le> (\<Sum>i < n. (e i)\<^sup>2)"
    using mult_right_mono [OF mult_left_mono [OF assms(2,1)] G] by (simp add: algebra_simps)
  finally show ?thesis by (simp add: half_squares_def e' flip: e_def g_def)
qed

lemma training_loop_sorted:
  assumes "I w" "\<And>w. I w \<Longrightarrow> I (u w) \<and> l (u w) \<le> (l w :: real)"
  shows "sorted_wrt (\<ge>) (l w # snd (training_loop u l n w))"
  using assms(1)
proof (induction n arbitrary: w)
  case (Suc n)
  from Suc.IH [of "u w"] assms(2) [OF Suc.prems]
  show ?case by (fastforce simp: Let_def split: prod.splits)
qed simp

text \<open>C37: The loss goes down: at the learning rate of the notebook, no update makes the loss greater than it was
  before, as long as the squares of the \<open>x\<close> add up to at most 1000 less their number.\<close>

theorem losses_descend:
  assumes "tf_documented T" "x \<noteq> []" "length x = length y" "dims T weights = (2, 1)" "(\<Sum>a \<leftarrow> x. 1 + a\<^sup>2) \<le> 1000"
  shows "sorted_wrt (\<ge>) (scratch_loss T (regression_input T x) (regression_target T y) weights #
     snd (regression_from_scratch T x y weights))"
  unfolding regression_from_scratch_def Let_def
proof (rule training_loop_sorted [where I = "\<lambda>w. dims T w = (2, 1)"])
  let ?in = "regression_input T x" and ?tg = "regression_target T y"
  have "y \<noteq> []" using assms(2,3) by auto
  note io = regression_input_mat [OF assms(1,2)] regression_target_mat [OF assms(1) this, folded assms(3)]
  fix w assume "dims T w = (2, 1)"
  then have w: "is_mat T w 2 1 (cell T w)" by (simp add: is_mat_def)
  note u = scratch_update_mat [OF assms(1) io w]
  have "(\<Sum>i < length x. \<Sum>j < 2. ([1, x ! i] ! j)\<^sup>2) = (\<Sum>a \<leftarrow> x. 1 + a\<^sup>2)"
    by (simp add: sum_list_sum_nth atLeast0LessThan eval_nat_numeral)
  then have "learning_rate * (\<Sum>i < length x. \<Sum>j < 2. ([1, x ! i] ! j)\<^sup>2) \<le> 2"
    using assms(5) by (simp add: learning_rate_def)
  with half_squares_descend [where \<eta> = learning_rate and n = "length x" and d = 2 and X = "\<lambda>i j. [1, x ! i] ! j"]
  show "dims T (scratch_update T ?in ?tg w) = (2, 1) \<and>
      scratch_loss T ?in ?tg (scratch_update T ?in ?tg w) \<le> scratch_loss T ?in ?tg w"
    using is_mat_dims [OF u] by (simp add: scratch_loss_value [OF assms(1) io u] scratch_loss_value [OF assms(1) io w] learning_rate_def)
qed (fact assms(4))

theorem losses_descend_witness:
  "sorted_wrt (\<ge>) (1 / 2 # snd (regression_from_scratch function_tf [2] [2] ((2, 1), \<lambda>i _. [0, 1 / 2] ! i)))"
proof -
  have d: "dims function_tf ((2, 1), \<lambda>i _. [0, 1 / 2] ! i) = (2, 1)" by (simp add: function_tf_def)
  let ?loss = "scratch_loss function_tf (regression_input function_tf [2]) (regression_target function_tf [2])
      ((2, 1), \<lambda>i _. [0, 1 / 2] ! i)"
  have loss: "?loss = 1 / 2"
    by (simp add: scratch_loss_def regression_error_def regression_input_def regression_target_def bias_with_x_def
      function_tf_def product_def eval_nat_numeral)
  have "[2 :: real] \<noteq> []" "length [2 :: real] = length [2 :: real]" "(\<Sum>a \<leftarrow> [2 :: real]. 1 + a\<^sup>2) \<le> 1000" by simp_all
  from losses_descend [OF function_tf_documented this(1,2) d this(3)] show ?thesis by (simp only: loss)
qed

section \<open>The network of two layers\<close>

text \<open>The operations of PyTorch the notebook uses; the result of a comparison is a tensor of ones and zeros.\<close>

record 'm torch_ops = "'m tensor_obs" +
  torch_mm :: "'m \<Rightarrow> 'm \<Rightarrow> 'm"
  torch_t :: "'m \<Rightarrow> 'm"
  torch_clamp :: "'m \<Rightarrow> real \<Rightarrow> 'm"
  torch_sub :: "'m \<Rightarrow> 'm \<Rightarrow> 'm"
  torch_scale :: "real \<Rightarrow> 'm \<Rightarrow> 'm"
  torch_pow :: "'m \<Rightarrow> nat \<Rightarrow> 'm"
  torch_sum :: "'m \<Rightarrow> real"
  torch_clone :: "'m \<Rightarrow> 'm"
  torch_lt :: "'m \<Rightarrow> real \<Rightarrow> 'm"
  torch_index_put :: "'m \<Rightarrow> 'm \<Rightarrow> real \<Rightarrow> 'm"

definition torch_documented :: "('m, 'z) torch_ops_scheme \<Rightarrow> bool" where
  "torch_documented T =
     ((\<forall>A B n k m f g. is_mat T A n k f \<longrightarrow> is_mat T B k m g \<longrightarrow> is_mat T (torch_mm T A B) n m (product k f g)) \<and>
      (\<forall>A n m f. is_mat T A n m f \<longrightarrow> is_mat T (torch_t T A) m n (\<lambda>i j. f j i)) \<and>
      (\<forall>A c n m f. is_mat T A n m f \<longrightarrow> is_mat T (torch_clamp T A c) n m (\<lambda>i j. max c (f i j))) \<and>
      (\<forall>A B n m f g. is_mat T A n m f \<longrightarrow> is_mat T B n m g \<longrightarrow>
         is_mat T (torch_sub T A B) n m (\<lambda>i j. f i j - g i j)) \<and>
      (\<forall>c A n m f. is_mat T A n m f \<longrightarrow> is_mat T (torch_scale T c A) n m (\<lambda>i j. c * f i j)) \<and>
      (\<forall>A p n m f. is_mat T A n m f \<longrightarrow> is_mat T (torch_pow T A p) n m (\<lambda>i j. f i j ^ p)) \<and>
      (\<forall>A n m f. is_mat T A n m f \<longrightarrow> torch_sum T A = (\<Sum>i < n. \<Sum>j < m. f i j)) \<and>
      (\<forall>A n m f. is_mat T A n m f \<longrightarrow> is_mat T (torch_clone T A) n m f) \<and>
      (\<forall>A c n m f. is_mat T A n m f \<longrightarrow> is_mat T (torch_lt T A c) n m (\<lambda>i j. if f i j < c then 1 else 0)) \<and>
      (\<forall>A B c n m f g. is_mat T A n m f \<longrightarrow> is_mat T B n m g \<longrightarrow>
         is_mat T (torch_index_put T A B c) n m (\<lambda>i j. if g i j \<noteq> 0 then c else f i j)))"

definition network_learning_rate :: real where
  "network_learning_rate = 1 / 10 ^ 6"

text \<open>The forward pass: the hidden layer, what is left of it, and the prediction.\<close>

definition forward_pass :: "('m, 'z) torch_ops_scheme \<Rightarrow> 'm \<Rightarrow> 'm \<Rightarrow> 'm \<Rightarrow> 'm \<times> 'm \<times> 'm" where
  "forward_pass T x w1 w2 =
     (let h = torch_mm T x w1;
          h_relu = torch_clamp T h 0;
          y_pred = torch_mm T h_relu w2
      in (h, h_relu, y_pred))"

definition network_loss :: "('m, 'z) torch_ops_scheme \<Rightarrow> 'm \<Rightarrow> 'm \<Rightarrow> 'm \<Rightarrow> 'm \<Rightarrow> real" where
  "network_loss T x y w1 w2 =
     (case forward_pass T x w1 w2 of (h, h_relu, y_pred) \<Rightarrow> torch_sum T (torch_pow T (torch_sub T y_pred y) 2))"

definition backpropagate :: "('m, 'z) torch_ops_scheme \<Rightarrow> 'm \<Rightarrow> 'm \<Rightarrow> 'm \<Rightarrow> 'm \<Rightarrow> 'm \<times> 'm" where
  "backpropagate T x y w1 w2 =
     (case forward_pass T x w1 w2 of (h, h_relu, y_pred) \<Rightarrow>
        let grad_y_pred = torch_scale T 2 (torch_sub T y_pred y);
            grad_w2 = torch_mm T (torch_t T h_relu) grad_y_pred;
            grad_h_relu = torch_mm T grad_y_pred (torch_t T w2);
            grad_h = torch_clone T grad_h_relu;
            grad_h = torch_index_put T grad_h (torch_lt T h 0) 0;
            grad_w1 = torch_mm T (torch_t T x) grad_h
        in (grad_w1, grad_w2))"

definition network_step :: "('m, 'z) torch_ops_scheme \<Rightarrow> 'm \<Rightarrow> 'm \<Rightarrow> 'm \<times> 'm \<Rightarrow> 'm \<times> 'm" where
  "network_step T x y weights =
     (case weights of (w1, w2) \<Rightarrow>
        case backpropagate T x y w1 w2 of (grad_w1, grad_w2) \<Rightarrow>
          (torch_sub T w1 (torch_scale T network_learning_rate grad_w1),
           torch_sub T w2 (torch_scale T network_learning_rate grad_w2)))"

text \<open>The loop prints the number of each step and the loss before it.\<close>

definition train_network :: "('m, 'z) torch_ops_scheme \<Rightarrow> 'm \<Rightarrow> 'm \<Rightarrow> 'm \<Rightarrow> 'm \<Rightarrow> ('m \<times> 'm) \<times> (nat \<times> real) list" where
  "train_network T x y w1 w2 =
     fold (\<lambda>t (weights, printed).
         (network_step T x y weights, printed @ [(t, network_loss T x y (fst weights) (snd weights))]))
       [0..<500] ((w1, w2), [])"

lemma torch_laws:
  assumes "torch_documented T"
  shows torch_mm_mat: "is_mat T A n k f \<Longrightarrow> is_mat T B k m g \<Longrightarrow> is_mat T (torch_mm T A B) n m (product k f g)"
    and torch_t_mat: "is_mat T A n m f \<Longrightarrow> is_mat T (torch_t T A) m n (\<lambda>i j. f j i)"
    and torch_clamp_mat: "is_mat T A n m f \<Longrightarrow> is_mat T (torch_clamp T A c) n m (\<lambda>i j. max c (f i j))"
    and torch_sub_mat: "is_mat T A n m f \<Longrightarrow> is_mat T B n m g \<Longrightarrow> is_mat T (torch_sub T A B) n m (\<lambda>i j. f i j - g i j)"
    and torch_scale_mat: "is_mat T A n m f \<Longrightarrow> is_mat T (torch_scale T c A) n m (\<lambda>i j. c * f i j)"
    and torch_pow_mat: "is_mat T A n m f \<Longrightarrow> is_mat T (torch_pow T A p) n m (\<lambda>i j. f i j ^ p)"
    and torch_sum_value: "is_mat T A n m f \<Longrightarrow> torch_sum T A = (\<Sum>i < n. \<Sum>j < m. f i j)"
    and torch_clone_mat: "is_mat T A n m f \<Longrightarrow> is_mat T (torch_clone T A) n m f"
    and torch_lt_mat: "is_mat T A n m f \<Longrightarrow> is_mat T (torch_lt T A c) n m (\<lambda>i j. if f i j < c then 1 else 0)"
    and torch_index_put_mat: "is_mat T A n m f \<Longrightarrow> is_mat T B n m g \<Longrightarrow>
      is_mat T (torch_index_put T A B c) n m (\<lambda>i j. if g i j \<noteq> 0 then c else f i j)"
  using assms unfolding torch_documented_def by (elim conjE; simp)+

definition relu :: "(nat \<Rightarrow> nat \<Rightarrow> real) \<Rightarrow> nat \<Rightarrow> nat \<Rightarrow> real" where
  "relu f i j = max 0 (f i j)"

definition miss :: "nat \<Rightarrow> nat \<Rightarrow> (nat \<Rightarrow> nat \<Rightarrow> real) \<Rightarrow> (nat \<Rightarrow> nat \<Rightarrow> real) \<Rightarrow> (nat \<Rightarrow> nat \<Rightarrow> real) \<Rightarrow> (nat \<Rightarrow> nat \<Rightarrow> real) \<Rightarrow> nat \<Rightarrow> nat \<Rightarrow> real" where
  "miss d h X Y W1 W2 i j = product h (relu (product d X W1)) W2 i j - Y i j"

lemma forward_pass_mats:
  assumes "torch_documented T" "is_mat T x n d X" "is_mat T w1 d h W1" "is_mat T w2 h m W2"
  shows "case forward_pass T x w1 w2 of (a, r, p) \<Rightarrow>
     is_mat T a n h (product d X W1) \<and> is_mat T r n h (relu (product d X W1)) \<and>
     is_mat T p n m (product h (relu (product d X W1)) W2)"
proof -
  note a = torch_mm_mat [OF assms(1-3)]
  have "is_mat T (torch_clamp T (torch_mm T x w1) 0) n h (relu (product d X W1))"
    by (rule is_mat_cong [OF torch_clamp_mat [OF assms(1) a]]) (simp add: relu_def)
  with a torch_mm_mat [OF assms(1) this assms(4)] show ?thesis by (simp add: forward_pass_def Let_def)
qed

lemma network_loss_value:
  assumes "torch_documented T" "is_mat T x n d X" "is_mat T y n m Y" "is_mat T w1 d h W1" "is_mat T w2 h m W2"
  shows "network_loss T x y w1 w2 = (\<Sum>i < n. \<Sum>j < m. (miss d h X Y W1 W2 i j)\<^sup>2)"
proof -
  obtain a r p where f: "forward_pass T x w1 w2 = (a, r, p)" by (cases "forward_pass T x w1 w2") auto
  with forward_pass_mats [OF assms(1,2,4,5)] have "is_mat T p n m (product h (relu (product d X W1)) W2)" by simp
  from torch_sum_value [OF assms(1) torch_pow_mat [OF assms(1) torch_sub_mat [OF assms(1) this assms(3)]]]
  show ?thesis by (simp add: network_loss_def f miss_def)
qed

lemma backpropagate_mats:
  assumes "torch_documented T" "is_mat T x n d X" "is_mat T y n m Y" "is_mat T w1 d h W1" "is_mat T w2 h m W2"
  shows "case backpropagate T x y w1 w2 of (g1, g2) \<Rightarrow>
     is_mat T g1 d h (\<lambda>a b. \<Sum>i < n. X i a *
       (if product d X W1 i b < 0 then 0 else \<Sum>j < m. 2 * miss d h X Y W1 W2 i j * W2 b j)) \<and>
     is_mat T g2 h m (\<lambda>a b. \<Sum>i < n. relu (product d X W1) i a * (2 * miss d h X Y W1 W2 i b))"
proof -
  note doc = assms(1)
  obtain z r p where f: "forward_pass T x w1 w2 = (z, r, p)" by (cases "forward_pass T x w1 w2") auto
  with forward_pass_mats [OF assms(1,2,4,5)] have z: "is_mat T z n h (product d X W1)"
    and r: "is_mat T r n h (relu (product d X W1))" and p: "is_mat T p n m (product h (relu (product d X W1)) W2)" by simp_all
  let ?gy = "torch_scale T 2 (torch_sub T p y)"
  let ?gh = "torch_index_put T (torch_clone T (torch_mm T ?gy (torch_t T w2))) (torch_lt T z 0) 0"
  have gy: "is_mat T ?gy n m (\<lambda>i j. 2 * miss d h X Y W1 W2 i j)"
    unfolding miss_def by (rule torch_scale_mat [OF doc torch_sub_mat [OF doc p assms(3)]])
  have gh: "is_mat T ?gh n h (\<lambda>i b. if product d X W1 i b < 0 then 0 else \<Sum>j < m. 2 * miss d h X Y W1 W2 i j * W2 b j)"
    by (rule is_mat_cong [OF torch_index_put_mat [OF doc torch_clone_mat [OF doc
          torch_mm_mat [OF doc gy torch_t_mat [OF doc assms(5)]]] torch_lt_mat [OF doc z]]])
      (simp add: product_def)
  from torch_mm_mat [OF doc torch_t_mat [OF doc r] gy] torch_mm_mat [OF doc torch_t_mat [OF doc assms(2)] gh]
  show ?thesis by (simp add: backpropagate_def f Let_def product_fun [of n])
qed

lemma deriv_squares:
  assumes "\<And>i. i < n \<Longrightarrow> DERIV (u i) w :> u' i"
  shows "DERIV (\<lambda>v. \<Sum>i < n. \<Sum>j < m. (e i j + (u i v - u i w) * c i j)\<^sup>2) w :>
     (\<Sum>i < n. u' i * (\<Sum>j < m. 2 * e i j * c i j))"
proof -
  have "DERIV (\<lambda>v. (e i j + (u i v - u i w) * c i j)\<^sup>2) w :> u' i * (2 * e i j * c i j)" if "i < n" for i j
    using assms [OF that] by (auto intro!: derivative_eq_intros simp: algebra_simps)
  then show ?thesis by (auto intro!: DERIV_sum simp: sum_distrib_left)
qed

lemma max_0_near:
  assumes "open S" "u \<in> S" "\<And>v. v \<in> S \<Longrightarrow> max 0 v = k * v"
  shows "DERIV (max 0) u :> (k :: real)"
proof -
  have "\<forall>\<^sub>F v in nhds u. max 0 v = k * v" using assms by (auto simp: eventually_nhds)
  then have "DERIV (max 0) u :> k \<longleftrightarrow> DERIV (\<lambda>v. k * v) u :> k" by (rule DERIV_cong_ev [OF refl _ refl])
  then show ?thesis by (auto intro!: derivative_eq_intros)
qed

lemma deriv_max_0:
  assumes "DERIV f w :> D" "f w \<noteq> (0 :: real)"
  shows "DERIV (\<lambda>v. max 0 (f v)) w :> (if f w < 0 then 0 else D)"
proof -
  have "DERIV (max 0) (f w) :> (if f w < 0 then 0 else 1)"
    using assms(2) max_0_near [of "{..<0}" "f w" 0] max_0_near [of "{0<..}" "f w" 1] by auto
  from DERIV_chain2 [OF this assms(1)] show ?thesis by (simp split: if_splits)
qed

lemma if_zero_swap: "(if c then 0 else z) * s = (z :: real) * (if c then 0 else s)"
  by simp

text \<open>The effect of one weight on the miss, for each of the two layers.\<close>

lemma miss_put_2:
  assumes "a < h"
  shows "miss d h X Y W1 (put W2 a b v) i j =
     miss d h X Y W1 W2 i j + (relu (product d X W1) i a * v - relu (product d X W1) i a * W2 a b) * (if j = b then 1 else 0)"
  using assms by (simp add: miss_def product_put_right algebra_simps)

lemma miss_put_1:
  assumes "a < d" "b < h"
  shows "miss d h X Y (put W1 a b v) W2 i j = miss d h X Y W1 W2 i j +
     (max 0 (product d X W1 i b + X i a * (v - W1 a b)) - max 0 (product d X W1 i b)) * W2 b j"
proof -
  let ?H = "product d X W1" and ?H' = "product d X (put W1 a b v)"
  have "miss d h X Y (put W1 a b v) W2 i j - miss d h X Y W1 W2 i j = (\<Sum>l < h. (relu ?H' i l - relu ?H i l) * W2 l j)"
    by (simp add: miss_def product_def [of h] algebra_simps sum_subtractf)
  also have "\<dots> = (\<Sum>l < h. if l = b then (relu ?H' i b - relu ?H i b) * W2 b j else 0)"
    using assms(1) by (intro sum.cong) (auto simp: relu_def product_put_right)
  also have "\<dots> = (relu ?H' i b - relu ?H i b) * W2 b j" using assms(2) by simp
  finally show ?thesis using assms(1) by (simp add: relu_def product_put_right)
qed

text \<open>C35: What the notebook calls the gradients of the loss with respect to the two matrices of weights are its
  partial derivatives, wherever no cell of the hidden layer is exactly zero.\<close>

theorem backpropagate_gradients:
  assumes "torch_documented T" "dims T x = (n, d)" "dims T y = (n, m)" "dims T w1 = (d, h)" "dims T w2 = (h, m)"
    and "\<forall>i < n. \<forall>j < h. cell T (fst (forward_pass T x w1 w2)) i j \<noteq> 0"
    and "backpropagate T x y w1 w2 = (grad_w1, grad_w2)"
  shows "is_gradient T d h (\<lambda>w. network_loss T x y w w2) w1 grad_w1 \<and>
     is_gradient T h m (\<lambda>w. network_loss T x y w1 w) w2 grad_w2"
proof -
  let ?X = "cell T x" and ?Y = "cell T y" and ?W1 = "cell T w1" and ?W2 = "cell T w2"
  have mats: "is_mat T x n d ?X" "is_mat T y n m ?Y" "is_mat T w1 d h ?W1" "is_mat T w2 h m ?W2"
    using assms(2-5) by (simp_all add: is_mat_def)
  let ?H = "product d ?X ?W1" and ?M = "miss d h ?X ?Y ?W1 ?W2"
  from backpropagate_mats [OF assms(1) mats] assms(7)
  have g1: "is_mat T grad_w1 d h (\<lambda>a b. \<Sum>i < n. ?X i a * (if ?H i b < 0 then 0 else \<Sum>j < m. 2 * ?M i j * ?W2 b j))"
    and g2: "is_mat T grad_w2 h m (\<lambda>a b. \<Sum>i < n. relu ?H i a * (2 * ?M i b))" by simp_all
  from forward_pass_mats [OF assms(1) mats(1,3,4)] assms(6)
  have kink: "?H i j \<noteq> 0" if "i < n" "j < h" for i j
    using that by (auto simp: is_mat_def split: prod.splits)
  have "DERIV (\<lambda>v. network_loss T x y (P v) w2) (?W1 a b) :> cell T grad_w1 a b"
    if a: "a < d" and b: "b < h" and P: "\<forall>v. is_mat T (P v) d h (put ?W1 a b v)" for a b P
  proof -
    let ?u = "\<lambda>i v. max 0 (?H i b + ?X i a * (v - ?W1 a b))"
    have loss: "network_loss T x y (P v) w2 =
        (\<Sum>i < n. \<Sum>j < m. (?M i j + (?u i v - ?u i (?W1 a b)) * ?W2 b j)\<^sup>2)" for v
      using network_loss_value [OF assms(1) mats(1,2) P [rule_format] mats(4)] miss_put_1 [OF a b] by simp
    have line: "DERIV (\<lambda>v. ?H i b + ?X i a * (v - ?W1 a b)) (?W1 a b) :> ?X i a" for i
      by (auto intro!: derivative_eq_intros)
    have "DERIV (?u i) (?W1 a b) :> (if ?H i b < 0 then 0 else ?X i a)" if "i < n" for i
      using deriv_max_0 [OF line [of i]] kink [OF that b] by simp
    from deriv_squares [where u = ?u, OF this]
    have "DERIV (\<lambda>v. network_loss T x y (P v) w2) (?W1 a b) :>
        (\<Sum>i < n. (if ?H i b < 0 then 0 else ?X i a) * (\<Sum>j < m. 2 * ?M i j * ?W2 b j))" by (simp only: loss)
    then show ?thesis by (simp only: is_mat_cell [OF g1 a b] if_zero_swap)
  qed
  moreover have "DERIV (\<lambda>v. network_loss T x y w1 (P v)) (?W2 a b) :> cell T grad_w2 a b"
    if a: "a < h" and b: "b < m" and P: "\<forall>v. is_mat T (P v) h m (put ?W2 a b v)" for a b P
  proof -
    let ?u = "\<lambda>i v. relu ?H i a * v"
    have loss: "network_loss T x y w1 (P v) =
        (\<Sum>i < n. \<Sum>j < m. (?M i j + (?u i v - ?u i (?W2 a b)) * (if j = b then 1 else 0))\<^sup>2)" for v
      using network_loss_value [OF assms(1) mats(1-3) P [rule_format]] miss_put_2 [OF a] by simp
    have "DERIV (?u i) (?W2 a b) :> relu ?H i a" for i by (auto intro!: derivative_eq_intros)
    from deriv_squares [where u = ?u, OF this]
    have "DERIV (\<lambda>v. network_loss T x y w1 (P v)) (?W2 a b) :>
        (\<Sum>i < n. relu ?H i a * (\<Sum>j < m. 2 * ?M i j * (if j = b then 1 else 0)))" by (simp only: loss)
    then show ?thesis using b by (simp add: is_mat_cell [OF g2 a b] if_distrib cong: if_cong)
  qed
  ultimately show ?thesis using is_mat_dims [OF g1] is_mat_dims [OF g2] by (simp add: is_gradient_def)
qed

text \<open>A model of the documented operations, and a network of one unit.\<close>

definition function_torch :: "((nat \<times> nat) \<times> (nat \<Rightarrow> nat \<Rightarrow> real)) torch_ops" where
  "function_torch =
     \<lparr>dims = fst, cell = snd,
      torch_mm = \<lambda>A B. ((fst (fst A), snd (fst B)), product (snd (fst A)) (snd A) (snd B)),
      torch_t = \<lambda>A. (prod.swap (fst A), \<lambda>i j. snd A j i),
      torch_clamp = \<lambda>A c. (fst A, \<lambda>i j. max c (snd A i j)),
      torch_sub = \<lambda>A B. (fst A, \<lambda>i j. snd A i j - snd B i j),
      torch_scale = \<lambda>c A. (fst A, \<lambda>i j. c * snd A i j),
      torch_pow = \<lambda>A p. (fst A, \<lambda>i j. snd A i j ^ p),
      torch_sum = \<lambda>A. \<Sum>i < fst (fst A). \<Sum>j < snd (fst A). snd A i j,
      torch_clone = \<lambda>A. A,
      torch_lt = \<lambda>A c. (fst A, \<lambda>i j. if snd A i j < c then 1 else 0),
      torch_index_put = \<lambda>A B c. (fst A, \<lambda>i j. if snd B i j \<noteq> 0 then c else snd A i j)\<rparr>"

lemma function_torch_documented: "torch_documented function_torch"
  unfolding torch_documented_def
  by (intro conjI allI impI) (auto simp: is_mat_def function_torch_def product_def)

theorem backpropagate_gradients_witness:
  "\<exists>g1 g2. backpropagate function_torch ((1, 1), \<lambda>_ _. 1) ((1, 1), \<lambda>_ _. 1) ((1, 1), \<lambda>_ _. 1) ((1, 1), \<lambda>_ _. 2) = (g1, g2) \<and>
     is_gradient function_torch 1 1
       (\<lambda>w. network_loss function_torch ((1, 1), \<lambda>_ _. 1) ((1, 1), \<lambda>_ _. 1) w ((1, 1), \<lambda>_ _. 2)) ((1, 1), \<lambda>_ _. 1) g1 \<and>
     cell function_torch g1 0 0 = 4"
proof -
  let ?one = "((1, 1), \<lambda>_ _. 1) :: (nat \<times> nat) \<times> (nat \<Rightarrow> nat \<Rightarrow> real)"
  let ?two = "((1, 1), \<lambda>_ _. 2) :: (nat \<times> nat) \<times> (nat \<Rightarrow> nat \<Rightarrow> real)"
  obtain g1 g2 where g: "backpropagate function_torch ?one ?one ?one ?two = (g1, g2)" by (meson surj_pair)
  have d: "dims function_torch ?one = (1, 1)" "dims function_torch ?two = (1, 1)" by (simp_all add: function_torch_def)
  have k: "\<forall>i < 1. \<forall>j < 1. cell function_torch (fst (forward_pass function_torch ?one ?one ?two)) i j \<noteq> 0"
    by (simp add: forward_pass_def function_torch_def product_def)
  from g have "cell function_torch g1 0 0 = 4"
    by (auto simp: backpropagate_def forward_pass_def function_torch_def product_def)
  with backpropagate_gradients [OF function_torch_documented d(1) d(1) d(1) d(2) k g] g show ?thesis by blast
qed

end
