(* ===== verification/Argparse.thy ===== *)
theory Argparse
  imports Py_Strings
begin

text \<open>
  What \<open>contrib/terraform/terraform.py\<close> and \<open>contrib/aws_inventory/kubespray-aws-inventory.py\<close> use of \<open>argparse\<close>
  of the standard library: optional arguments without or with one value, abbreviations, \<open>--name=value\<close>, one
  group of exclusive arguments, and the exit with status 2 on a bad command line and 0 after the help; there
  are no positional arguments, and the only option of one letter is \<open>-h\<close>. The texts of the help and of the
  errors are left out; the rare forms on which versions of Python differ, such as \<open>-hx\<close>, are those of
  3.11.10. The locale \<open>option_table\<close> has what the parsers of both programs rely on.
\<close>

section \<open>argparse\<close>

datatype arg_action = Store_True | Store | Help

text \<open>An option string with the name its value is stored under and its action.\<close>

type_synonym arg_options = "(string \<times> string \<times> arg_action) list"

datatype word_kind =
    Plain string
  | Dashes
  | Known string string arg_action "string option"
  | Glued string
  | Unknown

definition exit_bad :: "'a res" where
  "exit_bad = Inl (SystemExit ''2'')"

definition find_option :: "arg_options \<Rightarrow> string \<Rightarrow> (string \<times> arg_action) option" where
  "find_option opts name = map_of opts name"

text \<open>
  \<open>_get_option_tuples\<close>: the options a word may abbreviate, with their value after the equals sign. A word of
  one dash that is longer than an option of one letter is that option with more letters glued to it.
\<close>

definition abbreviated :: "arg_options \<Rightarrow> string \<Rightarrow> word_kind list" where
  "abbreviated opts w =
     (if starts_with w ''--'' then
        (case split_once (CHR ''='') w of
           None \<Rightarrow> map (\<lambda>(s, d, a). Known s d a None) (filter (\<lambda>(s, d, a). starts_with s w) opts)
         | Some (name, v) \<Rightarrow>
             map (\<lambda>(s, d, a). Known s d a (Some v)) (filter (\<lambda>(s, d, a). starts_with s name) opts))
      else
        map (\<lambda>(s, d, a). if s = take 2 w then Glued (drop 2 w) else Known s d a None)
          (filter (\<lambda>(s, d, a). s = take 2 w \<or> starts_with s w) opts))"

text \<open>\<open>_negative_number_matcher\<close>, whose \<open>$\<close> also matches before a newline at the end.\<close>

definition negative_number :: "string \<Rightarrow> bool" where
  "negative_number w =
     (let w = (if w \<noteq> [] \<and> last w = CHR 0x0A then butlast w else w)
      in case w of
           [] \<Rightarrow> False
         | c # r \<Rightarrow> c = CHR ''-'' \<and>
             ((r \<noteq> [] \<and> list_all is_digit r) \<or>
              (case split_once (CHR ''.'') r of
                 None \<Rightarrow> False
               | Some (a, b) \<Rightarrow> list_all is_digit a \<and> b \<noteq> [] \<and> list_all is_digit b)))"

text \<open>\<open>_parse_optional\<close>.\<close>

definition parse_optional :: "arg_options \<Rightarrow> string \<Rightarrow> word_kind res" where
  "parse_optional opts w =
     (if w = [] \<or> hd w \<noteq> CHR ''-'' then Inr (Plain w)
      else case find_option opts w of
        Some (d, a) \<Rightarrow> Inr (Known w d a None)
      | None \<Rightarrow>
          if length w = 1 then Inr (Plain w)
          else case (case split_once (CHR ''='') w of
                       None \<Rightarrow> None
                     | Some (name, v) \<Rightarrow> map_option (\<lambda>(d, a). Known name d a (Some v)) (find_option opts name)) of
            Some k \<Rightarrow> Inr k
          | None \<Rightarrow>
              (case abbreviated opts w of
                 [k] \<Rightarrow> Inr k
               | _ # _ # _ \<Rightarrow> exit_bad
               | [] \<Rightarrow> if negative_number w \<or> CHR '' '' \<in> set w then Inr (Plain w) else Inr Unknown))"

fun classify :: "arg_options \<Rightarrow> string list \<Rightarrow> word_kind list res" where
  "classify opts [] = Inr []"
| "classify opts (w # ws) =
     (if w = ''--'' then Inr (Dashes # map Plain ws)
      else rbind (parse_optional opts w) (\<lambda>k. rmap ((#) k) (classify opts ws)))"

text \<open>What is stored so far, and whether there are words left over.\<close>

record arg_state =
  stored :: "(string, string option) dict"
  extras :: bool

text \<open>\<open>take_action\<close>: an argument of the group next to another one of it is an error.\<close>

definition store :: "string list \<Rightarrow> arg_state \<Rightarrow> string \<Rightarrow> string option \<Rightarrow> arg_state res" where
  "store grp st d v =
     (if d \<in> set grp \<and> (\<exists>d' \<in> set grp. d' \<noteq> d \<and> dict_has (stored st) d') then exit_bad
      else Inr (st\<lparr>stored := dict_set (stored st) d v\<rparr>))"

text \<open>What follows \<open>-h\<close> in the same word: the help is given unless a dash or an equals sign is met first.\<close>

fun help_glued :: "string \<Rightarrow> bool" where
  "help_glued [] = True"
| "help_glued (c # r) =
     (c \<noteq> CHR ''-'' \<and> (c \<noteq> CHR ''h'' \<or> ((r = [] \<or> hd r \<noteq> CHR ''='') \<and> help_glued r)))"

text \<open>\<open>consume_optional\<close> from left to right.\<close>

fun consume :: "string list \<Rightarrow> arg_state \<Rightarrow> word_kind list \<Rightarrow> arg_state res" where
  "consume grp st [] = Inr st"
| "consume grp st (Plain w # ks) = consume grp (st\<lparr>extras := True\<rparr>) ks"
| "consume grp st (Dashes # ks) = consume grp (st\<lparr>extras := True\<rparr>) ks"
| "consume grp st (Unknown # ks) = consume grp (st\<lparr>extras := True\<rparr>) ks"
| "consume grp st (Glued r # ks) = (if help_glued r then Inl (SystemExit ''0'') else exit_bad)"
| "consume grp st (Known name d Help e # ks) = (if e = None then Inl (SystemExit ''0'') else exit_bad)"
| "consume grp st (Known name d Store_True e # ks) =
     (if e = None then rbind (store grp st d None) (\<lambda>st. consume grp st ks) else exit_bad)"
| "consume grp st (Known name d Store (Some v) # ks) = rbind (store grp st d (Some v)) (\<lambda>st. consume grp st ks)"
| "consume grp st (Known name d Store None # Plain v # ks) =
     rbind (store grp st d (Some v)) (\<lambda>st. consume grp st ks)"
| "consume grp st (Known name d Store None # ks) = exit_bad"

text \<open>\<open>parse_args\<close> with a required group, or none at all.\<close>

definition parse_args :: "arg_options \<Rightarrow> string list \<Rightarrow> string list \<Rightarrow> (string, string option) dict res" where
  "parse_args opts grp ws =
     rbind (classify opts ws) (\<lambda>ks.
     rbind (consume grp \<lparr>stored = [], extras = False\<rparr> ks) (\<lambda>st.
       if grp \<noteq> [] \<and> \<not> (\<exists>d \<in> set grp. dict_has (stored st) d) then exit_bad
       else if extras st then exit_bad
       else Inr (stored st)))"

text \<open>The argument of a recognized option takes a value as \<open>tv\<close> says.\<close>

fun kind_ok :: "(string \<Rightarrow> bool) \<Rightarrow> word_kind \<Rightarrow> bool" where
  "kind_ok tv (Known s d a e) = (a = Help \<or> (a = Store) = tv d)"
| "kind_ok tv _ = True"

section \<open>Tables of options\<close>

text \<open>Long options with different names, and \<open>-h\<close> for the help.\<close>

locale option_table =
  fixes opts :: arg_options
  assumes distinct_names: "distinct (map fst opts)"
    and names: "(s, d, a) \<in> set opts \<Longrightarrow> (starts_with s ''--'' \<and> s \<noteq> ''--'' \<or> s = ''-h'' \<and> a = Help) \<and> CHR ''='' \<notin> set s"
begin

lemma find_name: "(s, d, a) \<in> set opts \<Longrightarrow> find_option opts s = Some (d, a)"
  using distinct_names by (simp add: find_option_def)

lemma find_other: "CHR ''='' \<in> set w \<Longrightarrow> find_option opts w = None"
  using names by (auto simp: find_option_def map_of_eq_None_iff)

lemma name_dash: "(s, d, a) \<in> set opts \<Longrightarrow> s \<noteq> [] \<and> hd s = CHR ''-'' \<and> s \<noteq> ''--''"
  using names [of s d a] by (cases s) (auto simp: starts_with_def)

lemma name_word: "(s, d, a) \<in> set opts \<Longrightarrow> parse_optional opts s = Inr (Known s d a None)"
  using find_name [of s d a] name_dash [of s d a] by (simp add: parse_optional_def)

lemma value_word: "(s, d, a) \<in> set opts \<Longrightarrow> parse_optional opts (s @ CHR ''='' # v) = Inr (Known s d a (Some v))"
  using find_name [of s d a] name_dash [of s d a] names [of s d a] find_other [of "s @ CHR ''='' # v"]
  by (auto simp: parse_optional_def)

lemma known_option:
  assumes "parse_optional opts w = Inr (Known s d a e)"
  shows "(s, d, a) \<in> set opts"
proof -
  have f: "(s, d, a) \<in> set opts" if "find_option opts s = Some (d, a)" for s d a
    using that by (simp add: find_option_def map_of_SomeD)
  have "(s, d, a) \<in> set opts" if "Known s d a e \<in> set (abbreviated opts w)"
    using that by (auto simp: abbreviated_def split: option.splits if_splits)
  with assms f show ?thesis
    by (auto simp: parse_optional_def exit_bad_def split: option.splits if_splits list.splits)
qed

lemma known_classified: "classify opts ws = Inr ks \<Longrightarrow> Known s d a e \<in> set ks \<Longrightarrow> (s, d, a) \<in> set opts"
  by (induction ws arbitrary: ks) (auto simp: rbind_eq_Inr_iff rmap_eq_Inr_iff known_option split: if_splits)

lemma kinds_classified:
  assumes "classify opts ws = Inr ks" "\<forall>(s, d, a) \<in> set opts. kind_ok tv (Known s d a None)"
  shows "list_all (kind_ok tv) ks"
proof -
  have "kind_ok tv k" if "k \<in> set ks" for k
  proof (cases k)
    case (Known s d a e)
    with that known_classified [OF assms(1)] have "(s, d, a) \<in> set opts" by simp
    with assms(2) Known show ?thesis by fastforce
  qed simp_all
  then show ?thesis by (simp add: list_all_iff)
qed

end

section \<open>What is stored\<close>

text \<open>Arguments of the group exclude each other.\<close>

definition exclusive :: "string list \<Rightarrow> (string, string option) dict \<Rightarrow> bool" where
  "exclusive grp vs = (\<forall>d \<in> set grp. \<forall>d' \<in> set grp. dict_has vs d \<longrightarrow> dict_has vs d' \<longrightarrow> d = d')"

text \<open>A value is stored exactly for the arguments that take one.\<close>

definition typed :: "(string \<Rightarrow> bool) \<Rightarrow> (string, string option) dict \<Rightarrow> bool" where
  "typed takes_value vs =
     (\<forall>d. (dict_get vs d = Some None \<longrightarrow> \<not> takes_value d) \<and> (\<forall>v. dict_get vs d = Some (Some v) \<longrightarrow> takes_value d))"

definition args_ok :: "string list \<Rightarrow> (string \<Rightarrow> bool) \<Rightarrow> (string, string option) dict \<Rightarrow> bool" where
  "args_ok grp tv vs = (exclusive grp vs \<and> typed tv vs)"

lemma store_keeps:
  "store grp st d v = Inr st' \<Longrightarrow> args_ok grp tv (stored st) \<Longrightarrow> (v \<noteq> None) = tv d \<Longrightarrow> args_ok grp tv (stored st')"
  "store grp st d v = Inr st' \<Longrightarrow> extras st' = extras st"
  by (auto simp: store_def args_ok_def exclusive_def typed_def exit_bad_def dict_has_def split: if_splits)

lemma consume_keeps:
  "consume grp st ks = Inr st' \<Longrightarrow> args_ok grp tv (stored st) \<Longrightarrow> list_all (kind_ok tv) ks \<Longrightarrow> args_ok grp tv (stored st')"
  by (induction grp st ks rule: consume.induct)
    (auto simp: rbind_eq_Inr_iff exit_bad_def split: if_splits intro: store_keeps(1))

lemma parse_args_keeps:
  assumes "parse_args opts grp ws = Inr vs" "\<And>ks. classify opts ws = Inr ks \<Longrightarrow> list_all (kind_ok tv) ks"
  shows "args_ok grp tv vs" "grp \<noteq> [] \<Longrightarrow> \<exists>d \<in> set grp. dict_has vs d"
proof -
  obtain ks st where c: "classify opts ws = Inr ks" and r: "consume grp \<lparr>stored = [], extras = False\<rparr> ks = Inr st"
    and v: "vs = stored st" "grp \<noteq> [] \<Longrightarrow> \<exists>d \<in> set grp. dict_has vs d"
    using assms(1) by (auto simp: parse_args_def rbind_eq_Inr_iff exit_bad_def split: if_splits)
  have "args_ok grp tv (stored \<lparr>stored = [], extras = False\<rparr>)"
    by (simp add: args_ok_def exclusive_def typed_def dict_has_def)
  from consume_keeps [OF r this assms(2) [OF c]] v show "args_ok grp tv vs" "grp \<noteq> [] \<Longrightarrow> \<exists>d \<in> set grp. dict_has vs d"
    by simp_all
qed

section \<open>Errors\<close>

definition exits :: "'a res \<Rightarrow> bool" where
  "exits r = (case r of Inl e \<Rightarrow> e = SystemExit ''0'' \<or> e = SystemExit ''2'' | Inr x \<Rightarrow> True)"

lemma exits_simps [simp]:
  "exits (Inr x)" "exits (Inl (SystemExit ''0''))" "exits (Inl (SystemExit ''2''))" "exits exit_bad"
  by (simp_all add: exits_def exit_bad_def)

lemma exits_rbind: "exits m \<Longrightarrow> (\<And>x. m = Inr x \<Longrightarrow> exits (f x)) \<Longrightarrow> exits (rbind m f)"
  by (cases m) (auto simp: exits_def)

lemma exits_rmap [simp]: "exits (rmap f m) = exits m"
  by (cases m) (auto simp: exits_def)

lemma classify_exits: "exits (classify opts ws)"
  by (induction ws) (auto intro!: exits_rbind simp: parse_optional_def split: option.split list.split)

lemma consume_exits: "exits (consume grp st ks)"
  by (induction grp st ks rule: consume.induct) (auto intro!: exits_rbind simp: store_def)

text \<open>The only ways out of a parser are its result, status 2, and status 0 after the help.\<close>

lemma parse_args_exits: "exits (parse_args opts grp ws)"
  by (auto simp: parse_args_def intro!: exits_rbind classify_exits consume_exits)

section \<open>Words left over\<close>

lemma rbind_unit: "rbind m Inr = m"
  by (cases m) simp_all

lemma classify_append:
  "''--'' \<notin> set ws \<Longrightarrow> classify opts (ws @ vs) = rbind (classify opts ws) (\<lambda>ks. rmap (\<lambda>ls. ks @ ls) (classify opts vs))"
  by (induction ws) (auto simp: rmap_def rbind_assoc rbind_unit)

lemma plain_classified: "classify opts ws = Inr ks \<Longrightarrow> w \<in> set ws \<Longrightarrow> w = [] \<or> hd w \<noteq> CHR ''-'' \<Longrightarrow> Plain w \<in> set ks"
proof (induction ws arbitrary: ks)
  case (Cons v ws)
  then show ?case by (auto simp: rbind_eq_Inr_iff rmap_eq_Inr_iff parse_optional_def split: if_splits)
qed simp

lemma extras_stay: "consume grp st ks = Inr st' \<Longrightarrow> extras st \<Longrightarrow> extras st'"
  by (induction grp st ks rule: consume.induct)
    (auto simp: rbind_eq_Inr_iff exit_bad_def split: if_splits dest: store_keeps(2))

text \<open>Without options that take a value, a plain word is left over.\<close>

lemma plain_left_over:
  "consume grp st ks = Inr st' \<Longrightarrow> Plain w \<in> set ks \<Longrightarrow> list_all (kind_ok (\<lambda>d. False)) ks \<Longrightarrow> extras st'"
  by (induction grp st ks rule: consume.induct)
    (auto simp: rbind_eq_Inr_iff exit_bad_def split: if_splits dest: extras_stay)

end
