(* ===== verification/Command_Lines.thy ===== *)
theory Command_Lines
  imports Argparse Terraform_Floating Aws_Inventory
begin

text \<open>
  \<open>contrib/terraform/terraform.py\<close> and \<open>contrib/aws_inventory/kubespray-aws-inventory.py\<close> from their command lines
  on: the tables of options, the default root, the parsed arguments and what they run. Both tables are
  interpretations of \<open>option_table\<close>.
\<close>

section \<open>The two parsers\<close>

text \<open>\<open>os.path\<close>: \<open>dirname\<close>, \<open>normpath\<close> and \<open>abspath\<close>.\<close>

definition path_dirname :: "string \<Rightarrow> string" where
  "path_dirname p =
     (let head = rev (dropWhile (\<lambda>c. c \<noteq> CHR ''/'') (rev p))
      in if list_all (\<lambda>c. c = CHR ''/'') head then head else rev (dropWhile (\<lambda>c. c = CHR ''/'') (rev head)))"

fun norm_comps :: "bool \<Rightarrow> string list \<Rightarrow> string list \<Rightarrow> string list" where
  "norm_comps rooted new [] = new"
| "norm_comps rooted new (c # cs) =
     (if c = [] \<or> c = ''.'' then norm_comps rooted new cs
      else if c \<noteq> ''..'' \<or> (\<not> rooted \<and> new = []) \<or> (new \<noteq> [] \<and> last new = ''..'')
      then norm_comps rooted (new @ [c]) cs
      else norm_comps rooted (butlast new) cs)"

definition normpath :: "string \<Rightarrow> string" where
  "normpath p =
     (if p = [] then ''.''
      else
        let slashes = (if starts_with p ''//'' \<and> \<not> starts_with p ''///'' then ''//''
                       else if starts_with p ''/'' then ''/'' else []);
            r = slashes @ str_join ''/'' (norm_comps (slashes \<noteq> []) [] (split_on (CHR ''/'') p))
        in if r = [] then ''.'' else r)"

definition abspath :: "string \<Rightarrow> string \<Rightarrow> string" where
  "abspath cwd p = normpath (path_join cwd p)"

definition default_root :: "(string, string) dict \<Rightarrow> string \<Rightarrow> string \<Rightarrow> string" where
  "default_root environ cwd this_file =
     (case dict_get environ ''TERRAFORM_STATE_ROOT'' of
        Some r \<Rightarrow> r
      | None \<Rightarrow> abspath cwd (path_join (path_join (path_dirname this_file) ''..'') ''..''))"

definition tf_options :: arg_options where
  "tf_options =
     [(''-h'', ''help'', Help), (''--help'', ''help'', Help),
      (''--list'', ''list'', Store_True), (''--host'', ''host'', Store),
      (''--version'', ''version'', Store_True), (''--hostfile'', ''hostfile'', Store_True),
      (''--pretty'', ''pretty'', Store_True), (''--nometa'', ''nometa'', Store_True), (''--root'', ''root'', Store)]"

definition tf_modes :: "string list" where
  "tf_modes = [''list'', ''host'', ''version'', ''hostfile'']"

definition stored_value :: "(string, string option) dict \<Rightarrow> string \<Rightarrow> string option" where
  "stored_value vs d = (case dict_get vs d of None \<Rightarrow> None | Some v \<Rightarrow> v)"

definition tf_namespace :: "string \<Rightarrow> (string, string option) dict \<Rightarrow> tf_args" where
  "tf_namespace root vs =
     \<lparr>a_list = dict_has vs ''list'', a_host = stored_value vs ''host'', a_version = dict_has vs ''version'',
      a_hostfile = dict_has vs ''hostfile'', a_pretty = dict_has vs ''pretty'', a_nometa = dict_has vs ''nometa'',
      a_root = (case stored_value vs ''root'' of None \<Rightarrow> root | Some r \<Rightarrow> r)\<rparr>"

definition tf_parse_args :: "string \<Rightarrow> string list \<Rightarrow> tf_args res" where
  "tf_parse_args root ws = rmap (tf_namespace root) (parse_args tf_options tf_modes ws)"

text \<open>\<open>main\<close> of \<open>terraform.py\<close> from the command line on.\<close>

definition terraform_main :: "key_order \<Rightarrow> string list \<Rightarrow> string \<Rightarrow> (string, string) dict
     \<Rightarrow> (string \<Rightarrow> (string \<times> string list) list) \<Rightarrow> string \<Rightarrow> (string \<rightharpoonup> string) \<Rightarrow> string res" where
  "terraform_main order ws this_file environ walk cwd files =
     rbind (tf_parse_args (default_root environ cwd this_file) ws) (\<lambda>args. tf_main order args this_file walk cwd files)"

definition aws_options :: arg_options where
  "aws_options =
     [(''-h'', ''help'', Help), (''--help'', ''help'', Help),
      (''--list'', ''list'', Store_True), (''--host'', ''host'', Store_True)]"

definition aws_parse_args :: "string list \<Rightarrow> aws_args res" where
  "aws_parse_args ws =
     rmap (\<lambda>vs. \<lparr>aws_list = dict_has vs ''list'', aws_host = dict_has vs ''host''\<rparr>) (parse_args aws_options [] ws)"

definition aws_program :: "string list \<Rightarrow> (string, string) dict \<Rightarrow> ec2 \<Rightarrow> string res" where
  "aws_program ws environ ec2 = rbind (aws_parse_args ws) (\<lambda>args. SearchEC2Tags args environ ec2)"

section \<open>The tables\<close>

interpretation tf_table: option_table tf_options
  by unfold_locales (auto simp: tf_options_def starts_with_def)

interpretation aws_table: option_table aws_options
  by unfold_locales (auto simp: aws_options_def starts_with_def)

lemma tf_kinds: "classify tf_options ws = Inr ks \<Longrightarrow> list_all (kind_ok (\<lambda>d. d = ''host'' \<or> d = ''root'')) ks"
  by (erule tf_table.kinds_classified) (simp add: tf_options_def)

lemma aws_kinds: "classify aws_options ws = Inr ks \<Longrightarrow> list_all (kind_ok (\<lambda>d. False)) ks"
  by (erule aws_table.kinds_classified) (simp add: aws_options_def)

section \<open>The modes of the Terraform inventory\<close>

definition modes :: "tf_args \<Rightarrow> bool list" where
  "modes args = [a_list args, a_host args \<noteq> None, a_version args, a_hostfile args]"

lemma stored_value_has: "typed tv vs \<Longrightarrow> tv d \<Longrightarrow> (stored_value vs d \<noteq> None) = dict_has vs d"
  by (cases "dict_get vs d"; cases "the (dict_get vs d)") (auto simp: stored_value_def typed_def dict_has_get)

lemma one_of_four:
  assumes "\<forall>x \<in> set [a, b, c, d]. \<forall>y \<in> set [a, b, c, d]. f x \<longrightarrow> f y \<longrightarrow> x = y" "\<exists>x \<in> set [a, b, c, d]. f x"
    and "distinct [a, b, c, d]"
  shows "length (filter id [f a, f b, f c, f d]) = 1"
  using assms by auto

lemma terraform_modes:
  "case tf_parse_args root ws of
     Inr args \<Rightarrow> length (filter id (modes args)) = 1
   | Inl e \<Rightarrow> e \<in> {SystemExit ''0'', SystemExit ''2''}"
proof (cases "parse_args tf_options tf_modes ws")
  case (Inl e)
  with parse_args_exits [of tf_options tf_modes ws] show ?thesis by (simp add: tf_parse_args_def exits_def)
next
  case (Inr vs)
  have ok: "args_ok tf_modes (\<lambda>d. d = ''host'' \<or> d = ''root'') vs"
    by (rule parse_args_keeps(1) [OF Inr]) (rule tf_kinds)
  have one: "\<exists>d \<in> set tf_modes. dict_has vs d"
    by (rule parse_args_keeps(2) [OF Inr, of "\<lambda>d. d = ''host'' \<or> d = ''root''"]) (simp_all add: tf_kinds tf_modes_def)
  let ?v = "\<lambda>d. dict_has vs d"
  have "(stored_value vs ''host'' \<noteq> None) = ?v ''host''"
    using ok stored_value_has [of "\<lambda>d. d = ''host'' \<or> d = ''root''" vs "''host''"] by (simp add: args_ok_def)
  then have m: "modes (tf_namespace root vs) = [?v ''list'', ?v ''host'', ?v ''version'', ?v ''hostfile'']"
    by (simp add: modes_def tf_namespace_def)
  have "exclusive tf_modes vs" "\<exists>d \<in> set tf_modes. ?v d" using ok one by (simp_all add: args_ok_def)
  then have "length (filter id [?v ''list'', ?v ''host'', ?v ''version'', ?v ''hostfile'']) = 1"
    unfolding exclusive_def tf_modes_def by (rule one_of_four) simp
  with Inr m show ?thesis by (simp add: tf_parse_args_def)
qed

text \<open>C25: Whatever the command line, the parser returns arguments with exactly one of the four modes, or ends
  the program with status 2, or with status 0 after the help.\<close>

theorem terraform_one_mode:
  "case tf_parse_args root ws of
     Inr args \<Rightarrow> length (filter id (modes args)) = 1
   | Inl e \<Rightarrow> e \<in> {SystemExit ''0'', SystemExit ''2''}"
  by (rule terraform_modes)

text \<open>A command line for given arguments.\<close>

definition tf_words :: "tf_args \<Rightarrow> string list" where
  "tf_words args =
     (if a_list args then [''--list''] else []) @
     (case a_host args of None \<Rightarrow> [] | Some h \<Rightarrow> [''--host'' @ CHR ''='' # h]) @
     (if a_version args then [''--version''] else []) @
     (if a_hostfile args then [''--hostfile''] else []) @
     (if a_pretty args then [''--pretty''] else []) @
     (if a_nometa args then [''--nometa''] else []) @
     [''--root'' @ CHR ''='' # a_root args]"

lemma tf_words_parsed:
  "parse_optional tf_options ''--list'' = Inr (Known ''--list'' ''list'' Store_True None)"
  "parse_optional tf_options ''--version'' = Inr (Known ''--version'' ''version'' Store_True None)"
  "parse_optional tf_options ''--hostfile'' = Inr (Known ''--hostfile'' ''hostfile'' Store_True None)"
  "parse_optional tf_options ''--pretty'' = Inr (Known ''--pretty'' ''pretty'' Store_True None)"
  "parse_optional tf_options ''--nometa'' = Inr (Known ''--nometa'' ''nometa'' Store_True None)"
  "parse_optional tf_options (''--host'' @ CHR ''='' # v) = Inr (Known ''--host'' ''host'' Store (Some v))"
  "parse_optional tf_options (''--root'' @ CHR ''='' # v) = Inr (Known ''--root'' ''root'' Store (Some v))"
  by (rule tf_table.name_word tf_table.value_word, simp add: tf_options_def)+

definition tf_word_kinds :: "tf_args \<Rightarrow> word_kind list" where
  "tf_word_kinds args =
     (if a_list args then [Known ''--list'' ''list'' Store_True None] else []) @
     (case a_host args of None \<Rightarrow> [] | Some h \<Rightarrow> [Known ''--host'' ''host'' Store (Some h)]) @
     (if a_version args then [Known ''--version'' ''version'' Store_True None] else []) @
     (if a_hostfile args then [Known ''--hostfile'' ''hostfile'' Store_True None] else []) @
     (if a_pretty args then [Known ''--pretty'' ''pretty'' Store_True None] else []) @
     (if a_nometa args then [Known ''--nometa'' ''nometa'' Store_True None] else []) @
     [Known ''--root'' ''root'' Store (Some (a_root args))]"

lemma classify_parsed:
  "w \<noteq> ''--'' \<Longrightarrow> parse_optional opts w = Inr k \<Longrightarrow> classify opts (w # ws) = rmap ((#) k) (classify opts ws)"
  by (simp add: rmap_def)

declare classify.simps(2) [simp del]

lemmas tf_classified = tf_words_parsed [THEN classify_parsed [rotated], simplified]

lemma store_first: "store grp \<lparr>stored = [], extras = e\<rparr> d v = Inr \<lparr>stored = [(d, v)], extras = e\<rparr>"
  by (simp add: store_def)

lemma store_other: "d \<notin> set grp \<Longrightarrow> store grp st d v = Inr (st\<lparr>stored := dict_set (stored st) d v\<rparr>)"
  by (simp add: store_def)

text \<open>C24: Every choice of one mode, of the flags and of a root has a command line that is parsed back to it,
  whatever the text of the host and of the root: with spaces, dashes or equals signs, or none at all.\<close>

theorem terraform_args_read_back:
  assumes "length (filter id (modes args)) = 1"
  shows "tf_parse_args root (tf_words args) = Inr args"
proof -
  have c: "classify tf_options (tf_words args) = Inr (tf_word_kinds args)"
    by (cases "a_host args") (simp_all add: tf_words_def tf_word_kinds_def tf_classified)
  from assms consider
      (l) "a_list args" "a_host args = None" "\<not> a_version args" "\<not> a_hostfile args"
    | (h) v where "\<not> a_list args" "a_host args = Some v" "\<not> a_version args" "\<not> a_hostfile args"
    | (v) "\<not> a_list args" "a_host args = None" "a_version args" "\<not> a_hostfile args"
    | (f) "\<not> a_list args" "a_host args = None" "\<not> a_version args" "a_hostfile args"
    by (auto simp: modes_def split: if_splits)
  then have "\<exists>st. consume tf_modes \<lparr>stored = [], extras = False\<rparr> (tf_word_kinds args) = Inr st \<and> \<not> extras st \<and>
      (\<exists>d \<in> set tf_modes. dict_has (stored st) d) \<and> tf_namespace root (stored st) = args"
  proof cases
    case l
    then show ?thesis
      by (cases args; cases "a_pretty args"; cases "a_nometa args";
        simp add: tf_word_kinds_def store_first store_other tf_modes_def tf_namespace_def stored_value_def dict_has_def)
  next
    case h
    then show ?thesis
      by (cases args; cases "a_pretty args"; cases "a_nometa args";
        simp add: tf_word_kinds_def store_first store_other tf_modes_def tf_namespace_def stored_value_def dict_has_def)
  next
    case v
    then show ?thesis
      by (cases args; cases "a_pretty args"; cases "a_nometa args";
        simp add: tf_word_kinds_def store_first store_other tf_modes_def tf_namespace_def stored_value_def dict_has_def)
  next
    case f
    then show ?thesis
      by (cases args; cases "a_pretty args"; cases "a_nometa args";
        simp add: tf_word_kinds_def store_first store_other tf_modes_def tf_namespace_def stored_value_def dict_has_def)
  qed
  then show ?thesis by (auto simp: tf_parse_args_def parse_args_def c tf_modes_def)
qed

theorem terraform_args_read_back_witness:
  "tf_parse_args ''/srv'' [''--host=a b'', ''--root=''] =
     Inr \<lparr>a_list = False, a_host = Some ''a b'', a_version = False, a_hostfile = False, a_pretty = False,
          a_nometa = False, a_root = []\<rparr>"
  using terraform_args_read_back [of "\<lparr>a_list = False, a_host = Some ''a b'', a_version = False, a_hostfile = False,
      a_pretty = False, a_nometa = False, a_root = []\<rparr>" "''/srv''"]
  by (simp add: tf_words_def modes_def)

section \<open>The listing from the command line on\<close>

text \<open>C23: With a command line that chooses \<open>--list\<close>, in whatever spelling, \<open>terraform.py\<close> prints JSON that
  reads back as the listing it computed, without the variables of the hosts if \<open>--nometa\<close> is given, provided
  that the state has only hosts with text names and attributes JSON can hold, and no floating addresses.\<close>

theorem list_command_reads_back:
  assumes "tf_parse_args (default_root environ cwd this_file) ws = Inr args" "a_list args"
    and "iterhosts order (iterresources files (tfstates walk cwd (a_root args))) = map Inr hs" "\<forall>h \<in> set hs. str_host h"
    and "ips_dict (iterips (iterresources files (tfstates walk cwd (a_root args)))) = Inr []"
  shows "\<exists>out l. terraform_main order ws this_file environ walk cwd files = Inr out \<and> query_list (map Inr hs) = Inr l \<and>
     json_loads out = Inr (JDict (if a_nometa args then dict_del (listing_json l) ''_meta'' else listing_json l))"
proof -
  have "\<not> a_version args"
    using terraform_modes [of "default_root environ cwd this_file" ws] assms(1,2) by (auto simp: modes_def split: if_splits)
  from list_output_reads_back [OF this assms(2) refl assms(3-5)] show ?thesis
    by (simp add: terraform_main_def assms(1))
qed

theorem list_command_reads_back_witness:
  "\<exists>out l. terraform_main id [''--pretty'', ''--li'', ''--root'', ''/r''] ''terraform.py'' [] demo_walk ''/'' demo_tf_files = Inr out \<and>
     query_list [Inr demo_clc_host] = Inr l \<and> json_loads out = Inr (JDict (listing_json l))"
proof -
  have p: "tf_parse_args (default_root [] ''/'' ''terraform.py'') [''--pretty'', ''--li'', ''--root'', ''/r''] = Inr demo_tf_args"
    by code_simp
  have s: "\<forall>h \<in> set [demo_clc_host]. str_host h" by code_simp
  have a: "a_list demo_tf_args" "a_root demo_tf_args = ''/r''" "\<not> a_nometa demo_tf_args" by (simp_all add: demo_tf_args_def)
  from list_command_reads_back [OF p a(1), unfolded a(2), OF demo_tf_listing(1) s demo_tf_listing(2)] a(3)
  show ?thesis by simp
qed

section \<open>The EC2 inventory and its host argument\<close>

text \<open>C26: The EC2 inventory accepts no host name: any word on its command line that does not begin with a dash
  ends it before the service is asked, although an inventory script is called with \<open>--host\<close> and a name.\<close>

theorem aws_takes_no_host:
  assumes "w \<in> set ws" "w = [] \<or> hd w \<noteq> CHR ''-''"
  shows "\<exists>status \<in> {''0'', ''2''}. aws_program ws environ ec2 = Inl (SystemExit status)"
proof (cases "parse_args aws_options [] ws")
  case (Inl e)
  with parse_args_exits [of aws_options "[]" ws] show ?thesis by (auto simp: aws_program_def aws_parse_args_def exits_def)
next
  case (Inr vs)
  then obtain ks st where ks: "classify aws_options ws = Inr ks"
    and r: "consume [] \<lparr>stored = [], extras = False\<rparr> ks = Inr st" and e: "\<not> extras st"
    by (auto simp: parse_args_def rbind_eq_Inr_iff exit_bad_def split: if_splits)
  from plain_left_over [OF r plain_classified [OF ks assms] aws_kinds [OF ks]] e show ?thesis by simp
qed

theorem aws_takes_no_host_witness:
  "aws_program [''--host'', ''ip-10-0-0-1''] [(''REGION'', ''us-east-1'')] demo_ec2 = Inl (SystemExit ''2'')"
proof -
  have "''ip-10-0-0-1'' \<in> set [''--host'', ''ip-10-0-0-1'']" "''ip-10-0-0-1'' = [] \<or> hd ''ip-10-0-0-1'' \<noteq> CHR ''-''" by simp_all
  from aws_takes_no_host [OF this, of "[(''REGION'', ''us-east-1'')]" demo_ec2]
  show ?thesis by (auto simp: aws_program_def) code_simp
qed

text \<open>Where the script is in the repository, the default root is the root of the repository.\<close>

lemma default_root_of_script:
  "default_root [] ''/home'' ''/srv/kubespray/contrib/terraform/terraform.py'' = ''/srv/kubespray''"
  "default_root [] ''/srv/kubespray/contrib'' ''terraform/terraform.py'' = ''/srv/kubespray''"
  "default_root [(''TERRAFORM_STATE_ROOT'', ''/state'')] ''/home'' ''terraform.py'' = ''/state''"
  by code_simp+

end
