(* ===== verification/Spec2Isabelle.thy ===== *)
theory Spec2Isabelle
  imports Inventory_Lifecycle Kube_Module Terraform_Floating Get_Pip_Payload Aws_Inventory Notebook_Image Notebook_Cells Notebook_Training Command_Lines
begin

text \<open>
  Verification of the Python programs of Kubespray.

  Kubespray itself is a set of Ansible roles; the Python in the repository is what stands around them,
  programs that do not call each other and meet in Ansible: three of them produce the inventory the
  playbooks run on, one is a module the playbooks call, one prepares the hosts, and two belong to an
  image of notebooks.

  Shared theories. \<open>Py_Prelude\<close> has Python's exceptions as values (a result is an error or a value, steps
  are sequenced by \<open>rbind\<close>, loops that may raise are \<open>rfold\<close> and \<open>rmapM\<close>) and insertion-ordered
  dictionaries as association lists behind the locale \<open>py_dict\<close>. \<open>Py_Strings\<close> has the string methods and
  \<open>str\<close>, \<open>int\<close>. \<open>Json\<close> has \<open>json.loads\<close> and \<open>json.dumps\<close> and the proof that reading inverts writing.
  \<open>Ini_Config\<close> and \<open>Ini_File\<close> have the part of \<open>configparser\<close> the inventory builder uses: options,
  interpolation, the file it writes and reads, and that it reads what it wrote.

  The inventory builder, \<open>contrib/inventory_builder/inventory.py\<close>. \<open>Inventory_Hosts\<close>: the module settings and
  \<open>build_hostnames\<close> with its helpers. \<open>Inventory_Table\<close>: the abstract table of names and addresses that
  \<open>build_hostnames\<close> refines. \<open>Inventory_Groups\<close>: the operations on groups and \<open>assign_groups\<close>, the middle of
  the constructor; the lemmas say what each operation adds and keeps. \<open>Inventory_Assign\<close>: the members of
  every group after a run, the separation of roles at scale, and where the code does not do what it
  means to. \<open>Inventory_Run\<close>: the commands, the files and the command line. \<open>Inventory_Rerun\<close>: a second run
  finds what the first one wrote, and with known addresses leaves configuration and file exactly as they are. \<open>Inventory_Commands\<close>: what the commands print and write.
  \<open>Inventory_Lifecycle\<close>: the life of an inventory file, a step relation whose steps are the runs of the
  program and everything that leaves the file alone. Its histories start where the file does not exist;
  they keep the stored inventory consistent and updatable, they refine an abstract machine whose state
  is the table of names and addresses, and an inventory that only grows keeps its roles apart. The words
  of an update are deletions and addresses without white space, percent or equals sign; \<open>load\<close>, which can
  store anything, is not a step of these histories, and further lemmas of the theory show what it and
  deletions can break.

  The kubectl module, \<open>library/kube.py\<close>, is \<open>Kube_Module\<close>: the manager, its operations, and \<open>main\<close>; the
  locale \<open>removal\<close> has what \<open>delete\<close> and \<open>stop\<close> share.

  The Terraform inventory, \<open>contrib/terraform/terraform.py\<close>. \<open>Terraform_Parse\<close>: the helpers that gather flat
  attributes, which invert Terraform's flattening. \<open>Terraform_Hosts\<close>: the parsers of the nine providers,
  their decorator and their registry. \<open>Terraform_Contract\<close>: the locale \<open>host_parser\<close>, what a parser
  promises, interpreted by each of the nine with the address it connects to; \<open>connect_address\<close> is that
  address for a resource of any type. \<open>Terraform_Query\<close>: state files, resources, hosts, the queries
  and \<open>main\<close>. \<open>Terraform_Inventory\<close> and \<open>Terraform_Floating\<close>: what is listed, that the queries agree, that the
  printed text reads back, what floating addresses change, and the states on which the program fails.

  The bootstrap of pip, \<open>roles/bootstrap-os/files/get-pip.py\<close>. \<open>Base85\<close>: the decoder of the script (the one it
  defines when the standard library has none), with the locale \<open>radix\<close> for positional notation at bases
  85 and 256; it inverts the standard encoder, and its errors and lengths are exact. \<open>Get_Pip\<close>: the
  arguments for pip and the run in a temporary directory. \<open>Get_Pip_Scan\<close>: an automaton that accepts only
  text that decodes. \<open>Get_Pip_Data_1\<close> to \<open>Get_Pip_Data_7\<close>: the first 2100 lines of the constant \<open>DATA\<close>, each
  run through the automaton by the kernel. \<open>Get_Pip_Payload\<close>: together they are the beginning of a zip
  archive of pip.

  \<open>Argparse\<close> has what the Terraform and the EC2 inventory use of \<open>argparse\<close>, with the locale \<open>option_table\<close>;
  \<open>Command_Lines\<close> has the two parsers, interpretations of it, and both programs from the command line on.

  The EC2 inventory, \<open>contrib/aws_inventory/kubespray-aws-inventory.py\<close>, is \<open>Aws_Inventory\<close>; the two Python
  files of the notebook image, \<open>customized/nvidia/image\<close>, are \<open>Notebook_Image\<close>. \<open>Notebook_Cells\<close> has the cells of
  the tutorial notebooks that are plain Python: of \<open>3_mnist_from_scratch.ipynb\<close> the downloads, images,
  labels, minibatches and error rate, of \<open>4_keras-cnn.ipynb\<close> the training data, of
  \<open>6_tensor-multi-gpus.ipynb\<close> the matrix power; it shows which bytes, rows and words each of them takes.
  \<open>Notebook_Training\<close> has the training written out by hand, over the documented operations on tensors: the
  two linear regressions of \<open>2_getting_started.ipynb\<close>, which are equivalent and whose loss goes down, and
  the network of two layers of \<open>5_pytorch-gpu-tensor.ipynb\<close>, whose gradients are the derivatives of its
  loss.

  Correspondence. A definition has the name of the function or method it models; where one Python
  function is several definitions, the comments say which part each is. The state of an object is a
  record passed through its methods; the configuration is a record of sections; what a program does to
  the world outside is a record of files and printed text (\<open>world\<close>, \<open>gp_world\<close>), a state of the caller's
  type with the reaction of a command as a parameter (\<open>Kube_Module\<close>), or a list of effects
  (\<open>Notebook_Image\<close>). A generator is a list of results of which the consumer sees everything up to the
  first error. Python integers are \<open>int\<close> and \<open>nat\<close>; the 32-bit packing of the decoder is a range check
  that raises. A loop is a recursion on the list it runs over (\<open>matpow\<close> on its exponent); the only fuel is that of the JSON
  scanner, twice the length of the text and one, and \<open>json_loads_total\<close> shows that it never runs out.
  Every function is total.

  Parameters, with what is used of them as named hypotheses: \<open>yaml.load\<close>; \<open>os.walk\<close>, the files and the
  current directory; \<open>run_command\<close> and \<open>get_bin_path\<close> of Ansible and the text of an exception; pip's
  requirement parser and \<open>main\<close>, the certificates in its archive, the name of a fresh directory, the
  errors of the file system and the paths it refuses to remove; the order of a Python 2 dictionary; the
  answers of EC2; IPython's \<open>passwd\<close>; the random number and \<open>read_csv\<close>; \<open>urlretrieve\<close>, the padding and
  encoding of Keras; \<open>argmax\<close> and \<open>reshape\<close> of numpy; the operations of TensorFlow and PyTorch.

  Assumptions. Bytes are the characters below 256; text is ASCII, since the string methods know no white
  space, line break, letter or digit beyond it. Dictionaries are iterated in the order of insertion, also
  where the program runs on Python 2 and the order is arbitrary: the theorems about dictionaries speak
  of lookups, or hold for the order given; only the lists of blocks, \<open>dict.values()\<close> of
  \<open>parse_attr_list\<close>, which the program indexes, are in an order that is an argument (\<open>key_order\<close>, and
  \<open>fair_order\<close> where it must be an order). A JSON number with a fraction or an exponent is its text.
  \<open>True\<close> and \<open>1\<close> are different dictionary keys. The floats of the notebooks are exact rational or real
  numbers, and Python's limit on the depth of recursion is left out of \<open>matpow\<close>. A resource attribute of a
  type Terraform never writes may raise a different exception than the model's.

  Not modelled: the debug prints; the parsing of module arguments by Ansible; the rest of the constant
  \<open>DATA\<close>, which is third-party code in an archive; the rest of the notebooks, text and recorded output
  around calls of TensorFlow, Keras, PyTorch and Spark; the set-up scripts, a constant call of setuptools
  each; the tests; and the roles and playbooks, whose language is Ansible's.
\<close>

end
